(* ===== verification/Go_Runtime.thy ===== *)
theory Go_Runtime
  imports Main "HOL-Library.Sublist"
begin

text \<open>
  The parts of the Go language and of its standard library that the registry relies on:
  run-time panics, error values, 64-bit integers, slice expressions, decimal conversion
  (\<^verbatim>\<open>strconv\<close>) and the string functions of \<^verbatim>\<open>strings\<close>.
  Strings are lists of characters, one per byte.
  The collections \<open>go_simps\<close> and \<open>go_splits\<close> carry the component proofs.
\<close>

named_theorems go_simps \<open>unfolding rules of the Go runtime model\<close>
named_theorems go_intros \<open>introduction rules of the Go runtime model\<close>

section \<open>Panics and errors\<close>

text \<open>
  A Go function either returns or panics (nil dereference, slice bounds out of range,
  failed type assertion).  Values of type \<open>'a run\<close> record which.
\<close>

datatype 'a run = Ret 'a | Panic string

fun run_bind :: "'a run \<Rightarrow> ('a \<Rightarrow> 'b run) \<Rightarrow> 'b run" where
  "run_bind (Ret x) f = f x"
| "run_bind (Panic p) f = Panic p"

fun run_map :: "('a \<Rightarrow> 'b) \<Rightarrow> 'a run \<Rightarrow> 'b run" where
  "run_map f (Ret x) = Ret (f x)"
| "run_map f (Panic p) = Panic p"

fun returns :: "'a run \<Rightarrow> bool" where
  "returns (Ret _) = True"
| "returns (Panic _) = False"

lemma run_bind_Ret_iff [go_simps]:
  "run_bind m f = Ret y \<longleftrightarrow> (\<exists>x. m = Ret x \<and> f x = Ret y)"
  by (cases m) auto

lemma run_map_Ret_iff [go_simps]:
  "run_map f m = Ret y \<longleftrightarrow> (\<exists>x. m = Ret x \<and> y = f x)"
  by (cases m) auto

lemma run_bind_assoc: "run_bind (run_bind m f) g = run_bind m (\<lambda>x. run_bind (f x) g)"
  by (cases m) auto

lemma returns_run_bind [go_simps]:
  "returns (run_bind m f) \<longleftrightarrow> (\<exists>x. m = Ret x \<and> returns (f x))"
  by (cases m) auto

lemma returns_iff [go_simps]: "returns m \<longleftrightarrow> (\<exists>x. m = Ret x)"
  by (cases m) auto

text \<open>
  Error values.  \<open>Error\<close> is \<^verbatim>\<open>errors.New\<close>, \<open>Wrapped\<close> is \<^verbatim>\<open>fmt.Errorf\<close> with a \<^verbatim>\<open>%v\<close> of another
  error at its end, \<open>Quoted\<close> the same with that error in quotation marks before a last text, \<open>HTTPError\<close> is the error type of the web framework.  A function that
  returns \<^verbatim>\<open>(T, error)\<close> and whose value is meaningless on failure returns \<open>goerr + 'a\<close>.
\<close>

datatype goerr = Error string | Wrapped string goerr | Quoted string goerr string | HTTPError int string

text \<open>The step after a call that may fail: go on with its value or return the error.\<close>

definition bind_err :: "goerr + 'a \<Rightarrow> ('a \<Rightarrow> goerr + 'b) \<Rightarrow> goerr + 'b" where
  "bind_err r f = (case r of Inl err \<Rightarrow> Inl err | Inr v \<Rightarrow> f v)"

lemma bind_err_Inr [simp]: "bind_err r f = Inr y \<longleftrightarrow> (\<exists>v. r = Inr v \<and> f v = Inr y)"
  by (auto simp: bind_err_def split: sum.splits)

section \<open>64-bit integers\<close>

definition int64_min :: int where "int64_min = - (2 ^ 63)"
definition int64_max :: int where "int64_max = 2 ^ 63 - 1"

definition in_int64 :: "int \<Rightarrow> bool" where
  "in_int64 x \<longleftrightarrow> int64_min \<le> x \<and> x \<le> int64_max"

text \<open>The two's complement value of a result that may have left the range.\<close>

definition wrap64 :: "int \<Rightarrow> int" where
  "wrap64 x = (x + 2 ^ 63) mod 2 ^ 64 - 2 ^ 63"

lemma in_int64_wrap64 [simp]: "in_int64 (wrap64 x)"
proof -
  have "0 \<le> (x + 2 ^ 63) mod 2 ^ 64" and "(x + 2 ^ 63) mod 2 ^ 64 < (2::int) ^ 64"
    by simp_all
  then show ?thesis
    by (simp add: in_int64_def wrap64_def int64_min_def int64_max_def)
qed

lemma wrap64_id [simp]: "in_int64 x \<Longrightarrow> wrap64 x = x"
  by (simp add: in_int64_def wrap64_def int64_min_def int64_max_def)

lemma wrap64_overflow:
  assumes "int64_max < x" and "x \<le> 2 * int64_max + 1"
  shows "wrap64 x = x - 2 ^ 64"
proof -
  have "(x + 2 ^ 63) mod 2 ^ 64 = (x + 2 ^ 63 - 2 ^ 64) mod (2::int) ^ 64"
    using minus_mod_self2 [of "x + 2 ^ 63" "2 ^ 64"] by simp
  also have "\<dots> = x + 2 ^ 63 - 2 ^ 64"
    using assms by (intro mod_pos_pos_trivial) (simp_all add: int64_max_def)
  finally show ?thesis by (simp add: wrap64_def)
qed

lemma in_int64_nat_bounds: "0 \<le> x \<Longrightarrow> x \<le> y \<Longrightarrow> in_int64 y \<Longrightarrow> in_int64 x"
  by (auto simp: in_int64_def int64_min_def)

section \<open>Slices\<close>

text \<open>
  \<^verbatim>\<open>xs[lo:hi]\<close>.  Every slice expression of the program has an upper bound that is at most
  the length, so the capacity of the backing array plays no role.
\<close>

definition slice_range :: "'a list \<Rightarrow> int \<Rightarrow> int \<Rightarrow> 'a list run" where
  "slice_range xs lo hi =
     (if 0 \<le> lo \<and> lo \<le> hi \<and> hi \<le> int (length xs)
      then Ret (drop (nat lo) (take (nat hi) xs))
      else Panic ''slice bounds out of range'')"

lemma slice_range_Ret_iff [go_simps]:
  "slice_range xs lo hi = Ret ys \<longleftrightarrow>
     0 \<le> lo \<and> lo \<le> hi \<and> hi \<le> int (length xs) \<and> ys = drop (nat lo) (take (nat hi) xs)"
  by (auto simp: slice_range_def)

lemma length_slice_range:
  "slice_range xs lo hi = Ret ys \<Longrightarrow> int (length ys) = hi - lo"
  by (auto simp: go_simps)

text \<open>The index of the first element with a property, \<^verbatim>\<open>slices.IndexFunc\<close>.\<close>

fun index_func :: "('a \<Rightarrow> bool) \<Rightarrow> 'a list \<Rightarrow> nat option" where
  "index_func P [] = None"
| "index_func P (x # xs) = (if P x then Some 0 else map_option Suc (index_func P xs))"

lemma index_func_None_iff: "index_func P xs = None \<longleftrightarrow> (\<forall>x \<in> set xs. \<not> P x)"
  by (induction xs) auto

lemma index_func_SomeD:
  "index_func P xs = Some k \<Longrightarrow>
     k < length xs \<and> P (xs ! k) \<and> (\<forall>j < k. \<not> P (xs ! j))"
proof (induction xs arbitrary: k)
  case Nil
  then show ?case by simp
next
  case (Cons x xs)
  show ?case
  proof (cases "P x")
    case True
    with Cons.prems show ?thesis by simp
  next
    case False
    with Cons.prems obtain k' where k': "index_func P xs = Some k'" "k = Suc k'"
      by auto
    from Cons.IH [OF k'(1)] False k'(2) show ?thesis
      by (auto simp: less_Suc_eq_0_disj)
  qed
qed

end
