(* ===== verification/Go_Strings.thy ===== *)
theory Go_Strings
  imports Go_Runtime
begin

text \<open>
  Decimal conversion (\<^verbatim>\<open>strconv.ParseInt\<close>, \<^verbatim>\<open>strconv.Atoi\<close>, \<^verbatim>\<open>strconv.FormatInt\<close>) and
  the functions of package \<^verbatim>\<open>strings\<close> that the registry calls, with the facts
  the components use: the round trip of decimal numbers, and the algebra of
  prefixes, splitting and joining.
\<close>

section \<open>Bytes and digits\<close>

text \<open>A text in quotation marks.\<close>

definition quoted :: "string \<Rightarrow> string" where
  "quoted s = CHR 0x27 # s @ [CHR 0x27]"

definition byte :: "char \<Rightarrow> nat" where "byte c = of_char c"

definition is_digit :: "char \<Rightarrow> bool" where
  "is_digit c \<longleftrightarrow> 48 \<le> byte c \<and> byte c \<le> 57"

definition digit_char :: "nat \<Rightarrow> char" where
  "digit_char n = char_of (48 + n)"

definition digit_of :: "char \<Rightarrow> nat" where "digit_of c = byte c - 48"

lemma byte_digit_char [simp]: "n < 10 \<Longrightarrow> byte (digit_char n) = 48 + n"
  by (simp add: byte_def digit_char_def)

lemma is_digit_digit_char [simp]: "n < 10 \<Longrightarrow> is_digit (digit_char n)"
  by (simp add: is_digit_def)

lemma digit_of_digit_char [simp]: "n < 10 \<Longrightarrow> digit_of (digit_char n) = n"
  by (simp add: digit_of_def)

lemma digit_of_less: "is_digit c \<Longrightarrow> digit_of c < 10"
  by (auto simp: is_digit_def digit_of_def)

lemma digit_char_digit_of [simp]: "is_digit c \<Longrightarrow> digit_char (digit_of c) = c"
  by (simp add: is_digit_def digit_of_def digit_char_def byte_def)

lemma digit_char_neq [simp]:
  assumes "n < 10"
  shows "digit_char n \<noteq> CHR ''-''" and "digit_char n \<noteq> CHR ''+''"
    and "digit_char n \<noteq> CHR ''.''" and "digit_char n \<noteq> CHR '',''"
    and "digit_char n \<noteq> CHR '':''" and "digit_char n \<noteq> CHR ''Z''"
proof -
  have "byte (digit_char n) = 48 + n" using assms by simp
  then show "digit_char n \<noteq> CHR ''-''" and "digit_char n \<noteq> CHR ''+''"
    and "digit_char n \<noteq> CHR ''.''" and "digit_char n \<noteq> CHR '',''"
    and "digit_char n \<noteq> CHR '':''" and "digit_char n \<noteq> CHR ''Z''"
    using assms by (auto simp: byte_def)
qed

section \<open>Decimal numbers\<close>

definition digits_val :: "string \<Rightarrow> nat" where
  "digits_val ds = foldl (\<lambda>acc c. 10 * acc + digit_of c) 0 ds"

lemma digits_val_Nil [simp]: "digits_val [] = 0"
  by (simp add: digits_val_def)

lemma digits_val_snoc [simp]: "digits_val (ds @ [c]) = 10 * digits_val ds + digit_of c"
  by (simp add: digits_val_def)

lemma digits_val_append: "digits_val (xs @ ys) = digits_val xs * 10 ^ length ys + digits_val ys"
proof (induction ys rule: rev_induct)
  case Nil
  then show ?case by simp
next
  case (snoc c ys)
  have "digits_val (xs @ ys @ [c]) = 10 * digits_val (xs @ ys) + digit_of c"
    using digits_val_snoc [of "xs @ ys" c] by simp
  with snoc show ?case by simp
qed

lemma digits_val_Cons:
  "digits_val (c # ds) = digit_of c * 10 ^ length ds + digits_val ds"
  using digits_val_append [of "[c]" ds] by (simp add: digits_val_def)

lemma digits_val_less: "list_all is_digit ds \<Longrightarrow> digits_val ds < 10 ^ length ds"
proof (induction ds rule: rev_induct)
  case Nil
  then show ?case by simp
next
  case (snoc c ds)
  then have "digits_val ds < 10 ^ length ds" and "digit_of c < 10"
    by (auto simp: digit_of_less)
  then show ?case by simp
qed

fun nat_str :: "nat \<Rightarrow> string" where
  "nat_str n = (if n < 10 then [digit_char n] else nat_str (n div 10) @ [digit_char (n mod 10)])"

declare nat_str.simps [simp del]

lemma nat_str_nonempty [simp]: "nat_str n \<noteq> []"
  by (subst nat_str.simps) simp

lemma nat_str_digits [simp]: "list_all is_digit (nat_str n)"
proof (induction n rule: nat_str.induct)
  case (1 n)
  then show ?case by (subst nat_str.simps) auto
qed

lemma digits_val_nat_str [simp]: "digits_val (nat_str n) = n"
proof (induction n rule: nat_str.induct)
  case (1 n)
  show ?case
  proof (cases "n < 10")
    case True
    then show ?thesis by (subst nat_str.simps) (simp add: digits_val_def)
  next
    case False
    with 1 show ?thesis by (subst nat_str.simps) simp
  qed
qed

lemma length_nat_str: "0 < k \<Longrightarrow> n < 10 ^ k \<Longrightarrow> length (nat_str n) \<le> k"
proof (induction n arbitrary: k rule: nat_str.induct)
  case (1 n)
  show ?case
  proof (cases "n < 10")
    case True
    with 1 show ?thesis by (subst nat_str.simps) simp
  next
    case False
    with 1(3) have "k \<noteq> 0" and "k \<noteq> 1" by (auto intro: ccontr)
    then obtain k' where k: "k = Suc k'" and "0 < k'"
      by (cases k) auto
    moreover from 1(3) k have "n div 10 < 10 ^ k'" by (simp add: less_mult_imp_div_less mult.commute)
    ultimately have "length (nat_str (n div 10)) \<le> k'"
      using 1(1) False by blast
    with False k show ?thesis by (subst nat_str.simps) simp
  qed
qed

definition int_str :: "int \<Rightarrow> string" where
  "int_str i = (if i < 0 then CHR ''-'' # nat_str (nat (- i)) else nat_str (nat i))"

text \<open>\<^verbatim>\<open>strconv.ParseInt(s, 10, 64)\<close> and, on a 64-bit platform, \<^verbatim>\<open>strconv.Atoi(s)\<close>.\<close>

definition parse_int64 :: "string \<Rightarrow> int option" where
  "parse_int64 s =
     (case s of [] \<Rightarrow> None
      | c # r \<Rightarrow>
        (let ds = (if c = CHR ''-'' \<or> c = CHR ''+'' then r else s) in
         if ds = [] \<or> \<not> list_all is_digit ds then None
         else let v = (if c = CHR ''-'' then - int (digits_val ds) else int (digits_val ds)) in
              if in_int64 v then Some v else None))"

lemma nat_str_hd:
  obtains c r where "nat_str n = c # r" "is_digit c" "c \<noteq> CHR ''-''" "c \<noteq> CHR ''+''"
proof -
  obtain c r where eq: "nat_str n = c # r" by (cases "nat_str n") auto
  with nat_str_digits [of n] have "is_digit c" by simp
  moreover from this have "c \<noteq> CHR ''-''" "c \<noteq> CHR ''+''"
    by (auto simp: is_digit_def byte_def)
  ultimately show thesis using eq that by blast
qed

lemma parse_int64_int_str [simp]:
  assumes "in_int64 i"
  shows "parse_int64 (int_str i) = Some i"
proof (cases "i < 0")
  case True
  with assms show ?thesis
    by (simp add: int_str_def parse_int64_def)
next
  case False
  obtain c r where "nat_str (nat i) = c # r" "is_digit c" "c \<noteq> CHR ''-''" "c \<noteq> CHR ''+''"
    by (rule nat_str_hd)
  moreover have "digits_val (nat_str (nat i)) = nat i" and "list_all is_digit (nat_str (nat i))"
    by simp_all
  ultimately show ?thesis using assms False
    by (simp add: int_str_def parse_int64_def)
qed

lemma parse_int64_range: "parse_int64 s = Some v \<Longrightarrow> in_int64 v"
  by (auto simp: parse_int64_def Let_def split: list.splits if_splits)

lemma parse_int64_Nil [simp]: "parse_int64 [] = None"
  by (simp add: parse_int64_def)

section \<open>Package strings\<close>

definition has_prefix :: "string \<Rightarrow> string \<Rightarrow> bool" where
  "has_prefix s p \<longleftrightarrow> prefix p s"

definition has_suffix :: "string \<Rightarrow> string \<Rightarrow> bool" where
  "has_suffix s p \<longleftrightarrow> suffix p s"

fun str_contains :: "string \<Rightarrow> string \<Rightarrow> bool" where
  "str_contains [] sub = (sub = [])"
| "str_contains (c # s) sub = (prefix sub (c # s) \<or> str_contains s sub)"

lemma str_contains_iff: "str_contains s sub \<longleftrightarrow> (\<exists>a b. s = a @ sub @ b)"
proof (induction s)
  case Nil
  then show ?case by auto
next
  case (Cons c s)
  show ?case
  proof
    assume "str_contains (c # s) sub"
    then consider (here) "prefix sub (c # s)" | (later) "str_contains s sub" by auto
    then show "\<exists>a b. c # s = a @ sub @ b"
    proof cases
      case here
      then obtain b where "c # s = sub @ b" by (auto simp: prefix_def)
      then show ?thesis by (metis append_Nil)
    next
      case later
      with Cons obtain a b where "s = a @ sub @ b" by auto
      then show ?thesis by (metis append_Cons)
    qed
  next
    assume "\<exists>a b. c # s = a @ sub @ b"
    then obtain a b where eq: "c # s = a @ sub @ b" by auto
    show "str_contains (c # s) sub"
    proof (cases a)
      case Nil
      with eq have "prefix sub (c # s)" by simp
      then show ?thesis by simp
    next
      case (Cons d a')
      with eq have "s = a' @ sub @ b" by simp
      with Cons.IH show ?thesis by auto
    qed
  qed
qed

text \<open>\<^verbatim>\<open>strings.Cut\<close> at a one-byte separator; \<open>None\<close> when it does not occur.\<close>

fun str_cut :: "char \<Rightarrow> string \<Rightarrow> (string \<times> string) option" where
  "str_cut c [] = None"
| "str_cut c (x # xs) =
     (if x = c then Some ([], xs)
      else map_option (\<lambda>(before, after). (x # before, after)) (str_cut c xs))"

lemma str_cut_Some: "str_cut c s = Some (b, a) \<longleftrightarrow> s = b @ c # a \<and> c \<notin> set b"
proof (induction s arbitrary: b)
  case Nil
  then show ?case by simp
next
  case (Cons x s)
  show ?case
  proof (cases b)
    case Nil
    then show ?thesis by auto
  next
    case (Cons y b')
    with Cons.IH [of b'] show ?thesis by auto
  qed
qed

lemma str_cut_None: "str_cut c s = None \<longleftrightarrow> c \<notin> set s"
  by (induction s) auto

text \<open>\<^verbatim>\<open>strings.Split\<close> at a one-byte separator and \<^verbatim>\<open>strings.Join\<close>.\<close>

fun str_split :: "char \<Rightarrow> string \<Rightarrow> string list" where
  "str_split c [] = [[]]"
| "str_split c (x # xs) =
     (if x = c then [] # str_split c xs
      else (case str_split c xs of [] \<Rightarrow> [[x]] | w # ws \<Rightarrow> (x # w) # ws))"

fun str_join :: "string \<Rightarrow> string list \<Rightarrow> string" where
  "str_join sep [] = []"
| "str_join sep [w] = w"
| "str_join sep (w # ws) = w @ sep @ str_join sep ws"

lemma str_split_nonempty [simp]: "str_split c s \<noteq> []"
  by (induction s) (auto split: list.splits)

lemma str_join_split: "str_join [c] (str_split c s) = s"
proof (induction s)
  case Nil
  then show ?case by simp
next
  case (Cons x xs)
  obtain w ws where "str_split c xs = w # ws" by (cases "str_split c xs") auto
  with Cons show ?case by (cases ws) auto
qed

lemma str_split_no_sep: "w \<in> set (str_split c s) \<Longrightarrow> c \<notin> set w"
proof (induction s arbitrary: w)
  case Nil
  then show ?case by simp
next
  case (Cons x xs)
  obtain v vs where "str_split c xs = v # vs" by (cases "str_split c xs") auto
  with Cons show ?case by (auto split: if_splits)
qed

text \<open>
  \<^verbatim>\<open>strings.TrimSpace\<close>: the UTF-8 encodings of the characters of \<^verbatim>\<open>unicode.IsSpace\<close> are removed
  from both ends.
\<close>

definition space_runes :: "string list" where
  "space_runes = map (map char_of)
     [[9], [10], [11], [12], [13], [32], [194, 133], [194, 160], [225, 154, 128 :: nat],
      [226, 128, 128], [226, 128, 129], [226, 128, 130], [226, 128, 131], [226, 128, 132],
      [226, 128, 133], [226, 128, 134], [226, 128, 135], [226, 128, 136], [226, 128, 137],
      [226, 128, 138], [226, 128, 168], [226, 128, 169], [226, 128, 175], [226, 129, 159],
      [227, 128, 128]]"

function trim_left :: "string list \<Rightarrow> string \<Rightarrow> string" where
  "trim_left ws s =
     (case find (\<lambda>w. w \<noteq> [] \<and> prefix w s) ws of
        None \<Rightarrow> s
      | Some w \<Rightarrow> trim_left ws (drop (length w) s))"
  by auto
termination
proof (relation "measure (\<lambda>(ws, s). length s)")
  fix ws s w
  assume "find (\<lambda>w. w \<noteq> [] \<and> prefix w s) ws = Some (w :: string)"
  then have "w \<noteq> []" and "prefix w s" by (auto simp: find_Some_iff)
  then show "((ws, drop (length w) s), (ws, s)) \<in> measure (\<lambda>(ws, s). length s)"
    by (auto simp: prefix_def)
qed simp

declare trim_left.simps [simp del]

definition trim_space :: "string \<Rightarrow> string" where
  "trim_space s = rev (trim_left (map rev space_runes) (rev (trim_left space_runes s)))"

definition trimmed :: "string \<Rightarrow> bool" where
  "trimmed s \<longleftrightarrow> list_all (\<lambda>w. \<not> prefix w s \<and> \<not> suffix w s) space_runes"

lemma trim_left_id: "(\<And>w. w \<in> set ws \<Longrightarrow> \<not> prefix w s) \<Longrightarrow> trim_left ws s = s"
proof -
  assume "\<And>w. w \<in> set ws \<Longrightarrow> \<not> prefix w s"
  then have "find (\<lambda>w. w \<noteq> [] \<and> prefix w s) ws = None" by (auto simp: find_None_iff)
  then show ?thesis by (simp add: trim_left.simps)
qed

lemma trim_space_id:
  assumes "trimmed s"
  shows "trim_space s = s"
proof -
  have "trim_left space_runes s = s"
    using assms by (intro trim_left_id) (auto simp: trimmed_def list_all_iff)
  moreover have "trim_left (map rev space_runes) (rev s) = rev s"
    using assms by (intro trim_left_id) (auto simp: trimmed_def list_all_iff suffix_to_prefix)
  ultimately show ?thesis by (simp add: trim_space_def)
qed

lemma trimmed_Nil [simp]: "trimmed []"
  by (simp add: trimmed_def space_runes_def)

text \<open>Membership by a linear search, as in the three \<^verbatim>\<open>contains\<close> helpers of the program.\<close>

fun list_contains :: "'a \<Rightarrow> 'a list \<Rightarrow> bool" where
  "list_contains x [] = False"
| "list_contains x (y # ys) = (if y = x then True else list_contains x ys)"

lemma list_contains_iff [simp]: "list_contains x ys \<longleftrightarrow> x \<in> set ys"
  by (induction ys) auto

end
