(* ===== verification/Sqs.thy ===== *)
theory Sqs
  imports Go_Strings "HOL-Library.Multiset"
begin

text \<open>
  pkg/sqs: the queue client.  The calls of the AWS library are the fields of a record of functions;
  the goroutines that \<^verbatim>\<open>Poll\<close> starts interleave with it and with each other, so \<^verbatim>\<open>Poll\<close> is a
  transition system whose labels say who moves.
\<close>

section \<open>Messages and events (event.go)\<close>

record MessageAttributeValue =
  StringValue :: "string option"

text \<open>
  \<^verbatim>\<open>MessageAttributes\<close> is a map to pointers: \<open>None\<close> is a missing key, \<open>Some None\<close> a key with a nil
  pointer.  In \<^verbatim>\<open>Attributes\<close> the program treats both alike.
\<close>

record Message =
  MessageId :: "string option"
  ReceiptHandle :: "string option"
  Body :: "string option"
  Attributes :: "string \<Rightarrow> string option"
  MessageAttributes :: "string \<Rightarrow> MessageAttributeValue option option"

record Event =
  ev_Type :: string
  ev_Message :: Message

definition MessageAttributeType :: string where
  "MessageAttributeType = ''Type''"

definition MessageAttributeClusterName :: string where
  "MessageAttributeClusterName = ''ClusterName''"

definition MessageAttributeSkipCacheInvalidation :: string where
  "MessageAttributeSkipCacheInvalidation = ''SkipCacheInvalidation''"

definition ClusterUpdateEvent :: string where
  "ClusterUpdateEvent = ''cluster-update''"

definition PartialClusterUpdateEvent :: string where
  "PartialClusterUpdateEvent = ''partial-cluster-update''"

definition nil_deref :: "'a run" where
  "nil_deref = Panic ''invalid memory address or nil pointer dereference''"

definition NewEvent :: "Message option \<Rightarrow> (goerr + Event) run" where
  "NewEvent msg =
     (case msg of
        None \<Rightarrow> Ret (Inl (Error ''empty message''))
      | Some m \<Rightarrow>
          (case MessageAttributes m MessageAttributeType of
             Some (Some v) \<Rightarrow>
               (case StringValue v of
                  None \<Rightarrow> nil_deref
                | Some eventType \<Rightarrow>
                    if \<not> list_contains eventType [ClusterUpdateEvent, PartialClusterUpdateEvent]
                    then Ret (Inl (Error ''invalid event type''))
                    else Ret (Inr \<lparr>ev_Type = eventType, ev_Message = m\<rparr>))
           | _ \<Rightarrow> Ret (Inl (Error ''missing event type''))))"

section \<open>The client and its configuration (sqs.go)\<close>

text \<open>A message attribute has a name, a data type and a value.\<close>

record SendMessageBatchRequestEntry =
  entry_Id :: "string option"
  entry_DelaySeconds :: int
  entry_MessageBody :: "string option"
  entry_MessageAttributes :: "(string \<times> string \<times> string) list"

text \<open>The result of sending a batch: the ids of the entries that failed and the ids of the messages sent.\<close>

record SendResult =
  res_Failed :: "string option list"
  res_Successful :: "string option list"

record 'w sqs_api =
  GetQueueUrl :: "string \<Rightarrow> 'w \<Rightarrow> (goerr + string) \<times> 'w"
  SendMessageBatch :: "string \<Rightarrow> SendMessageBatchRequestEntry list \<Rightarrow> 'w \<Rightarrow> (goerr + SendResult) \<times> 'w"
  DeleteMessage :: "string \<Rightarrow> string option \<Rightarrow> 'w \<Rightarrow> goerr option \<times> 'w"
  ChangeMessageVisibility :: "string \<Rightarrow> string \<Rightarrow> int \<Rightarrow> 'w \<Rightarrow> goerr option \<times> 'w"

record 'w Config =
  AWSRegion :: string
  QueueName :: string
  Endpoint :: string
  QueueURL :: string
  MaxRetries :: int
  BatchSize :: int
  WaitSeconds :: int
  VisibilityTimeout :: int
  RunOnce :: bool
  RunInterval :: int
  MaxHandlers :: int
  BusyTimeout :: int
  svc :: "'w sqs_api option"
  handlerCount :: int
  registered :: bool \<comment> \<open>whether the field \<^verbatim>\<open>handler\<close> is set\<close>

definition validateConfig :: "'w Config \<Rightarrow> goerr option" where
  "validateConfig cfg =
     (if AWSRegion cfg = [] then Some (Error ''AWSRegion is required'')
      else if Endpoint cfg = [] \<and> QueueURL cfg = [] then Some (Error ''A valid SQS Endpoint is required'')
      else if QueueName cfg = [] \<and> QueueURL cfg = [] then Some (Error ''A valid SQS Queue Name is required'')
      else if QueueURL cfg = [] \<and> Endpoint cfg = [] \<and> QueueName cfg = []
        then Some (Error ''A valid SQS Queue URL is required'')
      else if BatchSize cfg < 0 \<or> BatchSize cfg > 10 then Some (Error ''BatchSize should be between 1-10'')
      else if WaitSeconds cfg < 0 \<or> WaitSeconds cfg > 20 then Some (Error ''WaitSeconds should be between 1-20'')
      else if VisibilityTimeout cfg < 0 \<or> VisibilityTimeout cfg > 12 * 60 * 60
        then Some (Error ''VisibilityTimeout should be between 1-43200'')
      else None)"

text \<open>What the AWS library makes of the configuration: the checks of \<^verbatim>\<open>NewSQS\<close> in their order.\<close>

datatype 'w aws_outcome =
    NoAwsConfig
  | SessionPanic string
  | NoSession
  | NoService
  | Connected "'w sqs_api"

definition NewSQS :: "('w Config \<Rightarrow> 'w aws_outcome) \<Rightarrow> 'w Config \<Rightarrow> 'w \<Rightarrow> (goerr + 'w Config) run \<times> 'w" where
  "NewSQS connect cfg w =
     (case validateConfig cfg of
        Some err \<Rightarrow> (Ret (Inl err), w)
      | None \<Rightarrow>
          (case connect cfg of
             NoAwsConfig \<Rightarrow> (Ret (Inl (Error ''something is wrong with your AWS config parameters'')), w)
           | SessionPanic p \<Rightarrow> (Panic p, w)
           | NoSession \<Rightarrow> (Ret (Inl (Error ''unable to create session'')), w)
           | NoService \<Rightarrow> (Ret (Inl (Error ''unable to create a service connection with AWS SQS'')), w)
           | Connected s \<Rightarrow>
               if QueueURL cfg = []
               then case GetQueueUrl s (QueueName cfg) w of
                      (Inl err, w) \<Rightarrow> (Ret (Inl (Error ''unable to get queue name'')), w)
                    | (Inr url, w) \<Rightarrow> (Ret (Inr (cfg\<lparr>QueueURL := url, svc := Some s\<rparr>)), w)
               else (Ret (Inr (cfg\<lparr>svc := Some s\<rparr>)), w)))"

text \<open>The log lines dereference the ids of the result.\<close>

definition Enqueue ::
  "'w Config \<Rightarrow> SendMessageBatchRequestEntry list \<Rightarrow> 'w \<Rightarrow> goerr option run \<times> 'w" where
  "Enqueue s msgBatch w =
     (case svc s of
        None \<Rightarrow> (Ret (Some (Error ''no service connection'')), w)
      | Some api \<Rightarrow>
          (case SendMessageBatch api (QueueURL s) msgBatch w of
             (Inl err, w) \<Rightarrow> (Ret (Some err), w)
           | (Inr result, w) \<Rightarrow>
               if None \<in> set (res_Failed result @ res_Successful result) then (nil_deref, w)
               else (Ret None, w)))"

definition Delete :: "'w Config \<Rightarrow> Message \<Rightarrow> 'w \<Rightarrow> goerr option run \<times> 'w" where
  "Delete s msg w =
     (case MessageId msg of
        None \<Rightarrow> (nil_deref, w)
      | Some _ \<Rightarrow>
          (case svc s of
             None \<Rightarrow> (nil_deref, w)
           | Some api \<Rightarrow> (let (e, w) = DeleteMessage api (QueueURL s) (ReceiptHandle msg) w in (Ret e, w))))"

definition RegisterHandler :: "'w Config \<Rightarrow> 'w Config" where
  "RegisterHandler s = s\<lparr>registered := True\<rparr>"

definition ChangeVisibilityTimeout :: "'w Config \<Rightarrow> Message \<Rightarrow> int \<Rightarrow> 'w \<Rightarrow> bool run \<times> 'w" where
  "ChangeVisibilityTimeout s msg seconds w =
     (case MessageId msg of
        None \<Rightarrow> (nil_deref, w)
      | Some _ \<Rightarrow>
          (case svc s of
             None \<Rightarrow> (Ret False, w)
           | Some api \<Rightarrow>
               (case ReceiptHandle msg of
                  None \<Rightarrow> (nil_deref, w)
                | Some receipt \<Rightarrow>
                    (let (e, w) = ChangeMessageVisibility api (QueueURL s) receipt seconds w
                     in (Ret (e = None), w)))))"

definition sqs_Status :: "'w Config \<Rightarrow> 'w \<Rightarrow> goerr option run \<times> 'w" where
  "sqs_Status s w =
     (case svc s of
        None \<Rightarrow> (nil_deref, w)
      | Some api \<Rightarrow>
          (case GetQueueUrl api (QueueName s) w of
             (Inl err, w) \<Rightarrow> (Ret (Some err), w)
           | (Inr _, w) \<Rightarrow> (Ret None, w)))"

section \<open>Poll\<close>

text \<open>
  Where the polling goroutine is: at the top of the loop, waiting for a free handler, about to
  receive at most so many messages, dispatching the rest of a batch, between the read and the
  write of \<^verbatim>\<open>s.handlerCount++\<close>, in \<^verbatim>\<open>wg.Wait\<close>, or past its end.  The increment is not under
  the mutex, so it is not one step.
\<close>

datatype pc =
    Top
  | Gate
  | Receive int
  | Dispatch "Message list"
  | Incr int Message "Message list"
  | Draining
  | Finished
  | Crashed

text \<open>
  A goroutine runs the handler (\<open>running\<close>), then waits for the mutex (\<open>waiting\<close>), then holds it
  with the value of the counter it has read (\<open>locked\<close>).  \<open>received\<close> and \<open>handled\<close> are the
  messages received and handled so far.
\<close>

record 'w poll =
  cfg :: "'w Config"
  at :: pc
  batch :: nat
  running :: "Message list"
  waiting :: "Message list"
  locked :: "(Message \<times> int) option"
  wg :: int
  received :: "Message list"
  handled :: "Message list"

definition poll_start :: "'w Config \<Rightarrow> 'w poll" where
  "poll_start c = \<lparr>cfg = c, at = (if svc c = None then Finished else Top), batch = 0, running = [],
     waiting = [], locked = None, wg = 0, received = [], handled = []\<rparr>"

text \<open>One step of the polling goroutine; \<open>res\<close> is what \<^verbatim>\<open>ReceiveMessage\<close> returns if it is called.\<close>

definition poll_main :: "goerr + Message list \<Rightarrow> 'w poll \<Rightarrow> 'w poll" where
  "poll_main res p =
     (case at p of
        Top \<Rightarrow>
          p\<lparr>batch := Suc (batch p),
            at := (if MaxHandlers (cfg p) > 0 then Gate else Receive (BatchSize (cfg p)))\<rparr>
      | Gate \<Rightarrow>
          if handlerCount (cfg p) \<ge> MaxHandlers (cfg p) then p
          else let availableHandlers = MaxHandlers (cfg p) - handlerCount (cfg p)
               in p\<lparr>at := Receive (if availableHandlers < BatchSize (cfg p) then availableHandlers
                                   else BatchSize (cfg p))\<rparr>
      | Receive maxMsgs \<Rightarrow>
          (case res of
             Inl err \<Rightarrow> p\<lparr>at := Draining\<rparr>
           | Inr msgs \<Rightarrow> p\<lparr>at := Dispatch msgs, received := received p @ msgs\<rparr>)
      | Dispatch [] \<Rightarrow> p\<lparr>at := (if RunOnce (cfg p) then Draining else Top)\<rparr>
      | Dispatch (m # ms) \<Rightarrow>
          if \<not> registered (cfg p)
          then p\<lparr>at := (if MessageId m = None then Crashed else Dispatch ms)\<rparr>
          else p\<lparr>at := Incr (handlerCount (cfg p)) m ms\<rparr>
      | Incr n m ms \<Rightarrow>
          p\<lparr>cfg := (cfg p)\<lparr>handlerCount := n + 1\<rparr>, wg := wg p + 1, running := running p @ [m],
            at := (if MessageId m = None then Crashed else Dispatch ms)\<rparr>
      | Draining \<Rightarrow> if wg p = 0 then p\<lparr>at := Finished\<rparr> else p
      | Finished \<Rightarrow> p
      | Crashed \<Rightarrow> p)"

text \<open>The steps of the goroutines: a handler returns, one takes the mutex, the holder leaves it.\<close>

datatype label =
    Main "goerr + Message list"
  | HandlerReturns Message
  | Lock Message
  | Unlock

inductive poll_step :: "'w poll \<Rightarrow> label \<Rightarrow> 'w poll \<Rightarrow> bool" where
  main: "at p \<noteq> Finished \<Longrightarrow> at p \<noteq> Crashed \<Longrightarrow> poll_step p (Main res) (poll_main res p)"
| returns: "at p \<noteq> Crashed \<Longrightarrow> m \<in> set (running p) \<Longrightarrow>
    poll_step p (HandlerReturns m)
      (p\<lparr>running := remove1 m (running p), waiting := waiting p @ [m], handled := handled p @ [m]\<rparr>)"
| lock: "at p \<noteq> Crashed \<Longrightarrow> locked p = None \<Longrightarrow> m \<in> set (waiting p) \<Longrightarrow>
    poll_step p (Lock m)
      (p\<lparr>waiting := remove1 m (waiting p), locked := Some (m, handlerCount (cfg p))\<rparr>)"
| unlock: "at p \<noteq> Crashed \<Longrightarrow> locked p = Some (m, n) \<Longrightarrow>
    poll_step p Unlock
      (p\<lparr>cfg := (cfg p)\<lparr>handlerCount := n - 1\<rparr>, locked := None, wg := wg p - 1\<rparr>)"

inductive_simps poll_step_simps [simp]:
  "poll_step p (Main res) p'" "poll_step p (HandlerReturns m) p'" "poll_step p (Lock m) p'"
  "poll_step p Unlock p'"

inductive poll_steps :: "'w poll \<Rightarrow> label list \<Rightarrow> 'w poll \<Rightarrow> bool" where
  none: "poll_steps p [] p"
| step: "poll_step p l p' \<Longrightarrow> poll_steps p' ls p'' \<Longrightarrow> poll_steps p (l # ls) p''"

inductive_simps poll_steps_Nil [simp]: "poll_steps p [] p'"
inductive_simps poll_steps_Cons: "poll_steps p (l # ls) p'"

text \<open>The same steps as a function, to run given schedules.\<close>

definition do_label :: "label \<Rightarrow> 'w poll \<Rightarrow> 'w poll option" where
  "do_label l p =
     (if at p = Crashed then None
      else case l of
        Main res \<Rightarrow> if at p = Finished then None else Some (poll_main res p)
      | HandlerReturns m \<Rightarrow>
          if m \<in> set (running p)
          then Some (p\<lparr>running := remove1 m (running p), waiting := waiting p @ [m], handled := handled p @ [m]\<rparr>)
          else None
      | Lock m \<Rightarrow>
          if locked p = None \<and> m \<in> set (waiting p)
          then Some (p\<lparr>waiting := remove1 m (waiting p), locked := Some (m, handlerCount (cfg p))\<rparr>)
          else None
      | Unlock \<Rightarrow>
          (case locked p of
             None \<Rightarrow> None
           | Some (m, n) \<Rightarrow>
               Some (p\<lparr>cfg := (cfg p)\<lparr>handlerCount := n - 1\<rparr>, locked := None, wg := wg p - 1\<rparr>)))"

fun do_labels :: "label list \<Rightarrow> 'w poll \<Rightarrow> 'w poll option" where
  "do_labels [] p = Some p"
| "do_labels (l # ls) p = (case do_label l p of None \<Rightarrow> None | Some p' \<Rightarrow> do_labels ls p')"

lemma do_label_step: "do_label l p = Some p' \<longleftrightarrow> poll_step p l p'"
  by (cases l) (auto simp: do_label_def split: if_splits option.splits)

lemma do_labels_steps: "do_labels ls p = Some p' \<Longrightarrow> poll_steps p ls p'"
  by (induction ls arbitrary: p) (auto simp: do_label_step poll_steps_Cons split: option.splits)

section \<open>No message is lost\<close>

fun pending :: "pc \<Rightarrow> Message list" where
  "pending (Dispatch ms) = ms"
| "pending (Incr n m ms) = m # ms"
| "pending _ = []"

definition in_flight :: "'w poll \<Rightarrow> nat" where
  "in_flight p = length (running p) + length (waiting p) + (case locked p of None \<Rightarrow> 0 | Some _ \<Rightarrow> 1)"

definition poll_inv :: "'w poll \<Rightarrow> bool" where
  "poll_inv p \<longleftrightarrow> wg p = int (in_flight p) \<and>
     (at p \<noteq> Crashed \<longrightarrow> mset (received p) = mset (pending (at p)) + mset (running p) + mset (handled p)) \<and>
     (at p = Finished \<longrightarrow> in_flight p = 0) \<and> registered (cfg p)"

lemma poll_inv_start: "registered c \<Longrightarrow> poll_inv (poll_start c)"
  by (simp add: poll_inv_def poll_start_def in_flight_def)

lemma in_flight_update [simp]:
  "in_flight (p\<lparr>at := x\<rparr>) = in_flight p" "in_flight (p\<lparr>cfg := c\<rparr>) = in_flight p"
  "in_flight (p\<lparr>batch := b\<rparr>) = in_flight p" "in_flight (p\<lparr>received := ms\<rparr>) = in_flight p"
  "in_flight (p\<lparr>wg := n\<rparr>) = in_flight p" "in_flight (p\<lparr>running := running p @ [m]\<rparr>) = Suc (in_flight p)"
  by (simp_all add: in_flight_def)

lemma in_flight_spawn [simp]:
  "in_flight (p\<lparr>cfg := c, wg := n, running := running p @ [m], at := x\<rparr>) = Suc (in_flight p)"
  "in_flight (p\<lparr>cfg := c, wg := n, running := running p @ [m]\<rparr>) = Suc (in_flight p)"
  by (simp_all add: in_flight_def)

lemma poll_inv_main: "poll_inv p \<Longrightarrow> poll_inv (poll_main res p)"
  by (auto simp: poll_inv_def poll_main_def Let_def split: pc.splits list.splits sum.splits)

lemma in_flight_remove:
  "m \<in> set xs \<Longrightarrow> Suc (length (remove1 m xs)) = length xs"
  by (induction xs) auto

lemma poll_inv_step:
  assumes "poll_inv p" and "poll_step p l p'"
  shows "poll_inv p'"
  using assms(2)
proof cases
  case (main res)
  then show ?thesis using assms(1) poll_inv_main by simp
next
  case (returns m)
  then show ?thesis using assms(1) in_flight_remove [of m "running p"]
    by (auto simp: poll_inv_def in_flight_def split: option.splits)
next
  case (lock m)
  then show ?thesis using assms(1) in_flight_remove [of m "waiting p"]
    by (auto simp: poll_inv_def in_flight_def)
next
  case (unlock m n)
  then show ?thesis using assms(1) by (auto simp: poll_inv_def in_flight_def)
qed

lemma poll_inv_steps: "poll_steps p ls p' \<Longrightarrow> poll_inv p \<Longrightarrow> poll_inv p'"
  by (induction rule: poll_steps.induct) (auto intro: poll_inv_step)

text \<open>
  C11. When \<^verbatim>\<open>Poll\<close> comes back, whatever the interleaving, every goroutine it started has ended
  and every message it received has been handled exactly once.
\<close>

theorem poll_handles_all:
  assumes "registered c" and "poll_steps (poll_start c) ls p" and "at p = Finished"
  shows "running p = [] \<and> waiting p = [] \<and> locked p = None \<and> mset (handled p) = mset (received p)"
proof -
  have "poll_inv p" using poll_inv_steps [OF assms(2) poll_inv_start [OF assms(1)]] .
  with assms(3) show ?thesis by (simp add: poll_inv_def in_flight_def split: option.splits)
qed

definition example_message :: Message where
  "example_message = \<lparr>MessageId = Some ''1'', ReceiptHandle = Some ''r'', Body = None,
     Attributes = (\<lambda>_. None), MessageAttributes = (\<lambda>_. None)\<rparr>"

definition example_service :: "unit sqs_api" where
  "example_service = \<lparr>GetQueueUrl = (\<lambda>n w. (Inr n, w)),
     SendMessageBatch = (\<lambda>u b w. (Inr \<lparr>res_Failed = [], res_Successful = map entry_Id b\<rparr>, w)),
     DeleteMessage = (\<lambda>u r w. (None, w)), ChangeMessageVisibility = (\<lambda>u r n w. (None, w))\<rparr>"

definition example_config :: "bool \<Rightarrow> int \<Rightarrow> unit Config" where
  "example_config once maxh = \<lparr>AWSRegion = ''us-west-2'', QueueName = ''q'', Endpoint = ''http'', QueueURL = ''u'',
     MaxRetries = 0, BatchSize = 10, WaitSeconds = 5, VisibilityTimeout = 120, RunOnce = once,
     RunInterval = 30, MaxHandlers = maxh, BusyTimeout = 30, svc = Some example_service,
     handlerCount = 0, registered = True\<rparr>"

abbreviation tick :: label where "tick \<equiv> Main (Inr [])"

lemma example_message_id [simp]: "MessageId example_message = Some ''1''"
  by (simp add: example_message_def)

lemmas poll_run_defs = do_label_def poll_main_def poll_start_def example_config_def

theorem poll_handles_all_witness:
  "\<exists>p. poll_steps (poll_start (example_config True 0))
     [tick, Main (Inr [example_message]), tick, tick, tick, HandlerReturns example_message,
      Lock example_message, Unlock, tick] p \<and> at p = Finished \<and> mset (handled p) = {#example_message#}"
proof -
  have "\<exists>p. do_labels
     [tick, Main (Inr [example_message]), tick, tick, tick, HandlerReturns example_message,
      Lock example_message, Unlock, tick] (poll_start (example_config True 0)) = Some p \<and>
      at p = Finished \<and> received p = [example_message]"
    by (simp add: poll_run_defs)
  then obtain p where p: "poll_steps (poll_start (example_config True 0))
     [tick, Main (Inr [example_message]), tick, tick, tick, HandlerReturns example_message,
      Lock example_message, Unlock, tick] p" "at p = Finished" "received p = [example_message]"
    using do_labels_steps by blast
  have "registered (example_config True 0)" by (simp add: example_config_def)
  from poll_handles_all [OF this p(1,2)] p show ?thesis by auto
qed

section \<open>Poll can come back\<close>

lemma poll_steps_append:
  "poll_steps p ls p' \<Longrightarrow> poll_steps p' ks p'' \<Longrightarrow> poll_steps p (ls @ ks) p''"
  by (induction rule: poll_steps.induct) (auto intro: poll_steps.step)

lemma in_flight_progress:
  assumes "at p = Draining" and "0 < in_flight p"
  shows "\<exists>ls p'. poll_steps p ls p' \<and> at p' = Draining \<and> in_flight p' < in_flight p"
proof -
  define unlocked where
    "unlocked q n = q\<lparr>cfg := (cfg q)\<lparr>handlerCount := n - 1\<rparr>, locked := None, wg := wg q - 1\<rparr>"
    for q :: "'a poll" and n
  have un: "poll_step q Unlock (unlocked q n)" if "locked q = Some (m, n)" "at q = Draining" for q m n
    using that unfolding unlocked_def by (intro poll_step.unlock) auto
  have lo: "\<exists>q'. poll_steps q [Lock m, Unlock] q' \<and> at q' = Draining \<and> in_flight q' < in_flight q"
    if "locked q = None" "m \<in> set (waiting q)" "at q = Draining" for q :: "'a poll" and m
    using that in_flight_remove [of m "waiting q"]
    by (auto simp: poll_steps_Cons in_flight_def)
  show ?thesis
  proof (cases "locked p")
    case (Some x)
    then obtain m n where x: "locked p = Some (m, n)" by (cases x) simp
    have "poll_steps p [Unlock] (unlocked p n)"
      using un [OF x assms(1)] by (meson poll_steps.intros)
    moreover have "in_flight (unlocked p n) < in_flight p" by (simp add: unlocked_def in_flight_def x)
    moreover have "at (unlocked p n) = Draining" by (simp add: unlocked_def assms(1))
    ultimately show ?thesis by blast
  next
    case None
    show ?thesis
    proof (cases "waiting p")
      case (Cons m ms)
      then show ?thesis using lo [OF None, of m] assms(1) by auto
    next
      case Nil
      with None assms(2) obtain m ms where run: "running p = m # ms"
        by (cases "running p") (auto simp: in_flight_def)
      let ?q = "p\<lparr>running := remove1 m (running p), waiting := waiting p @ [m], handled := handled p @ [m]\<rparr>"
      have st: "poll_steps p [HandlerReturns m] ?q"
        using run assms(1) by (auto simp: poll_steps_Cons)
      obtain q' where q': "poll_steps ?q [Lock m, Unlock] q'" "at q' = Draining" "in_flight q' < in_flight ?q"
        using lo [of ?q m] None assms(1) by auto
      moreover have "in_flight ?q = in_flight p" using run by (simp add: in_flight_def)
      ultimately show ?thesis using poll_steps_append [OF st q'(1)] by auto
    qed
  qed
qed

text \<open>
  C15. Once the loop has ended (after an error of \<^verbatim>\<open>ReceiveMessage\<close>, or after one batch when so
  configured), the goroutines can always be run to their end, and then \<^verbatim>\<open>Poll\<close> comes back: there
  is no deadlock between the mutex and the wait group.
\<close>

theorem poll_can_finish:
  assumes "registered c" and "poll_steps (poll_start c) ls p" and "at p = Draining"
  shows "\<exists>ks p'. poll_steps p ks p' \<and> at p' = Finished"
proof -
  have "poll_inv p" using poll_inv_steps [OF assms(2) poll_inv_start [OF assms(1)]] .
  from this assms(3) show ?thesis
  proof (induction "in_flight p" arbitrary: p rule: less_induct)
    case less
    show ?case
    proof (cases "in_flight p = 0")
      case True
      then have "poll_steps p [tick] (p\<lparr>at := Finished\<rparr>)"
        using less.prems by (auto simp: poll_steps_Cons poll_main_def poll_inv_def)
      then show ?thesis by (metis poll.select_convs(2) poll.surjective poll.update_convs(2))
    next
      case False
      then obtain ks p' where p': "poll_steps p ks p'" "at p' = Draining" "in_flight p' < in_flight p"
        using in_flight_progress [OF less.prems(2)] by auto
      from less.hyps [OF p'(3) poll_inv_steps [OF p'(1) less.prems(1)] p'(2)] p'(1)
      show ?thesis using poll_steps_append by blast
    qed
  qed
qed

theorem poll_can_finish_witness:
  "\<exists>p. poll_steps (poll_start (example_config True 0))
     [tick, Main (Inr [example_message]), tick, tick, tick] p \<and> running p = [example_message] \<and>
     (\<exists>ks p'. poll_steps p ks p' \<and> at p' = Finished)"
proof -
  have "\<exists>p. do_labels [tick, Main (Inr [example_message]), tick, tick, tick]
      (poll_start (example_config True 0)) = Some p \<and> at p = Draining \<and> running p = [example_message]"
    by (simp add: poll_run_defs)
  then obtain p where p: "poll_steps (poll_start (example_config True 0))
     [tick, Main (Inr [example_message]), tick, tick, tick] p" "at p = Draining" "running p = [example_message]"
    using do_labels_steps by blast
  have "registered (example_config True 0)" by (simp add: example_config_def)
  from poll_can_finish [OF this p(1,2)] p show ?thesis by blast
qed

section \<open>One batch ends\<close>

text \<open>
  A step of the polling goroutine that changes nothing is a wait: for a free handler, or for the
  wait group.  Every other step lowers, in lexicographic order, where the polling goroutine is, how
  much of the batch it has left to dispatch, and how far the goroutines are from their end.
\<close>

definition active_step :: "'w poll \<Rightarrow> 'w poll \<Rightarrow> bool" where
  "active_step p p' \<longleftrightarrow> (\<exists>l. poll_step p l p') \<and> p' \<noteq> p"

fun phase :: "pc \<Rightarrow> nat" where
  "phase Top = 5"
| "phase Gate = 4"
| "phase (Receive n) = 3"
| "phase (Dispatch ms) = 2"
| "phase (Incr n m ms) = 2"
| "phase Draining = 1"
| "phase _ = 0"

fun undispatched :: "pc \<Rightarrow> nat" where
  "undispatched (Dispatch ms) = 2 * length ms"
| "undispatched (Incr n m ms) = 2 * length ms + 1"
| "undispatched _ = 0"

definition unfinished :: "'w poll \<Rightarrow> nat" where
  "unfinished p = 3 * length (running p) + 2 * length (waiting p) + (if locked p = None then 0 else 1)"

definition poll_order :: "('w poll \<times> 'w poll) set" where
  "poll_order = (\<lambda>p. phase (at p)) <*mlex*> (\<lambda>p. undispatched (at p)) <*mlex*> measure unfinished"

lemma wf_poll_order: "wf poll_order"
  unfolding poll_order_def by (intro wf_mlex wf_measure)

lemma poll_order_iff:
  "(p', p) \<in> poll_order \<longleftrightarrow> phase (at p') < phase (at p) \<or> phase (at p') = phase (at p) \<and>
     (undispatched (at p') < undispatched (at p) \<or>
      undispatched (at p') = undispatched (at p) \<and> unfinished p' < unfinished p)"
  by (auto simp: poll_order_def mlex_iff)

lemma poll_main_order:
  assumes "RunOnce (cfg p)" and "at p \<noteq> Finished" "at p \<noteq> Crashed" and "poll_main res p \<noteq> p"
  shows "(poll_main res p, p) \<in> poll_order"
proof (cases "at p")
  case (Dispatch ms)
  then show ?thesis using assms(1) by (cases ms) (simp_all add: poll_main_def poll_order_iff)
next
  case (Receive n)
  then show ?thesis by (cases res) (simp_all add: poll_main_def poll_order_iff)
next
  case Gate
  have "poll_main res p = p" if "MaxHandlers (cfg p) \<le> handlerCount (cfg p)"
    using that Gate by (simp add: poll_main_def)
  then have "\<not> MaxHandlers (cfg p) \<le> handlerCount (cfg p)" using assms(4) by blast
  then show ?thesis using Gate by (simp add: poll_main_def poll_order_iff Let_def)
next
  case Draining
  have "poll_main res p = p" if "wg p \<noteq> 0" using that Draining by (simp add: poll_main_def)
  then have "wg p = 0" using assms(4) by blast
  then show ?thesis using Draining by (simp add: poll_main_def poll_order_iff)
qed (use assms(2,3) in \<open>simp_all add: poll_main_def poll_order_iff\<close>)

lemma active_step_order:
  assumes "RunOnce (cfg p)" and "active_step p p'"
  shows "(p', p) \<in> poll_order"
proof -
  obtain l where "poll_step p l p'" "p' \<noteq> p" using assms(2) by (auto simp: active_step_def)
  then show ?thesis
  proof cases
    case (main res)
    then show ?thesis using poll_main_order [OF assms(1)] \<open>p' \<noteq> p\<close> by simp
  next
    case (returns m)
    then show ?thesis using in_flight_remove [of m "running p"]
      by (simp add: poll_order_iff unfinished_def)
  next
    case (lock m)
    then show ?thesis using in_flight_remove [of m "waiting p"]
      by (simp add: poll_order_iff unfinished_def)
  next
    case (unlock m n)
    then show ?thesis by (simp add: poll_order_iff unfinished_def)
  qed
qed

lemma poll_steps_active: "poll_steps p ls p' \<Longrightarrow> p' \<noteq> p \<Longrightarrow> \<exists>q. active_step p q"
proof (induction rule: poll_steps.induct)
  case (step p l p' ls p'')
  then show ?case by (cases "p' = p") (auto simp: active_step_def)
qed simp

lemma poll_step_settings:
  "poll_step p l p' \<Longrightarrow> RunOnce (cfg p') = RunOnce (cfg p) \<and> MaxHandlers (cfg p') = MaxHandlers (cfg p)"
  by (induction rule: poll_step.induct)
    (auto simp: poll_main_def Let_def split: pc.splits list.splits sum.splits)

lemmas poll_step_RunOnce = poll_step_settings [THEN conjunct1]

text \<open>Until the one batch has been received no goroutine runs.\<close>

definition once_inv :: "'w poll \<Rightarrow> bool" where
  "once_inv p \<longleftrightarrow> poll_inv p \<and> RunOnce (cfg p) \<and>
     (3 \<le> phase (at p) \<longrightarrow> in_flight p = 0 \<and> handlerCount (cfg p) = 0) \<and>
     (at p = Gate \<longrightarrow> 0 < MaxHandlers (cfg p)) \<and>
     (at p = Crashed \<longrightarrow> (\<exists>m \<in> set (received p). MessageId m = None)) \<and>
     set (pending (at p)) \<subseteq> set (received p)"

lemma once_inv_step:
  assumes "once_inv p" and "poll_step p l p'"
  shows "once_inv p'"
proof -
  have p': "poll_inv p'" "RunOnce (cfg p')"
    using assms(1) poll_inv_step [OF _ assms(2)] poll_step_RunOnce [OF assms(2)]
    by (simp_all add: once_inv_def)
  show ?thesis using assms(2)
  proof cases
    case (main res)
    then show ?thesis using assms(1) p'
      by (cases "at p")
        (auto simp: once_inv_def poll_main_def Let_def split: list.splits sum.splits if_splits)
  next
    case (returns m)
    then show ?thesis using assms(1) p' in_flight_remove [of m "running p"]
      by (auto simp: once_inv_def in_flight_def)
  next
    case (lock m)
    then show ?thesis using assms(1) p' in_flight_remove [of m "waiting p"]
      by (auto simp: once_inv_def in_flight_def)
  next
    case (unlock m n)
    then show ?thesis using assms(1) p' by (auto simp: once_inv_def in_flight_def)
  qed
qed

lemma once_inv_steps: "poll_steps p ls p' \<Longrightarrow> once_inv p \<Longrightarrow> once_inv p'"
  by (induction rule: poll_steps.induct) (auto intro: once_inv_step)

lemma once_inv_start:
  "registered c \<Longrightarrow> RunOnce c \<Longrightarrow> handlerCount c = 0 \<Longrightarrow> once_inv (poll_start c)"
  using poll_inv_start [of c] by (auto simp: once_inv_def poll_start_def in_flight_def)

text \<open>As long as \<^verbatim>\<open>Poll\<close> has not come back and has not panicked, somebody can move.\<close>

lemma once_inv_progress:
  assumes "once_inv p" and "at p \<noteq> Finished" and "at p \<noteq> Crashed"
  shows "\<exists>p'. active_step p p'"
proof -
  have main: "\<exists>p'. active_step p p'" if "poll_main (Inr []) p \<noteq> p"
    using that assms(2,3) poll_step.main [of p "Inr []"] unfolding active_step_def by blast
  have moved: "q = p \<Longrightarrow> at q = at p" for q by simp
  show ?thesis
  proof (cases "at p = Draining \<and> 0 < in_flight p")
    case True
    then obtain ls p' where ls: "poll_steps p ls p'" "in_flight p' < in_flight p"
      using in_flight_progress by blast
    then show ?thesis using poll_steps_active [OF ls(1)] by auto
  next
    case False
    then have "at (poll_main (Inr []) p) \<noteq> at p"
      using assms
      by (cases "at p") (auto simp: poll_main_def Let_def once_inv_def poll_inv_def split: list.splits)
    then show ?thesis using main moved by blast
  qed
qed



section \<open>The number of handlers\<close>

text \<open>
  A run in which the increment of the counter never overlaps with a goroutine that holds the
  mutex, as if the increment were under the mutex too, and in which the service respects the
  maximal number of messages.
\<close>

definition exclusive :: "'w poll \<Rightarrow> bool" where
  "exclusive p \<longleftrightarrow> (case at p of Incr n m ms \<Rightarrow> locked p = None | _ \<Rightarrow> True)"

definition respects_maximum :: "'w poll \<Rightarrow> label \<Rightarrow> bool" where
  "respects_maximum p l \<longleftrightarrow>
     (case (at p, l) of (Receive n, Main (Inr msgs)) \<Rightarrow> int (length msgs) \<le> n | _ \<Rightarrow> True)"

inductive exclusive_steps :: "'w poll \<Rightarrow> 'w poll \<Rightarrow> bool" where
  none: "exclusive_steps p p"
| step: "poll_step p l p' \<Longrightarrow> respects_maximum p l \<Longrightarrow> exclusive p' \<Longrightarrow> exclusive_steps p' p'' \<Longrightarrow>
    exclusive_steps p p''"

definition room :: "pc \<Rightarrow> int" where
  "room c = (case c of Receive n \<Rightarrow> n | _ \<Rightarrow> int (length (pending c)))"

definition count_inv :: "'w poll \<Rightarrow> bool" where
  "count_inv p \<longleftrightarrow> handlerCount (cfg p) = int (in_flight p) \<and>
     (\<forall>n m ms. at p = Incr n m ms \<longrightarrow> n = handlerCount (cfg p)) \<and>
     (\<forall>m n. locked p = Some (m, n) \<longrightarrow> n = handlerCount (cfg p)) \<and> exclusive p \<and>
     (MaxHandlers (cfg p) > 0 \<longrightarrow> int (in_flight p) + room (at p) \<le> MaxHandlers (cfg p)) \<and>
     0 \<le> room (at p) \<and> registered (cfg p) \<and> 0 \<le> BatchSize (cfg p)"

lemma count_inv_main:
  assumes "count_inv p" "respects_maximum p (Main res)" "exclusive (poll_main res p)"
  shows "count_inv (poll_main res p)"
  using assms
  by (cases "at p")
    (auto simp: count_inv_def poll_main_def exclusive_def respects_maximum_def room_def Let_def
      split: list.splits sum.splits)

lemma in_flight_goroutine:
  "m \<in> set (running p) \<Longrightarrow>
     in_flight (p\<lparr>running := remove1 m (running p), waiting := waiting p @ [m], handled := h\<rparr>) = in_flight p"
  "locked p = None \<Longrightarrow> m \<in> set (waiting p) \<Longrightarrow>
     in_flight (p\<lparr>waiting := remove1 m (waiting p), locked := Some x\<rparr>) = in_flight p"
  "locked p = Some x \<Longrightarrow> Suc (in_flight (p\<lparr>cfg := c, locked := None, wg := n\<rparr>)) = in_flight p"
  using in_flight_remove [of m "running p"] in_flight_remove [of m "waiting p"]
  by (auto simp: in_flight_def)

lemma count_inv_step:
  assumes "count_inv p" and "poll_step p l p'" and "respects_maximum p l" and "exclusive p'"
  shows "count_inv p'"
  using assms(2)
proof cases
  case (main res)
  then show ?thesis using assms count_inv_main by simp
next
  case (returns m)
  then show ?thesis using assms(1,4) by (auto simp: count_inv_def in_flight_goroutine)
next
  case (lock m)
  then show ?thesis using assms(1,4) by (auto simp: count_inv_def in_flight_goroutine exclusive_def)
next
  case (unlock m n)
  have "Suc (in_flight p') = in_flight p" using unlock in_flight_goroutine(3) [of p "(m, n)"] by simp
  then have "int (in_flight p') = int (in_flight p) - 1" by linarith
  moreover have "cfg p' = (cfg p)\<lparr>handlerCount := n - 1\<rparr>" "at p' = at p" "locked p' = None"
    using unlock by simp_all
  moreover have "n = handlerCount (cfg p)" "\<And>k m ms. at p \<noteq> Incr k m ms"
    using assms(1) unlock by (auto simp: count_inv_def exclusive_def)
  ultimately show ?thesis using assms(1,4) by (auto simp: count_inv_def)
qed

lemma count_inv_steps: "exclusive_steps p p' \<Longrightarrow> count_inv p \<Longrightarrow> count_inv p'"
  by (induction rule: exclusive_steps.induct) (auto intro: count_inv_step)

fun do_exclusive :: "label list \<Rightarrow> 'w poll \<Rightarrow> 'w poll option" where
  "do_exclusive [] p = Some p"
| "do_exclusive (l # ls) p =
     (case do_label l p of
        None \<Rightarrow> None
      | Some p' \<Rightarrow> if respects_maximum p l \<and> exclusive p' then do_exclusive ls p' else None)"

lemma do_exclusive_steps: "do_exclusive ls p = Some p' \<Longrightarrow> exclusive_steps p p'"
  by (induction ls arbitrary: p)
    (auto simp: do_label_step split: option.splits if_splits intro: exclusive_steps.intros)

lemma poll_start_cfg [simp]: "cfg (poll_start c) = c"
  by (simp add: poll_start_def)

lemma exclusive_MaxHandlers: "exclusive_steps p p' \<Longrightarrow> MaxHandlers (cfg p') = MaxHandlers (cfg p)"
  by (induction rule: exclusive_steps.induct) (auto dest: poll_step_settings)

lemma handlers_bounded:
  assumes "exclusive_steps (poll_start c) p" and "registered c" and "handlerCount c = 0"
    and "validateConfig c = None"
  shows "handlerCount (cfg p) = int (in_flight p) \<and>
    (MaxHandlers (cfg p) > 0 \<longrightarrow> int (in_flight p) \<le> MaxHandlers (cfg p))"
proof -
  have "0 \<le> BatchSize c" using assms(4) by (auto simp: validateConfig_def split: if_splits)
  then have "count_inv (poll_start c)"
    using assms(2,3) by (auto simp: count_inv_def poll_start_def in_flight_def exclusive_def room_def)
  from count_inv_steps [OF assms(1) this] show ?thesis by (auto simp: count_inv_def)
qed

text \<open>
  C7. In such a run of a valid configuration the counter is the number of goroutines that have
  not ended, and there are never more of them than the configured maximum.
\<close>

theorem handler_bound:
  assumes "exclusive_steps (poll_start c) p" and "registered c" and "handlerCount c = 0"
    and "validateConfig c = None"
  shows "handlerCount (cfg p) = int (in_flight p) \<and>
    (MaxHandlers (cfg p) > 0 \<longrightarrow> int (in_flight p) \<le> MaxHandlers (cfg p))"
  by (rule handlers_bounded [OF assms])

theorem handler_bound_witness:
  "\<exists>p. exclusive_steps (poll_start (example_config False 2)) p \<and> in_flight p = 1 \<and>
     handlerCount (cfg p) = 1 \<and> received p = [example_message, example_message]"
proof -
  let ?c = "example_config False 2"
  have valid: "validateConfig ?c = None" by (simp add: validateConfig_def example_config_def)
  have "\<exists>p. do_exclusive [tick, tick, Main (Inr [example_message, example_message]), tick, tick, tick, tick,
      HandlerReturns example_message, Lock example_message, Unlock] (poll_start ?c) = Some p \<and>
      in_flight p = 1 \<and> received p = [example_message, example_message]"
    by (simp add: poll_run_defs respects_maximum_def exclusive_def in_flight_def)
  then obtain p where p: "exclusive_steps (poll_start ?c) p" "in_flight p = 1"
      "received p = [example_message, example_message]"
    using do_exclusive_steps by blast
  have "registered ?c" "handlerCount ?c = 0" by (simp_all add: example_config_def)
  from handler_bound [OF p(1) this valid] p show ?thesis by auto
qed

definition race_schedule :: "label list" where
  "race_schedule = (let m = example_message in
     [tick, tick, Main (Inr [m, m]), tick, tick, HandlerReturns m, Lock m, tick, tick, Unlock,
      tick, tick, tick, Main (Inr [m, m]), tick, tick, tick, tick])"

text \<open>
  C38. The increment is not protected by the mutex.  With at most two handlers configured and a
  service that respects the maximal number of messages, an increment that falls between the
  read and the write of a decrement is lost, and three goroutines run at the same time.
\<close>

theorem handler_bound_race:
  "\<exists>p. poll_steps (poll_start (example_config False 2)) race_schedule p \<and>
     MaxHandlers (cfg p) = 2 \<and> in_flight p = 3"
proof -
  have "\<exists>p. do_labels race_schedule (poll_start (example_config False 2)) = Some p \<and>
      MaxHandlers (cfg p) = 2 \<and> in_flight p = 3"
    by (simp add: race_schedule_def Let_def poll_run_defs in_flight_def)
  then show ?thesis using do_labels_steps by blast
qed

end
