(* ===== verification/Go_Regexp.thy ===== *)
theory Go_Regexp
  imports Go_Strings
begin

text \<open>
  Go's package \<^verbatim>\<open>regexp\<close> for the three patterns of the program.  Each of them is an
  alternative of sequences whose items are repeated character classes, alternatives of
  literal words, and the anchors for the begin and the end of the text.
  Matching is leftmost-first: among the matches that start leftmost, the one a
  backtracking search finds first (greedy repetitions try long lengths first, lazy ones
  short lengths first, alternatives are tried in the order in which they are written).
\<close>

datatype item =
    Chars "char \<Rightarrow> bool" nat "nat option" bool \<comment> \<open>class, least and greatest count, greedy\<close>
  | OneOf "string list"
  | BeginText
  | EndText

definition class_lengths :: "(char \<Rightarrow> bool) \<Rightarrow> nat \<Rightarrow> nat option \<Rightarrow> string \<Rightarrow> nat list" where
  "class_lengths P lo hi s =
     (let n = length (takeWhile P s); m = (case hi of None \<Rightarrow> n | Some h \<Rightarrow> min h n)
      in [lo ..< Suc m])"

text \<open>The lengths an item can consume at position \<open>n\<close> before the rest \<open>s\<close>, best first.\<close>

fun item_lengths :: "item \<Rightarrow> nat \<Rightarrow> string \<Rightarrow> nat list" where
  "item_lengths (Chars P lo hi greedy) n s =
     (if greedy then rev (class_lengths P lo hi s) else class_lengths P lo hi s)"
| "item_lengths (OneOf ws) n s = map length (filter (\<lambda>w. prefix w s) ws)"
| "item_lengths BeginText n s = (if n = 0 then [0] else [])"
| "item_lengths EndText n s = (if s = [] then [0] else [])"

fun find_some :: "('a \<Rightarrow> 'b option) \<Rightarrow> 'a list \<Rightarrow> 'b option" where
  "find_some f [] = None"
| "find_some f (x # xs) = (case f x of None \<Rightarrow> find_some f xs | Some y \<Rightarrow> Some y)"

text \<open>The backtracking search: the lengths of the items in the preferred match.\<close>

fun match_items :: "item list \<Rightarrow> nat \<Rightarrow> string \<Rightarrow> nat list option" where
  "match_items [] n s = Some []"
| "match_items (a # as) n s =
     find_some (\<lambda>k. map_option ((#) k) (match_items as (n + k) (drop k s))) (item_lengths a n s)"

text \<open>\<^verbatim>\<open>FindStringSubmatch\<close>: the pieces the items of the leftmost match consumed.\<close>

fun pieces :: "nat list \<Rightarrow> string \<Rightarrow> string list" where
  "pieces [] s = []"
| "pieces (k # ks) s = take k s # pieces ks (drop k s)"

fun find_submatch :: "item list \<Rightarrow> nat \<Rightarrow> string \<Rightarrow> string list option" where
  "find_submatch p n [] = map_option (\<lambda>ks. pieces ks []) (match_items p n [])"
| "find_submatch p n (c # s) =
     (case match_items p n (c # s) of
        Some ks \<Rightarrow> Some (pieces ks (c # s))
      | None \<Rightarrow> find_submatch p (Suc n) s)"

section \<open>Facts about the search\<close>

lemma find_some_None_iff: "find_some f xs = None \<longleftrightarrow> (\<forall>x \<in> set xs. f x = None)"
  by (induction xs) (auto split: option.splits)

lemma find_some_SomeD: "find_some f xs = Some y \<Longrightarrow> \<exists>x \<in> set xs. f x = Some y"
  by (induction xs) (auto split: option.splits)

lemma find_some_unique:
  assumes "k \<in> set xs" "f k = Some y" "\<And>j. j \<in> set xs \<Longrightarrow> j \<noteq> k \<Longrightarrow> f j = None"
  shows "find_some f xs = Some y"
  using assms
proof (induction xs)
  case Nil
  then show ?case by simp
next
  case (Cons x xs)
  show ?case
  proof (cases "x = k")
    case True
    with Cons.prems show ?thesis by simp
  next
    case False
    with Cons show ?thesis by (auto split: option.splits)
  qed
qed

lemma find_some_first:
  "find_some f (x # xs) = f x" if "f x \<noteq> None"
  using that by auto

lemma find_some_head: "(\<And>y. y \<in> set xs \<Longrightarrow> f y = None) \<Longrightarrow> find_some f (x # xs) = f x"
  by (auto simp: find_some_None_iff split: option.split)

lemma match_items_ConsD:
  "match_items (a # as) n s = Some ks \<Longrightarrow>
     \<exists>k ks'. k \<in> set (item_lengths a n s) \<and> ks = k # ks' \<and>
       match_items as (n + k) (drop k s) = Some ks'"
  by (auto dest: find_some_SomeD)

lemma find_submatch_here:
  "match_items p n s = Some ks \<Longrightarrow> find_submatch p n s = Some (pieces ks s)"
  by (cases s) auto

lemma find_submatch_SomeD:
  "find_submatch p n s = Some ws \<Longrightarrow>
     \<exists>m ks. match_items p (n + m) (drop m s) = Some ks \<and> ws = pieces ks (drop m s)"
proof (induction s arbitrary: n)
  case Nil
  then show ?case by (intro exI [of _ 0]) auto
next
  case (Cons c s)
  show ?case
  proof (cases "match_items p n (c # s)")
    case None
    with Cons.prems Cons.IH [of "Suc n"] show ?thesis
      by (metis add_Suc_shift drop_Suc_Cons find_submatch.simps(2) option.simps(4))
  next
    case (Some ks)
    with Cons.prems show ?thesis by (intro exI [of _ 0]) auto
  qed
qed

text \<open>What it means for lengths to fit a sequence of items.\<close>

fun fits :: "item list \<Rightarrow> nat \<Rightarrow> string \<Rightarrow> nat list \<Rightarrow> bool" where
  "fits [] n s ks \<longleftrightarrow> ks = []"
| "fits (a # as) n s [] \<longleftrightarrow> False"
| "fits (a # as) n s (k # ks) \<longleftrightarrow> k \<in> set (item_lengths a n s) \<and> fits as (n + k) (drop k s) ks"

lemma match_items_fits: "match_items as n s = Some ks \<Longrightarrow> fits as n s ks"
proof (induction as arbitrary: n s ks)
  case Nil
  then show ?case by simp
next
  case (Cons a as)
  from Cons.prems obtain k where "k \<in> set (item_lengths a n s)"
    and "map_option ((#) k) (match_items as (n + k) (drop k s)) = Some ks"
    by (auto dest: find_some_SomeD)
  with Cons.IH show ?case by auto
qed

lemma match_items_None: "match_items as n s = None \<longleftrightarrow> (\<nexists>ks. fits as n s ks)"
proof (induction as arbitrary: n s)
  case Nil
  then show ?case by simp
next
  case (Cons a as)
  have "(\<exists>ks. fits (a # as) n s ks) \<longleftrightarrow>
      (\<exists>k \<in> set (item_lengths a n s). \<exists>ks. fits as (n + k) (drop k s) ks)"
    by (metis fits.simps(2) fits.simps(3) list.exhaust)
  with Cons show ?case by (auto simp: find_some_None_iff)
qed

lemma match_items_unique:
  assumes "fits as n s ks" and "\<And>ks'. fits as n s ks' \<Longrightarrow> ks' = ks"
  shows "match_items as n s = Some ks"
  using assms match_items_fits match_items_None by (metis not_None_eq)

lemma in_class_lengths:
  "k \<in> set (class_lengths P lo hi s) \<longleftrightarrow>
     lo \<le> k \<and> k \<le> length (takeWhile P s) \<and> (case hi of None \<Rightarrow> True | Some h \<Rightarrow> k \<le> h)"
  by (auto simp: class_lengths_def Let_def split: option.splits)

lemma length_takeWhile_ge_iff:
  "k \<le> length (takeWhile P s) \<longleftrightarrow> k \<le> length s \<and> list_all P (take k s)"
proof (induction s arbitrary: k)
  case Nil
  then show ?case by simp
next
  case (Cons c s)
  then show ?case by (cases k) auto
qed

lemma item_lengths_Chars [simp]:
  "k \<in> set (item_lengths (Chars P lo hi g) n s) \<longleftrightarrow>
     lo \<le> k \<and> k \<le> length s \<and> list_all P (take k s) \<and> (case hi of None \<Rightarrow> True | Some h \<Rightarrow> k \<le> h)"
  by (auto simp: in_class_lengths length_takeWhile_ge_iff)

declare item_lengths.simps(1) [simp del]

text \<open>
  A maximal run of characters of a class followed by one outside the class is the only
  way to match the class before that character.
\<close>

lemma run_length_unique:
  assumes "list_all P (take k s)" "k < length s" "\<not> P (s ! k)"
    and "list_all P (take j s)" "j < length s" "\<not> P (s ! j)"
  shows "j = k"
proof -
  have "\<not> j < k" and "\<not> k < j"
    using assms by (auto simp: list_all_length)
  then show ?thesis by simp
qed

definition not_newline :: "char \<Rightarrow> bool" where
  "not_newline c \<longleftrightarrow> byte c \<noteq> 10"

definition is_lower :: "char \<Rightarrow> bool" where
  "is_lower c \<longleftrightarrow> 97 \<le> byte c \<and> byte c \<le> 122"

definition is_upper :: "char \<Rightarrow> bool" where
  "is_upper c \<longleftrightarrow> 65 \<le> byte c \<and> byte c \<le> 90"

lemma greedy_first:
  assumes "lo \<le> length (takeWhile P s)"
  shows "item_lengths (Chars P lo None True) n s =
    length (takeWhile P s) # rev [lo ..< length (takeWhile P s)]"
  using assms by (simp add: item_lengths.simps class_lengths_def Let_def)

end
