(* ===== verification/Go_Time.thy ===== *)
theory Go_Time
  imports Go_Strings "HOL-Library.Monad_Syntax"
begin

text \<open>
  The part of Go's package \<^verbatim>\<open>time\<close> that the registry relies on: instants with a
  nanosecond part, \<^verbatim>\<open>time.Unix\<close>, \<^verbatim>\<open>Before\<close>, formatting in UTC with the layout
  \<^verbatim>\<open>time.RFC3339Nano\<close>, and \<^verbatim>\<open>time.Parse\<close> with the layouts \<^verbatim>\<open>time.RFC3339\<close> and
  \<^verbatim>\<open>time.RFC3339Nano\<close>, which accept the same strings and give the same instants.
  The calendar is the proleptic Gregorian one.  The main fact is the round trip
  \<open>parse_format\<close>: a formatted instant of the years 1 to 9999 parses back to itself.
\<close>

type_synonym instant = "int \<times> nat"
  \<comment> \<open>seconds since 1970-01-01T00:00:00Z, and nanoseconds below \<open>10 ^ 9\<close>\<close>

definition time_Unix :: "int \<Rightarrow> int \<Rightarrow> instant" where
  "time_Unix sec nsec = (sec + nsec div 10 ^ 9, nat (nsec mod 10 ^ 9))"

definition time_Before :: "instant \<Rightarrow> instant \<Rightarrow> bool" where
  "time_Before t u \<longleftrightarrow> fst t < fst u \<or> fst t = fst u \<and> snd t < snd u"

lemma snd_time_Unix: "snd (time_Unix s n) < 10 ^ 9"
proof -
  have "n mod 10 ^ 9 < 10 ^ 9" by (simp add: pos_mod_bound)
  then show ?thesis by (simp add: time_Unix_def)
qed

lemma time_Before_irrefl [simp]: "\<not> time_Before t t"
  by (simp add: time_Before_def)

lemma time_Before_trans: "time_Before t u \<Longrightarrow> time_Before u v \<Longrightarrow> time_Before t v"
  by (auto simp: time_Before_def)

lemma time_Before_linear: "time_Before t u \<or> t = u \<or> time_Before u t"
  by (auto simp: time_Before_def prod_eq_iff)

lemma less_div_mod_iff:
  fixes a b k :: int
  assumes "0 < k"
  shows "a < b \<longleftrightarrow> a div k < b div k \<or> a div k = b div k \<and> a mod k < b mod k"
proof (cases "a div k = b div k")
  case True
  then show ?thesis by (metis add_less_cancel_left less_irrefl mult_div_mod_eq)
next
  case False
  with zdiv_mono1 [of a b k] zdiv_mono1 [of b a k] assms show ?thesis by linarith
qed

lemma time_Before_Unix_mono:
  "time_Before (time_Unix 0 a) (time_Unix 0 b) \<longleftrightarrow> a < b"
proof -
  have "nat (a mod 10 ^ 9) < nat (b mod 10 ^ 9) \<longleftrightarrow> a mod 10 ^ 9 < b mod 10 ^ 9"
    by (rule nat_less_eq_zless) simp
  then have "time_Before (time_Unix 0 a) (time_Unix 0 b) \<longleftrightarrow>
      a div 10 ^ 9 < b div 10 ^ 9 \<or> a div 10 ^ 9 = b div 10 ^ 9 \<and> a mod 10 ^ 9 < b mod 10 ^ 9"
    unfolding time_Before_def time_Unix_def by (simp only: fst_conv snd_conv add_0)
  then show ?thesis
    using less_div_mod_iff [of "10 ^ 9" a b] by simp
qed

section \<open>The calendar\<close>

definition is_leap :: "int \<Rightarrow> bool" where
  "is_leap y \<longleftrightarrow> y mod 4 = 0 \<and> (y mod 100 \<noteq> 0 \<or> y mod 400 = 0)"

text \<open>Days from 0001-01-01 to the first of January of year \<open>y\<close>.\<close>

definition days_before_year :: "int \<Rightarrow> int" where
  "days_before_year y = 365 * (y - 1) + (y - 1) div 4 - (y - 1) div 100 + (y - 1) div 400"

definition month_days :: "bool \<Rightarrow> nat list" where
  "month_days leap = [31, if leap then 29 else 28, 31, 30, 31, 30, 31, 31, 30, 31, 30, 31]"

definition days_in :: "nat \<Rightarrow> int \<Rightarrow> nat" where
  "days_in m y = month_days (is_leap y) ! (m - 1)"

fun split_year_day :: "nat list \<Rightarrow> nat \<Rightarrow> nat \<Rightarrow> nat \<times> nat" where
  "split_year_day [] m d = (m, Suc d)"
| "split_year_day (l # ls) m d =
     (if d < l then (m, Suc d) else split_year_day ls (Suc m) (d - l))"

definition year_of_day :: "int \<Rightarrow> int" where
  "year_of_day d =
     (let e = (400 * d) div 146097 + 1 in
      if d < days_before_year e then e - 1
      else if days_before_year (e + 1) \<le> d then e + 1 else e)"

text \<open>Days are counted from 1970-01-01, the day 719162 of the calendar.\<close>

definition civil_of_day :: "int \<Rightarrow> int \<times> nat \<times> nat" where
  "civil_of_day day =
     (let d = day + 719162; y = year_of_day d
      in (y, split_year_day (month_days (is_leap y)) 1 (nat (d - days_before_year y))))"

definition day_of_civil :: "int \<Rightarrow> nat \<Rightarrow> nat \<Rightarrow> int" where
  "day_of_civil y m d =
     days_before_year y + int (sum_list (take (m - 1) (month_days (is_leap y)))) + int d - 1 - 719162"

lemma div_Suc_step:
  fixes x k :: int
  assumes "0 < k"
  shows "(x + 1) div k = x div k + (if (x + 1) mod k = 0 then 1 else 0)"
proof (cases "(x + 1) mod k = 0")
  case True
  then obtain q where "x + 1 = k * q" by (auto simp: mod_eq_0_iff_dvd)
  moreover have "(k * q - 1) div k = q - 1"
    using assms by (intro int_div_pos_eq [where r = "k - 1"]) (simp_all add: algebra_simps)
  ultimately show ?thesis using True assms by (simp add: eq_diff_eq [symmetric])
next
  case False
  have "x + 1 = k * ((x + 1) div k) + (x + 1) mod k" by simp
  then have "x = k * ((x + 1) div k) + ((x + 1) mod k - 1)" by linarith
  moreover have "0 \<le> (x + 1) mod k - 1" and "(x + 1) mod k - 1 < k"
    using False assms pos_mod_bound [of k "x + 1"] pos_mod_sign [of k "x + 1"] by linarith+
  ultimately have "x div k = (x + 1) div k" by (metis int_div_pos_eq)
  with False show ?thesis by simp
qed

lemma days_before_year_step:
  "days_before_year (y + 1) = days_before_year y + 365 + (if is_leap y then 1 else 0)"
proof -
  have step: "y div k = (y - 1) div k + (if y mod k = 0 then 1 else 0)" if "0 < k" for k :: int
    using div_Suc_step [of k "y - 1"] that by (simp only: diff_add_cancel)
  have d: "y div 4 = (y - 1) div 4 + (if y mod 4 = 0 then 1 else 0)"
    by (rule step) simp
  have d': "y div 100 = (y - 1) div 100 + (if y mod 100 = 0 then 1 else 0)"
    by (rule step) simp
  have d'': "y div 400 = (y - 1) div 400 + (if y mod 400 = 0 then 1 else 0)"
    by (rule step) simp
  define A B C where "A \<longleftrightarrow> y mod 4 = 0" and "B \<longleftrightarrow> y mod 100 = 0" and "C \<longleftrightarrow> y mod 400 = 0"
  have "C \<longrightarrow> B" and "B \<longrightarrow> A" unfolding A_def B_def C_def by presburger+
  moreover have "is_leap y \<longleftrightarrow> A \<and> (\<not> B \<or> C)" by (simp add: is_leap_def A_def B_def C_def)
  moreover define p q r where "p = (y - 1) div 4" and "q = (y - 1) div 100" and "r = (y - 1) div 400"
  then have "days_before_year y = 365 * (y - 1) + p - q + r"
    and "days_before_year (y + 1) = 365 * y + (p + (if A then 1 else 0)) - (q + (if B then 1 else 0))
           + (r + (if C then 1 else 0))"
    unfolding days_before_year_def A_def B_def C_def add_diff_cancel_right' d d' d'' by simp_all
  ultimately show ?thesis by (cases A; cases B; cases C) simp_all
qed

lemma sum_list_month_days: "sum_list (month_days leap) = (if leap then 366 else 365)"
  by (simp add: month_days_def)

lemma days_before_year_bounds:
  "400 * days_before_year y \<le> 146097 * y - 145701"
  "146097 * y - 146796 \<le> 400 * days_before_year y"
  by (simp_all add: days_before_year_def)

lemma year_of_day_bounds:
  "days_before_year (year_of_day d) \<le> d \<and> d < days_before_year (year_of_day d + 1)"
proof -
  define e where "e = (400 * d) div 146097 + 1"
  define r where "r = (400 * d) mod 146097"
  have "400 * d = 146097 * (e - 1) + r" by (simp add: e_def r_def)
  moreover have "0 \<le> r" and "r < 146097" by (simp_all add: r_def)
  ultimately have "146097 * (e - 1) \<le> 400 * d \<and> 400 * d < 146097 * e"
    by auto
  then have e: "146097 * e - 146097 \<le> 400 * d" "400 * d < 146097 * e" by simp_all
  have lo: "days_before_year (e - 1) \<le> d"
    using days_before_year_bounds(1) [of "e - 1"] e by simp
  have hi: "d < days_before_year (e + 1 + 1)"
    using days_before_year_bounds(2) [of "e + 1 + 1"] e by simp
  show ?thesis
    using lo hi by (auto simp: year_of_day_def e_def [symmetric] Let_def)
qed

lemma split_year_day:
  assumes "d < sum_list ls" and "split_year_day ls m d = (m', day)"
  shows "m \<le> m' \<and> m' < m + length ls \<and> 1 \<le> day \<and> day \<le> ls ! (m' - m) \<and>
         sum_list (take (m' - m) ls) + day = Suc d"
  using assms
proof (induction ls m d rule: split_year_day.induct)
  case (1 m d)
  then show ?case by simp
next
  case (2 l ls m d)
  show ?case
  proof (cases "d < l")
    case True
    with 2 show ?thesis by auto
  next
    case False
    with 2 have "Suc m \<le> m' \<and> m' < Suc m + length ls \<and> 1 \<le> day \<and> day \<le> ls ! (m' - Suc m) \<and>
         sum_list (take (m' - Suc m) ls) + day = Suc (d - l)" by simp
    moreover from this have "m' - m = Suc (m' - Suc m)" by linarith
    ultimately show ?thesis using False by auto
  qed
qed

lemma civil_of_day:
  assumes "civil_of_day day = (y, m, d)"
  shows "1 \<le> m" "m \<le> 12" "1 \<le> d" "d \<le> days_in m y" "day_of_civil y m d = day"
proof -
  let ?n = "day + 719162"
  let ?ls = "month_days (is_leap y)"
  have y: "y = year_of_day ?n" and split: "split_year_day ?ls 1 (nat (?n - days_before_year y)) = (m, d)"
    using assms by (auto simp: civil_of_day_def Let_def)
  have b: "days_before_year y \<le> ?n" "?n < days_before_year (y + 1)"
    using year_of_day_bounds [of ?n] y by auto
  then have "nat (?n - days_before_year y) < sum_list ?ls"
    by (auto simp: sum_list_month_days days_before_year_step split: if_splits)
  from split_year_day [OF this split]
  have *: "1 \<le> m \<and> m < 1 + length ?ls \<and> 1 \<le> d \<and> d \<le> ?ls ! (m - 1) \<and>
        sum_list (take (m - 1) ?ls) + d = Suc (nat (?n - days_before_year y))" .
  then show "1 \<le> m" "m \<le> 12" "1 \<le> d" "d \<le> days_in m y"
    by (auto simp: days_in_def month_days_def)
  from * b have "int (sum_list (take (m - 1) ?ls)) + int d = ?n - days_before_year y + 1"
    by linarith
  then show "day_of_civil y m d = day" by (simp add: day_of_civil_def)
qed

lemma days_in_bound: "1 \<le> m \<Longrightarrow> m \<le> 12 \<Longrightarrow> days_in m y \<le> 31"
proof -
  assume "1 \<le> m" "m \<le> 12"
  then have "days_in m y \<in> set (month_days (is_leap y))"
    unfolding days_in_def by (intro nth_mem) (simp add: month_days_def)
  then show ?thesis by (auto simp: month_days_def)
qed

lemma days_before_year_mono:
  assumes "a \<le> b" shows "days_before_year a \<le> days_before_year b"
  using assms by (induction b rule: int_ge_induct) (auto simp: days_before_year_step)

lemma civil_of_day_year:
  assumes "civil_of_day day = (y, m, d)" and "- 719162 \<le> day" and "day < 2932897"
  shows "1 \<le> y \<and> y \<le> 9999"
proof -
  have b: "days_before_year y \<le> day + 719162" "day + 719162 < days_before_year (y + 1)"
    using year_of_day_bounds [of "day + 719162"] assms(1) by (auto simp: civil_of_day_def Let_def)
  have "\<not> y + 1 \<le> 1"
    using days_before_year_mono [of "y + 1" 1] b(2) assms(2) by (auto simp: days_before_year_def)
  moreover have "\<not> 10000 \<le> y"
    using days_before_year_mono [of 10000 y] b(1) assms(3) by (auto simp: days_before_year_def)
  ultimately show ?thesis by simp
qed

section \<open>Formatting\<close>

definition pad :: "nat \<Rightarrow> nat \<Rightarrow> string" where
  "pad w n = replicate (w - length (nat_str n)) (CHR ''0'') @ nat_str n"

definition pad_year :: "int \<Rightarrow> string" where
  "pad_year y = (if y < 0 then CHR ''-'' # pad 4 (nat (- y)) else pad 4 (nat y))"

definition format_frac :: "nat \<Rightarrow> string" where
  "format_frac ns =
     (let ds = rev (dropWhile (\<lambda>c. c = CHR ''0'') (rev (pad 9 ns)))
      in if ds = [] then [] else CHR ''.'' # ds)"

text \<open>\<^verbatim>\<open>t.UTC().Format(time.RFC3339Nano)\<close>.\<close>

definition format_rfc3339nano :: "instant \<Rightarrow> string" where
  "format_rfc3339nano t =
     (let day = fst t div 86400; sod = nat (fst t mod 86400); (y, m, d) = civil_of_day day
      in pad_year y @ ''-'' @ pad 2 m @ ''-'' @ pad 2 d @ ''T'' @
         pad 2 (sod div 3600) @ '':'' @ pad 2 (sod mod 3600 div 60) @ '':'' @ pad 2 (sod mod 60) @
         format_frac (snd t) @ ''Z'')"

section \<open>Parsing\<close>

fun getnum :: "bool \<Rightarrow> string \<Rightarrow> (nat \<times> string) option" where
  "getnum fixed [] = None"
| "getnum fixed [a] = (if is_digit a \<and> \<not> fixed then Some (digit_of a, []) else None)"
| "getnum fixed (a # b # r) =
     (if \<not> is_digit a then None
      else if \<not> is_digit b then (if fixed then None else Some (digit_of a, b # r))
      else Some (10 * digit_of a + digit_of b, r))"

fun getyear :: "string \<Rightarrow> (nat \<times> string) option" where
  "getyear (a # b # c # d # r) =
     (if list_all is_digit [a, b, c, d] then Some (digits_val [a, b, c, d], r) else None)"
| "getyear _ = None"

fun expect :: "char \<Rightarrow> string \<Rightarrow> string option" where
  "expect c [] = None"
| "expect c (x # r) = (if x = c then Some r else None)"

fun in_range :: "nat \<Rightarrow> nat \<Rightarrow> nat \<Rightarrow> unit option" where
  "in_range lo hi n = (if lo \<le> n \<and> n \<le> hi then Some () else None)"

text \<open>A fraction is optional; digits beyond the ninth are dropped.\<close>

fun getfrac :: "string \<Rightarrow> nat \<times> string" where
  "getfrac (c # d # r) =
     (if (c = CHR ''.'' \<or> c = CHR '','') \<and> is_digit d
      then let ds = take 9 (takeWhile is_digit (d # r))
           in (digits_val ds * 10 ^ (9 - length ds), dropWhile is_digit (d # r))
      else (0, c # d # r))"
| "getfrac s = (0, s)"

text \<open>The zone: \<open>None\<close> for \<^verbatim>\<open>Z\<close> and the offset in seconds otherwise.\<close>

fun getzone :: "string \<Rightarrow> (int option \<times> string) option" where
  "getzone (s # r) =
     (if s = CHR ''Z'' then Some (None, r)
      else case r of
        h1 # h2 # c # m1 # m2 # r' \<Rightarrow>
          (if c \<noteq> CHR '':'' then None
           else do {
             (hh, _) \<leftarrow> getnum True [h1, h2];
             (mm, _) \<leftarrow> getnum True [m1, m2];
             in_range 0 24 hh;
             in_range 0 60 mm;
             (if s = CHR ''+'' then Some (Some (int ((hh * 60 + mm) * 60)), r')
              else if s = CHR ''-'' then Some (Some (- int ((hh * 60 + mm) * 60)), r')
              else None)
           })
      | _ \<Rightarrow> None)"
| "getzone [] = None"

definition zone_seconds :: "int option \<Rightarrow> int" where
  "zone_seconds z = (case z of None \<Rightarrow> 0 | Some off \<Rightarrow> off)"

definition parse_rfc3339_zone :: "string \<Rightarrow> (instant \<times> int option) option" where
  "parse_rfc3339_zone s = do {
     (y, s) \<leftarrow> getyear s;
     s \<leftarrow> expect (CHR ''-'') s;
     (m, s) \<leftarrow> getnum True s;
     in_range 1 12 m;
     s \<leftarrow> expect (CHR ''-'') s;
     (d, s) \<leftarrow> getnum True s;
     s \<leftarrow> expect (CHR ''T'') s;
     (hh, s) \<leftarrow> getnum False s;
     in_range 0 23 hh;
     s \<leftarrow> expect (CHR '':'') s;
     (mi, s) \<leftarrow> getnum True s;
     in_range 0 59 mi;
     s \<leftarrow> expect (CHR '':'') s;
     (ss, s) \<leftarrow> getnum True s;
     in_range 0 59 ss;
     let (ns, s) = getfrac s;
     (z, s) \<leftarrow> getzone s;
     (if s \<noteq> [] then None
      else if d < 1 \<or> days_in m (int y) < d then None
      else Some ((day_of_civil (int y) m d * 86400 + int (hh * 3600 + mi * 60 + ss) - zone_seconds z,
                  ns), z))
   }"

definition parse_rfc3339 :: "string \<Rightarrow> instant option" where
  "parse_rfc3339 s = map_option fst (parse_rfc3339_zone s)"

text \<open>
  \<^verbatim>\<open>t.String()\<close> of a parsed time.  The argument \<open>local\<close> is the time zone of the process: the
  abbreviation and the offset in force at a Unix time.  A time whose offset is the local one is
  printed with the local abbreviation, any other with its offset in place of an abbreviation.
\<close>

type_synonym zone = "int \<Rightarrow> string \<times> int"

definition time_loc :: "zone \<Rightarrow> instant \<Rightarrow> int option \<Rightarrow> string \<times> int" where
  "time_loc local t z =
     (case z of
        None \<Rightarrow> (''UTC'', 0)
      | Some off \<Rightarrow> if snd (local (fst t)) = off then local (fst t) else ([], off))"

definition offset_str :: "int \<Rightarrow> string" where
  "offset_str off =
     (let m = nat (\<bar>off\<bar> div 60)
      in (if off < 0 \<and> m \<noteq> 0 then ''-'' else ''+'') @ pad 2 (m div 60) @ pad 2 (m mod 60))"

definition time_String :: "zone \<Rightarrow> instant \<times> int option \<Rightarrow> string" where
  "time_String local p =
     (let (t, z) = p; (name, off) = time_loc local t z; sec = fst t + off;
          sod = nat (sec mod 86400); (y, m, d) = civil_of_day (sec div 86400)
      in pad_year y @ ''-'' @ pad 2 m @ ''-'' @ pad 2 d @ '' '' @
         pad 2 (sod div 3600) @ '':'' @ pad 2 (sod mod 3600 div 60) @ '':'' @ pad 2 (sod mod 60) @
         format_frac (snd t) @ '' '' @ offset_str off @ '' '' @
         (if name = [] then offset_str off else name))"

text \<open>The error of \<^verbatim>\<open>time.Parse\<close>; its text names the value that does not parse.\<close>

definition time_ParseError :: "string \<Rightarrow> goerr" where
  "time_ParseError s = Error (''parsing time '' @ s)"

section \<open>The round trip\<close>

lemma nat_str_two: "10 \<le> n \<Longrightarrow> n < 100 \<Longrightarrow> nat_str n = [digit_char (n div 10), digit_char (n mod 10)]"
  by (subst nat_str.simps) (simp add: nat_str.simps [of "n div 10"])

lemma digit_char_0: "digit_char 0 = CHR ''0''"
  using char_of_char [of "CHR ''0''"] by (simp add: digit_char_def)

lemma pad_two: "n < 100 \<Longrightarrow> pad 2 n = [digit_char (n div 10), digit_char (n mod 10)]"
proof (cases "n < 10")
  case True
  then show ?thesis by (simp add: pad_def nat_str.simps [of n] digit_char_0)
next
  case False
  then show "n < 100 \<Longrightarrow> ?thesis" by (simp add: pad_def nat_str_two)
qed

lemma getnum_pad [simp]: "n < 100 \<Longrightarrow> getnum fixed (pad 2 n @ r) = Some (n, r)"
  by (simp add: pad_two)

lemma pad_digits: "list_all is_digit (pad w n)"
proof -
  have "is_digit (CHR ''0'')" by (simp add: is_digit_def byte_def)
  then show ?thesis using nat_str_digits [of n] by (auto simp: pad_def list_all_iff)
qed

lemma digits_val_replicate: "digits_val (replicate k (CHR ''0'')) = 0"
  by (induction k) (simp_all add: digits_val_Cons digit_of_def byte_def)

lemma digits_val_pad [simp]: "digits_val (pad w n) = n"
  by (simp add: pad_def digits_val_append digits_val_replicate)

lemma length_pad: "0 < w \<Longrightarrow> n < 10 ^ w \<Longrightarrow> length (pad w n) = w"
  using length_nat_str [of w n] by (simp add: pad_def)

lemma getyear_pad [simp]:
  assumes "n < 10000" shows "getyear (pad 4 n @ r) = Some (n, r)"
proof -
  have "length (pad 4 n) = 4" using assms by (simp add: length_pad)
  then obtain a b c d where p: "pad 4 n = [a, b, c, d]"
    by (auto simp: length_Suc_conv numeral_eq_Suc)
  with pad_digits [of 4 n] digits_val_pad [of 4 n] show ?thesis by simp
qed

lemma digits_val_strip:
  assumes "ds = rev (dropWhile (\<lambda>c. c = CHR ''0'') (rev xs))"
  shows "digits_val xs = digits_val ds * 10 ^ (length xs - length ds)" and "length ds \<le> length xs"
    and "set ds \<subseteq> set xs"
proof -
  let ?zs = "takeWhile (\<lambda>c. c = CHR ''0'') (rev xs)"
  have zs: "?zs = replicate (length ?zs) (CHR ''0'')"
    by (rule replicate_eqI) (auto dest: set_takeWhileD)
  have "xs = rev (?zs @ dropWhile (\<lambda>c. c = CHR ''0'') (rev xs))"
    unfolding takeWhile_dropWhile_id by simp
  then have "xs = ds @ rev ?zs" unfolding assms rev_append .
  also have "rev ?zs = replicate (length ?zs) (CHR ''0'')" by (subst zs) simp
  finally have xs: "xs = ds @ replicate (length ?zs) (CHR ''0'')" .
  define k where "k = length ?zs"
  have eq: "xs = ds @ replicate k (CHR ''0'')" using xs by (simp only: k_def)
  show "digits_val xs = digits_val ds * 10 ^ (length xs - length ds)"
    unfolding eq by (simp add: digits_val_append digits_val_replicate)
  show "length ds \<le> length xs" and "set ds \<subseteq> set xs" unfolding eq by auto
qed

lemma getfrac_format:
  assumes "ns < 10 ^ 9"
  shows "getfrac (format_frac ns @ ''Z'') = (ns, ''Z'')"
proof -
  define ds where "ds = rev (dropWhile (\<lambda>c. c = CHR ''0'') (rev (pad 9 ns)))"
  note strip = digits_val_strip [OF ds_def]
  have len: "length (pad 9 ns) = 9" using assms by (simp add: length_pad)
  have dig: "list_all is_digit ds"
    using strip(3) pad_digits [of 9 ns] by (auto simp: list_all_iff)
  have Z: "\<not> is_digit (CHR ''Z'')" by (simp add: is_digit_def byte_def)
  have val: "digits_val ds * 10 ^ (9 - length ds) = ns"
    using strip(1) len by simp
  show ?thesis
  proof (cases ds)
    case Nil
    with val show ?thesis unfolding format_frac_def ds_def [symmetric] Let_def by simp
  next
    case (Cons c r)
    from dig have "takeWhile is_digit (ds @ ''Z'') = ds" "dropWhile is_digit (ds @ ''Z'') = ''Z''"
      using Z by (simp_all add: list_all_iff takeWhile_append2 dropWhile_append2)
    moreover have "take 9 ds = ds" using strip(2) len by simp
    ultimately show ?thesis
      unfolding format_frac_def ds_def [symmetric] Let_def using Cons dig val by simp
  qed
qed

definition rfc3339_range :: "instant \<Rightarrow> bool" where
  "rfc3339_range t \<longleftrightarrow> - 62135596800 \<le> fst t \<and> fst t < 253402300800 \<and> snd t < 10 ^ 9"

lemma seconds_of_day:
  fixes s :: nat
  assumes "s < 86400"
  shows "s div 3600 \<le> 23" "s mod 3600 div 60 \<le> 59" "s mod 60 \<le> 59"
    "s div 3600 * 3600 + s mod 3600 div 60 * 60 + s mod 60 = s"
proof -
  show "s div 3600 \<le> 23" "s mod 3600 div 60 \<le> 59" "s mod 60 \<le> 59" using assms by simp_all
  have "s mod 3600 mod 60 = s mod 60" by (simp add: mod_mod_cancel)
  then show "s div 3600 * 3600 + s mod 3600 div 60 * 60 + s mod 60 = s"
    by (metis add.assoc div_mult_mod_eq)
qed

theorem parse_format:
  assumes "rfc3339_range t"
  shows "parse_rfc3339 (format_rfc3339nano t) = Some t"
proof -
  obtain s ns where t: "t = (s, ns)" by fastforce
  define day where "day = s div 86400"
  define sod where "sod = nat (s mod 86400)"
  obtain y m d where civil: "civil_of_day day = (y, m, d)" by (cases "civil_of_day day")
  from assms t have ns: "ns < 10 ^ 9" and s: "- 62135596800 \<le> s" "s < 253402300800"
    by (simp_all add: rfc3339_range_def)
  have "- 719162 \<le> day" "day < 2932897" using s unfolding day_def by simp_all
  with civil have y: "1 \<le> y" "y \<le> 9999" by (auto dest: civil_of_day_year)
  note c = civil_of_day [OF civil]
  have d31: "d \<le> 31" using c days_in_bound [of m y] by linarith
  have sod: "sod < 86400" by (simp add: sod_def nat_less_iff)
  note secs = seconds_of_day [OF sod]
  have whole: "day * 86400 + int sod = s" by (simp add: day_def sod_def)
  have fmt: "format_rfc3339nano t = pad 4 (nat y) @ CHR ''-'' # pad 2 m @ CHR ''-'' # pad 2 d @
      CHR ''T'' # pad 2 (sod div 3600) @ CHR '':'' # pad 2 (sod mod 3600 div 60) @ CHR '':'' #
      pad 2 (sod mod 60) @ format_frac ns @ ''Z''"
    using y by (simp add: format_rfc3339nano_def t day_def [symmetric] sod_def [symmetric] civil pad_year_def)
  have "parse_rfc3339 (format_rfc3339nano t) =
      Some (day_of_civil y m d * 86400 + int (sod div 3600 * 3600 + sod mod 3600 div 60 * 60 + sod mod 60), ns)"
    using y c d31 secs(1-3) getfrac_format [OF ns]
    by (simp add: fmt parse_rfc3339_def parse_rfc3339_zone_def zone_seconds_def)
  then show ?thesis using c(5) secs(4) whole t by simp
qed

end
