(* ===== verification/Dynamo_Filter.thy ===== *)
theory Dynamo_Filter
  imports Go_Regexp Go_Time
begin

text \<open>
  Filters of the v2 API: pkg/apiserver/models/filter.go (the query language
  \<^verbatim>\<open><field>:<operand><value>\<close>) and pkg/database/filter.go (their translation into DynamoDB
  conditions).  The condition builders of the AWS library are the constructors of a datatype;
  what a condition means is decided by DynamoDB and is an argument of the lemmas about it.
\<close>

section \<open>Filter conditions and their query syntax (models/filter.go)\<close>

record FilterCondition =
  fc_Field :: string
  fc_Operand :: string
  fc_Value :: string

definition AllowedOperands :: "string list" where
  "AllowedOperands = [''<'', ''<='', ''='', ''>='', ''>'']"

definition NewFilterCondition :: "string \<Rightarrow> string \<Rightarrow> string \<Rightarrow> FilterCondition" where
  "NewFilterCondition field operand val = \<lparr>fc_Field = field, fc_Operand = operand, fc_Value = val\<rparr>"

lemma NewFilterCondition_simps [simp]:
  "fc_Field (NewFilterCondition f op v) = f" "fc_Operand (NewFilterCondition f op v) = op"
  "fc_Value (NewFilterCondition f op v) = v"
  by (simp_all add: NewFilterCondition_def)

text \<open>The class \<^verbatim>\<open>[a-zA-Z0-9-_.]\<close> and the pattern that is compiled at each call.\<close>

definition field_char :: "char \<Rightarrow> bool" where
  "field_char c \<longleftrightarrow> is_lower c \<or> is_upper c \<or> is_digit c \<or> c \<in> set ''-_.''"

definition query_pattern :: "item list" where
  "query_pattern =
     [Chars field_char 1 None True, OneOf ['':''], OneOf AllowedOperands, Chars not_newline 0 None True]"

definition NewFilterConditionFromQuery :: "string \<Rightarrow> goerr + FilterCondition" where
  "NewFilterConditionFromQuery query =
     (case find_submatch query_pattern 0 query of
        Some [field, colon, operand, val] \<Rightarrow> Inr (NewFilterCondition field operand (trim_space val))
      | _ \<Rightarrow> Inl (Error ''invalid query''))"

section \<open>DynamoDB conditions (database/filter.go)\<close>

datatype dyn_value = Str string | Num int

datatype condition =
    NameEqual string dyn_value
  | NameNotEqual string dyn_value
  | NameLessThan string dyn_value
  | NameLessThanEqual string dyn_value
  | NameGreaterThan string dyn_value
  | NameGreaterThanEqual string dyn_value
  | And condition condition

record DynamoDBFilter =
  conditions :: "FilterCondition list"

definition NewDynamoDBFilter :: DynamoDBFilter where
  "NewDynamoDBFilter = \<lparr>conditions = []\<rparr>"

definition AddCondition :: "DynamoDBFilter \<Rightarrow> FilterCondition \<Rightarrow> DynamoDBFilter" where
  "AddCondition f c = f\<lparr>conditions := conditions f @ [c]\<rparr>"

definition FieldPrefix :: string where
  "FieldPrefix = ''crd.spec.''"

definition parseField :: "string \<Rightarrow> goerr + string" where
  "parseField field =
     Inr (if \<not> has_prefix field FieldPrefix then FieldPrefix @ field else field)"

definition parseOperand :: "string \<Rightarrow> goerr + string" where
  "parseOperand operand =
     (if \<not> list_contains operand AllowedOperands
      then Inl (Error (''invalid operand, must use one of '' @ str_join '', '' AllowedOperands))
      else Inr operand)"

text \<open>
  The value of a comparison that parses as a date is replaced by the text of that date, which
  depends on the time zone of the process.
\<close>

definition parseValue :: "zone \<Rightarrow> string \<Rightarrow> string \<Rightarrow> goerr + dyn_value" where
  "parseValue local val operand =
     (if list_contains operand [''<'', ''<='', ''>='', ''>'']
      then case parse_rfc3339_zone val of
             Some date \<Rightarrow> Inr (Str (time_String local date))
           | None \<Rightarrow> Inr (Str val)
      else Inr (Str val))"

text \<open>One round of the loop of \<^verbatim>\<open>Build\<close>; an operand that no case lists leaves the filter as it is.\<close>

definition add_comparison :: "condition \<Rightarrow> string \<Rightarrow> string \<Rightarrow> dyn_value \<Rightarrow> condition" where
  "add_comparison filt field operand val =
     (if operand = ''='' then And filt (NameEqual field val)
      else if operand = ''>='' then And filt (NameGreaterThanEqual field val)
      else if operand = ''>'' then And filt (NameGreaterThan field val)
      else if operand = ''<='' then And filt (NameLessThanEqual field val)
      else if operand = ''<'' then And filt (NameLessThan field val)
      else filt)"

fun build_loop :: "zone \<Rightarrow> condition \<Rightarrow> FilterCondition list \<Rightarrow> goerr + condition" where
  "build_loop local filt [] = Inr filt"
| "build_loop local filt (c # cs) =
     (case parseField (fc_Field c) of
        Inl err \<Rightarrow> Inl (Wrapped (''failed to parse field '' @ fc_Field c @ '': '') err)
      | Inr field \<Rightarrow>
     (case parseOperand (fc_Operand c) of
        Inl err \<Rightarrow> Inl (Wrapped (''failed to parse operand '' @ fc_Operand c @ '': '') err)
      | Inr operand \<Rightarrow>
     (case parseValue local (fc_Value c) (fc_Operand c) of
        Inl err \<Rightarrow> Inl (Wrapped (''failed to parse value '' @ fc_Value c @ '': '') err)
      | Inr val \<Rightarrow> build_loop local (add_comparison filt field operand val) cs)))"

definition Build :: "zone \<Rightarrow> DynamoDBFilter \<Rightarrow> goerr + condition" where
  "Build local f = build_loop local (NameNotEqual ''status'' (Str [])) (conditions f)"

section \<open>What a filter selects\<close>

text \<open>
  \<open>sat\<close> stands for DynamoDB's evaluation of a condition on an item.  All that the
  translation needs of it is that \<^verbatim>\<open>AND\<close> is a conjunction.
\<close>

definition and_law :: "(condition \<Rightarrow> 'i \<Rightarrow> bool) \<Rightarrow> bool" where
  "and_law sat \<longleftrightarrow> (\<forall>a b i. sat (And a b) i \<longleftrightarrow> sat a i \<and> sat b i)"

text \<open>The specification of one condition of the query language.\<close>

definition atom :: "zone \<Rightarrow> FilterCondition \<Rightarrow> condition" where
  "atom local c =
     (let field = (if has_prefix (fc_Field c) FieldPrefix then fc_Field c else FieldPrefix @ fc_Field c);
          date = Str (case parse_rfc3339_zone (fc_Value c) of
                        Some d \<Rightarrow> time_String local d | None \<Rightarrow> fc_Value c)
      in if fc_Operand c = ''='' then NameEqual field (Str (fc_Value c))
         else if fc_Operand c = ''>='' then NameGreaterThanEqual field date
         else if fc_Operand c = ''>'' then NameGreaterThan field date
         else if fc_Operand c = ''<='' then NameLessThanEqual field date
         else NameLessThan field date)"

lemma build_loop_step:
  assumes "fc_Operand c \<in> set AllowedOperands"
  shows "build_loop local filt (c # cs) = build_loop local (And filt (atom local c)) cs"
proof -
  have "fc_Operand c = ''<'' \<or> fc_Operand c = ''<='' \<or> fc_Operand c = ''='' \<or>
      fc_Operand c = ''>='' \<or> fc_Operand c = ''>''"
    using assms by (simp add: AllowedOperands_def)
  then show ?thesis
    by (elim disjE)
      (simp_all add: parseField_def parseOperand_def parseValue_def atom_def add_comparison_def
        AllowedOperands_def split: option.split)
qed

lemma build_loop_bad:
  assumes "fc_Operand c \<notin> set AllowedOperands"
  shows "\<exists>err. build_loop local filt (c # cs) = Inl err"
  using assms by (simp add: parseField_def parseOperand_def)

lemma build_loop_ok_iff:
  "(\<exists>cond. build_loop local filt cs = Inr cond) \<longleftrightarrow>
     (\<forall>c \<in> set cs. fc_Operand c \<in> set AllowedOperands)"
proof (induction cs arbitrary: filt)
  case Nil
  then show ?case by simp
next
  case (Cons c cs)
  show ?case
  proof (cases "fc_Operand c \<in> set AllowedOperands")
    case True
    then show ?thesis using Cons by (simp add: build_loop_step del: build_loop.simps)
  next
    case False
    then show ?thesis using build_loop_bad [OF False, of local filt cs] by (auto simp del: build_loop.simps)
  qed
qed

lemma build_loop_sat:
  assumes "and_law sat" and "build_loop local filt cs = Inr cond"
  shows "sat cond i \<longleftrightarrow> sat filt i \<and> (\<forall>c \<in> set cs. sat (atom local c) i)"
  using assms(2)
proof (induction cs arbitrary: filt)
  case Nil
  then show ?case by simp
next
  case (Cons c cs)
  have "fc_Operand c \<in> set AllowedOperands"
    using Cons.prems build_loop_ok_iff [of local filt "c # cs"] by (auto simp del: build_loop.simps)
  with Cons show ?case
    using assms(1) by (auto simp: build_loop_step and_law_def simp del: build_loop.simps)
qed

section \<open>What the query parser accepts\<close>

lemma match_any_chars:
  "match_items [Chars not_newline 0 None True] n s = Some [length (takeWhile not_newline s)]"
  by (simp add: greedy_first)

lemma match_operand:
  assumes "match_items [OneOf AllowedOperands, Chars not_newline 0 None True] n s = Some ks"
  shows "\<exists>op \<in> {''<'', ''='', ''>='', ''>''}. prefix op s \<and>
    ks = [length op, length (takeWhile not_newline (drop (length op) s))]"
proof -
  have "prefix ''<='' s \<Longrightarrow> prefix ''<'' s" by (auto simp: prefix_def)
  then show ?thesis using assms
    by (auto simp: AllowedOperands_def match_any_chars simp del: match_items.simps(2)
      simp: match_items.simps(2) [of "OneOf _"] split: if_splits)
qed

lemma match_operand_first:
  assumes "op \<in> {''<'', ''='', ''>='', ''>''}" and "op = ''>'' \<longrightarrow> \<not> prefix ''='' v"
  shows "match_items [OneOf AllowedOperands, Chars not_newline 0 None True] n (op @ v) =
    Some [length op, length (takeWhile not_newline v)]"
  using assms
  by (auto simp: AllowedOperands_def match_any_chars simp del: match_items.simps(2)
      simp: match_items.simps(2) [of "OneOf _"])

lemma match_query:
  assumes "f \<noteq> []" and "list_all field_char f"
  shows "match_items query_pattern n (f @ CHR '':'' # r) =
    map_option (\<lambda>ks. length f # 1 # ks)
      (match_items [OneOf AllowedOperands, Chars not_newline 0 None True] (n + length f + 1) r)"
proof -
  let ?s = "f @ CHR '':'' # r"
  let ?tail = "[OneOf AllowedOperands, Chars not_newline 0 None True]"
  let ?g = "\<lambda>k. map_option ((#) k) (match_items (OneOf ['':''] # ?tail) (n + k) (drop k ?s))"
  have colon: "\<not> field_char (CHR '':'')" by (simp add: field_char_def is_lower_def is_upper_def is_digit_def byte_def)
  then have tw: "takeWhile field_char ?s = f"
    using assms(2) by (simp add: takeWhile_append list_all_iff)
  have "match_items query_pattern n ?s = find_some ?g (length f # rev [1 ..< length f])"
    using assms(1) tw by (simp add: query_pattern_def greedy_first Suc_le_eq)
  also have "\<dots> = ?g (length f)"
  proof (rule find_some_head)
    fix k assume "k \<in> set (rev [1 ..< length f])"
    then have k: "k < length f" by simp
    then have "drop k ?s = f ! k # drop (Suc k) f @ CHR '':'' # r" by (simp add: Cons_nth_drop_Suc)
    moreover have "f ! k \<noteq> CHR '':''" using assms(2) k colon by (auto simp: list_all_length)
    ultimately show "?g k = None" by simp
  qed
  also have "\<dots> = map_option (\<lambda>ks. length f # 1 # ks) (match_items ?tail (n + length f + 1) r)"
    by (simp add: option.map_comp comp_def del: match_items.simps(2)
        add: match_items.simps(2) [of "OneOf ['':'']"] split: option.split)
  finally show ?thesis .
qed

lemma match_query_shape:
  assumes "match_items query_pattern n s = Some ks"
  shows "\<exists>i op. op \<in> {''<'', ''='', ''>='', ''>''} \<and> 1 \<le> i \<and> list_all field_char (take i s) \<and>
    i \<le> length s \<and> prefix op (drop (Suc i) s) \<and>
    ks = [i, 1, length op, length (takeWhile not_newline (drop (Suc i + length op) s))]"
proof -
  let ?tail = "[OneOf AllowedOperands, Chars not_newline 0 None True]"
  from assms obtain i ks1 where i: "i \<in> set (item_lengths (Chars field_char 1 None True) n s)"
    and ks: "ks = i # ks1" and m1: "match_items (OneOf ['':''] # ?tail) (n + i) (drop i s) = Some ks1"
    unfolding query_pattern_def by (blast dest: match_items_ConsD)
  from match_items_ConsD [OF m1] obtain ks2 where ks1: "ks1 = 1 # ks2"
    and m2: "match_items ?tail (n + i + 1) (drop (Suc i) s) = Some ks2"
    by (auto split: if_splits simp del: match_items.simps(2))
  from match_operand [OF m2] obtain op where "op \<in> {''<'', ''='', ''>='', ''>''}"
      "prefix op (drop (Suc i) s)"
      "ks2 = [length op, length (takeWhile not_newline (drop (length op) (drop (Suc i) s)))]"
    by blast
  then show ?thesis using i ks ks1
    by (intro exI [of _ i] exI [of _ op]) (simp add: add.commute)
qed

text \<open>
  C28. A query that prints a field, an operand and a value is parsed back to that condition, for
  every operand but \<^verbatim>\<open><=\<close>, when the field consists of allowed characters, and the value has no
  white space at its ends, no line break, and does not turn \<^verbatim>\<open>>\<close> into \<^verbatim>\<open>>=\<close>.
\<close>

theorem query_roundtrip:
  assumes "f \<noteq> []" and "list_all field_char f"
    and "op \<in> {''<'', ''='', ''>='', ''>''}" and "op = ''>'' \<longrightarrow> \<not> prefix ''='' v"
    and "list_all not_newline v" and "trimmed v"
  shows "NewFilterConditionFromQuery (f @ '':'' @ op @ v) = Inr (NewFilterCondition f op v)"
proof -
  have "takeWhile not_newline v = v" using assms(5) by (simp add: takeWhile_eq_all_conv list_all_iff)
  then have "match_items query_pattern 0 (f @ CHR '':'' # op @ v) =
      Some [length f, 1, length op, length v]"
    by (simp only: match_query [OF assms(1,2)] match_operand_first [OF assms(3,4)] option.map)
  then have "find_submatch query_pattern 0 (f @ CHR '':'' # op @ v) = Some [f, '':'', op, v]"
    by (simp add: find_submatch_here)
  then show ?thesis using assms(6) by (simp add: NewFilterConditionFromQuery_def trim_space_id)
qed

theorem query_roundtrip_witness:
  "NewFilterConditionFromQuery ''status:=Active'' = Inr (NewFilterCondition ''status'' ''='' ''Active'')"
proof -
  have "list_all field_char ''status''"
    by (simp add: field_char_def is_lower_def byte_def)
  moreover have "list_all not_newline ''Active''" by (simp add: not_newline_def byte_def)
  moreover have "trimmed ''Active''" by code_simp
  ultimately show ?thesis using query_roundtrip [of "''status''" "''=''" "''Active''"] by simp
qed

lemma query_condition_shape:
  assumes "NewFilterConditionFromQuery q = Inr c"
  shows "fc_Operand c \<in> {''<'', ''='', ''>='', ''>''} \<and> fc_Field c \<noteq> [] \<and>
    list_all field_char (fc_Field c)"
proof -
  from assms obtain f colon op v where found: "find_submatch query_pattern 0 q = Some [f, colon, op, v]"
    and c: "c = NewFilterCondition f op (trim_space v)"
    by (auto simp: NewFilterConditionFromQuery_def split: option.splits list.splits)
  from find_submatch_SomeD [OF found] obtain m ks
    where m: "match_items query_pattern m (drop m q) = Some ks"
      and ws: "[f, colon, op, v] = pieces ks (drop m q)" by auto
  from match_query_shape [OF m] ws c show ?thesis
    by (auto simp: prefix_def)
qed

text \<open>
  Every condition that the parser accepts has a nonempty field of allowed characters and one
  of the operands \<^verbatim>\<open><\<close>, \<^verbatim>\<open>=\<close>, \<^verbatim>\<open>>=\<close> and \<^verbatim>\<open>>\<close>: the allowed operand \<^verbatim>\<open><=\<close> cannot be asked for,
  because the alternative \<^verbatim>\<open><\<close> stands before it in the pattern.
\<close>

theorem query_operands:
  assumes "NewFilterConditionFromQuery q = Inr c"
  shows "fc_Operand c \<in> {''<'', ''='', ''>='', ''>''} \<and> fc_Field c \<noteq> [] \<and>
    list_all field_char (fc_Field c)"
  by (rule query_condition_shape [OF assms])

theorem query_operands_witness:
  "fc_Operand (NewFilterCondition ''a'' ''<'' ''=1'') \<in> {''<'', ''='', ''>='', ''>''} \<and>
   NewFilterConditionFromQuery ''a:<=1'' = Inr (NewFilterCondition ''a'' ''<'' ''=1'')"
proof -
  have "NewFilterConditionFromQuery ''a:<=1'' = Inr (NewFilterCondition ''a'' ''<'' ''=1'')"
    by code_simp
  with query_operands [OF this] show ?thesis by blast
qed

section \<open>A concrete evaluation of conditions\<close>

text \<open>
  An evaluation for items that are attribute maps: a comparison holds when the attribute is there,
  has the type of the operand and compares as asked for.
\<close>

fun str_less :: "string \<Rightarrow> string \<Rightarrow> bool" where
  "str_less s [] = False"
| "str_less [] (y # ys) = True"
| "str_less (x # xs) (y # ys) = (byte x < byte y \<or> x = y \<and> str_less xs ys)"

fun dyn_less :: "dyn_value \<Rightarrow> dyn_value \<Rightarrow> bool" where
  "dyn_less (Str a) (Str b) = str_less a b"
| "dyn_less (Num a) (Num b) = (a < b)"
| "dyn_less _ _ = False"

fun cond_holds :: "condition \<Rightarrow> (string \<Rightarrow> dyn_value option) \<Rightarrow> bool" where
  "cond_holds (NameEqual n v) it = (it n = Some v)"
| "cond_holds (NameNotEqual n v) it = (it n \<noteq> Some v)"
| "cond_holds (NameLessThan n v) it = (case it n of None \<Rightarrow> False | Some u \<Rightarrow> dyn_less u v)"
| "cond_holds (NameLessThanEqual n v) it = (case it n of None \<Rightarrow> False | Some u \<Rightarrow> u = v \<or> dyn_less u v)"
| "cond_holds (NameGreaterThan n v) it = (case it n of None \<Rightarrow> False | Some u \<Rightarrow> dyn_less v u)"
| "cond_holds (NameGreaterThanEqual n v) it = (case it n of None \<Rightarrow> False | Some u \<Rightarrow> u = v \<or> dyn_less v u)"
| "cond_holds (And a b) it = (cond_holds a it \<and> cond_holds b it)"

lemma and_law_cond_holds: "and_law cond_holds"
  by (simp add: and_law_def)

text \<open>
  C18. \<^verbatim>\<open>Build\<close> fails exactly when some operand is not allowed.  Otherwise the condition it builds
  selects the items whose status is not empty and that satisfy every condition of the filter,
  whatever way DynamoDB evaluates single comparisons.
\<close>

theorem Build_correct:
  assumes "and_law sat"
  shows "if \<forall>c \<in> set (conditions f). fc_Operand c \<in> set AllowedOperands
    then \<exists>cond. Build local f = Inr cond \<and>
      (\<forall>i. sat cond i \<longleftrightarrow>
        sat (NameNotEqual ''status'' (Str [])) i \<and> (\<forall>c \<in> set (conditions f). sat (atom local c) i))
    else \<exists>err. Build local f = Inl err"
proof (cases "Build local f")
  case (Inl err)
  then show ?thesis using build_loop_ok_iff unfolding Build_def by (metis Inl_Inr_False)
next
  case (Inr cond)
  then have "\<forall>c \<in> set (conditions f). fc_Operand c \<in> set AllowedOperands"
    using build_loop_ok_iff unfolding Build_def by blast
  with Inr show ?thesis using build_loop_sat [OF assms] unfolding Build_def by auto
qed

definition example_filter :: DynamoDBFilter where
  "example_filter = AddCondition NewDynamoDBFilter (NewFilterCondition ''cloudType'' ''='' ''azure'')"

theorem Build_correct_witness:
  "\<exists>cond. Build (\<lambda>_. (''UTC'', 0)) example_filter = Inr cond \<and>
     cond_holds cond [''status'' \<mapsto> Str ''Active'', ''crd.spec.cloudType'' \<mapsto> Str ''azure''] \<and>
     \<not> cond_holds cond [''status'' \<mapsto> Str ''Active'', ''crd.spec.cloudType'' \<mapsto> Str ''aws'']"
proof -
  have cs: "conditions example_filter = [NewFilterCondition ''cloudType'' ''='' ''azure'']"
    by (simp add: example_filter_def AddCondition_def NewDynamoDBFilter_def)
  have a: "atom (\<lambda>_. (''UTC'', 0)) (NewFilterCondition ''cloudType'' ''='' ''azure'') =
      NameEqual ''crd.spec.cloudType'' (Str ''azure'')"
    by code_simp
  show ?thesis
    using Build_correct [OF and_law_cond_holds, of example_filter "\<lambda>_. (''UTC'', 0)"]
    by (auto simp: cs a AllowedOperands_def)
qed

end
