(* ===== verification/Registry_Types.thy ===== *)
theory Registry_Types
  imports Go_Runtime
begin

text \<open>
  The data of the registry: the \<^verbatim>\<open>Cluster\<close> custom resource (pkg/api/registry/v1), the
  \<^verbatim>\<open>ClusterSync\<close> and \<^verbatim>\<open>ServiceMetadataWatcher\<close> resources (pkg/api/registry/v1alpha1).  A struct is a record whose fields carry a
  prefix for the struct and the source's field name.  A \<^verbatim>\<open>map[K]V\<close> is a partial function (a nil
  map reads like an empty one), a slice is a list, a pointer is an option.
\<close>

type_synonym str_map = "string \<rightharpoonup> string"

section \<open>The Cluster resource\<close>

record APIServer =
  api_Endpoint :: string
  api_CertificateAuthorityData :: string

record AllowedOnboardingTeam =
  team_Name :: string
  team_GitTeams :: "string list"
  team_LdapGroups :: "string list"

record Extra =
  extra_DomainName :: string
  extra_LbEndpoints :: str_map
  extra_LoggingEndpoints :: "str_map list"
  extra_EcrIamArns :: "string \<rightharpoonup> string list"
  extra_EgressPorts :: string
  extra_NFSInfo :: "str_map list"
  extra_ExtendedRegion :: string
  extra_OidcIssuer :: string
  extra_NamespaceProfileInfraType :: string

record Tier =
  tier_Name :: string
  tier_InstanceType :: string
  tier_ContainerRuntime :: string
  tier_MinCapacity :: int
  tier_MaxCapacity :: int
  tier_Labels :: str_map
  tier_Taints :: "string list"
  tier_EnableKataSupport :: bool
  tier_KernelParameters :: str_map

record VirtualNetwork =
  vnet_ID :: string
  vnet_Cidrs :: "string list"

record PeerVirtualNetwork =
  peer_ID :: string
  peer_Cidrs :: "string list"
  peer_OwnerID :: string

record Capacity =
  cap_LastUpdated :: string
  cap_ClusterCapacity :: int
  cap_ClusterProvisioning :: int
  cap_MaxBQUPerRequest :: int
  cap_ClusterMaxBQU :: int
  cap_ClusterCurrentBQU :: int

type_synonym ServiceMetadataMap = "string \<rightharpoonup> string"
type_synonym ServiceMetadataItem = "string \<rightharpoonup> ServiceMetadataMap"
type_synonym ServiceMetadata = "string \<rightharpoonup> ServiceMetadataItem"

record AvailabilityZone =
  az_Name :: string
  az_ID :: string

record ClusterSpec =
  cs_Name :: string
  cs_ShortName :: string
  cs_APIServer :: APIServer
  cs_Region :: string
  cs_CloudType :: string
  cs_CloudProviderRegion :: string
  cs_Environment :: string
  cs_BusinessUnit :: string
  cs_ChargebackBusinessUnit :: string
  cs_ChargedBack :: "bool option"
  cs_ManagingOrg :: string
  cs_Offering :: "string list"
  cs_AccountID :: string
  cs_Tiers :: "Tier list"
  cs_VirtualNetworks :: "VirtualNetwork list"
  cs_RegisteredAt :: string
  cs_Status :: string
  cs_Phase :: string
  cs_MaintenanceGroup :: string
  cs_ArgoInstance :: string
  cs_Type :: string
  cs_Extra :: Extra
  cs_AllowedOnboardingTeams :: "AllowedOnboardingTeam list"
  cs_Capabilities :: "string list"
  cs_PeerVirtualNetworks :: "PeerVirtualNetwork list"
  cs_LastUpdated :: string
  cs_Tags :: str_map
  cs_Capacity :: Capacity
  cs_ServiceMetadata :: ServiceMetadata
  cs_AvailabilityZones :: "AvailabilityZone list"

text \<open>The object metadata of Kubernetes, as far as the program reads or writes it.\<close>

record ObjectMeta =
  meta_Name :: string
  meta_Namespace :: string
  meta_Labels :: str_map
  meta_Annotations :: str_map
  meta_ResourceVersion :: string
  meta_ManagedFields :: "string list"
  meta_DeletionTimestamp :: "(int \<times> int) option"

record Cluster =
  cl_Meta :: ObjectMeta
  cl_Spec :: ClusterSpec

text \<open>The zero values of these structs, as \<^verbatim>\<open>new(T)\<close> or \<^verbatim>\<open>T{}\<close> gives them.\<close>

definition zero_APIServer :: APIServer where
  "zero_APIServer = \<lparr>api_Endpoint = [], api_CertificateAuthorityData = []\<rparr>"

definition zero_Extra :: Extra where
  "zero_Extra = \<lparr>extra_DomainName = [], extra_LbEndpoints = Map.empty, extra_LoggingEndpoints = [],
     extra_EcrIamArns = Map.empty, extra_EgressPorts = [], extra_NFSInfo = [],
     extra_ExtendedRegion = [], extra_OidcIssuer = [], extra_NamespaceProfileInfraType = []\<rparr>"

definition zero_Tier :: Tier where
  "zero_Tier = \<lparr>tier_Name = [], tier_InstanceType = [], tier_ContainerRuntime = [],
     tier_MinCapacity = 0, tier_MaxCapacity = 0, tier_Labels = Map.empty, tier_Taints = [],
     tier_EnableKataSupport = False, tier_KernelParameters = Map.empty\<rparr>"

definition zero_Capacity :: Capacity where
  "zero_Capacity = \<lparr>cap_LastUpdated = [], cap_ClusterCapacity = 0, cap_ClusterProvisioning = 0,
     cap_MaxBQUPerRequest = 0, cap_ClusterMaxBQU = 0, cap_ClusterCurrentBQU = 0\<rparr>"

definition zero_ClusterSpec :: ClusterSpec where
  "zero_ClusterSpec = \<lparr>cs_Name = [], cs_ShortName = [], cs_APIServer = zero_APIServer, cs_Region = [],
     cs_CloudType = [], cs_CloudProviderRegion = [], cs_Environment = [], cs_BusinessUnit = [],
     cs_ChargebackBusinessUnit = [], cs_ChargedBack = None, cs_ManagingOrg = [], cs_Offering = [],
     cs_AccountID = [], cs_Tiers = [], cs_VirtualNetworks = [], cs_RegisteredAt = [], cs_Status = [],
     cs_Phase = [], cs_MaintenanceGroup = [], cs_ArgoInstance = [], cs_Type = [],
     cs_Extra = zero_Extra, cs_AllowedOnboardingTeams = [], cs_Capabilities = [],
     cs_PeerVirtualNetworks = [], cs_LastUpdated = [], cs_Tags = Map.empty,
     cs_Capacity = zero_Capacity, cs_ServiceMetadata = Map.empty, cs_AvailabilityZones = []\<rparr>"

definition zero_ObjectMeta :: ObjectMeta where
  "zero_ObjectMeta = \<lparr>meta_Name = [], meta_Namespace = [], meta_Labels = Map.empty,
     meta_Annotations = Map.empty, meta_ResourceVersion = [], meta_ManagedFields = [],
     meta_DeletionTimestamp = None\<rparr>"

definition zero_Cluster :: Cluster where
  "zero_Cluster = \<lparr>cl_Meta = zero_ObjectMeta, cl_Spec = zero_ClusterSpec\<rparr>"

lemmas zero_defs = zero_APIServer_def zero_Extra_def zero_Tier_def zero_Capacity_def
  zero_ClusterSpec_def zero_ObjectMeta_def zero_Cluster_def

text \<open>Short names for the two fields of a stored cluster that every component reads.\<close>

abbreviation cluster_name :: "Cluster \<Rightarrow> string" where
  "cluster_name c \<equiv> cs_Name (cl_Spec c)"

abbreviation set_spec :: "(ClusterSpec \<Rightarrow> ClusterSpec) \<Rightarrow> Cluster \<Rightarrow> Cluster" where
  "set_spec f c \<equiv> c\<lparr>cl_Spec := f (cl_Spec c)\<rparr>"

section \<open>ClusterSync and ServiceMetadataWatcher\<close>

text \<open>A point in time, in seconds and nanoseconds.\<close>

type_synonym timestamp = "int \<times> int"

text \<open>A label selector: required labels, and expressions that a library interprets.\<close>

record LabelSelector =
  sel_MatchLabels :: "(string \<times> string) list"
  sel_MatchExpressions :: "(string \<times> string \<times> string list) list"

record WatchedResource =
  wr_Kind :: string
  wr_APIVersion :: string
  wr_Namespace :: string
  wr_Name :: string
  wr_LabelSelector :: "LabelSelector option"

record ClusterSyncSpec =
  css_WatchedResources :: "WatchedResource list"
  css_InitialData :: string

record ClusterSyncStatus =
  sst_LastSyncTime :: "timestamp option"
  sst_LastSyncStatus :: "string option"
  sst_LastSyncError :: "string option"
  sst_SyncedData :: "string option"
  sst_SyncedDataHash :: "string option"

record ClusterSync =
  sync_Meta :: ObjectMeta
  sync_Spec :: ClusterSyncSpec
  sync_Status :: ClusterSyncStatus

record ObjectReference =
  ref_Name :: string
  ref_APIVersion :: string
  ref_Kind :: string

record WatchedField =
  wf_Source :: string
  wf_Destination :: string

record WatchedServiceObject =
  wso_ObjectReference :: ObjectReference
  wso_WatchedFields :: "WatchedField list"

record WatchedServiceObjectStatus =
  wos_LastUpdated :: timestamp
  wos_ObjectReference :: ObjectReference
  wos_Errors :: "string list"

record ServiceMetadataWatcherSpec =
  smws_WatchedServiceObjects :: "WatchedServiceObject list"

record ServiceMetadataWatcherStatus =
  smwt_WatchedServiceObjects :: "WatchedServiceObjectStatus list"

record ServiceMetadataWatcher =
  smw_Meta :: ObjectMeta
  smw_Spec :: ServiceMetadataWatcherSpec
  smw_Status :: ServiceMetadataWatcherStatus

definition ObjectReference_String :: "ObjectReference \<Rightarrow> string" where
  "ObjectReference_String r = ref_Name r @ ''/'' @ ref_APIVersion r @ ''/'' @ ref_Kind r"

section \<open>Group, version and kind\<close>

text \<open>The Kubernetes library splits an API version into group and version: the argument \<open>parse\<close>.\<close>

record GroupVersionKind =
  gvk_Group :: string
  gvk_Version :: string
  gvk_Kind :: string

type_synonym parse_gv = "string \<Rightarrow> goerr + string \<times> string"

definition WatchedResource_GVK :: "parse_gv \<Rightarrow> WatchedResource \<Rightarrow> goerr + GroupVersionKind" where
  "WatchedResource_GVK parse res =
     (case parse (wr_APIVersion res) of
        Inl err \<Rightarrow> Inl err
      | Inr (g, v) \<Rightarrow> Inr \<lparr>gvk_Group = g, gvk_Version = v, gvk_Kind = wr_Kind res\<rparr>)"

end
