(* ===== verification/Database.thy ===== *)
theory Database
  imports Dynamo_Filter Registry_Types
begin

text \<open>
  pkg/database/database.go: the \<^verbatim>\<open>Db\<close> of the API server on top of DynamoDB.  The calls of the AWS
  library are the fields of a record of functions, an argument of every operation; each takes
  the state of the outside world and returns a new one.  The metrics that an operation records
  are a list of events, the latest first.
\<close>

section \<open>The AWS library\<close>

record ClusterDb =
  cd_TablePartitionKey :: string
  cd_IndexPartitionKey :: string
  cd_Region :: string
  cd_Environment :: string
  cd_Status :: string
  cd_LastUpdatedUnix :: int
  cd_Cluster :: "Cluster option"

text \<open>\<^verbatim>\<open>QueryInput\<close> and \<^verbatim>\<open>ScanInput\<close>; a scan has no key condition.\<close>

record 'key PageInput =
  in_TableName :: string
  in_IndexName :: string
  in_KeyCondition :: "condition option"
  in_Filter :: condition
  in_ExclusiveStartKey :: "'key option"

record ('item, 'key) PageOutput =
  out_Items :: "'item list"
  out_LastEvaluatedKey :: "'key option"

record ('w, 'item, 'key) dynamo_api =
  DescribeTable :: "string \<Rightarrow> 'w \<Rightarrow> goerr option \<times> 'w"
  GetItem :: "string \<Rightarrow> string \<Rightarrow> 'w \<Rightarrow> (goerr + 'item option) \<times> 'w"
  PutItem :: "string \<Rightarrow> 'item \<Rightarrow> 'w \<Rightarrow> goerr option \<times> 'w"
  DeleteItem :: "string \<Rightarrow> string \<Rightarrow> 'w \<Rightarrow> goerr option \<times> 'w"
  Query :: "'key PageInput \<Rightarrow> 'w \<Rightarrow> (goerr + ('item, 'key) PageOutput) \<times> 'w"
  Scan :: "'key PageInput \<Rightarrow> 'w \<Rightarrow> (goerr + ('item, 'key) PageOutput) \<times> 'w"
  MarshalMap :: "ClusterDb \<Rightarrow> goerr + 'item"
  UnmarshalMap :: "'item \<Rightarrow> goerr + ClusterDb"
  ExprBuild :: "condition option \<Rightarrow> condition \<Rightarrow> goerr option"

section \<open>The state of a database client\<close>

record dbTable =
  tbl_name :: string
  tbl_partitionKey :: string
  tbl_searchKey :: string

record ('w, 'item, 'key) db =
  dbAPI :: "('w, 'item, 'key) dynamo_api"
  db_table :: dbTable
  db_index :: dbTable

text \<open>The metrics interface \<^verbatim>\<open>MetricsI\<close>, as the calls made on it; durations are not recorded.\<close>

datatype metric = EgressRequestCnt string | EgressRequestDur string | ErrorCnt string

record 'w dbst =
  world :: 'w
  metrics :: "metric list"

definition egressTarget :: string where
  "egressTarget = ''database''"

definition record_metric :: "metric \<Rightarrow> 'w dbst \<Rightarrow> 'w dbst" where
  "record_metric m st = st\<lparr>metrics := m # metrics st\<rparr>"

text \<open>A call of the service followed by the two egress metrics.\<close>

definition egress_call :: "('w \<Rightarrow> 'r \<times> 'w) \<Rightarrow> 'w dbst \<Rightarrow> 'r \<times> 'w dbst" where
  "egress_call f st =
     (let (r, w) = f (world st)
      in (r, record_metric (EgressRequestDur egressTarget)
               (record_metric (EgressRequestCnt egressTarget) (st\<lparr>world := w\<rparr>))))"

definition NewDb :: "string \<Rightarrow> string \<Rightarrow> ('w, 'item, 'key) dynamo_api \<Rightarrow> ('w, 'item, 'key) db" where
  "NewDb dbTableName dbIndexName d =
     \<lparr>dbAPI = d,
      db_table = \<lparr>tbl_name = dbTableName, tbl_partitionKey = ''name'', tbl_searchKey = []\<rparr>,
      db_index = \<lparr>tbl_name = dbIndexName, tbl_partitionKey = ''kind'', tbl_searchKey = ''name''\<rparr>\<rparr>"

section \<open>Single-item operations\<close>

definition Status :: "('w, 'item, 'key) db \<Rightarrow> 'w dbst \<Rightarrow> goerr option \<times> 'w dbst" where
  "Status d st =
     (case DescribeTable (dbAPI d) (tbl_name (db_table d)) (world st) of
        (Some err, w) \<Rightarrow>
          (Some (Quoted ''Connectivity check using DescribeTable failed. Error: '' err []),
           record_metric (ErrorCnt egressTarget) (st\<lparr>world := w\<rparr>))
      | (None, w) \<Rightarrow> (None, st\<lparr>world := w\<rparr>))"

definition GetCluster ::
  "('w, 'item, 'key) db \<Rightarrow> string \<Rightarrow> 'w dbst \<Rightarrow> (Cluster option \<times> goerr option) \<times> 'w dbst" where
  "GetCluster d name st =
     (case egress_call (GetItem (dbAPI d) (tbl_name (db_table d)) name) st of
        (Inl err, st) \<Rightarrow>
          ((None, Some (Quoted (''Cannot get cluster '' @ quoted name @ '' from the database. Error: '') err [])), st)
      | (Inr None, st) \<Rightarrow> ((None, None), st)
      | (Inr (Some item), st) \<Rightarrow>
          (case UnmarshalMap (dbAPI d) item of
             Inl err \<Rightarrow> ((None, Some (Quoted (''Cannot unmarshal cluster '' @ quoted name @ '': '') err [])), st)
           | Inr clusterDb \<Rightarrow> ((cd_Cluster clusterDb, None), st)))"

text \<open>
  \<^verbatim>\<open>PutCluster\<close> writes through its pointer argument, so the cluster as the caller sees it
  afterwards is part of the result.
\<close>

definition PutCluster ::
  "('w, 'item, 'key) db \<Rightarrow> Cluster \<Rightarrow> 'w dbst \<Rightarrow> (goerr option \<times> Cluster) \<times> 'w dbst" where
  "PutCluster d cluster st =
     (case parse_rfc3339 (cs_LastUpdated (cl_Spec cluster)) of
        None \<Rightarrow>
          ((Some (Quoted (''Error converting lastUpdated parameter to RFC3339 for cluster '' @
                           cluster_name cluster @ '': '')
                          (time_ParseError (cs_LastUpdated (cl_Spec cluster))) ''.''), cluster), st)
      | Some lastUpdated \<Rightarrow>
          (let ((existingCluster, _), st) = GetCluster d (cluster_name cluster) st;
               cluster = (case existingCluster of
                            None \<Rightarrow> cluster
                          | Some old \<Rightarrow>
                              set_spec (cs_RegisteredAt_update (\<lambda>_. cs_RegisteredAt (cl_Spec old))) cluster)
           in case MarshalMap (dbAPI d)
                     \<lparr>cd_TablePartitionKey = cluster_name cluster,
                      cd_IndexPartitionKey = ''cluster'',
                      cd_Region = cs_Region (cl_Spec cluster),
                      cd_Environment = cs_Environment (cl_Spec cluster),
                      cd_Status = cs_Status (cl_Spec cluster),
                      cd_LastUpdatedUnix = fst lastUpdated,
                      cd_Cluster = Some cluster\<rparr> of
                Inl err \<Rightarrow>
                  ((Some (Error (''Cannot marshal cluster '' @ quoted (cluster_name cluster) @
                                 '' into AttributeValue map.'')), cluster), st)
              | Inr clusterDb \<Rightarrow>
                  (case egress_call (PutItem (dbAPI d) (tbl_name (db_table d)) clusterDb) st of
                     (Some err, st) \<Rightarrow>
                       ((Some (Quoted (''Cluster '' @ quoted (cluster_name cluster) @
                           '' cannot be updated or created in the database. Error: '') err []), cluster), st)
                   | (None, st) \<Rightarrow> ((None, cluster), st))))"

definition DeleteCluster ::
  "('w, 'item, 'key) db \<Rightarrow> string \<Rightarrow> 'w dbst \<Rightarrow> goerr option \<times> 'w dbst" where
  "DeleteCluster d name st =
     (case egress_call (DeleteItem (dbAPI d) (tbl_name (db_table d)) name) st of
        (Some err, st) \<Rightarrow>
          (Some (Wrapped (''Error while deleting cluster '' @ name @ '' from db: '') err), st)
      | (None, st) \<Rightarrow> (None, st))"

section \<open>Listing\<close>

text \<open>
  The items of one page: an item that cannot be decoded ends the operation with an error, an
  item without a cluster panics at the dereference \<^verbatim>\<open>*item.Cluster\<close>.
\<close>

fun add_items ::
  "('item \<Rightarrow> goerr + ClusterDb) \<Rightarrow> Cluster list \<Rightarrow> 'item list \<Rightarrow> (goerr + Cluster list) run" where
  "add_items unm clusters [] = Ret (Inr clusters)"
| "add_items unm clusters (i # is) =
     (case unm i of
        Inl err \<Rightarrow> Ret (Inl (Quoted ''Error when trying to unmarshal cluster: '' err ''.''))
      | Inr item \<Rightarrow>
          (case cd_Cluster item of
             None \<Rightarrow> Panic ''nil pointer dereference''
           | Some c \<Rightarrow> add_items unm (clusters @ [c]) is))"

text \<open>
  The loop over the pages of a query or a scan.  It ends when a page has no last evaluated key,
  so it may run forever: then the value is \<open>None\<close>.
\<close>

partial_function (option) page_loop ::
  "('key PageInput \<Rightarrow> 'w \<Rightarrow> (goerr + ('item, 'key) PageOutput) \<times> 'w) \<Rightarrow> string \<Rightarrow>
   ('item \<Rightarrow> goerr + ClusterDb) \<Rightarrow> 'key PageInput \<Rightarrow> Cluster list \<Rightarrow> 'w dbst \<Rightarrow>
   ((goerr + Cluster list) run \<times> 'w dbst) option" where
  "page_loop fetch msg unm inp clusters st =
     (case egress_call (fetch inp) st of
        (Inl err, st) \<Rightarrow> Some (Ret (Inl (Quoted msg err ''.'')), st)
      | (Inr result, st) \<Rightarrow>
          (case add_items unm clusters (out_Items result) of
             Panic p \<Rightarrow> Some (Panic p, st)
           | Ret (Inl err) \<Rightarrow> Some (Ret (Inl err), st)
           | Ret (Inr clusters) \<Rightarrow>
               (case out_LastEvaluatedKey result of
                  None \<Rightarrow> Some (Ret (Inr clusters), st)
                | Some key \<Rightarrow>
                    page_loop fetch msg unm (inp\<lparr>in_ExclusiveStartKey := Some key\<rparr>) clusters st)))"

definition page_input ::
  "('w, 'item, 'key) db \<Rightarrow> condition option \<Rightarrow> condition \<Rightarrow> 'key PageInput" where
  "page_input d keyCondition filt =
     \<lparr>in_TableName = tbl_name (db_table d), in_IndexName = tbl_name (db_index d),
      in_KeyCondition = keyCondition, in_Filter = filt, in_ExclusiveStartKey = None\<rparr>"

definition query_pages where
  "query_pages d inp st =
     page_loop (Query (dbAPI d)) ''DynamonDB API query call failed: '' (UnmarshalMap (dbAPI d)) inp [] st"

definition scan_pages where
  "scan_pages d inp st =
     page_loop (Scan (dbAPI d)) ''DynamoDB API scan call failed: '' (UnmarshalMap (dbAPI d)) inp [] st"

text \<open>The four results of a listing: the clusters, their number, whether there are more, the error.\<close>

type_synonym listing = "Cluster list \<times> int \<times> bool \<times> goerr option"

definition list_error :: "goerr \<Rightarrow> listing" where
  "list_error err = ([], 0, False, Some err)"

text \<open>The part of the clusters that was asked for; \<^verbatim>\<open>int\<close> has 64 bits.\<close>

definition paginate :: "Cluster list \<Rightarrow> int \<Rightarrow> int \<Rightarrow> listing run" where
  "paginate clusters offset limit =
     (let count = int (length clusters);
          endIndex = wrap64 (offset + limit);
          endIndex = (if endIndex > count then count else endIndex);
          more = (if endIndex < count then True else False)
      in run_map (\<lambda>cs. (cs, wrap64 (endIndex - offset), more, None)) (slice_range clusters offset endIndex))"

definition finish_listing ::
  "int \<Rightarrow> int \<Rightarrow> ((goerr + Cluster list) run \<times> 'w dbst) option \<Rightarrow> (listing run \<times> 'w dbst) option" where
  "finish_listing offset limit loop =
     (case loop of
        None \<Rightarrow> None
      | Some (Panic p, st) \<Rightarrow> Some (Panic p, st)
      | Some (Ret (Inl err), st) \<Rightarrow> Some (Ret (list_error err), st)
      | Some (Ret (Inr clusters), st) \<Rightarrow> Some (paginate clusters offset limit, st))"

definition list_filter :: "string \<Rightarrow> string \<Rightarrow> string \<Rightarrow> string \<Rightarrow> goerr + condition" where
  "list_filter region environment status lastUpdated =
     (let f = (if status \<noteq> [] then NameEqual ''status'' (Str status)
               else NameNotEqual ''status'' (Str ''Deleted''));
          f = (if region \<noteq> [] then And f (NameEqual ''region'' (Str region)) else f);
          f = (if environment \<noteq> [] then And f (NameEqual ''environment'' (Str environment)) else f)
      in if lastUpdated \<noteq> []
         then case parse_rfc3339 lastUpdated of
                None \<Rightarrow> Inl (Quoted ''Error converting lastUpdated parameter to RFC3339: ''
                               (time_ParseError lastUpdated) ''.'')
              | Some t \<Rightarrow> Inr (And f (NameGreaterThanEqual ''lastUpdatedUnix'' (Num (fst t))))
         else Inr f)"

definition ListClusters ::
  "('w, 'item, 'key) db \<Rightarrow> int \<Rightarrow> int \<Rightarrow> string \<Rightarrow> string \<Rightarrow> string \<Rightarrow> string \<Rightarrow> 'w dbst \<Rightarrow>
   (listing run \<times> 'w dbst) option" where
  "ListClusters d offset limit region environment status lastUpdated st =
     (case list_filter region environment status lastUpdated of
        Inl err \<Rightarrow> Some (Ret (list_error err), st)
      | Inr filt \<Rightarrow>
          (let keyCondition = NameEqual (tbl_partitionKey (db_index d)) (Str ''cluster'')
           in case ExprBuild (dbAPI d) (Some keyCondition) filt of
                Some err \<Rightarrow>
                  Some (Ret (list_error (Quoted ''Building dynamodb query expersion failed: '' err ''.'')), st)
              | None \<Rightarrow>
                  finish_listing offset limit
                    (query_pages d (page_input d (Some keyCondition) filt) st)))"

definition ListClustersWithFilter ::
  "zone \<Rightarrow> ('w, 'item, 'key) db \<Rightarrow> int \<Rightarrow> int \<Rightarrow> DynamoDBFilter \<Rightarrow> 'w dbst \<Rightarrow>
   (listing run \<times> 'w dbst) option" where
  "ListClustersWithFilter local d offset limit filt st =
     (case Build local filt of
        Inl err \<Rightarrow> Some (Ret (list_error err), st)
      | Inr f \<Rightarrow>
          (case ExprBuild (dbAPI d) None f of
             Some err \<Rightarrow>
               Some (Ret (list_error (Quoted ''Building dynamodb scan expersion failed: '' err ''.'')), st)
           | None \<Rightarrow>
               finish_listing offset limit
                 (scan_pages d (page_input d None f) st)))"

section \<open>Service metadata\<close>

text \<open>
  The loop over the keys of a cluster's service metadata finds the service at most once; the
  metadata of the cluster is replaced by the entry of that service.
\<close>

definition with_service :: "string \<Rightarrow> Cluster \<Rightarrow> Cluster option" where
  "with_service serviceId cluster =
     (case cs_ServiceMetadata (cl_Spec cluster) serviceId of
        None \<Rightarrow> None
      | Some item \<Rightarrow> Some (set_spec (cs_ServiceMetadata_update (\<lambda>_. [serviceId \<mapsto> item])) cluster))"

definition service_listing :: "string \<Rightarrow> int \<Rightarrow> int \<Rightarrow> Cluster list \<Rightarrow> goerr option \<Rightarrow> listing" where
  "service_listing serviceId offset limit clusters err =
     (let clustersWithService = List.map_filter (with_service serviceId) clusters;
          count = int (length clustersWithService);
          endIndex = wrap64 (offset + limit);
          endIndex = (if endIndex > count then count else endIndex);
          more = (if endIndex < count then True else False)
      in (clustersWithService, count, more, err))"

text \<open>The caller passes the environment where \<^verbatim>\<open>ListClusters\<close> takes the region, and vice versa.\<close>

definition ListClustersWithService ::
  "('w, 'item, 'key) db \<Rightarrow> string \<Rightarrow> int \<Rightarrow> int \<Rightarrow> string \<Rightarrow> string \<Rightarrow> string \<Rightarrow> string \<Rightarrow> 'w dbst \<Rightarrow>
   (listing run \<times> 'w dbst) option" where
  "ListClustersWithService d serviceId offset limit environment region status lastUpdated st =
     map_option (\<lambda>(r, st). (run_map (\<lambda>(clusters, _, _, err).
                                service_listing serviceId offset limit clusters err) r, st))
       (ListClusters d offset limit environment region status lastUpdated st)"

definition ListClustersWithServiceAndFilter ::
  "zone \<Rightarrow> ('w, 'item, 'key) db \<Rightarrow> string \<Rightarrow> int \<Rightarrow> int \<Rightarrow> DynamoDBFilter \<Rightarrow> 'w dbst \<Rightarrow>
   (listing run \<times> 'w dbst) option" where
  "ListClustersWithServiceAndFilter local d serviceId offset limit filt st =
     map_option (\<lambda>(r, st). (run_map (\<lambda>(clusters, _, _, err).
         case err of
           Some e \<Rightarrow> list_error (Quoted ''Failed to list clusters with filter: '' e ''.'')
         | None \<Rightarrow> service_listing serviceId offset limit clusters None) r, st))
       (ListClustersWithFilter local d offset limit filt st)"

definition GetClusterWithService ::
  "('w, 'item, 'key) db \<Rightarrow> string \<Rightarrow> string \<Rightarrow> 'w dbst \<Rightarrow> (Cluster option \<times> goerr option) \<times> 'w dbst" where
  "GetClusterWithService d serviceId clusterName st =
     (case GetCluster d clusterName st of
        ((_, Some err), st) \<Rightarrow> ((None, Some err), st)
      | ((None, None), st) \<Rightarrow> ((None, None), st)
      | ((Some cluster, None), st) \<Rightarrow> ((with_service serviceId cluster, None), st))"

section \<open>The interface Db\<close>

text \<open>
  The methods of the interface as functions on the state behind it; the web handlers and the event
  handler use the database only through them.
\<close>

record 'st Db =
  Db_GetCluster :: "string \<Rightarrow> 'st \<Rightarrow> (Cluster option \<times> goerr option) \<times> 'st"
  Db_ListClusters :: "int \<Rightarrow> int \<Rightarrow> string \<Rightarrow> string \<Rightarrow> string \<Rightarrow> string \<Rightarrow> 'st \<Rightarrow> (listing run \<times> 'st) option"
  Db_ListClustersWithFilter :: "int \<Rightarrow> int \<Rightarrow> DynamoDBFilter \<Rightarrow> 'st \<Rightarrow> (listing run \<times> 'st) option"
  Db_PutCluster :: "Cluster \<Rightarrow> 'st \<Rightarrow> (goerr option \<times> Cluster) \<times> 'st"
  Db_DeleteCluster :: "string \<Rightarrow> 'st \<Rightarrow> goerr option \<times> 'st"
  Db_Status :: "'st \<Rightarrow> goerr option \<times> 'st"
  Db_ListClustersWithService ::
    "string \<Rightarrow> int \<Rightarrow> int \<Rightarrow> string \<Rightarrow> string \<Rightarrow> string \<Rightarrow> string \<Rightarrow> 'st \<Rightarrow> (listing run \<times> 'st) option"
  Db_ListClustersWithServiceAndFilter ::
    "string \<Rightarrow> int \<Rightarrow> int \<Rightarrow> DynamoDBFilter \<Rightarrow> 'st \<Rightarrow> (listing run \<times> 'st) option"
  Db_GetClusterWithService :: "string \<Rightarrow> string \<Rightarrow> 'st \<Rightarrow> (Cluster option \<times> goerr option) \<times> 'st"

definition as_Db :: "zone \<Rightarrow> ('w, 'item, 'key) db \<Rightarrow> 'w dbst Db" where
  "as_Db local d =
     \<lparr>Db_GetCluster = GetCluster d, Db_ListClusters = ListClusters d,
      Db_ListClustersWithFilter = ListClustersWithFilter local d, Db_PutCluster = PutCluster d,
      Db_DeleteCluster = DeleteCluster d, Db_Status = Status d,
      Db_ListClustersWithService = ListClustersWithService d,
      Db_ListClustersWithServiceAndFilter = ListClustersWithServiceAndFilter local d,
      Db_GetClusterWithService = GetClusterWithService d\<rparr>"

end
