(* ===== verification/Database_Spec.thy ===== *)
theory Database_Spec
  imports Database
begin

text \<open>
  What the database client promises.  The locale \<open>dynamodb\<close> collects the documented behaviour of
  the DynamoDB table that the client relies on; \<open>cluster_store\<close> is the contract of the client
  towards the components that use it.  The client's operations satisfy the contract on any table
  with that behaviour, and the listings return exactly the clusters that were asked for.
\<close>

section \<open>Deliveries in pages\<close>

text \<open>
  What a paginated call delivers in all: the items of its pages, and the error of the call that
  failed, if one did.
\<close>

inductive delivers ::
  "('key PageInput \<Rightarrow> 'w \<Rightarrow> (goerr + ('item, 'key) PageOutput) \<times> 'w) \<Rightarrow>
   'key PageInput \<Rightarrow> 'w \<Rightarrow> 'item list \<Rightarrow> goerr option \<Rightarrow> 'w \<Rightarrow> bool"
  for fetch where
  fail: "fetch inp w = (Inl err, w') \<Longrightarrow> delivers fetch inp w [] (Some err) w'"
| last_page: "fetch inp w = (Inr out, w') \<Longrightarrow> out_LastEvaluatedKey out = None \<Longrightarrow>
    delivers fetch inp w (out_Items out) None w'"
| next_page: "fetch inp w = (Inr out, w') \<Longrightarrow> out_LastEvaluatedKey out = Some key \<Longrightarrow>
    delivers fetch (inp\<lparr>in_ExclusiveStartKey := Some key\<rparr>) w' is e w'' \<Longrightarrow>
    delivers fetch inp w (out_Items out @ is) e w''"

text \<open>The clusters of a list of items, when all of them can be decoded and have a cluster.\<close>

definition decodes :: "('item \<Rightarrow> goerr + ClusterDb) \<Rightarrow> 'item list \<Rightarrow> ClusterDb list \<Rightarrow> bool" where
  "decodes unm is rs \<longleftrightarrow> map unm is = map Inr rs \<and> (\<forall>r \<in> set rs. cd_Cluster r \<noteq> None)"

abbreviation clusters_of :: "ClusterDb list \<Rightarrow> Cluster list" where
  "clusters_of rs \<equiv> map (\<lambda>r. the (cd_Cluster r)) rs"

lemma add_items_decodes:
  "decodes unm is rs \<Longrightarrow> add_items unm cs is = Ret (Inr (cs @ clusters_of rs))"
  by (induction "is" arbitrary: cs rs) (auto simp: decodes_def)

lemma decodes_append:
  "decodes unm (xs @ ys) rs \<longleftrightarrow> (\<exists>rs1 rs2. rs = rs1 @ rs2 \<and> decodes unm xs rs1 \<and> decodes unm ys rs2)"
  by (fastforce simp: decodes_def map_eq_append_conv append_eq_map_conv)

text \<open>The part of the state that the outside world is.\<close>

lemma egress_call_world [simp]: "world (snd (egress_call f st)) = snd (f (world st))"
  by (simp add: egress_call_def record_metric_def Let_def split: prod.split)

lemma egress_call_result [simp]: "fst (egress_call f st) = fst (f (world st))"
  by (simp add: egress_call_def Let_def split: prod.split)

lemma egress_callE:
  assumes "f (world st) = (r, w)"
  obtains st' where "egress_call f st = (r, st')" and "world st' = w"
  using assms by (metis egress_call_result egress_call_world fst_conv prod.collapse snd_conv)

text \<open>The loop ends whenever the delivery does, and collects what was delivered.\<close>

lemma page_loop_delivers:
  assumes "delivers fetch inp w is e w'" and "w = world st" and "decodes unm is rs"
  shows "\<exists>st'. world st' = w' \<and>
    page_loop fetch msg unm inp cs st =
      Some (Ret (case e of None \<Rightarrow> Inr (cs @ clusters_of rs) | Some err \<Rightarrow> Inl (Quoted msg err ''.'')), st')"
  using assms
proof (induction arbitrary: st cs rs rule: delivers.induct)
  case (fail inp w err w')
  then obtain st' where "egress_call (fetch inp) st = (Inl err, st')" "world st' = w'"
    by (metis egress_callE)
  then show ?case by (subst page_loop.simps) auto
next
  case (last_page inp w out w')
  then obtain st' where "egress_call (fetch inp) st = (Inr out, st')" "world st' = w'"
    by (metis egress_callE)
  with last_page show ?case
    by (subst page_loop.simps) (auto simp: add_items_decodes)
next
  case (next_page inp w out w' key "is" e w'')
  then obtain st' where st': "egress_call (fetch inp) st = (Inr out, st')" "world st' = w'"
    by (metis egress_callE)
  from next_page.prems(2) obtain rs1 rs2
    where rs: "rs = rs1 @ rs2" "decodes unm (out_Items out) rs1" "decodes unm is rs2"
    by (auto simp: decodes_append)
  have "page_loop fetch msg unm inp cs st =
      page_loop fetch msg unm (inp\<lparr>in_ExclusiveStartKey := Some key\<rparr>) (cs @ clusters_of rs1) st'"
    using st'(1) next_page.hyps(2) rs(2) by (subst page_loop.simps) (simp add: add_items_decodes)
  with next_page.IH [of st' rs2 "cs @ clusters_of rs1"] st'(2) rs show ?case
    by (simp cong: option.case_cong)
qed

section \<open>The table\<close>

text \<open>
  The documented behaviour of the table that a client uses.  \<open>rows\<close> gives the items of the table
  in a state of the world, by their key and as they decode; \<open>sat\<close> evaluates conditions on them.
  A call may fail.  A write whose call fails may have taken place or not.  A query delivers, page
  by page and in finitely many calls, the items that satisfy its conditions, each once.
\<close>

definition row_key_ok :: "(string \<Rightarrow> ClusterDb option) \<Rightarrow> bool" where
  "row_key_ok t \<longleftrightarrow> (\<forall>k r. t k = Some r \<longrightarrow> cd_TablePartitionKey r = k)"

definition selects :: "(condition \<Rightarrow> ClusterDb \<Rightarrow> bool) \<Rightarrow> 'key PageInput \<Rightarrow> ClusterDb \<Rightarrow> bool" where
  "selects sat inp r \<longleftrightarrow> (\<forall>c. in_KeyCondition inp = Some c \<longrightarrow> sat c r) \<and> sat (in_Filter inp) r"

definition enumerates :: "ClusterDb list \<Rightarrow> (string \<Rightarrow> ClusterDb option) \<Rightarrow> (ClusterDb \<Rightarrow> bool) \<Rightarrow> bool" where
  "enumerates rs t P \<longleftrightarrow> distinct (map cd_TablePartitionKey rs) \<and> set rs = {r \<in> ran t. P r}"

definition pages_law where
  "pages_law fetch unm tbl rows sat \<longleftrightarrow>
     (\<forall>inp w. in_TableName inp = tbl \<longrightarrow> in_ExclusiveStartKey inp = None \<longrightarrow>
        (\<exists>is e w' rs. delivers fetch inp w is e w' \<and> rows w' = rows w \<and> map unm is = map Inr rs \<and>
           set rs \<subseteq> ran (rows w) \<and> (e = None \<longrightarrow> enumerates rs (rows w) (selects sat inp))))"

locale dynamodb =
  fixes d :: "('w, 'item, 'key) db"
    and rows :: "'w \<Rightarrow> string \<Rightarrow> ClusterDb option"
    and sat :: "condition \<Rightarrow> ClusterDb \<Rightarrow> bool"
  assumes keys: "row_key_ok (rows w)"
    and get_law: "GetItem (dbAPI d) (tbl_name (db_table d)) k w = (r, w') \<Longrightarrow>
      rows w' = rows w \<and>
      (case r of
         Inl _ \<Rightarrow> True
       | Inr None \<Rightarrow> rows w k = None
       | Inr (Some it) \<Rightarrow> \<exists>row. rows w k = Some row \<and> UnmarshalMap (dbAPI d) it = Inr row)"
    and put_law: "PutItem (dbAPI d) (tbl_name (db_table d)) it w = (e, w') \<Longrightarrow>
      UnmarshalMap (dbAPI d) it = Inr row \<Longrightarrow>
      rows w' = (rows w)(cd_TablePartitionKey row \<mapsto> row) \<or> e \<noteq> None \<and> rows w' = rows w"
    and delete_law: "DeleteItem (dbAPI d) (tbl_name (db_table d)) k w = (e, w') \<Longrightarrow>
      rows w' = (rows w)(k := None) \<or> e \<noteq> None \<and> rows w' = rows w"
    and marshal_law: "MarshalMap (dbAPI d) row = Inr it \<Longrightarrow> UnmarshalMap (dbAPI d) it = Inr row"
    and query_law: "pages_law (Query (dbAPI d)) (UnmarshalMap (dbAPI d)) (tbl_name (db_table d)) rows sat"
    and scan_law: "pages_law (Scan (dbAPI d)) (UnmarshalMap (dbAPI d)) (tbl_name (db_table d)) rows sat"

section \<open>The rows the client writes\<close>

definition row_of :: "Cluster \<Rightarrow> instant \<Rightarrow> ClusterDb" where
  "row_of c t = \<lparr>cd_TablePartitionKey = cluster_name c, cd_IndexPartitionKey = ''cluster'',
     cd_Region = cs_Region (cl_Spec c), cd_Environment = cs_Environment (cl_Spec c),
     cd_Status = cs_Status (cl_Spec c), cd_LastUpdatedUnix = fst t, cd_Cluster = Some c\<rparr>"

text \<open>The invariant of the table: every row is the image of its cluster.\<close>

definition row_ok :: "ClusterDb \<Rightarrow> bool" where
  "row_ok r \<longleftrightarrow> (\<exists>c t. parse_rfc3339 (cs_LastUpdated (cl_Spec c)) = Some t \<and> r = row_of c t)"

definition table_ok :: "(string \<Rightarrow> ClusterDb option) \<Rightarrow> bool" where
  "table_ok t \<longleftrightarrow> row_key_ok t \<and> (\<forall>r \<in> ran t. row_ok r)"

definition clusters_in :: "(string \<Rightarrow> ClusterDb option) \<Rightarrow> string \<Rightarrow> Cluster option" where
  "clusters_in t k = Option.bind (t k) cd_Cluster"

lemma row_of_simps [simp]:
  "cd_TablePartitionKey (row_of c t) = cluster_name c" "cd_IndexPartitionKey (row_of c t) = ''cluster''"
  "cd_Region (row_of c t) = cs_Region (cl_Spec c)" "cd_Environment (row_of c t) = cs_Environment (cl_Spec c)"
  "cd_Status (row_of c t) = cs_Status (cl_Spec c)" "cd_LastUpdatedUnix (row_of c t) = fst t"
  "cd_Cluster (row_of c t) = Some c"
  by (simp_all add: row_of_def)

lemma row_ok_row_of: "parse_rfc3339 (cs_LastUpdated (cl_Spec c)) = Some t \<Longrightarrow> row_ok (row_of c t)"
  unfolding row_ok_def by blast

lemma row_ok_Cluster: "row_ok r \<Longrightarrow> cd_Cluster r \<noteq> None"
  by (auto simp: row_ok_def)

lemma row_ok_cases:
  "row_ok r \<Longrightarrow> cd_Cluster r = Some c \<Longrightarrow>
     \<exists>u. parse_rfc3339 (cs_LastUpdated (cl_Spec c)) = Some u \<and> r = row_of c u"
  unfolding row_ok_def by (metis option.inject row_of_simps(7))

lemma row_ok_name: "row_ok r \<Longrightarrow> cluster_name (the (cd_Cluster r)) = cd_TablePartitionKey r"
  by (auto simp: row_ok_def)

lemma table_ok_update:
  "table_ok t \<Longrightarrow> row_ok r \<Longrightarrow> table_ok (t(cd_TablePartitionKey r \<mapsto> r))"
  by (auto simp: table_ok_def row_key_ok_def ran_def split: if_splits)

lemma table_ok_delete: "table_ok t \<Longrightarrow> table_ok (t(k := None))"
  by (auto simp: table_ok_def row_key_ok_def ran_def split: if_splits)

lemma clusters_in_update:
  "clusters_in (t(k \<mapsto> r)) = (clusters_in t)(k := cd_Cluster r)"
  "clusters_in (t(k := None)) = (clusters_in t)(k := None)"
  by (auto simp: clusters_in_def)

section \<open>The contract of the client\<close>

definition keep_registered :: "Cluster \<Rightarrow> Cluster \<Rightarrow> Cluster" where
  "keep_registered old c = set_spec (cs_RegisteredAt_update (\<lambda>_. cs_RegisteredAt (cl_Spec old))) c"

lemma cluster_name_keep_registered [simp]: "cluster_name (keep_registered old c) = cluster_name c"
  by (simp add: keep_registered_def)

text \<open>
  \<open>contents\<close> is the registry as its users see it.  A write that reports success is in effect; a
  write that reports an error is in effect or not.  A stored cluster keeps the registration
  time of the one it replaces, unless that one could not be read.
\<close>

locale cluster_store =
  fixes get :: "string \<Rightarrow> 's \<Rightarrow> (Cluster option \<times> goerr option) \<times> 's"
    and put :: "Cluster \<Rightarrow> 's \<Rightarrow> (goerr option \<times> Cluster) \<times> 's"
    and delete :: "string \<Rightarrow> 's \<Rightarrow> goerr option \<times> 's"
    and contents :: "'s \<Rightarrow> string \<Rightarrow> Cluster option"
    and inv :: "'s \<Rightarrow> bool"
  assumes inv_names: "inv s \<Longrightarrow> contents s n = Some c \<Longrightarrow> cluster_name c = n"
    and get_keeps: "inv s \<Longrightarrow> get n s = (gr, s') \<Longrightarrow> inv s' \<and> contents s' = contents s"
    and get_returns: "inv s \<Longrightarrow> get n s = ((found, None), s') \<Longrightarrow> found = contents s n"
    and get_error: "inv s \<Longrightarrow> get n s = ((found, Some err), s') \<Longrightarrow> found = None"
    and put_keeps: "inv s \<Longrightarrow> put c s = (r, s') \<Longrightarrow> inv s'"
    and put_cluster: "inv s \<Longrightarrow> put c s = ((e, c'), s') \<Longrightarrow>
      c' = c \<or> (\<exists>old. contents s (cluster_name c) = Some old \<and> c' = keep_registered old c)"
    and put_stores: "inv s \<Longrightarrow> put c s = ((None, c'), s') \<Longrightarrow>
      contents s' = (contents s)(cluster_name c \<mapsto> c')"
    and put_error: "inv s \<Longrightarrow> put c s = ((Some err, c'), s') \<Longrightarrow>
      contents s' = contents s \<or> contents s' = (contents s)(cluster_name c \<mapsto> c')"
    and delete_keeps: "inv s \<Longrightarrow> delete n s = (e, s') \<Longrightarrow> inv s'"
    and delete_removes: "inv s \<Longrightarrow> delete n s = (e, s') \<Longrightarrow>
      contents s' = (contents s)(n := None) \<or> e \<noteq> None \<and> contents s' = contents s"
begin

lemma put_name: "inv s \<Longrightarrow> put c s = ((e, c'), s') \<Longrightarrow> cluster_name c' = cluster_name c"
  using put_cluster by fastforce

lemma put_new: "inv s \<Longrightarrow> put c s = ((e, c'), s') \<Longrightarrow> contents s (cluster_name c) = None \<Longrightarrow> c' = c"
  using put_cluster by fastforce

lemma get_after_put:
  assumes "inv s" "put c s = ((None, c'), s1)" "get (cluster_name c) s1 = ((r, None), s2)"
  shows "r = Some c'"
  using put_stores [OF assms(1,2)] get_returns [OF put_keeps [OF assms(1,2)] assms(3)] by simp

lemma put_effect:
  assumes "inv s" "put c s = ((e, c'), s')"
  shows "contents s' = (contents s)(cluster_name c \<mapsto> c') \<or> e \<noteq> None \<and> contents s' = contents s"
  using assms put_stores [of s c c' s'] put_error [of s c _ c' s'] by (cases e) auto

lemma put_frame:
  assumes "inv s" "put c s = (r, s')" "n \<noteq> cluster_name c"
  shows "contents s' n = contents s n"
proof (cases r)
  case (Pair e c')
  then show ?thesis
    using assms put_stores [of s c c' s'] put_error [of s c _ c' s'] by (cases e) auto
qed

lemma get_after_delete:
  assumes "inv s" "delete n s = (None, s1)" "get n s1 = ((r, None), s2)"
  shows "r = None"
  using delete_removes [OF assms(1,2)] get_returns [OF delete_keeps [OF assms(1,2)] assms(3)] by simp

end

section \<open>The client satisfies its contract\<close>

context dynamodb
begin

abbreviation contents_of :: "'w dbst \<Rightarrow> string \<Rightarrow> Cluster option" where
  "contents_of st \<equiv> clusters_in (rows (world st))"

abbreviation ok :: "'w dbst \<Rightarrow> bool" where
  "ok st \<equiv> table_ok (rows (world st))"

lemma GetCluster_spec:
  assumes "GetCluster d n st = ((c, e), st')"
  shows "rows (world st') = rows (world st) \<and> (e = None \<longrightarrow> c = contents_of st n) \<and> (e \<noteq> None \<longrightarrow> c = None)"
proof -
  obtain r w where r: "GetItem (dbAPI d) (tbl_name (db_table d)) n (world st) = (r, w)" by fastforce
  then obtain st1 where st1: "egress_call (GetItem (dbAPI d) (tbl_name (db_table d)) n) st = (r, st1)"
      "world st1 = w"
    by (metis egress_callE)
  from get_law [OF r] show ?thesis using assms st1
    by (auto simp: GetCluster_def clusters_in_def split: sum.splits option.splits)
qed

lemma PutCluster_spec:
  assumes "PutCluster d c st = ((e, c'), st')"
  shows "(c' = c \<or> (\<exists>old. contents_of st (cluster_name c) = Some old \<and> c' = keep_registered old c)) \<and>
    ((\<exists>t. parse_rfc3339 (cs_LastUpdated (cl_Spec c)) = Some t \<and>
        rows (world st') = (rows (world st))(cluster_name c \<mapsto> row_of c' t)) \<or>
     e \<noteq> None \<and> rows (world st') = rows (world st))"
proof (cases "parse_rfc3339 (cs_LastUpdated (cl_Spec c))")
  case None
  then show ?thesis using assms by (auto simp: PutCluster_def)
next
  case (Some t)
  obtain old e1 st1 where get: "GetCluster d (cluster_name c) st = ((old, e1), st1)" by (metis prod.collapse)
  note g = GetCluster_spec [OF get]
  define c2 where "c2 = (case old of None \<Rightarrow> c | Some o' \<Rightarrow> keep_registered o' c)"
  have c2: "c2 = c \<or> (\<exists>old. contents_of st (cluster_name c) = Some old \<and> c2 = keep_registered old c)"
    using g by (cases e1) (auto simp: c2_def split: option.splits)
  then have name: "cluster_name c2 = cluster_name c" by auto
  have put: "PutCluster d c st =
      (case MarshalMap (dbAPI d) (row_of c2 t) of
         Inl err \<Rightarrow> ((Some (Error (''Cannot marshal cluster '' @ quoted (cluster_name c2) @ '' into AttributeValue map.'')), c2), st1)
       | Inr it \<Rightarrow>
           (case egress_call (PutItem (dbAPI d) (tbl_name (db_table d)) it) st1 of
              (Some err, st) \<Rightarrow> ((Some (Quoted (''Cluster '' @ quoted (cluster_name c2) @
                 '' cannot be updated or created in the database. Error: '') err []), c2), st)
            | (None, st) \<Rightarrow> ((None, c2), st)))"
    by (cases old) (simp_all add: PutCluster_def Some get Let_def row_of_def c2_def keep_registered_def
        cong: sum.case_cong option.case_cong)
  show ?thesis
  proof (cases "MarshalMap (dbAPI d) (row_of c2 t)")
    case (Inl err)
    then show ?thesis using assms put g c2 by auto
  next
    case (Inr it)
    obtain r w where r: "PutItem (dbAPI d) (tbl_name (db_table d)) it (world st1) = (r, w)" by fastforce
    then obtain st2 where st2: "egress_call (PutItem (dbAPI d) (tbl_name (db_table d)) it) st1 = (r, st2)"
        "world st2 = w"
      by (metis egress_callE)
    have c': "c' = c2" "st' = st2" "e = None \<longleftrightarrow> r = None"
      using assms put Inr st2 by (auto split: option.splits)
    have "cd_TablePartitionKey (row_of c2 t) = cluster_name c" by (simp add: name)
    with put_law [OF r marshal_law [OF Inr]] show ?thesis
      using c' c2 st2(2) g Some by auto
  qed
qed

lemma DeleteCluster_spec:
  assumes "DeleteCluster d n st = (e, st')"
  shows "rows (world st') = (rows (world st))(n := None) \<or> e \<noteq> None \<and> rows (world st') = rows (world st)"
proof -
  obtain r w where r: "DeleteItem (dbAPI d) (tbl_name (db_table d)) n (world st) = (r, w)" by fastforce
  then obtain st1 where st1: "egress_call (DeleteItem (dbAPI d) (tbl_name (db_table d)) n) st = (r, st1)"
      "world st1 = w"
    by (metis egress_callE)
  then have "world st' = w" and "e = None \<longleftrightarrow> r = None"
    using assms by (auto simp: DeleteCluster_def split: option.splits)
  with delete_law [OF r] show ?thesis by auto
qed

lemma PutCluster_row_ok:
  assumes "PutCluster d c st = ((e, c'), st')" and "parse_rfc3339 (cs_LastUpdated (cl_Spec c)) = Some t"
  shows "row_ok (row_of c' t) \<and> cd_TablePartitionKey (row_of c' t) = cluster_name c"
proof -
  have "parse_rfc3339 (cs_LastUpdated (cl_Spec c')) = Some t" and "cluster_name c' = cluster_name c"
    using PutCluster_spec [OF assms(1)] assms(2) by (auto simp: keep_registered_def)
  then show ?thesis by (simp add: row_ok_row_of)
qed

end

sublocale dynamodb \<subseteq> store: cluster_store "GetCluster d" "PutCluster d" "DeleteCluster d"
  "\<lambda>st. clusters_in (rows (world st))" "\<lambda>st. table_ok (rows (world st))"
proof
  fix s :: "'w dbst" and s' n c e c' r
  assume ok: "table_ok (rows (world s))"
  show "clusters_in (rows (world s)) n = Some c \<Longrightarrow> cluster_name c = n"
    using ok by (fastforce simp: table_ok_def row_key_ok_def clusters_in_def ran_def row_ok_def
        split: bind_splits)
  show "GetCluster d n s = (r, s') \<Longrightarrow>
      table_ok (rows (world s')) \<and> clusters_in (rows (world s')) = clusters_in (rows (world s))"
    using GetCluster_spec [of n s "fst r" "snd r" s'] ok by simp
  show "GetCluster d n s = ((c', None), s') \<Longrightarrow> c' = clusters_in (rows (world s)) n" for c'
    using GetCluster_spec [of n s c' None s'] by simp
  show "GetCluster d n s = ((c', Some e), s') \<Longrightarrow> c' = None" for c' e
    using GetCluster_spec [of n s c' "Some e" s'] by simp
  show "PutCluster d c s = (r, s') \<Longrightarrow> table_ok (rows (world s'))" for r
    using PutCluster_spec [of c s "fst r" "snd r" s'] PutCluster_row_ok [of c s "fst r" "snd r" s'] ok
    by (auto simp: table_ok_update dest: table_ok_update)
  show "PutCluster d c s = ((e, c'), s') \<Longrightarrow> c' = c \<or>
      (\<exists>old. clusters_in (rows (world s)) (cluster_name c) = Some old \<and> c' = keep_registered old c)" for e
    using PutCluster_spec [of c s e c' s'] by blast
  show "PutCluster d c s = ((None, c'), s') \<Longrightarrow>
      clusters_in (rows (world s')) = (clusters_in (rows (world s)))(cluster_name c \<mapsto> c')"
    using PutCluster_spec [of c s None c' s'] by (auto simp: clusters_in_update)
  show "PutCluster d c s = ((Some e, c'), s') \<Longrightarrow>
      clusters_in (rows (world s')) = clusters_in (rows (world s)) \<or>
      clusters_in (rows (world s')) = (clusters_in (rows (world s)))(cluster_name c \<mapsto> c')" for e
    using PutCluster_spec [of c s "Some e" c' s'] by (auto simp: clusters_in_update)
  show "DeleteCluster d n s = (e, s') \<Longrightarrow> table_ok (rows (world s'))" for e
    using DeleteCluster_spec [of n s e s'] ok by (auto simp: table_ok_delete)
  show "DeleteCluster d n s = (e, s') \<Longrightarrow>
      clusters_in (rows (world s')) = (clusters_in (rows (world s)))(n := None) \<or>
      e \<noteq> None \<and> clusters_in (rows (world s')) = clusters_in (rows (world s))" for e
    using DeleteCluster_spec [of n s e s'] by (auto simp: clusters_in_update)
qed

context dynamodb
begin

lemmas is_store = store.cluster_store_axioms

end

section \<open>Listings\<close>

text \<open>What a listing of the v1 API selects.\<close>

definition list_match :: "string \<Rightarrow> string \<Rightarrow> string \<Rightarrow> string \<Rightarrow> Cluster \<Rightarrow> bool" where
  "list_match region environment status lastUpdated c \<longleftrightarrow>
     (if status \<noteq> [] then cs_Status (cl_Spec c) = status else cs_Status (cl_Spec c) \<noteq> ''Deleted'') \<and>
     (region \<noteq> [] \<longrightarrow> cs_Region (cl_Spec c) = region) \<and>
     (environment \<noteq> [] \<longrightarrow> cs_Environment (cl_Spec c) = environment) \<and>
     (lastUpdated \<noteq> [] \<longrightarrow>
        (case (parse_rfc3339 lastUpdated, parse_rfc3339 (cs_LastUpdated (cl_Spec c))) of
           (Some since, Some t) \<Rightarrow> fst since \<le> fst t
         | _ \<Rightarrow> False))"

text \<open>A list of clusters that is exactly the part of a registry with a property, each cluster once.\<close>

definition lists_exactly :: "Cluster list \<Rightarrow> (string \<Rightarrow> Cluster option) \<Rightarrow> (Cluster \<Rightarrow> bool) \<Rightarrow> bool" where
  "lists_exactly cs m P \<longleftrightarrow> distinct (map cluster_name cs) \<and> set cs = {c \<in> ran m. P c}"

lemma enumerates_lists:
  assumes "enumerates rs t P" and "table_ok t"
    and "\<And>c u. parse_rfc3339 (cs_LastUpdated (cl_Spec c)) = Some u \<Longrightarrow> P (row_of c u) \<longleftrightarrow> Q c"
  shows "lists_exactly (clusters_of rs) (clusters_in t) Q"
proof -
  have ok: "row_ok r" if "r \<in> ran t" for r using assms(2) that by (simp add: table_ok_def)
  have rs: "set rs = {r \<in> ran t. P r}" and dist: "distinct (map cd_TablePartitionKey rs)"
    using assms(1) by (simp_all add: enumerates_def)
  have "map (\<lambda>r. cluster_name (the (cd_Cluster r))) rs = map cd_TablePartitionKey rs"
    using rs ok by (auto simp: row_ok_name)
  then have "distinct (map cluster_name (clusters_of rs))"
    using dist unfolding map_map comp_def by (rule ssubst)
  moreover have "set (clusters_of rs) = {c \<in> ran (clusters_in t). Q c}"
  proof (intro set_eqI iffI)
    fix c assume "c \<in> set (clusters_of rs)"
    then obtain r where r: "r \<in> ran t" "P r" "c = the (cd_Cluster r)" using rs by auto
    then have some: "cd_Cluster r = Some c" using ok row_ok_Cluster by fastforce
    with ok r(1) obtain u where "parse_rfc3339 (cs_LastUpdated (cl_Spec c)) = Some u" "r = row_of c u"
      by (metis row_ok_cases)
    then have "Q c" using r(2) assms(3) by blast
    moreover from r(1) obtain k where "t k = Some r" by (auto simp: ran_def)
    then have "clusters_in t k = Some c" using some by (simp add: clusters_in_def)
    ultimately show "c \<in> {c \<in> ran (clusters_in t). Q c}" by (simp add: ranI)
  next
    fix c assume "c \<in> {c \<in> ran (clusters_in t). Q c}"
    then obtain k r where r: "t k = Some r" "cd_Cluster r = Some c" "Q c"
      by (auto simp: ran_def clusters_in_def split: bind_splits)
    then have "r \<in> ran t" by (auto simp: ran_def)
    with ok r(2) obtain u where "parse_rfc3339 (cs_LastUpdated (cl_Spec c)) = Some u" "r = row_of c u"
      by (metis row_ok_cases)
    then have "P r" using r(3) assms(3) by simp
    with \<open>r \<in> ran t\<close> rs have "r \<in> set rs" by simp
    with r(2) show "c \<in> set (clusters_of rs)" by force
  qed
  ultimately show ?thesis unfolding lists_exactly_def by simp
qed

text \<open>A call that fails on some input in some state of the world.\<close>

definition can_fail :: "('i \<Rightarrow> 'w \<Rightarrow> (goerr + 'o) \<times> 'w) \<Rightarrow> bool" where
  "can_fail fetch \<longleftrightarrow> (\<exists>i v err v'. fetch i v = (Inl err, v'))"

lemma delivers_error: "delivers fetch inp w is e w' \<Longrightarrow> e \<noteq> None \<Longrightarrow> can_fail fetch"
  by (induction rule: delivers.induct) (auto simp: can_fail_def)

lemma pages_spec:
  assumes "pages_law fetch unm tbl rows sat" "in_TableName inp = tbl" "in_ExclusiveStartKey inp = None"
    and "table_ok (rows (world st))"
  shows "\<exists>rs e st'. rows (world st') = rows (world st) \<and>
    page_loop fetch msg unm inp [] st =
      Some (Ret (case e of None \<Rightarrow> Inr (clusters_of rs) | Some err \<Rightarrow> Inl (Quoted msg err ''.'')), st') \<and>
    (e = None \<longrightarrow> enumerates rs (rows (world st)) (selects sat inp)) \<and>
    (e \<noteq> None \<longrightarrow> can_fail fetch)"
proof -
  obtain "is" e w' rs where del: "delivers fetch inp (world st) is e w'"
    and keep: "rows w' = rows (world st)" and dec: "map unm is = map Inr rs"
    and sub: "set rs \<subseteq> ran (rows (world st))"
    and enum: "e = None \<longrightarrow> enumerates rs (rows (world st)) (selects sat inp)"
    using assms(1) [unfolded pages_law_def, rule_format, OF assms(2,3), of "world st"] by blast
  have "decodes unm is rs"
    using dec sub assms(4) row_ok_Cluster by (auto simp: decodes_def table_ok_def)
  from page_loop_delivers [OF del refl this, of msg "[]"] obtain st' where "world st' = w'"
    and "page_loop fetch msg unm inp [] st =
      Some (Ret (case e of None \<Rightarrow> Inr (clusters_of rs) | Some err \<Rightarrow> Inl (Quoted msg err ''.'')), st')"
    unfolding append_Nil by blast
  then show ?thesis
    using keep enum delivers_error [OF del] by (intro exI [of _ rs] exI [of _ e] exI [of _ st']) auto
qed

context dynamodb
begin

lemmas query_pages_spec = pages_spec [OF query_law, of _ _ "''DynamonDB API query call failed: ''",
  folded query_pages_def]
lemmas scan_pages_spec = pages_spec [OF scan_law, of _ _ "''DynamoDB API scan call failed: ''",
  folded scan_pages_def]

end

text \<open>The documented meaning of the conditions on the attributes of a row.\<close>

locale dynamodb_attributes = dynamodb +
  assumes conj_law: "and_law sat"
    and kind_law: "sat (NameEqual (tbl_partitionKey (db_index d)) (Str v)) r \<longleftrightarrow> cd_IndexPartitionKey r = v"
    and status_law: "sat (NameEqual ''status'' (Str v)) r \<longleftrightarrow> cd_Status r = v"
    and not_status_law: "sat (NameNotEqual ''status'' (Str v)) r \<longleftrightarrow> cd_Status r \<noteq> v"
    and region_law: "sat (NameEqual ''region'' (Str v)) r \<longleftrightarrow> cd_Region r = v"
    and environment_law: "sat (NameEqual ''environment'' (Str v)) r \<longleftrightarrow> cd_Environment r = v"
    and updated_law: "sat (NameGreaterThanEqual ''lastUpdatedUnix'' (Num n)) r \<longleftrightarrow> n \<le> cd_LastUpdatedUnix r"
begin

lemmas attribute_laws = status_law not_status_law region_law environment_law updated_law

lemma sat_And: "sat (And a b) r \<longleftrightarrow> sat a r \<and> sat b r"
  using conj_law by (simp add: and_law_def)

lemma list_filter_sat:
  assumes "list_filter region environment status lastUpdated = Inr f"
    and "parse_rfc3339 (cs_LastUpdated (cl_Spec c)) = Some u"
  shows "sat f (row_of c u) \<longleftrightarrow> list_match region environment status lastUpdated c"
  using assms
  by (auto simp: list_filter_def list_match_def sat_And attribute_laws Let_def split: if_splits option.splits)

lemma ListClusters_spec:
  assumes "table_ok (rows (world st))"
  shows "\<exists>r st'. ListClusters d offset limit region environment status lastUpdated st = Some (r, st') \<and>
    rows (world st') = rows (world st) \<and>
    ((\<exists>e. r = Ret (list_error e)) \<and>
       (lastUpdated \<noteq> [] \<and> parse_rfc3339 lastUpdated = None \<or> (\<exists>k f. ExprBuild (dbAPI d) k f \<noteq> None) \<or>
        can_fail (Query (dbAPI d))) \<or>
     (\<exists>cs. lists_exactly cs (clusters_in (rows (world st)))
              (list_match region environment status lastUpdated) \<and> r = paginate cs offset limit))"
proof (cases "list_filter region environment status lastUpdated")
  case (Inl err)
  then show ?thesis
    by (auto simp: ListClusters_def list_filter_def Let_def split: if_splits option.splits)
next
  case (Inr f)
  let ?kc = "NameEqual (tbl_partitionKey (db_index d)) (Str ''cluster'')"
  let ?inp = "page_input d (Some ?kc) f"
  show ?thesis
  proof (cases "ExprBuild (dbAPI d) (Some ?kc) f")
    case (Some err)
    with Inr show ?thesis by (auto simp: ListClusters_def)
  next
    case None
    have tn: "in_TableName ?inp = tbl_name (db_table d)" "in_ExclusiveStartKey ?inp = None"
      by (simp_all add: page_input_def)
    from query_pages_spec [OF tn assms] obtain rs e st' where keep: "rows (world st') = rows (world st)"
      and loop: "query_pages d ?inp st = Some (Ret (case e of None \<Rightarrow> Inr (clusters_of rs)
          | Some err \<Rightarrow> Inl (Quoted ''DynamonDB API query call failed: '' err ''.'')), st')"
      and enum: "e = None \<longrightarrow> enumerates rs (rows (world st)) (selects sat ?inp)"
      and fail: "e \<noteq> None \<longrightarrow> can_fail (Query (dbAPI d))"
      by (elim exE conjE) (rule that)
    have "ListClusters d offset limit region environment status lastUpdated st =
        finish_listing offset limit (query_pages d ?inp st)"
      by (simp add: ListClusters_def Inr None)
    moreover have "selects sat ?inp (row_of c u) \<longleftrightarrow> list_match region environment status lastUpdated c"
      if "parse_rfc3339 (cs_LastUpdated (cl_Spec c)) = Some u" for c u
      using list_filter_sat [OF Inr that] by (simp add: selects_def page_input_def kind_law)
    then have "lists_exactly (clusters_of rs) (clusters_in (rows (world st)))
        (list_match region environment status lastUpdated)" if "e = None"
      using enumerates_lists [OF enum [rule_format, OF that] assms] by simp
    ultimately show ?thesis
      using keep loop fail by (cases e) (simp_all add: finish_listing_def, blast+)
  qed
qed

end

text \<open>What a filter of the v2 API selects, in terms of the evaluation of single conditions.\<close>

definition filter_match where
  "filter_match sat local filt c \<longleftrightarrow>
     (\<exists>u. parse_rfc3339 (cs_LastUpdated (cl_Spec c)) = Some u \<and> cs_Status (cl_Spec c) \<noteq> [] \<and>
        (\<forall>fc \<in> set (conditions filt). sat (atom local fc) (row_of c u)))"

context dynamodb_attributes
begin

lemma ListClustersWithFilter_spec:
  assumes "table_ok (rows (world st))"
  shows "\<exists>r st'. ListClustersWithFilter local d offset limit filt st = Some (r, st') \<and>
    rows (world st') = rows (world st) \<and>
    ((\<exists>e. r = Ret (list_error e)) \<and>
       ((\<exists>fc \<in> set (conditions filt). fc_Operand fc \<notin> set AllowedOperands) \<or>
        (\<exists>k f. ExprBuild (dbAPI d) k f \<noteq> None) \<or> can_fail (Scan (dbAPI d))) \<or>
     (\<exists>cs. lists_exactly cs (clusters_in (rows (world st))) (filter_match sat local filt) \<and>
        r = paginate cs offset limit))"
proof (cases "Build local filt")
  case (Inl err)
  then have "\<exists>fc \<in> set (conditions filt). fc_Operand fc \<notin> set AllowedOperands"
    using build_loop_ok_iff [of local _ "conditions filt"] unfolding Build_def by (metis Inl_Inr_False)
  with Inl show ?thesis by (auto simp: ListClustersWithFilter_def)
next
  case (Inr f)
  let ?inp = "page_input d None f"
  show ?thesis
  proof (cases "ExprBuild (dbAPI d) None f")
    case (Some err)
    with Inr show ?thesis by (auto simp: ListClustersWithFilter_def)
  next
    case None
    have tn: "in_TableName ?inp = tbl_name (db_table d)" "in_ExclusiveStartKey ?inp = None"
      by (simp_all add: page_input_def)
    from scan_pages_spec [OF tn assms] obtain rs e st' where keep: "rows (world st') = rows (world st)"
      and loop: "scan_pages d ?inp st = Some (Ret (case e of None \<Rightarrow> Inr (clusters_of rs)
          | Some err \<Rightarrow> Inl (Quoted ''DynamoDB API scan call failed: '' err ''.'')), st')"
      and enum: "e = None \<longrightarrow> enumerates rs (rows (world st)) (selects sat ?inp)"
      and fail: "e \<noteq> None \<longrightarrow> can_fail (Scan (dbAPI d))"
      by (elim exE conjE) (rule that)
    have "ListClustersWithFilter local d offset limit filt st =
        finish_listing offset limit (scan_pages d ?inp st)"
      by (simp add: ListClustersWithFilter_def Inr None)
    moreover have "selects sat ?inp (row_of c u) \<longleftrightarrow> filter_match sat local filt c"
      if "parse_rfc3339 (cs_LastUpdated (cl_Spec c)) = Some u" for c u
      using build_loop_sat [OF conj_law Inr [unfolded Build_def], of "row_of c u"] that
      by (simp add: selects_def page_input_def filter_match_def not_status_law)
    then have "lists_exactly (clusters_of rs) (clusters_in (rows (world st)))
        (filter_match sat local filt)" if "e = None"
      using enumerates_lists [OF enum [rule_format, OF that] assms] by simp
    ultimately show ?thesis
      using keep loop fail by (cases e) (simp_all add: finish_listing_def, blast+)
  qed
qed

end

section \<open>Pagination\<close>

text \<open>The arguments for which the part that was asked for exists.\<close>

definition page_ok :: "nat \<Rightarrow> int \<Rightarrow> int \<Rightarrow> bool" where
  "page_ok count offset limit \<longleftrightarrow>
     0 \<le> offset \<and> offset \<le> int count \<and> offset \<le> wrap64 (offset + limit)"

lemma paginate_panics_iff: "\<not> returns (paginate cs offset limit) \<longleftrightarrow> \<not> page_ok (length cs) offset limit"
  by (auto simp: paginate_def page_ok_def slice_range_def Let_def)

lemma page_ok_natural:
  assumes "0 \<le> offset" "0 \<le> limit" "offset + limit \<le> int64_max"
  shows "page_ok count offset limit \<longleftrightarrow> offset \<le> int count" "wrap64 (offset + limit) = offset + limit"
proof -
  show "wrap64 (offset + limit) = offset + limit"
    using assms by (simp add: in_int64_def int64_min_def)
  then show "page_ok count offset limit \<longleftrightarrow> offset \<le> int count"
    using assms by (simp add: page_ok_def)
qed

lemma paginate_natural:
  assumes "0 \<le> offset" "0 \<le> limit" "offset + limit \<le> int64_max" "offset \<le> int (length cs)"
  shows "paginate cs offset limit =
    Ret (take (nat limit) (drop (nat offset) cs), min limit (int (length cs) - offset),
         offset + limit < int (length cs), None)"
proof -
  note w = page_ok_natural(2) [OF assms(1-3)]
  define n where "n = min limit (int (length cs) - offset)"
  have "in_int64 n" using assms by (auto simp: n_def in_int64_def int64_min_def)
  moreover have "(if int (length cs) < offset + limit then int (length cs) else offset + limit) = offset + n"
    by (auto simp: n_def)
  moreover have "drop (nat offset) (take (nat (offset + n)) cs) = take (nat limit) (drop (nat offset) cs)"
    using assms by (auto simp: n_def drop_take min_def nat_add_distrib)
  ultimately show ?thesis
    using assms by (auto simp: paginate_def w slice_range_def Let_def n_def [symmetric]) (auto simp: n_def)
qed

end
