(* ===== verification/Database_Memory.thy ===== *)
theory Database_Memory
  imports Database_Spec
begin

text \<open>
  A DynamoDB table in memory that answers a query one item per page, the database client on top
  of it, and the properties of the client that the manifest lists.
\<close>

section \<open>The table in memory\<close>

definition mem_rows :: "ClusterDb list \<Rightarrow> string \<Rightarrow> ClusterDb option" where
  "mem_rows w k = find (\<lambda>r. cd_TablePartitionKey r = k) w"

fun mem_all :: "ClusterDb list \<Rightarrow> ClusterDb list" where
  "mem_all [] = []"
| "mem_all (r # w) = r # filter (\<lambda>x. cd_TablePartitionKey x \<noteq> cd_TablePartitionKey r) (mem_all w)"

definition row_attributes :: "ClusterDb \<Rightarrow> string \<Rightarrow> dyn_value option" where
  "row_attributes r =
     [''name'' \<mapsto> Str (cd_TablePartitionKey r), ''kind'' \<mapsto> Str (cd_IndexPartitionKey r),
      ''region'' \<mapsto> Str (cd_Region r), ''environment'' \<mapsto> Str (cd_Environment r),
      ''status'' \<mapsto> Str (cd_Status r), ''lastUpdatedUnix'' \<mapsto> Num (cd_LastUpdatedUnix r)]"

definition mem_sat :: "condition \<Rightarrow> ClusterDb \<Rightarrow> bool" where
  "mem_sat c r = cond_holds c (row_attributes r)"

definition mem_selects :: "nat PageInput \<Rightarrow> ClusterDb \<Rightarrow> bool" where
  "mem_selects inp r \<longleftrightarrow>
     (case in_KeyCondition inp of None \<Rightarrow> True | Some c \<Rightarrow> mem_sat c r) \<and> mem_sat (in_Filter inp) r"

definition mem_fetch ::
  "nat PageInput \<Rightarrow> ClusterDb list \<Rightarrow> (goerr + (ClusterDb, nat) PageOutput) \<times> ClusterDb list" where
  "mem_fetch inp w =
     (let found = filter (mem_selects inp) (mem_all w);
          i = (case in_ExclusiveStartKey inp of None \<Rightarrow> 0 | Some i \<Rightarrow> i)
      in (Inr \<lparr>out_Items = take 1 (drop i found),
               out_LastEvaluatedKey = (if Suc i < length found then Some (Suc i) else None)\<rparr>, w))"

definition mem_api :: "(ClusterDb list, ClusterDb, nat) dynamo_api" where
  "mem_api = \<lparr>DescribeTable = (\<lambda>t w. (None, w)),
     GetItem = (\<lambda>t k w. (Inr (mem_rows w k), w)),
     PutItem = (\<lambda>t r w. (None, r # filter (\<lambda>x. cd_TablePartitionKey x \<noteq> cd_TablePartitionKey r) w)),
     DeleteItem = (\<lambda>t k w. (None, filter (\<lambda>x. cd_TablePartitionKey x \<noteq> k) w)),
     Query = mem_fetch, Scan = mem_fetch, MarshalMap = Inr, UnmarshalMap = Inr,
     ExprBuild = (\<lambda>k f. None)\<rparr>"

definition mem_db :: "(ClusterDb list, ClusterDb, nat) db" where
  "mem_db = NewDb ''clusters'' ''search-index'' mem_api"

subsection \<open>Its laws\<close>

lemma mem_rows_Cons: "mem_rows (r # w) = (mem_rows w)(cd_TablePartitionKey r \<mapsto> r)"
  by (auto simp: mem_rows_def)

lemma mem_rows_filter:
  "mem_rows (filter (\<lambda>x. cd_TablePartitionKey x \<noteq> k) w) = (mem_rows w)(k := None)"
proof
  fix n
  show "mem_rows (filter (\<lambda>x. cd_TablePartitionKey x \<noteq> k) w) n = ((mem_rows w)(k := None)) n"
    by (induction w) (auto simp: mem_rows_def)
qed

lemma mem_rows_key: "row_key_ok (mem_rows w)"
  by (auto simp: row_key_ok_def mem_rows_def find_Some_iff)

lemma mem_all_keys: "distinct (map cd_TablePartitionKey (mem_all w))"
  by (induction w) (auto simp: distinct_map_filter)

lemma mem_all_ran: "set (mem_all w) = ran (mem_rows w)"
proof (induction w)
  case Nil
  then show ?case by (simp add: mem_rows_def ran_def)
next
  case (Cons r w)
  have "ran (mem_rows (r # w)) = ran ((mem_rows w)(cd_TablePartitionKey r \<mapsto> r))"
    by (simp only: mem_rows_Cons)
  also have "\<dots> = insert r {x \<in> ran (mem_rows w). cd_TablePartitionKey x \<noteq> cd_TablePartitionKey r}"
    using mem_rows_key [of w] by (auto simp: ran_def row_key_ok_def split: if_splits)
  finally show ?case using Cons by simp
qed

lemma mem_selects: "mem_selects inp = selects mem_sat inp"
  by (auto simp: fun_eq_iff mem_selects_def selects_def split: option.splits)

lemma mem_selects_start [simp]: "mem_selects (inp\<lparr>in_ExclusiveStartKey := k\<rparr>) = mem_selects inp"
  by (simp add: fun_eq_iff mem_selects_def)

lemma mem_delivers_from:
  assumes "found = filter (mem_selects inp) (mem_all w)"
    and "i = (case in_ExclusiveStartKey inp of None \<Rightarrow> 0 | Some i \<Rightarrow> i)"
  shows "delivers mem_fetch inp w (drop i found) None w"
  using assms
proof (induction "length found - i" arbitrary: i inp rule: less_induct)
  case less
  let ?out = "\<lparr>out_Items = take 1 (drop i found),
      out_LastEvaluatedKey = (if Suc i < length found then Some (Suc i) else None)\<rparr>"
  have fetch: "mem_fetch inp w = (Inr ?out, w)" using less.prems by (simp add: mem_fetch_def Let_def)
  show ?case
  proof (cases "Suc i < length found")
    case True
    have "delivers mem_fetch (inp\<lparr>in_ExclusiveStartKey := Some (Suc i)\<rparr>) w (drop (Suc i) found) None w"
      using True less.prems by (intro less.hyps) auto
    from delivers.next_page [of mem_fetch, OF fetch _ this] True
    have "delivers mem_fetch inp w (take 1 (drop i found) @ drop (Suc i) found) None w" by simp
    moreover have "take 1 (drop i found) @ drop (Suc i) found = drop i found"
      using append_take_drop_id [of 1 "drop i found"] by (simp add: drop_drop)
    ultimately show ?thesis by simp
  next
    case False
    then have "take 1 (drop i found) = drop i found" by simp
    with delivers.last_page [of mem_fetch, OF fetch] False show ?thesis by simp
  qed
qed

lemma mem_pages_law: "pages_law mem_fetch Inr t mem_rows mem_sat"
  unfolding pages_law_def
proof (intro allI impI)
  fix inp :: "nat PageInput" and w
  assume start: "in_ExclusiveStartKey inp = None"
  let ?found = "filter (mem_selects inp) (mem_all w)"
  have "delivers mem_fetch inp w ?found None w"
    using mem_delivers_from [of ?found inp w 0] start by simp
  moreover have "enumerates ?found (mem_rows w) (selects mem_sat inp)"
    using mem_all_keys [of w] by (auto simp: enumerates_def mem_all_ran mem_selects distinct_map_filter)
  ultimately show "\<exists>is e w' rs. delivers mem_fetch inp w is e w' \<and> mem_rows w' = mem_rows w \<and>
      map Inr is = map Inr rs \<and> set rs \<subseteq> ran (mem_rows w) \<and>
      (e = None \<longrightarrow> enumerates rs (mem_rows w) (selects mem_sat inp))"
    by (intro exI [of _ ?found] exI [of _ None] exI [of _ w]) (auto simp: mem_all_ran)
qed

interpretation mem: dynamodb_attributes mem_db mem_rows mem_sat
proof
  show "pages_law (Query (dbAPI mem_db)) (UnmarshalMap (dbAPI mem_db)) (tbl_name (db_table mem_db))
      mem_rows mem_sat"
    by (simp add: mem_db_def NewDb_def mem_api_def mem_pages_law)
  show "pages_law (Scan (dbAPI mem_db)) (UnmarshalMap (dbAPI mem_db)) (tbl_name (db_table mem_db))
      mem_rows mem_sat"
    by (simp add: mem_db_def NewDb_def mem_api_def mem_pages_law)
  show "and_law mem_sat" by (simp add: and_law_def mem_sat_def)
qed (auto simp: mem_db_def NewDb_def mem_api_def mem_rows_key mem_rows_Cons mem_rows_filter mem_sat_def
    row_attributes_def le_less split: option.splits)

section \<open>An example\<close>

definition example_cluster :: "string \<Rightarrow> string \<Rightarrow> string \<Rightarrow> string \<Rightarrow> Cluster" where
  "example_cluster name region status registered =
     zero_Cluster\<lparr>cl_Spec := zero_ClusterSpec\<lparr>cs_Name := name, cs_Region := region, cs_Status := status,
        cs_RegisteredAt := registered, cs_LastUpdated := ''2022-05-05T00:00:00Z''\<rparr>\<rparr>"

lemma example_cluster_simps [simp]:
  "cluster_name (example_cluster n r s t) = n" "cs_Region (cl_Spec (example_cluster n r s t)) = r"
  "cs_Status (cl_Spec (example_cluster n r s t)) = s"
  "cs_RegisteredAt (cl_Spec (example_cluster n r s t)) = t"
  "cs_LastUpdated (cl_Spec (example_cluster n r s t)) = ''2022-05-05T00:00:00Z''"
  by (simp_all add: example_cluster_def)

lemma example_time: "parse_rfc3339 ''2022-05-05T00:00:00Z'' = Some (1651708800, 0)"
  by code_simp

abbreviation row1 :: ClusterDb where
  "row1 \<equiv> row_of (example_cluster ''c1'' ''east'' ''Active'' ''2021'') (1651708800, 0)"

abbreviation mem_state :: "ClusterDb list \<Rightarrow> ClusterDb list dbst" where
  "mem_state w \<equiv> \<lparr>world = w, metrics = []\<rparr>"

lemma table_ok_Nil: "table_ok (mem_rows [])"
  by (simp add: table_ok_def mem_rows_key ran_def mem_rows_def)

lemma table_ok_row1: "table_ok (mem_rows [row1])"
proof -
  have "row_ok row1" by (rule row_ok_row_of) (simp add: example_time)
  from table_ok_update [OF table_ok_Nil this] show ?thesis by (simp only: mem_rows_Cons)
qed

lemmas mem_call_defs = GetCluster_def egress_call_def record_metric_def mem_db_def NewDb_def mem_api_def

lemma mem_get_ok: "\<exists>r st'. GetCluster mem_db n st = ((r, None), st')"
  by (cases "mem_rows (world st) n") (simp_all add: mem_call_defs)

section \<open>Properties of single-item operations\<close>

text \<open>
  C2. \<^verbatim>\<open>PutCluster\<close> refines the update of a map from names to clusters: it keeps the table
  consistent, on success the cluster is stored under its name, on failure the registry is as
  before or has the new cluster, and nothing but the registration time of the cluster changes,
  which is taken over from the cluster that was stored.
\<close>

theorem PutCluster_refines:
  assumes "dynamodb d rows sat" and "table_ok (rows (world st))"
    and "PutCluster d c st = ((e, c'), st')"
  shows "table_ok (rows (world st')) \<and>
    (c' = c \<or> (\<exists>old. clusters_in (rows (world st)) (cluster_name c) = Some old \<and> c' = keep_registered old c)) \<and>
    (clusters_in (rows (world st')) = (clusters_in (rows (world st)))(cluster_name c \<mapsto> c') \<or>
     e \<noteq> None \<and> clusters_in (rows (world st')) = clusters_in (rows (world st)))"
  using cluster_store.put_keeps [OF dynamodb.is_store [OF assms(1)] assms(2,3)]
    cluster_store.put_cluster [OF dynamodb.is_store [OF assms(1)] assms(2,3)]
    cluster_store.put_effect [OF dynamodb.is_store [OF assms(1)] assms(2,3)]
  by blast

theorem PutCluster_refines_witness:
  "\<exists>st'. PutCluster mem_db (example_cluster ''c1'' ''west'' ''Active'' ''2023'') (mem_state [row1]) =
     ((None, example_cluster ''c1'' ''west'' ''Active'' ''2021''), st') \<and> table_ok (mem_rows (world st')) \<and>
     clusters_in (mem_rows (world st')) ''c1'' = Some (example_cluster ''c1'' ''west'' ''Active'' ''2021'')"
proof -
  let ?c = "example_cluster ''c1'' ''west'' ''Active'' ''2023''"
  let ?c' = "example_cluster ''c1'' ''west'' ''Active'' ''2021''"
  have "\<exists>st'. PutCluster mem_db ?c (mem_state [row1]) = ((None, ?c'), st')"
    by (simp add: PutCluster_def mem_call_defs example_time mem_rows_def Let_def)
      (simp add: example_cluster_def zero_defs)
  then obtain st' where put: "PutCluster mem_db ?c (mem_state [row1]) = ((None, ?c'), st')" by blast
  have ok: "table_ok (mem_rows (world (mem_state [row1])))" using table_ok_row1 by simp
  from PutCluster_refines [OF mem.dynamodb_axioms ok put] put show ?thesis by auto
qed



section \<open>Properties of listings\<close>

text \<open>
  C3. \<^verbatim>\<open>ListClusters\<close> always comes back and changes nothing.  Unless the date does not parse, the
  expression cannot be built or a call fails, it pages through a list that has exactly the
  stored clusters which match the arguments, each once.
\<close>

theorem ListClusters_complete:
  assumes "dynamodb_attributes d rows sat" and "table_ok (rows (world st))"
  shows "\<exists>r st'. ListClusters d offset limit region environment status lastUpdated st = Some (r, st') \<and>
    clusters_in (rows (world st')) = clusters_in (rows (world st)) \<and>
    ((\<exists>e. r = Ret (list_error e)) \<and>
       (lastUpdated \<noteq> [] \<and> parse_rfc3339 lastUpdated = None \<or> (\<exists>k f. ExprBuild (dbAPI d) k f \<noteq> None) \<or>
        can_fail (Query (dbAPI d))) \<or>
     (\<exists>cs. lists_exactly cs (clusters_in (rows (world st)))
              (list_match region environment status lastUpdated) \<and> r = paginate cs offset limit))"
  using dynamodb_attributes.ListClusters_spec [OF assms, of offset limit region environment status lastUpdated]
  by metis

lemma mem_no_failure: "\<not> can_fail (Query (dbAPI mem_db))" "ExprBuild (dbAPI mem_db) k f = None"
  by (simp_all add: can_fail_def mem_db_def NewDb_def mem_api_def mem_fetch_def Let_def)

lemma clusters_in_row1:
  "ran (clusters_in (mem_rows [row1])) = {example_cluster ''c1'' ''east'' ''Active'' ''2021''}"
  by (auto simp: clusters_in_def mem_rows_def ran_def)

theorem ListClusters_complete_witness:
  "\<exists>cs st'. ListClusters mem_db 0 10 ''east'' [] [] [] (mem_state [row1]) = Some (paginate cs 0 10, st') \<and>
     set cs = {example_cluster ''c1'' ''east'' ''Active'' ''2021''}"
proof -
  have ok: "table_ok (mem_rows (world (mem_state [row1])))" using table_ok_row1 by simp
  have "list_match ''east'' [] [] [] (example_cluster ''c1'' ''east'' ''Active'' ''2021'')"
    by (simp add: list_match_def)
  with ListClusters_complete [OF mem.dynamodb_attributes_axioms ok, of 0 10 "''east''" "[]" "[]" "[]"]
  show ?thesis
    by (auto simp: mem_no_failure lists_exactly_def clusters_in_row1)
qed

text \<open>
  C8. The same for \<^verbatim>\<open>ListClustersWithFilter\<close>: it always comes back, and unless an operand is not
  allowed or the service fails it pages through exactly the clusters with a status that satisfy
  every condition of the filter.
\<close>

theorem ListClustersWithFilter_complete:
  assumes "dynamodb_attributes d rows sat" and "table_ok (rows (world st))"
  shows "\<exists>r st'. ListClustersWithFilter local d offset limit filt st = Some (r, st') \<and>
    clusters_in (rows (world st')) = clusters_in (rows (world st)) \<and>
    ((\<exists>e. r = Ret (list_error e)) \<and>
       ((\<exists>fc \<in> set (conditions filt). fc_Operand fc \<notin> set AllowedOperands) \<or>
        (\<exists>k f. ExprBuild (dbAPI d) k f \<noteq> None) \<or> can_fail (Scan (dbAPI d))) \<or>
     (\<exists>cs. lists_exactly cs (clusters_in (rows (world st))) (filter_match sat local filt) \<and>
        r = paginate cs offset limit))"
  using dynamodb_attributes.ListClustersWithFilter_spec [OF assms, of local offset limit filt]
  by metis

theorem ListClustersWithFilter_complete_witness:
  "\<exists>r st'. ListClustersWithFilter (\<lambda>_. (''UTC'', 0)) mem_db 0 10 NewDynamoDBFilter (mem_state [row1]) = Some (r, st') \<and>
     (\<exists>cs. r = paginate cs 0 10 \<and> set cs = {example_cluster ''c1'' ''east'' ''Active'' ''2021''})"
proof -
  have ok: "table_ok (mem_rows (world (mem_state [row1])))" using table_ok_row1 by simp
  have "\<not> can_fail (Scan (dbAPI mem_db))"
    by (simp add: can_fail_def mem_db_def NewDb_def mem_api_def mem_fetch_def Let_def)
  moreover have "filter_match mem_sat (\<lambda>_. (''UTC'', 0)) NewDynamoDBFilter
      (example_cluster ''c1'' ''east'' ''Active'' ''2021'')"
    by (simp add: filter_match_def NewDynamoDBFilter_def example_time)
  ultimately show ?thesis
    using ListClustersWithFilter_complete [OF mem.dynamodb_attributes_axioms ok,
        of "\<lambda>_. (''UTC'', 0)" 0 10 NewDynamoDBFilter]
    by (auto simp: mem_no_failure lists_exactly_def clusters_in_row1 NewDynamoDBFilter_def)
qed

definition page_clusters :: "listing run \<Rightarrow> Cluster list" where
  "page_clusters r = (case r of Ret (cs, _) \<Rightarrow> cs | Panic _ \<Rightarrow> [])"

lemma concat_pages: "concat (map (\<lambda>i. take n (drop (i * n) cs)) [0 ..< k]) = take (k * n) cs"
proof (induction k)
  case (Suc k)
  then show ?case by (simp add: take_add add.commute [of n])
qed simp

lemma length_page:
  "m \<le> length cs \<Longrightarrow> min (int n) (int (length cs) - int m) = int (length (take n (drop m cs)))"
  by (simp add: of_nat_diff)

text \<open>
  Natural page arguments give the clusters from the offset on, at most the limit, the number
  of them, and whether there are more; the pages of a listing, one after the other, are the
  whole listing.
\<close>

theorem pages_cover:
  assumes "0 < limit" and "int (length cs) + limit \<le> int64_max"
  shows "concat (map (\<lambda>i. page_clusters (paginate cs (int i * limit) limit))
      [0 ..< Suc (length cs div nat limit)]) = cs \<and>
    (\<forall>i \<le> length cs div nat limit. \<exists>page. paginate cs (int i * limit) limit =
       Ret (page, int (length page), int (Suc i) * limit < int (length cs), None))"
proof -
  define n where "n = nat limit"
  define k where "k = length cs div n"
  have n: "0 < n" "limit = int n" using assms(1) by (simp_all add: n_def)
  have page: "paginate cs (int i * limit) limit =
      Ret (take n (drop (i * n) cs), int (length (take n (drop (i * n) cs))),
           int (Suc i) * limit < int (length cs), None)" if "i \<le> k" for i
  proof -
    have "i * n \<le> k * n" using that by simp
    also have "\<dots> \<le> length cs" by (simp add: k_def)
    finally have "i * n \<le> length cs" .
    then have le: "int i * limit \<le> int (length cs)" using n(2) by (metis of_nat_le_iff of_nat_mult)
    have "paginate cs (int i * limit) limit =
        Ret (take (nat limit) (drop (nat (int i * limit)) cs), min limit (int (length cs) - int i * limit),
             int i * limit + limit < int (length cs), None)"
      using assms le by (intro paginate_natural) auto
    moreover have "nat (int i * limit) = i * n" using n(2) by (simp add: nat_mult_distrib)
    moreover have "min limit (int (length cs) - int i * limit) = int (length (take n (drop (i * n) cs)))"
      using length_page [OF \<open>i * n \<le> length cs\<close>, of n] n(2) by simp
    moreover have "int i * limit + limit = int (Suc i) * limit" by (simp add: distrib_right)
    ultimately show ?thesis by (simp only: n_def [symmetric])
  qed
  have "map (\<lambda>i. page_clusters (paginate cs (int i * limit) limit)) [0 ..< Suc k] =
      map (\<lambda>i. take n (drop (i * n) cs)) [0 ..< Suc k]"
  proof (rule map_cong [OF refl])
    fix i assume "i \<in> set [0 ..< Suc k]"
    then have "i \<le> k" by auto
    then show "page_clusters (paginate cs (int i * limit) limit) = take n (drop (i * n) cs)"
      unfolding page_clusters_def by (simp only: page run.case prod.case)
  qed
  then have "concat (map (\<lambda>i. page_clusters (paginate cs (int i * limit) limit)) [0 ..< Suc k]) =
      take (Suc k * n) cs"
    by (simp only: concat_pages)
  moreover have "length cs = k * n + length cs mod n" by (simp add: k_def)
  then have "length cs \<le> Suc k * n" using mod_less_divisor [OF n(1), of "length cs"] by simp
  moreover have "\<exists>p. paginate cs (int i * limit) limit =
      Ret (p, int (length p), int (Suc i) * limit < int (length cs), None)" if "i \<le> k" for i
    using page [OF that] by blast
  ultimately show ?thesis by (simp add: n_def k_def)
qed

theorem pages_cover_witness:
  "concat (map (\<lambda>i. page_clusters (paginate [zero_Cluster, zero_Cluster] (int i * 2) 2)) [0 ..< 2]) =
     [zero_Cluster, zero_Cluster]"
proof -
  have "int (length [zero_Cluster, zero_Cluster]) + 2 \<le> int64_max" by (simp add: int64_max_def)
  from pages_cover [OF _ this] show ?thesis by (simp add: numeral_2_eq_2)
qed

lemma lists_exactly_length: "lists_exactly cs m P \<Longrightarrow> length cs = card {c \<in> ran m. P c}"
  unfolding lists_exactly_def using distinct_map distinct_card by metis

text \<open>
  C35. A listing panics whenever the offset lies beyond the number of matching clusters (or the
  end index wraps around to a smaller number): the slice expression at the end of
  \<^verbatim>\<open>ListClusters\<close> is not guarded.
\<close>

theorem ListClusters_panics:
  assumes "dynamodb_attributes d rows sat" and "table_ok (rows (world st))"
    and "\<not> can_fail (Query (dbAPI d))" and "\<And>k f. ExprBuild (dbAPI d) k f = None"
    and "lastUpdated = [] \<or> parse_rfc3339 lastUpdated \<noteq> None"
  shows "(\<exists>p st'. ListClusters d offset limit region environment status lastUpdated st = Some (Panic p, st')) \<longleftrightarrow>
    \<not> page_ok (card {c \<in> ran (clusters_in (rows (world st))).
                     list_match region environment status lastUpdated c}) offset limit"
proof -
  from dynamodb_attributes.ListClusters_spec [OF assms(1,2), of offset limit region environment status lastUpdated]
    assms(3-5)
  obtain cs st' where cs: "lists_exactly cs (clusters_in (rows (world st)))
      (list_match region environment status lastUpdated)"
    and l: "ListClusters d offset limit region environment status lastUpdated st =
      Some (paginate cs offset limit, st')" by auto
  have "(\<exists>p. paginate cs offset limit = Panic p) \<longleftrightarrow> \<not> returns (paginate cs offset limit)"
    by (cases "paginate cs offset limit") auto
  then show ?thesis using l lists_exactly_length [OF cs] paginate_panics_iff [of cs offset limit] by auto
qed

theorem ListClusters_panics_witness:
  "\<exists>p st'. ListClusters mem_db 2 10 [] [] [] [] (mem_state [row1]) = Some (Panic p, st')"
proof -
  let ?c = "example_cluster ''c1'' ''east'' ''Active'' ''2021''"
  have ok: "table_ok (mem_rows (world (mem_state [row1])))" using table_ok_row1 by simp
  have "{c \<in> ran (clusters_in (mem_rows (world (mem_state [row1])))). list_match [] [] [] [] c} = {?c}"
    by (auto simp: clusters_in_row1 list_match_def)
  then have "\<not> page_ok (card {c \<in> ran (clusters_in (mem_rows (world (mem_state [row1])))).
      list_match [] [] [] [] c}) 2 10"
    by (simp add: page_ok_def)
  with ListClusters_panics [OF mem.dynamodb_attributes_axioms ok mem_no_failure(1) mem_no_failure(2),
      of "[]" 2 10 "[]" "[]" "[]"]
  show ?thesis by simp
qed

section \<open>Properties of service listings\<close>

lemma page_length:
  assumes "0 \<le> offset" "0 \<le> limit" "offset + limit \<le> int64_max"
    and "paginate cs offset limit = Ret (page, n, hasMore, e)"
  shows "int (length page) \<le> limit"
proof -
  have "page_ok (length cs) offset limit" using assms(4) paginate_panics_iff [of cs offset limit] by simp
  then have "offset \<le> int (length cs)" by (simp add: page_ok_def)
  from paginate_natural [OF assms(1-3) this] assms(2,4) show ?thesis by auto
qed

lemma ListClusters_length:
  assumes "0 \<le> offset" "0 \<le> limit" "offset + limit \<le> int64_max"
    and "ListClusters d offset limit r e s l st = Some (Ret (page, n, hasMore, err), st')"
  shows "int (length page) \<le> limit"
  using assms(2,4) page_length [OF assms(1-3)]
  by (auto simp: ListClusters_def finish_listing_def list_error_def Let_def
      split: sum.splits option.splits run.splits)

text \<open>A registry with one cluster that has one service.\<close>

definition service_cluster :: Cluster where
  "service_cluster = set_spec (cs_ServiceMetadata_update (\<lambda>_. [''s1'' \<mapsto> [''ns'' \<mapsto> [''k'' \<mapsto> ''v'']]]))
     (example_cluster ''c1'' ''east'' ''Active'' ''2021'')"

lemma service_cluster_simps [simp]:
  "cluster_name service_cluster = ''c1''" "cs_Region (cl_Spec service_cluster) = ''east''"
  "cs_Status (cl_Spec service_cluster) = ''Active''"
  "cs_LastUpdated (cl_Spec service_cluster) = ''2022-05-05T00:00:00Z''"
  by (simp_all add: service_cluster_def)

lemma service_cluster_table: "table_ok (mem_rows (world (mem_state [row_of service_cluster (1651708800, 0)])))"
proof -
  have "row_ok (row_of service_cluster (1651708800, 0))" by (rule row_ok_row_of) (simp add: example_time)
  from table_ok_update [OF table_ok_Nil this] show ?thesis by (simp only: mem_rows_Cons dbst.simps)
qed

lemma service_cluster_listed:
  "\<exists>st'. ListClustersWithService mem_db ''s1'' 0 10 ''east'' [] [] []
     (mem_state [row_of service_cluster (1651708800, 0)]) = Some (Ret ([service_cluster], 1, False, None), st')"
proof -
  let ?st = "mem_state [row_of service_cluster (1651708800, 0)]"
  have ran: "ran (clusters_in (mem_rows (world ?st))) = {service_cluster}"
    by (auto simp: clusters_in_def mem_rows_def ran_def)
  have "list_match ''east'' [] [] [] service_cluster" by (simp add: list_match_def)
  with mem.ListClusters_spec [OF service_cluster_table, of 0 10 "''east''" "[]" "[]" "[]"] ran
  obtain cs st' where l: "ListClusters mem_db 0 10 ''east'' [] [] [] ?st = Some (paginate cs 0 10, st')"
    and cs: "distinct (map cluster_name cs)" "set cs = {service_cluster}"
    by (auto simp: mem_no_failure lists_exactly_def)
  have "distinct cs" using cs(1) by (simp add: distinct_map)
  from distinct_card [OF this] cs(2) obtain c where c: "cs = [c]"
    by (metis One_nat_def Suc_length_conv card_1_singleton_iff length_0_conv)
  with cs(2) have "cs = [service_cluster]" by simp
  then have "paginate cs 0 10 = Ret ([service_cluster], 1, False, None)"
    by (simp add: paginate_natural int64_max_def)
  moreover have "with_service ''s1'' service_cluster = Some service_cluster"
    by (simp add: with_service_def service_cluster_def)
  ultimately show ?thesis
    by (simp add: ListClustersWithService_def l service_listing_def List.map_filter_simps in_int64_def
        int64_min_def int64_max_def)
qed

text \<open>
  The flag that tells the caller of \<^verbatim>\<open>ListClustersWithService\<close> to ask for the next page is never
  set, for any natural page arguments and any contents of the table: the end index is compared
  with the number of clusters left on the page and not with the number of all clusters.
\<close>

theorem service_listing_never_more:
  assumes "0 \<le> offset" "0 \<le> limit" "offset + limit \<le> int64_max"
    and "ListClustersWithService d serviceId offset limit environment region status lastUpdated st =
      Some (Ret (cs, n, hasMore, e), st')"
  shows "\<not> hasMore \<and> n = int (length cs) \<and> n \<le> limit"
proof -
  from assms(4) obtain page k m where l: "ListClusters d offset limit environment region status lastUpdated st =
      Some (Ret (page, k, m, e), st')"
    and s: "(cs, n, hasMore, e) = service_listing serviceId offset limit page e"
    by (auto simp: ListClustersWithService_def service_listing_def Let_def elim!: run_map.elims)
  have "length (List.map_filter (with_service serviceId) page) \<le> length page"
    by (simp add: List.map_filter_def)
  with ListClusters_length [OF assms(1-3) l] s page_ok_natural(2) [OF assms(1-3)] assms(1)
  show ?thesis by (auto simp: service_listing_def Let_def)
qed

theorem service_listing_never_more_witness:
  "\<exists>cs n hasMore e st'. ListClustersWithService mem_db ''s1'' 0 10 ''east'' [] [] []
     (mem_state [row_of service_cluster (1651708800, 0)]) = Some (Ret (cs, n, hasMore, e), st') \<and> n = 1 \<and> \<not> hasMore"
proof -
  obtain st' where l: "ListClustersWithService mem_db ''s1'' 0 10 ''east'' [] [] []
     (mem_state [row_of service_cluster (1651708800, 0)]) = Some (Ret ([service_cluster], 1, False, None), st')"
    using service_cluster_listed by blast
  have "(0::int) + 10 \<le> int64_max" by (simp add: int64_max_def)
  from service_listing_never_more [OF _ _ this l] l show ?thesis by blast
qed

text \<open>
  \<^verbatim>\<open>ListClustersWithService\<close> returns only clusters that have the service, reduced to its
  metadata; but a value given for the environment selects by the region and vice versa.
\<close>

theorem service_listing_swapped:
  assumes "dynamodb_attributes d rows sat" and "table_ok (rows (world st))"
    and "ListClustersWithService d serviceId offset limit environment region status lastUpdated st =
      Some (Ret (cs, n, hasMore, None), st')"
  shows "\<forall>c \<in> set cs. dom (cs_ServiceMetadata (cl_Spec c)) = {serviceId} \<and>
    (environment \<noteq> [] \<longrightarrow> cs_Region (cl_Spec c) = environment) \<and>
    (region \<noteq> [] \<longrightarrow> cs_Environment (cl_Spec c) = region)"
proof -
  from assms(3) obtain page k m where l: "ListClusters d offset limit environment region status lastUpdated st =
      Some (Ret (page, k, m, None), st')"
    and s: "cs = List.map_filter (with_service serviceId) page"
    by (auto simp: ListClustersWithService_def service_listing_def Let_def elim!: run_map.elims)
  from dynamodb_attributes.ListClusters_spec [OF assms(1,2), of offset limit environment region status lastUpdated] l
  obtain all where all: "lists_exactly all (clusters_in (rows (world st)))
      (list_match environment region status lastUpdated)" and p: "Ret (page, k, m, None) = paginate all offset limit"
    by (auto simp: list_error_def)
  have "set page \<subseteq> set all"
    using p by (auto simp: paginate_def slice_range_def Let_def dest: in_set_dropD in_set_takeD split: if_splits)
  then have "list_match environment region status lastUpdated c" if "c \<in> set page" for c
    using all that by (auto simp: lists_exactly_def)
  then show ?thesis
    by (auto simp: s List.map_filter_def with_service_def list_match_def split: option.splits)
qed

theorem service_listing_swapped_witness:
  "\<exists>cs n hasMore st'. ListClustersWithService mem_db ''s1'' 0 10 ''east'' [] [] []
     (mem_state [row_of service_cluster (1651708800, 0)]) = Some (Ret (cs, n, hasMore, None), st') \<and>
     cs = [service_cluster] \<and> (\<forall>c \<in> set cs. cs_Region (cl_Spec c) = ''east'')"
proof -
  obtain st' where l: "ListClustersWithService mem_db ''s1'' 0 10 ''east'' [] [] []
     (mem_state [row_of service_cluster (1651708800, 0)]) = Some (Ret ([service_cluster], 1, False, None), st')"
    using service_cluster_listed by blast
  from service_listing_swapped [OF mem.dynamodb_attributes_axioms service_cluster_table l] l show ?thesis
    by (intro exI [of _ "[service_cluster]"] exI [of _ 1] exI [of _ False] exI [of _ st']) simp
qed

end
