(* ===== verification/Events.thy ===== *)
theory Events
  imports Sqs Database_Memory
begin

text \<open>
  How an update of a cluster reaches the registry: pkg/apiserver/event/handler.go (the handler of
  cluster updates), pkg/sync/event/handler.go (the handler of partial updates) and the function
  that cmd/apiserver/apiserver.go registers with the queue.  \<^verbatim>\<open>json.Unmarshal\<close> into a cluster is
  the argument \<open>decode\<close>.
\<close>

section \<open>The handler of cluster updates\<close>

definition ClusterUpdateHandler_Type :: string where
  "ClusterUpdateHandler_Type = ClusterUpdateEvent"

text \<open>What the handler takes from the event before it uses the database: the cluster and its time.\<close>

definition handle_event ::
  "(string \<Rightarrow> goerr + Cluster) \<Rightarrow> Event option \<Rightarrow> (goerr + Cluster \<times> instant) run" where
  "handle_event decode event =
     (case event of
        None \<Rightarrow> Ret (Inl (Error ''event is nil''))
      | Some e \<Rightarrow>
          if ev_Type e \<noteq> ClusterUpdateHandler_Type
          then Ret (Inl (Error ''event type does not match handler type''))
          else case Body (ev_Message e) of
                 None \<Rightarrow> nil_deref
               | Some body \<Rightarrow>
                   (case decode body of
                      Inl err \<Rightarrow> Ret (Inl err)
                    | Inr rcvCluster \<Rightarrow>
                        (case Attributes (ev_Message e) ''SentTimestamp'' of
                           None \<Rightarrow> nil_deref
                         | Some ts \<Rightarrow>
                             (case parse_int64 ts of
                                None \<Rightarrow> Ret (Inl (Error (''parsing '' @ ts @ '': invalid syntax'')))
                              | Some msgTimestamp \<Rightarrow>
                                  Ret (Inr (rcvCluster, time_Unix 0 (wrap64 (msgTimestamp * 10 ^ 6))))))))"

text \<open>
  The decision after the cluster was looked up: nothing to do when the stored one is newer, else
  the cluster to store.  A stored time that does not parse does not prevent the update.
\<close>

definition handle_decide :: "Cluster \<Rightarrow> instant \<Rightarrow> Cluster option \<Rightarrow> Cluster option" where
  "handle_decide rcvCluster lastUpdated found =
     (let update = set_spec (cs_LastUpdated_update (\<lambda>_. format_rfc3339nano lastUpdated)) rcvCluster
      in case found of
           None \<Rightarrow> Some update
         | Some cluster \<Rightarrow>
             (case parse_rfc3339 (cs_LastUpdated (cl_Spec cluster)) of
                None \<Rightarrow> Some update
              | Some clusterTime \<Rightarrow> if time_Before lastUpdated clusterTime then None else Some update))"

text \<open>The first half of the handler, up to the decision, and its second half, the write.\<close>

definition handle_read ::
  "'st Db \<Rightarrow> Cluster \<Rightarrow> instant \<Rightarrow> 'st \<Rightarrow> (goerr + Cluster option) \<times> 'st" where
  "handle_read db rcvCluster lastUpdated st =
     (case Db_GetCluster db (cluster_name rcvCluster) st of
        ((_, Some err), st) \<Rightarrow> (Inl err, st)
      | ((found, None), st) \<Rightarrow> (Inr (handle_decide rcvCluster lastUpdated found), st))"

definition handle_write :: "'st Db \<Rightarrow> goerr + Cluster option \<Rightarrow> 'st \<Rightarrow> goerr option \<times> 'st" where
  "handle_write db plan st =
     (case plan of
        Inl err \<Rightarrow> (Some err, st)
      | Inr None \<Rightarrow> (None, st)
      | Inr (Some cluster) \<Rightarrow> (let ((err, _), st) = Db_PutCluster db cluster st in (err, st)))"

definition Handle ::
  "(string \<Rightarrow> goerr + Cluster) \<Rightarrow> 'st Db \<Rightarrow> Event option \<Rightarrow> 'st \<Rightarrow> goerr option run \<times> 'st" where
  "Handle decode db event st =
     (case handle_event decode event of
        Panic p \<Rightarrow> (Panic p, st)
      | Ret (Inl err) \<Rightarrow> (Ret (Some err), st)
      | Ret (Inr (rcvCluster, lastUpdated)) \<Rightarrow>
          (let (plan, st) = handle_read db rcvCluster lastUpdated st;
               (err, st) = handle_write db plan st
           in (Ret err, st)))"

section \<open>The handler of partial updates\<close>

definition PartialClusterUpdateHandler_Type :: string where
  "PartialClusterUpdateHandler_Type = PartialClusterUpdateEvent"

definition PartialHandle :: "Event option \<Rightarrow> goerr option" where
  "PartialHandle event =
     (case event of
        None \<Rightarrow> Some (Error ''event is nil'')
      | Some e \<Rightarrow>
          if ev_Type e \<noteq> PartialClusterUpdateHandler_Type
          then Some (Error ''event type does not match handler type'')
          else None)"

section \<open>What the API server does with a message\<close>

record ('st, 'w, 'c) app =
  app_db :: 'st
  app_sqs :: 'w
  app_cache :: 'c

text \<open>The function registered with the queue; \<open>invalidate\<close> is the cache library.\<close>

definition on_message ::
  "(string \<Rightarrow> goerr + Cluster) \<Rightarrow> 'st Db \<Rightarrow> 'w Config \<Rightarrow> (string list \<Rightarrow> 'c \<Rightarrow> goerr option \<times> 'c) \<Rightarrow>
   Message \<Rightarrow> ('st, 'w, 'c) app \<Rightarrow> unit run \<times> ('st, 'w, 'c) app" where
  "on_message decode db q invalidate msg a =
     (if MessageId msg = None then (nil_deref, a)
      else case NewEvent (Some msg) of
        Panic p \<Rightarrow> (Panic p, a)
      | Ret (Inl err) \<Rightarrow> (Ret (), a)
      | Ret (Inr e) \<Rightarrow>
          if ev_Type e \<noteq> ClusterUpdateEvent then (Ret (), a)
          else case Handle decode db (Some e) (app_db a) of
            (Panic p, st) \<Rightarrow> (Panic p, a\<lparr>app_db := st\<rparr>)
          | (Ret (Some err), st) \<Rightarrow> (Ret (), a\<lparr>app_db := st\<rparr>)
          | (Ret None, st) \<Rightarrow>
              (case Delete q msg (app_sqs a) of
                 (Panic p, w) \<Rightarrow> (Panic p, a\<lparr>app_db := st, app_sqs := w\<rparr>)
               | (Ret (Some err), w) \<Rightarrow> (Ret (), a\<lparr>app_db := st, app_sqs := w\<rparr>)
               | (Ret None, w) \<Rightarrow>
                   (let a = a\<lparr>app_db := st, app_sqs := w\<rparr>;
                        flush = (let (_, c) = invalidate [''clusters''] (app_cache a)
                                 in (Ret (), a\<lparr>app_cache := c\<rparr>))
                    in case MessageAttributes msg MessageAttributeSkipCacheInvalidation of
                         None \<Rightarrow> flush
                       | Some None \<Rightarrow> (nil_deref, a)
                       | Some (Some v) \<Rightarrow>
                           (case StringValue v of
                              None \<Rightarrow> (nil_deref, a)
                            | Some s \<Rightarrow> if s = ''true'' then (Ret (), a) else flush))))"

section \<open>What an update does to the registry\<close>

text \<open>An update is a cluster with the time at which it was sent.\<close>

definition stamp :: "Cluster \<Rightarrow> instant \<Rightarrow> Cluster" where
  "stamp c t = set_spec (cs_LastUpdated_update (\<lambda>_. format_rfc3339nano t)) c"

definition forget_registered :: "Cluster \<Rightarrow> Cluster" where
  "forget_registered c = set_spec (cs_RegisteredAt_update (\<lambda>_. [])) c"

lemma stamp_name [simp]: "cluster_name (stamp c t) = cluster_name c"
  by (simp add: stamp_def)

lemma forget_keep [simp]: "forget_registered (keep_registered old c) = forget_registered c"
  by (simp add: forget_registered_def keep_registered_def)

text \<open>The time of a stored cluster.\<close>

definition stored_time :: "Cluster \<Rightarrow> instant option" where
  "stored_time c = parse_rfc3339 (cs_LastUpdated (cl_Spec c))"

lemma stored_time_stamp:
  assumes "forget_registered x = forget_registered (stamp c t)" and "rfc3339_range t"
  shows "stored_time x = Some t"
proof -
  have "cs_LastUpdated (cl_Spec x) = cs_LastUpdated (cl_Spec (forget_registered x))"
    by (simp add: forget_registered_def)
  also have "\<dots> = format_rfc3339nano t"
    unfolding assms(1) by (simp add: forget_registered_def stamp_def)
  finally show ?thesis using assms(2) by (simp add: stored_time_def parse_format)
qed

lemma handle_decide_stamp:
  "handle_decide c t found =
     (case Option.bind found stored_time of
        None \<Rightarrow> Some (stamp c t)
      | Some u \<Rightarrow> if time_Before t u then None else Some (stamp c t))"
  by (simp add: handle_decide_def stamp_def stored_time_def Let_def split: option.splits)

text \<open>Every time that the handler computes can be formatted and parsed again.\<close>

lemma handler_time_range: "rfc3339_range (time_Unix 0 (wrap64 n))"
proof -
  have "in_int64 (wrap64 n)" by simp
  then have "- 9223372036854775808 \<le> wrap64 n" and "wrap64 n \<le> 9223372036854775807"
    by (simp_all add: in_int64_def int64_min_def int64_max_def)
  then have "- 9223372037 \<le> wrap64 n div 10 ^ 9" and "wrap64 n div 10 ^ 9 \<le> 9223372036"
    using zdiv_mono1 [of "- 9223372036854775808" "wrap64 n" "10 ^ 9"]
      zdiv_mono1 [of "wrap64 n" 9223372036854775807 "10 ^ 9"] by simp_all
  then show ?thesis using snd_time_Unix [of 0 "wrap64 n"]
    by (simp add: rfc3339_range_def time_Unix_def)
qed

lemma handle_event_range:
  "handle_event decode e = Ret (Inr (c, t)) \<Longrightarrow> rfc3339_range t"
  by (auto simp: handle_event_def nil_deref_def split: option.splits if_splits sum.splits
      intro: handler_time_range)

section \<open>The registry under updates\<close>

text \<open>The contract of the database, stated for a value of the interface \<^verbatim>\<open>Db\<close>.\<close>

locale event_store =
  cluster_store "Db_GetCluster db" "Db_PutCluster db" "Db_DeleteCluster db" contents inv
  for db :: "'st Db" and contents inv
begin

lemma handle_keeps:
  assumes "inv s" "handle_read db c t s = (plan, s1)" "handle_write db plan s1 = (e, s2)"
  shows "inv s2 \<and> (\<forall>n. n \<noteq> cluster_name c \<longrightarrow> contents s2 n = contents s n)"
proof -
  obtain found ge g where get: "Db_GetCluster db (cluster_name c) s = ((found, ge), g)" by (metis prod.collapse)
  note keep = get_keeps [OF assms(1) get]
  have s1: "s1 = g" using assms(2) get by (auto simp: handle_read_def split: option.splits)
  show ?thesis
  proof (cases "\<exists>c2. plan = Inr (Some c2)")
    case False
    then have "s2 = s1" using assms(3) by (auto simp: handle_write_def split: sum.splits option.splits)
    then show ?thesis using keep s1 by simp
  next
    case True
    then obtain c2 where c2: "plan = Inr (Some c2)" by blast
    then have name: "cluster_name c2 = cluster_name c"
      using assms(2) get by (auto simp: handle_read_def handle_decide_stamp split: option.splits if_splits)
    obtain r where put: "Db_PutCluster db c2 s1 = (r, s2)"
      using assms(3) c2 by (auto simp: handle_write_def split: prod.splits)
    have i1: "inv s1" using keep s1 by simp
    show ?thesis using put_keeps [OF i1 put] put_frame [OF i1 put] keep s1 name by simp
  qed
qed

lemma handle_outcome:
  assumes "inv s" "handle_read db c t s = (plan, s1)" "handle_write db plan s1 = (e, s2)"
  shows "if e \<noteq> None
    then contents s2 (cluster_name c) = contents s (cluster_name c) \<or>
         \<not> (\<exists>u. Option.bind (contents s (cluster_name c)) stored_time = Some u \<and> time_Before t u) \<and>
         (\<exists>x. contents s2 (cluster_name c) = Some x \<and> forget_registered x = forget_registered (stamp c t))
    else if \<exists>u. Option.bind (contents s (cluster_name c)) stored_time = Some u \<and> time_Before t u
    then contents s2 (cluster_name c) = contents s (cluster_name c)
    else \<exists>x. contents s2 (cluster_name c) = Some x \<and> forget_registered x = forget_registered (stamp c t)"
proof -
  obtain found ge g where get: "Db_GetCluster db (cluster_name c) s = ((found, ge), g)" by (metis prod.collapse)
  note keep = get_keeps [OF assms(1) get]
  show ?thesis
  proof (cases ge)
    case (Some err)
    then show ?thesis using assms(2,3) get keep by (auto simp: handle_read_def handle_write_def)
  next
    case None
    with get have found: "found = contents s (cluster_name c)" using get_returns [OF assms(1)] by simp
    have plan: "plan = Inr (handle_decide c t found)" "s1 = g"
      using assms(2) get None by (auto simp: handle_read_def)
    show ?thesis
    proof (cases "\<exists>u. Option.bind found stored_time = Some u \<and> time_Before t u")
      case True
      then have "handle_decide c t found = None" by (auto simp: handle_decide_stamp)
      then show ?thesis using assms(3) plan keep found True by (auto simp: handle_write_def)
    next
      case False
      then have d: "handle_decide c t found = Some (stamp c t)"
        by (auto simp: handle_decide_stamp split: option.splits)
      obtain x where put: "Db_PutCluster db (stamp c t) s1 = ((e, x), s2)"
        using assms(3) plan d by (auto simp: handle_write_def split: prod.splits)
      have i1: "inv s1" using keep plan by simp
      have "forget_registered x = forget_registered (stamp c t)"
        using put_cluster [OF i1 put] by auto
      then show ?thesis using put_effect [OF i1 put] keep plan found False by auto
    qed
  qed
qed

lemma handle_monotone:
  assumes "inv s" "handle_read db c t s = (plan, s1)" "handle_write db plan s1 = (e, s2)"
    and "rfc3339_range t" and "Option.bind (contents s n) stored_time = Some u"
  shows "\<exists>v. Option.bind (contents s2 n) stored_time = Some v \<and> \<not> time_Before v u"
proof (cases "n = cluster_name c")
  case True
  have "contents s2 n = contents s n \<or> \<not> time_Before t u \<and>
      (\<exists>x. contents s2 n = Some x \<and> forget_registered x = forget_registered (stamp c t))"
    using handle_outcome [OF assms(1-3)] assms(5) True by (auto split: if_splits)
  then show ?thesis using assms(4,5) stored_time_stamp by fastforce
next
  case False
  then show ?thesis using handle_keeps [OF assms(1-3)] assms(5) by auto
qed

text \<open>The stored cluster is the latest of a set of updates, up to its registration time.\<close>

definition tracks :: "'st \<Rightarrow> string \<Rightarrow> (Cluster \<times> instant) set \<Rightarrow> bool" where
  "tracks s n U \<longleftrightarrow>
     (if U = {} then contents s n = None
      else \<exists>(c, t) \<in> U. (\<forall>(_, t') \<in> U. \<not> time_Before t t') \<and>
        (\<exists>x. contents s n = Some x \<and> forget_registered x = forget_registered (stamp c t)))"

lemma handle_tracks:
  assumes "inv s" "handle_read db c t s = (plan, s1)" "handle_write db plan s1 = (None, s2)"
    and "tracks s n U" and "rfc3339_range t" and "\<forall>(_, t') \<in> U. rfc3339_range t'"
  shows "tracks s2 n (if cluster_name c = n then insert (c, t) U else U)"
proof (cases "cluster_name c = n")
  case False
  then show ?thesis using handle_keeps [OF assms(1-3)] assms(4) by (auto simp: tracks_def)
next
  case True
  note out = handle_outcome [OF assms(1-3), simplified True, simplified]
  show ?thesis
  proof (cases "U = {}")
    case empty: True
    then have "contents s n = None" using assms(4) by (simp add: tracks_def)
    then show ?thesis using out True empty by (auto simp: tracks_def)
  next
    case False
    then obtain cm tm x where m: "(cm, tm) \<in> U" "\<forall>(_, t') \<in> U. \<not> time_Before tm t'"
      and x: "contents s n = Some x" "forget_registered x = forget_registered (stamp cm tm)"
      using assms(4) by (auto simp: tracks_def)
    have time: "stored_time x = Some tm"
      using stored_time_stamp [OF x(2)] m(1) assms(6) by blast
    show ?thesis
    proof (cases "time_Before t tm")
      case True
      then have "contents s2 n = Some x" using out x time by (cases tm) auto
      moreover have "\<not> time_Before tm t" using True time_Before_trans time_Before_irrefl by blast
      ultimately show ?thesis
        using m x(2) \<open>cluster_name c = n\<close> unfolding tracks_def
        by (auto intro!: bexI [of _ "(cm, tm)"])
    next
      case older: False
      then have "\<exists>y. contents s2 n = Some y \<and> forget_registered y = forget_registered (stamp c t)"
        using out x time by (cases tm) auto
      moreover have "\<not> time_Before t t'" if "(c', t') \<in> U" for c' t'
        using older m(2) that time_Before_linear [of tm t'] time_Before_trans [of t t' tm] by blast
      ultimately show ?thesis
        using \<open>cluster_name c = n\<close> unfolding tracks_def by (auto intro!: bexI [of _ "(c, t)"])
    qed
  qed
qed

end

text \<open>A sequence of updates, one after the other, and the errors that were reported.\<close>

fun handle_all :: "'st Db \<Rightarrow> (Cluster \<times> instant) list \<Rightarrow> 'st \<Rightarrow> goerr option list \<times> 'st" where
  "handle_all db [] s = ([], s)"
| "handle_all db ((c, t) # us) s =
     (let (plan, s) = handle_read db c t s; (e, s) = handle_write db plan s; (es, s) = handle_all db us s
      in (e # es, s))"

context event_store
begin

lemma handle_all_tracks:
  assumes "handle_all db us s = (es, s')" "set es \<subseteq> {None}" "inv s" "tracks s n U"
    and "\<forall>(_, t) \<in> U \<union> set us. rfc3339_range t"
  shows "inv s' \<and> tracks s' n (U \<union> {(c, t) \<in> set us. cluster_name c = n})"
  using assms
proof (induction us arbitrary: s es U)
  case Nil
  then show ?case by simp
next
  case (Cons u us)
  obtain c t where u: "u = (c, t)" by (cases u)
  obtain plan s1 where r: "handle_read db c t s = (plan, s1)" by fastforce
  obtain e s2 where w: "handle_write db plan s1 = (e, s2)" by fastforce
  obtain es' where rest: "handle_all db us s2 = (es', s')" and es: "es = e # es'"
    using Cons.prems(1) by (auto simp: u r w split: prod.splits)
  have e: "e = None" and es': "set es' \<subseteq> {None}" using Cons.prems(2) es by auto
  have i2: "inv s2" using handle_keeps [OF Cons.prems(3) r w] by simp
  let ?U = "if cluster_name c = n then insert (c, t) U else U"
  have t2: "tracks s2 n ?U"
    using handle_tracks [OF Cons.prems(3) r w [unfolded e] Cons.prems(4)] Cons.prems(5) u by auto
  have "inv s' \<and> tracks s' n (?U \<union> {(c, t) \<in> set us. cluster_name c = n})"
    using Cons.IH [OF rest es' i2 t2] Cons.prems(5) u by auto
  moreover have "?U \<union> {(c, t) \<in> set us. cluster_name c = n} =
      U \<union> {(c, t) \<in> set (u # us). cluster_name c = n}" using u by auto
  ultimately show ?case by simp
qed

end

section \<open>Properties of the handler\<close>

lemma event_store_as_Db:
  assumes "dynamodb d rows sat"
  shows "event_store (as_Db local d) (\<lambda>st. clusters_in (rows (world st))) (\<lambda>st. table_ok (rows (world st)))"
  unfolding event_store_def as_Db_def using dynamodb.is_store [OF assms] by simp

definition mem_Db :: "ClusterDb list dbst Db" where
  "mem_Db = as_Db (\<lambda>_. (''UTC'', 0)) mem_db"

interpretation mem_events: event_store mem_Db "\<lambda>st. clusters_in (mem_rows (world st))"
  "\<lambda>st. table_ok (mem_rows (world st))"
  unfolding mem_Db_def by (rule event_store_as_Db [OF mem.dynamodb_axioms])

fun handle_events ::
  "(string \<Rightarrow> goerr + Cluster) \<Rightarrow> 'st Db \<Rightarrow> Event list \<Rightarrow> 'st \<Rightarrow> goerr option run list \<times> 'st" where
  "handle_events decode db [] s = ([], s)"
| "handle_events decode db (e # es) s =
     (let (r, s) = Handle decode db (Some e) s; (rs, s) = handle_events decode db es s in (r # rs, s))"

definition event_update :: "(string \<Rightarrow> goerr + Cluster) \<Rightarrow> Event \<Rightarrow> (Cluster \<times> instant) option" where
  "event_update decode e = (case handle_event decode (Some e) of Ret (Inr u) \<Rightarrow> Some u | _ \<Rightarrow> None)"

lemma event_update_Some:
  "event_update decode e = Some (c, t) \<longleftrightarrow> handle_event decode (Some e) = Ret (Inr (c, t))"
  by (auto simp: event_update_def split: run.splits sum.splits)

lemma Handle_update:
  assumes "Handle decode db (Some e) s = (Ret None, s')"
  obtains c t plan s1 where "event_update decode e = Some (c, t)" and "rfc3339_range t"
    and "handle_read db c t s = (plan, s1)" and "handle_write db plan s1 = (None, s')"
  using assms handle_event_range
  by (fastforce simp: Handle_def event_update_Some split: run.splits sum.splits prod.splits)

lemma in_map_filter: "x \<in> set (List.map_filter f xs) \<longleftrightarrow> (\<exists>y \<in> set xs. f y = Some x)"
  by (induction xs) (auto split: option.splits)

lemma handle_events_all:
  assumes "handle_events decode db es s = (rs, s')" and "set rs \<subseteq> {Ret None}"
  shows "\<exists>xs. handle_all db (List.map_filter (event_update decode) es) s = (xs, s') \<and> set xs \<subseteq> {None} \<and>
    (\<forall>(_, t) \<in> set (List.map_filter (event_update decode) es). rfc3339_range t)"
  using assms
proof (induction es arbitrary: s rs)
  case Nil
  then show ?case by simp
next
  case (Cons e es)
  obtain r s1 where h: "Handle decode db (Some e) s = (r, s1)" by fastforce
  obtain rs' where rest: "handle_events decode db es s1 = (rs', s')" and rs: "rs = r # rs'"
    using Cons.prems(1) by (auto simp: h split: prod.splits)
  have r: "r = Ret None" and rs': "set rs' \<subseteq> {Ret None}" using Cons.prems(2) rs by auto
  from h [unfolded r] obtain c t plan s2 where u: "event_update decode e = Some (c, t)" "rfc3339_range t"
    "handle_read db c t s = (plan, s2)" "handle_write db plan s2 = (None, s1)"
    by (rule Handle_update)
  from Cons.IH [OF rest rs'] u show ?case by auto
qed

text \<open>
  C4. A successful call of \<^verbatim>\<open>Handle\<close> stores the received cluster, stamped with the time the message
  was sent, unless the stored cluster is newer, in which case nothing changes; the registration
  time is the only field that may differ, and other clusters are not touched.
\<close>

theorem Handle_correct:
  assumes "dynamodb d rows sat" and "table_ok (rows (world s))"
    and "Handle decode (as_Db local d) (Some e) s = (Ret None, s')"
  shows "\<exists>c t. event_update decode e = Some (c, t) \<and> table_ok (rows (world s')) \<and>
    (\<forall>n. n \<noteq> cluster_name c \<longrightarrow> clusters_in (rows (world s')) n = clusters_in (rows (world s)) n) \<and>
    (if \<exists>u. Option.bind (clusters_in (rows (world s)) (cluster_name c)) stored_time = Some u \<and> time_Before t u
     then clusters_in (rows (world s')) (cluster_name c) = clusters_in (rows (world s)) (cluster_name c)
     else \<exists>x. clusters_in (rows (world s')) (cluster_name c) = Some x \<and>
       forget_registered x = forget_registered (stamp c t))"
proof -
  note es = event_store_as_Db [OF assms(1), of local]
  from assms(3) obtain c t plan s1 where u: "event_update decode e = Some (c, t)"
    and r: "handle_read (as_Db local d) c t s = (plan, s1)"
    and w: "handle_write (as_Db local d) plan s1 = (None, s')" by (rule Handle_update)
  show ?thesis
    using event_store.handle_keeps [OF es assms(2) r w] event_store.handle_outcome [OF es assms(2) r w] u
    by (intro exI [of _ c] exI [of _ t]) simp
qed

definition example_event :: "string \<Rightarrow> string \<Rightarrow> Event" where
  "example_event name ts = \<lparr>ev_Type = ''cluster-update'',
     ev_Message = \<lparr>MessageId = Some ''1'', ReceiptHandle = Some ''r'', Body = Some name,
       Attributes = [''SentTimestamp'' \<mapsto> ts],
       MessageAttributes = [''Type'' \<mapsto> Some \<lparr>StringValue = Some ''cluster-update''\<rparr>]\<rparr>\<rparr>"

definition example_decode :: "string \<Rightarrow> goerr + Cluster" where
  "example_decode body = Inr (example_cluster body ''east'' ''Active'' ''2021'')"

lemma example_update:
  "event_update example_decode (example_event n (int_str ts)) =
     Some (example_cluster n ''east'' ''Active'' ''2021'', time_Unix 0 (wrap64 (ts * 10 ^ 6)))"
  if "in_int64 ts"
  using that
  by (simp add: event_update_Some handle_event_def example_event_def example_decode_def
      ClusterUpdateHandler_Type_def ClusterUpdateEvent_def)

lemma mem_put_ok: "rfc3339_range t \<Longrightarrow> \<exists>x s'. PutCluster mem_db (stamp c t) st = ((None, x), s')"
  by (simp add: PutCluster_def mem_call_defs stamp_def parse_format Let_def split: option.split)

lemma mem_Handle_ok:
  assumes "event_update decode e = Some (c, t)" and "rfc3339_range t"
  shows "\<exists>s'. Handle decode mem_Db (Some e) s = (Ret None, s')"
proof -
  obtain found g where "GetCluster mem_db (cluster_name c) s = ((found, None), g)" using mem_get_ok by blast
  moreover obtain x s' where "PutCluster mem_db (stamp c t) g = ((None, x), s')" using mem_put_ok [OF assms(2)] by blast
  ultimately show ?thesis
    using assms(1)
    by (auto simp: Handle_def event_update_Some handle_read_def handle_write_def handle_decide_stamp mem_Db_def
        as_Db_def split: option.split)
qed

theorem Handle_correct_witness:
  "\<exists>s' x. Handle example_decode mem_Db (Some (example_event ''c1'' (int_str 5))) (mem_state []) = (Ret None, s') \<and>
     clusters_in (mem_rows (world s')) ''c1'' = Some x \<and> stored_time x = Some (time_Unix 0 5000000)"
proof -
  let ?e = "example_event ''c1'' (int_str 5)"
  have i: "in_int64 5" "in_int64 5000000" by (simp_all add: in_int64_def int64_min_def int64_max_def)
  let ?c = "example_cluster ''c1'' ''east'' ''Active'' ''2021''"
  have u: "event_update example_decode ?e = Some (?c, time_Unix 0 5000000)"
    using example_update [OF i(1), of "''c1''"] i(2) by simp
  have rng: "rfc3339_range (time_Unix 0 5000000)" using handler_time_range [of 5000000] i(2) by simp
  from mem_Handle_ok [OF u this] obtain s' where
    h: "Handle example_decode mem_Db (Some ?e) (mem_state []) = (Ret None, s')" by blast
  have ok: "table_ok (mem_rows (world (mem_state [])))" using table_ok_Nil by simp
  have none: "clusters_in (mem_rows (world (mem_state []))) ''c1'' = None"
    by (simp add: clusters_in_def mem_rows_def)
  from Handle_correct [OF mem.dynamodb_axioms ok h [unfolded mem_Db_def]] u none
  obtain x where "clusters_in (mem_rows (world s')) ''c1'' = Some x"
    "forget_registered x = forget_registered (stamp ?c (time_Unix 0 5000000))" by auto
  with stored_time_stamp [OF this(2) rng] h show ?thesis by blast
qed

text \<open>
  C9. Updates converge: whatever the order in which a batch of update messages is handled, one
  after the other and without errors, the registry ends with the same clusters up to their
  registration time, as long as no two different updates of a cluster carry the same time.
\<close>

theorem updates_converge:
  assumes "dynamodb d rows sat" and "table_ok (rows (world s))"
    and "clusters_in (rows (world s)) n = None"
    and "handle_events decode (as_Db local d) es s = (rs, s1)" and "set rs \<subseteq> {Ret None}"
    and "handle_events decode (as_Db local d) es' s = (rs', s2)" and "set rs' \<subseteq> {Ret None}"
    and "mset es = mset es'"
    and "\<forall>e \<in> set es. \<forall>e' \<in> set es. \<forall>c c' t. event_update decode e = Some (c, t) \<and>
      event_update decode e' = Some (c', t) \<and> cluster_name c = cluster_name c' \<longrightarrow> c = c'"
  shows "map_option forget_registered (clusters_in (rows (world s1)) n) =
    map_option forget_registered (clusters_in (rows (world s2)) n)"
proof -
  note es = event_store_as_Db [OF assms(1), of local]
  let ?ups = "\<lambda>es. List.map_filter (event_update decode) es"
  define U where "U = {(c, t) \<in> set (?ups es). cluster_name c = n}"
  have same: "set (?ups es') = set (?ups es)"
    using mset_eq_setD [OF assms(8)] by (simp add: List.map_filter_def)
  have none: "event_store.tracks (\<lambda>st. clusters_in (rows (world st))) s n {}"
    using assms(3) by (simp add: event_store.tracks_def [OF es])
  from handle_events_all [OF assms(4,5)] obtain xs where
    "handle_all (as_Db local d) (?ups es) s = (xs, s1)" "set xs \<subseteq> {None}"
    "\<forall>(_, t) \<in> set (?ups es). rfc3339_range t" by blast
  from event_store.handle_all_tracks [OF es this(1,2) assms(2) none] this(3)
  have t1: "event_store.tracks (\<lambda>st. clusters_in (rows (world st))) s1 n U" by (simp add: U_def)
  from handle_events_all [OF assms(6,7)] obtain ys where
    "handle_all (as_Db local d) (?ups es') s = (ys, s2)" "set ys \<subseteq> {None}"
    "\<forall>(_, t) \<in> set (?ups es'). rfc3339_range t" by blast
  from event_store.handle_all_tracks [OF es this(1,2) assms(2) none] this(3)
  have t2: "event_store.tracks (\<lambda>st. clusters_in (rows (world st))) s2 n U" by (simp add: U_def same)
  show ?thesis
  proof (cases "U = {}")
    case True
    then show ?thesis using t1 t2 by (simp add: event_store.tracks_def [OF es])
  next
    case False
    from t1 False obtain c t x where m1: "(c, t) \<in> U" "\<forall>(_, t') \<in> U. \<not> time_Before t t'"
        "clusters_in (rows (world s1)) n = Some x" "forget_registered x = forget_registered (stamp c t)"
      unfolding event_store.tracks_def [OF es] by auto
    from t2 False obtain c' t' y where m2: "(c', t') \<in> U" "\<forall>(_, t'') \<in> U. \<not> time_Before t' t''"
        "clusters_in (rows (world s2)) n = Some y" "forget_registered y = forget_registered (stamp c' t')"
      unfolding event_store.tracks_def [OF es] by auto
    have "t = t'" using m1(1,2) m2(1,2) time_Before_linear [of t t'] by blast
    obtain e where e: "e \<in> set es" "event_update decode e = Some (c, t)" "cluster_name c = n"
      using m1(1) by (auto simp: U_def in_map_filter)
    obtain e' where e': "e' \<in> set es" "event_update decode e' = Some (c', t')" "cluster_name c' = n"
      using m2(1) by (auto simp: U_def in_map_filter)
    have "c = c'" using assms(9) [rule_format, OF e(1) e'(1), of c t c'] e e' \<open>t = t'\<close> by simp
    with \<open>t = t'\<close> m1 m2 show ?thesis by simp
  qed
qed

lemma mem_handle_events_ok:
  assumes "\<forall>e \<in> set es. event_update decode e \<noteq> None"
  shows "\<exists>rs s'. handle_events decode mem_Db es s = (rs, s') \<and> set rs \<subseteq> {Ret None}"
  using assms
proof (induction es arbitrary: s)
  case Nil
  then show ?case by simp
next
  case (Cons e es)
  then obtain c t where u: "event_update decode e = Some (c, t)" by auto
  then have "rfc3339_range t" using handle_event_range by (auto simp: event_update_Some)
  from mem_Handle_ok [OF u this] obtain s1 where "Handle decode mem_Db (Some e) s = (Ret None, s1)" by blast
  with Cons.IH [of s1] Cons.prems show ?case by (auto simp: Let_def split: prod.split)
qed

theorem updates_converge_witness:
  "\<exists>rs s1 rs' s2. handle_events example_decode mem_Db [example_event ''c1'' (int_str 5), example_event ''c1'' (int_str 7)]
       (mem_state []) = (rs, s1) \<and>
     handle_events example_decode mem_Db [example_event ''c1'' (int_str 7), example_event ''c1'' (int_str 5)]
       (mem_state []) = (rs', s2) \<and>
     map_option forget_registered (clusters_in (mem_rows (world s1)) ''c1'') =
     map_option forget_registered (clusters_in (mem_rows (world s2)) ''c1'')"
proof -
  let ?a = "example_event ''c1'' (int_str 5)" and ?b = "example_event ''c1'' (int_str 7)"
  have i: "in_int64 5" "in_int64 7" by (simp_all add: in_int64_def int64_min_def int64_max_def)
  note u = example_update [OF i(1), of "''c1''"] example_update [OF i(2), of "''c1''"]
  obtain rs s1 where h1: "handle_events example_decode mem_Db [?a, ?b] (mem_state []) = (rs, s1)"
      "set rs \<subseteq> {Ret None}"
    using mem_handle_events_ok [of "[?a, ?b]" example_decode "mem_state []"] u by auto
  obtain rs' s2 where h2: "handle_events example_decode mem_Db [?b, ?a] (mem_state []) = (rs', s2)"
      "set rs' \<subseteq> {Ret None}"
    using mem_handle_events_ok [of "[?b, ?a]" example_decode "mem_state []"] u by auto
  have ok: "table_ok (mem_rows (world (mem_state [])))" using table_ok_Nil by simp
  have none: "clusters_in (mem_rows (world (mem_state []))) ''c1'' = None"
    by (simp add: clusters_in_def mem_rows_def)
  have "map_option forget_registered (clusters_in (mem_rows (world s1)) ''c1'') =
      map_option forget_registered (clusters_in (mem_rows (world s2)) ''c1'')"
    by (rule updates_converge [OF mem.dynamodb_axioms ok none h1 [unfolded mem_Db_def] h2 [unfolded mem_Db_def]])
      (auto simp: u)
  with h1 h2 show ?thesis by blast
qed

text \<open>
  The time of a stored cluster never goes back, whatever \<^verbatim>\<open>Handle\<close> receives and however it
  ends.
\<close>

theorem Handle_monotone:
  assumes "dynamodb d rows sat" and "table_ok (rows (world s))"
    and "Handle decode (as_Db local d) ev s = (r, s')"
    and "Option.bind (clusters_in (rows (world s)) n) stored_time = Some u"
  shows "table_ok (rows (world s')) \<and>
    (\<exists>v. Option.bind (clusters_in (rows (world s')) n) stored_time = Some v \<and> \<not> time_Before v u)"
proof (cases "\<exists>c t. handle_event decode ev = Ret (Inr (c, t))")
  case False
  then have "s' = s" using assms(3) by (auto simp: Handle_def split: run.splits sum.splits)
  then show ?thesis using assms(2,4) by simp
next
  case True
  then obtain c t where ct: "handle_event decode ev = Ret (Inr (c, t))" by blast
  obtain plan s1 where r: "handle_read (as_Db local d) c t s = (plan, s1)" by fastforce
  obtain e where w: "handle_write (as_Db local d) plan s1 = (e, s')"
    using assms(3) ct r by (auto simp: Handle_def split: prod.splits)
  note es = event_store_as_Db [OF assms(1), of local]
  show ?thesis
    using event_store.handle_keeps [OF es assms(2) r w]
      event_store.handle_monotone [OF es assms(2) r w handle_event_range [OF ct] assms(4)] by simp
qed

theorem Handle_monotone_witness:
  "\<exists>r s'. Handle example_decode mem_Db (Some (example_event ''c1'' (int_str 5))) (mem_state [row1]) = (r, s') \<and>
     table_ok (mem_rows (world s'))"
proof -
  obtain r s' where h: "Handle example_decode mem_Db (Some (example_event ''c1'' (int_str 5))) (mem_state [row1]) = (r, s')"
    by fastforce
  have ok: "table_ok (mem_rows (world (mem_state [row1])))" using table_ok_row1 by simp
  have "Option.bind (clusters_in (mem_rows (world (mem_state [row1]))) ''c1'') stored_time = Some (1651708800, 0)"
    by (simp add: clusters_in_def mem_rows_def stored_time_def example_time)
  from Handle_monotone [OF mem.dynamodb_axioms ok h [unfolded mem_Db_def] this] h show ?thesis by blast
qed

text \<open>
  C36. The two halves of the handler are not one transaction.  When two goroutines handle updates of
  the same new cluster and both look it up before either writes, the older update is what stays
  in the registry if it is written last, although both calls report success.
\<close>

theorem Handle_race:
  assumes "dynamodb d rows sat" and "table_ok (rows (world s))"
    and "cluster_name c1 = cluster_name c2" and "time_Before t1 t2"
    and "clusters_in (rows (world s)) (cluster_name c1) = None"
    and "rfc3339_range t1" and "rfc3339_range t2"
    and "handle_read (as_Db local d) c1 t1 s = (Inr p1, s1)"
    and "handle_read (as_Db local d) c2 t2 s1 = (Inr p2, s2)"
    and "handle_write (as_Db local d) (Inr p2) s2 = (None, s3)"
    and "handle_write (as_Db local d) (Inr p1) s3 = (None, s4)"
  shows "\<exists>x. clusters_in (rows (world s4)) (cluster_name c1) = Some x \<and> stored_time x = Some t1"
proof -
  note cs = dynamodb.is_store [OF assms(1)]
  obtain f1 where g1: "GetCluster d (cluster_name c1) s = ((f1, None), s1)"
      and p1: "p1 = handle_decide c1 t1 f1"
    using assms(8) by (auto simp: handle_read_def as_Db_def split: prod.splits option.splits)
  obtain f2 where g2: "GetCluster d (cluster_name c2) s1 = ((f2, None), s2)"
      and p2: "p2 = handle_decide c2 t2 f2"
    using assms(9) by (auto simp: handle_read_def as_Db_def split: prod.splits option.splits)
  note k1 = cluster_store.get_keeps [OF cs assms(2) g1]
  note k2 = cluster_store.get_keeps [OF cs conjunct1 [OF k1] g2]
  have "f1 = None" "f2 = None"
    using cluster_store.get_returns [OF cs assms(2) g1] cluster_store.get_returns [OF cs conjunct1 [OF k1] g2]
      k1 assms(3,5) by simp_all
  then have plans: "p1 = Some (stamp c1 t1)" "p2 = Some (stamp c2 t2)"
    using p1 p2 by (simp_all add: handle_decide_stamp)
  obtain x2 where w2: "PutCluster d (stamp c2 t2) s2 = ((None, x2), s3)"
    using assms(10) plans by (auto simp: handle_write_def as_Db_def split: prod.splits)
  obtain x1 where w1: "PutCluster d (stamp c1 t1) s3 = ((None, x1), s4)"
    using assms(11) plans by (auto simp: handle_write_def as_Db_def split: prod.splits)
  have i3: "table_ok (rows (world s3))" by (rule cluster_store.put_keeps [OF cs conjunct1 [OF k2] w2])
  have "forget_registered x1 = forget_registered (stamp c1 t1)"
    using cluster_store.put_cluster [OF cs i3 w1] by auto
  then have "stored_time x1 = Some t1" using stored_time_stamp assms(6) by blast
  then show ?thesis using cluster_store.put_stores [OF cs i3 w1] by simp
qed

lemma mem_handle_read_ok: "\<exists>p s'. handle_read mem_Db c t s = (Inr p, s')"
  using mem_get_ok [of "cluster_name c" s] by (auto simp: handle_read_def mem_Db_def as_Db_def)

lemma mem_handle_write_ok:
  assumes "handle_read mem_Db c t s0 = (Inr p, s1)" "rfc3339_range t"
  shows "\<exists>s'. handle_write mem_Db (Inr p) s = (None, s')"
proof -
  have "p = None \<or> p = Some (stamp c t)"
    using assms(1) by (auto simp: handle_read_def handle_decide_stamp split: prod.splits option.splits if_splits)
  moreover have "\<exists>x s'. PutCluster mem_db (stamp c t) s = ((None, x), s')" by (rule mem_put_ok [OF assms(2)])
  ultimately show ?thesis by (auto simp: handle_write_def mem_Db_def as_Db_def)
qed

theorem Handle_race_witness:
  "\<exists>p1 s1 p2 s2 s3 s4 x. handle_read mem_Db (example_cluster ''c1'' ''east'' ''Active'' []) (time_Unix 0 5) (mem_state []) = (Inr p1, s1) \<and>
     handle_read mem_Db (example_cluster ''c1'' ''west'' ''Active'' []) (time_Unix 0 7) s1 = (Inr p2, s2) \<and>
     handle_write mem_Db (Inr p2) s2 = (None, s3) \<and> handle_write mem_Db (Inr p1) s3 = (None, s4) \<and>
     clusters_in (mem_rows (world s4)) ''c1'' = Some x \<and> stored_time x = Some (time_Unix 0 5)"
proof -
  let ?c1 = "example_cluster ''c1'' ''east'' ''Active'' []" and ?c2 = "example_cluster ''c1'' ''west'' ''Active'' []"
  let ?t1 = "time_Unix 0 5" and ?t2 = "time_Unix 0 7"
  have i: "in_int64 5" "in_int64 7" by (simp_all add: in_int64_def int64_min_def int64_max_def)
  have r: "rfc3339_range ?t1" "rfc3339_range ?t2"
    using handler_time_range [of 5] handler_time_range [of 7] i by simp_all
  obtain p1 s1 where 1: "handle_read mem_Db ?c1 ?t1 (mem_state []) = (Inr p1, s1)"
    using mem_handle_read_ok by blast
  obtain p2 s2 where 2: "handle_read mem_Db ?c2 ?t2 s1 = (Inr p2, s2)" using mem_handle_read_ok by blast
  obtain s3 where 3: "handle_write mem_Db (Inr p2) s2 = (None, s3)" using mem_handle_write_ok [OF 2 r(2)] by blast
  obtain s4 where 4: "handle_write mem_Db (Inr p1) s3 = (None, s4)" using mem_handle_write_ok [OF 1 r(1)] by blast
  have ok: "table_ok (mem_rows (world (mem_state [])))" using table_ok_Nil by simp
  have none: "clusters_in (mem_rows (world (mem_state []))) (cluster_name ?c1) = None"
    by (simp add: clusters_in_def mem_rows_def)
  have b: "time_Before ?t1 ?t2" by (simp add: time_Before_Unix_mono)
  have n: "cluster_name ?c1 = cluster_name ?c2" by simp
  from Handle_race [OF mem.dynamodb_axioms ok n b none r 1 [unfolded mem_Db_def] 2 [unfolded mem_Db_def]
      3 [unfolded mem_Db_def] 4 [unfolded mem_Db_def]]
  obtain x where "clusters_in (mem_rows (world s4)) ''c1'' = Some x" "stored_time x = Some ?t1" by auto
  with 1 2 3 4 show ?thesis by blast
qed

section \<open>Properties of the message loop\<close>

lemma Delete_world:
  "Delete q msg w = (r, w') \<Longrightarrow> MessageId msg = None \<or> svc q = None \<Longrightarrow> w' = w"
  by (auto simp: Delete_def split: option.splits)

text \<open>
  C16. A message is taken off the queue only after its update, or a newer one, is in the registry:
  if \<^verbatim>\<open>on_message\<close> changes the queue at all, the message is a cluster update that was handled
  without error.  The cache is flushed only after that.
\<close>

theorem deleted_only_when_stored:
  assumes "dynamodb d rows sat" and "table_ok (rows (world (app_db a)))"
    and "on_message decode (as_Db local d) q invalidate msg a = (r, a')"
    and "app_sqs a' \<noteq> app_sqs a \<or> app_cache a' \<noteq> app_cache a"
  shows "\<exists>e c t x. NewEvent (Some msg) = Ret (Inr e) \<and> event_update decode e = Some (c, t) \<and>
    clusters_in (rows (world (app_db a'))) (cluster_name c) = Some x \<and>
    (stored_time x = Some t \<or> (\<exists>u. stored_time x = Some u \<and> time_Before t u)) \<and>
    (app_cache a' \<noteq> app_cache a \<longrightarrow> app_cache a' = snd (invalidate [''clusters''] (app_cache a)))"
proof -
  obtain e st where e: "NewEvent (Some msg) = Ret (Inr e)"
    and h: "Handle decode (as_Db local d) (Some e) (app_db a) = (Ret None, st)"
    and st: "app_db a' = st"
    and c: "app_cache a' \<noteq> app_cache a \<longrightarrow> app_cache a' = snd (invalidate [''clusters''] (app_cache a))"
    using assms(3,4)
    by (auto simp: on_message_def Let_def split: if_splits run.splits sum.splits prod.splits option.splits)
  from h obtain c t plan s1 where u: "event_update decode e = Some (c, t)" "rfc3339_range t"
    and r: "handle_read (as_Db local d) c t (app_db a) = (plan, s1)"
    and w: "handle_write (as_Db local d) plan s1 = (None, st)" by (rule Handle_update)
  from event_store.handle_outcome [OF event_store_as_Db [OF assms(1)] assms(2) r w] u(2)
  obtain x where x: "clusters_in (rows (world st)) (cluster_name c) = Some x"
    and "stored_time x = Some t \<or> (\<exists>u. stored_time x = Some u \<and> time_Before t u)"
    by (auto split: if_splits bind_splits dest: stored_time_stamp)
  then show ?thesis using e u(1) c st by (intro exI [of _ e] exI [of _ c] exI [of _ t] exI [of _ x]) simp
qed

definition counting_queue :: "nat Config" where
  "counting_queue = \<lparr>AWSRegion = ''us-west-2'', QueueName = ''q'', Endpoint = ''http'', QueueURL = ''u'',
     MaxRetries = 0, BatchSize = 10, WaitSeconds = 5, VisibilityTimeout = 120, RunOnce = False,
     RunInterval = 30, MaxHandlers = 10, BusyTimeout = 30,
     svc = Some \<lparr>GetQueueUrl = (\<lambda>n w. (Inr n, w)),
       SendMessageBatch = (\<lambda>u b w. (Inr \<lparr>res_Failed = [], res_Successful = []\<rparr>, w)),
       DeleteMessage = (\<lambda>u r w. (None, Suc w)), ChangeMessageVisibility = (\<lambda>u r n w. (None, w))\<rparr>,
     handlerCount = 0, registered = True\<rparr>"

theorem deleted_only_when_stored_witness:
  "\<exists>a'. on_message example_decode mem_Db counting_queue (\<lambda>tags c. (None, Suc c))
       (ev_Message (example_event ''c1'' (int_str 5))) \<lparr>app_db = mem_state [], app_sqs = 0, app_cache = 0\<rparr> = (Ret (), a') \<and>
     app_sqs a' = 1 \<and> app_cache a' = (1::nat) \<and> (\<exists>x. clusters_in (mem_rows (world (app_db a'))) ''c1'' = Some x)"
proof -
  let ?e = "example_event ''c1'' (int_str 5)"
  let ?a = "\<lparr>app_db = mem_state [], app_sqs = 0, app_cache = 0 :: nat\<rparr>"
  have i: "in_int64 5" by (simp add: in_int64_def int64_min_def int64_max_def)
  note u = example_update [OF i, of "''c1''"]
  from mem_Handle_ok [OF u handler_time_range] obtain st where
    h: "Handle example_decode mem_Db (Some ?e) (mem_state []) = (Ret None, st)" by blast
  have e: "NewEvent (Some (ev_Message ?e)) = Ret (Inr ?e)"
    by (simp add: NewEvent_def example_event_def MessageAttributeType_def ClusterUpdateEvent_def)
  have "\<exists>a'. on_message example_decode mem_Db counting_queue (\<lambda>tags c. (None, Suc c)) (ev_Message ?e) ?a =
      (Ret (), a') \<and> app_sqs a' = 1 \<and> app_cache a' = 1"
    by (simp add: on_message_def e h Delete_def counting_queue_def Let_def)
      (simp add: example_event_def ClusterUpdateEvent_def MessageAttributeSkipCacheInvalidation_def)
  then obtain a' where a': "on_message example_decode mem_Db counting_queue (\<lambda>tags c. (None, Suc c))
      (ev_Message ?e) ?a = (Ret (), a')" "app_sqs a' = 1" "app_cache a' = 1" by blast
  have ok: "table_ok (mem_rows (world (app_db ?a)))" using table_ok_Nil by simp
  from deleted_only_when_stored [OF mem.dynamodb_axioms ok a'(1) [unfolded mem_Db_def]] a' e u show ?thesis
    by fastforce
qed

end
