(* ===== verification/Sha256.thy ===== *)
theory Sha256
  imports Go_Strings "HOL-Library.Word"
begin

unbundle bit_operations_syntax

text \<open>
  \<^verbatim>\<open>crypto/sha256\<close> as the controllers use it: the digest of a byte string, printed in hexadecimal,
  and \<^verbatim>\<open>fmt.Sprintf\<close> with \<^verbatim>\<open>%v\<close> on a slice of bytes.
\<close>

text \<open>
  The constants of the algorithm are the first 32 bits of the fractional parts of roots of primes.
  \<open>root_bits k n b r\<close> completes \<open>r\<close> by its lowest \<open>b\<close> bits to the integer \<open>k\<close>-th root of \<open>n\<close>.
\<close>

fun root_bits :: "nat \<Rightarrow> nat \<Rightarrow> nat \<Rightarrow> nat \<Rightarrow> nat" where
  "root_bits k n 0 r = r"
| "root_bits k n (Suc b) r = root_bits k n b (if (r + 2 ^ b) ^ k \<le> n then r + 2 ^ b else r)"

definition root_frac :: "nat \<Rightarrow> nat \<Rightarrow> 32 word" where
  "root_frac k p = of_nat (root_bits k (p * 2 ^ (32 * k)) 35 0)"

definition sha_primes :: "nat list" where
  "sha_primes = filter (\<lambda>p. list_all (\<lambda>d. p mod d \<noteq> 0) [2 ..< p]) [2 ..< 312]"

definition sha_K :: "32 word list" where
  "sha_K = map (root_frac 3) sha_primes"

definition sha_H :: "32 word list" where
  "sha_H = map (root_frac 2) [2, 3, 5, 7, 11, 13, 17, 19]"

definition Ch :: "32 word \<Rightarrow> 32 word \<Rightarrow> 32 word \<Rightarrow> 32 word" where
  "Ch x y z = (x AND y) XOR ((NOT x) AND z)"

definition Maj :: "32 word \<Rightarrow> 32 word \<Rightarrow> 32 word \<Rightarrow> 32 word" where
  "Maj x y z = (x AND y) XOR (x AND z) XOR (y AND z)"

definition rotr :: "nat \<Rightarrow> 32 word \<Rightarrow> 32 word" where
  "rotr n x = drop_bit n x OR push_bit (32 - n) x"

definition Sigma0 :: "32 word \<Rightarrow> 32 word" where
  "Sigma0 x = rotr 2 x XOR rotr 13 x XOR rotr 22 x"

definition Sigma1 :: "32 word \<Rightarrow> 32 word" where
  "Sigma1 x = rotr 6 x XOR rotr 11 x XOR rotr 25 x"

definition sigma0 :: "32 word \<Rightarrow> 32 word" where
  "sigma0 x = rotr 7 x XOR rotr 18 x XOR drop_bit 3 x"

definition sigma1 :: "32 word \<Rightarrow> 32 word" where
  "sigma1 x = rotr 17 x XOR rotr 19 x XOR drop_bit 10 x"

text \<open>The words of a number, most significant first.\<close>

definition be_bytes :: "nat \<Rightarrow> nat \<Rightarrow> nat list" where
  "be_bytes k n = map (\<lambda>i. n div 256 ^ i mod 256) (rev [0 ..< k])"

definition be_word :: "nat list \<Rightarrow> 32 word" where
  "be_word bs = fold (\<lambda>b w. w * 256 + of_nat b) bs 0"

definition pad :: "nat list \<Rightarrow> nat list" where
  "pad bs = bs @ [128] @ replicate ((119 - length bs mod 64) mod 64) 0 @ be_bytes 8 (8 * length bs)"

text \<open>A list in pieces of \<open>n + 1\<close> elements.\<close>

fun chunks :: "nat \<Rightarrow> 'a list \<Rightarrow> 'a list list" where
  "chunks n [] = []"
| "chunks n (x # xs) = (x # take n xs) # chunks n (drop n xs)"

definition schedule :: "32 word list \<Rightarrow> 32 word list" where
  "schedule ws = fold (\<lambda>t ws. ws @ [sigma1 (ws ! (t - 2)) + ws ! (t - 7) + sigma0 (ws ! (t - 15)) + ws ! (t - 16)])
     [16 ..< 64] ws"

fun round_step :: "32 word \<times> 32 word \<Rightarrow> 32 word list \<Rightarrow> 32 word list" where
  "round_step (k, w) [a, b, c, d, e, f, g, h] =
     (let t1 = h + Sigma1 e + Ch e f g + k + w; t2 = Sigma0 a + Maj a b c
      in [t1 + t2, a, b, c, d + t1, e, f, g])"
| "round_step _ hs = hs"

definition compress :: "nat list \<Rightarrow> 32 word list \<Rightarrow> 32 word list" where
  "compress block hs =
     map2 (+) hs (fold round_step (zip sha_K (schedule (map be_word (chunks 3 block)))) hs)"

definition sha256_Sum :: "string \<Rightarrow> nat list" where
  "sha256_Sum s =
     concat (map (\<lambda>w. be_bytes 4 (unat w)) (fold compress (chunks 63 (pad (map byte s))) sha_H))"

definition hex_lower :: "nat \<Rightarrow> char" where
  "hex_lower n = (if n < 10 then char_of (48 + n) else char_of (87 + n))"

text \<open>\<^verbatim>\<open>%x\<close> on bytes.\<close>

definition hex_string :: "nat list \<Rightarrow> string" where
  "hex_string bs = concat (map (\<lambda>b. [hex_lower (b div 16), hex_lower (b mod 16)]) bs)"

text \<open>\<^verbatim>\<open>%v\<close> on bytes: the decimal values between brackets.\<close>

definition bytes_v :: "string \<Rightarrow> string" where
  "bytes_v s = ''['' @ str_join '' '' (map (\<lambda>c. nat_str (byte c)) s) @ '']''"

text \<open>The hash that both controllers store: of the printed bytes of an encoded object.\<close>

definition hash_bytes :: "string \<Rightarrow> string" where
  "hash_bytes b = hex_string (sha256_Sum (bytes_v b))"

lemma length_round_step [simp]: "length (round_step kw hs) = length hs"
  by (induction kw hs rule: round_step.induct) (simp_all add: Let_def)

lemma length_rounds: "length (fold round_step kws hs) = length hs"
  by (induction kws arbitrary: hs) simp_all

lemma length_compress [simp]: "length (compress block hs) = length hs"
  by (simp add: compress_def length_rounds)

lemma length_digest: "length (fold compress blocks hs) = length hs"
  by (induction blocks arbitrary: hs) simp_all

text \<open>A hash has 64 hexadecimal digits.\<close>

lemma length_hash_bytes: "length (hash_bytes b) = 64"
proof -
  have pieces: "length (concat (map f xs)) = n * length xs" if "\<And>x. length (f x) = n" for f :: "'x \<Rightarrow> 'y list" and xs n
    using that by (induction xs) simp_all
  have four: "length (be_bytes 4 n) = 4" for n by (simp add: be_bytes_def)
  have "length (sha256_Sum s) = 32" for s
    unfolding sha256_Sum_def by (subst pieces [of _ 4]) (simp_all add: four length_digest sha_H_def)
  moreover have "length (hex_string bs) = 2 * length bs" for bs
    unfolding hex_string_def by (rule pieces) simp
  ultimately show ?thesis by (simp add: hash_bytes_def)
qed

lemma hash_bytes_nonempty [simp]: "hash_bytes b \<noteq> []" "[] \<noteq> hash_bytes b"
  using length_hash_bytes [of b] by auto

end
