(* ===== verification/Cluster_Controller.thy ===== *)
theory Cluster_Controller
  imports Registry_Types Sqs Sha256
begin

text \<open>
  pkg/client/controllers/cluster_controller.go: the controller that sends every change of a
  \<^verbatim>\<open>Cluster\<close> object to the queue.  The Kubernetes client, the encoder and the generator of ids are
  arguments.
\<close>

record ('k, 'w) ClusterReconciler =
  cr_Get :: "string \<times> string \<Rightarrow> 'k \<Rightarrow> (goerr + Cluster) \<times> 'k"
  cr_Update :: "Cluster \<Rightarrow> 'k \<Rightarrow> (goerr option \<times> Cluster) \<times> 'k"
  cr_IgnoreNotFound :: "goerr \<Rightarrow> goerr option"
  cr_Marshal :: "Cluster \<Rightarrow> goerr + string"
  cr_uuid :: "goerr + string"
  cr_Queue :: "'w Config"
  cr_CAData :: string

definition HashAnnotation :: string where
  "HashAnnotation = ''registry.ethos.adobe.com/hash''"

definition SkipCacheInvalidationAnnotation :: string where
  "SkipCacheInvalidationAnnotation = ''registry.ethos.adobe.com/skip-cache-invalidation''"

abbreviation annotations_of :: "Cluster \<Rightarrow> str_map" where
  "annotations_of c \<equiv> meta_Annotations (cl_Meta c)"

abbreviation set_annotations :: "str_map \<Rightarrow> Cluster \<Rightarrow> Cluster" where
  "set_annotations a c \<equiv> c\<lparr>cl_Meta := (cl_Meta c)\<lparr>meta_Annotations := a\<rparr>\<rparr>"

section \<open>The hash of a cluster\<close>

definition hashCluster :: "('k, 'w) ClusterReconciler \<Rightarrow> Cluster \<Rightarrow> string" where
  "hashCluster r instance =
     (let clone = instance;
          annotations = (annotations_of clone)(HashAnnotation := None, SkipCacheInvalidationAnnotation := None);
          clone = set_annotations annotations clone;
          clone = clone\<lparr>cl_Meta := (cl_Meta clone)\<lparr>meta_ResourceVersion := [], meta_ManagedFields := []\<rparr>\<rparr>
      in hash_bytes (case cr_Marshal r clone of Inl _ \<Rightarrow> [] | Inr b \<Rightarrow> b))"

definition cluster_hasDifferentHash :: "('k, 'w) ClusterReconciler \<Rightarrow> Cluster \<Rightarrow> bool" where
  "cluster_hasDifferentHash r instance \<longleftrightarrow>
     (case annotations_of instance HashAnnotation of None \<Rightarrow> [] | Some h \<Rightarrow> h) \<noteq> hashCluster r instance"

section \<open>Events\<close>

definition cluster_create_filter :: "('k, 'w) ClusterReconciler \<Rightarrow> Cluster \<Rightarrow> bool" where
  "cluster_create_filter r obj = cluster_hasDifferentHash r obj"

definition cluster_update_filter :: "('k, 'w) ClusterReconciler \<Rightarrow> Cluster \<Rightarrow> Cluster \<Rightarrow> bool" where
  "cluster_update_filter r oldObject newObject = cluster_hasDifferentHash r newObject"

definition cluster_delete_filter :: "bool \<Rightarrow> bool" where
  "cluster_delete_filter deleteStateUnknown = (\<not> deleteStateUnknown)"

section \<open>Sending\<close>

definition update_entry :: "string \<Rightarrow> string \<Rightarrow> string \<Rightarrow> bool \<Rightarrow> SendMessageBatchRequestEntry" where
  "update_entry uid obj clusterName skipCacheInvalidation =
     \<lparr>entry_Id = Some uid, entry_DelaySeconds = 10, entry_MessageBody = Some obj,
      entry_MessageAttributes = [(''Type'', ''String'', ClusterUpdateEvent), (''ClusterName'', ''String'', clusterName),
        (''SkipCacheInvalidation'', ''String'', if skipCacheInvalidation then ''true'' else ''false'')]\<rparr>"

definition enqueue ::
  "('k, 'w) ClusterReconciler \<Rightarrow> Cluster \<Rightarrow> bool \<Rightarrow> 'w \<Rightarrow> goerr option run \<times> 'w" where
  "enqueue r instance skipCacheInvalidation w =
     (case cr_Marshal r instance of
        Inl err \<Rightarrow> (Ret (Some err), w)
      | Inr obj \<Rightarrow>
          (case cr_uuid r of
             Inl err \<Rightarrow> (Ret (Some err), w)
           | Inr uid \<Rightarrow>
               Enqueue (cr_Queue r) [update_entry uid obj (cluster_name instance) skipCacheInvalidation] w))"

section \<open>Reconciliation\<close>

text \<open>The result: whether and after how many seconds the request comes back, and the error.\<close>

type_synonym ctrl_result = "(bool \<times> int) \<times> goerr option"

definition annotate :: "('k, 'w) ClusterReconciler \<Rightarrow> Cluster \<Rightarrow> Cluster" where
  "annotate r instance = set_annotations
     ((annotations_of instance)(HashAnnotation \<mapsto> hashCluster r instance, SkipCacheInvalidationAnnotation := None)) instance"

definition ReconcileCreateUpdate ::
  "('k, 'w) ClusterReconciler \<Rightarrow> Cluster \<Rightarrow> 'w \<Rightarrow> ctrl_result run \<times> 'w" where
  "ReconcileCreateUpdate r instance w =
     (let skipCacheInvalidation = (annotations_of instance SkipCacheInvalidationAnnotation \<noteq> None)
      in case enqueue r (annotate r instance) skipCacheInvalidation w of
           (Panic p, w) \<Rightarrow> (Panic p, w)
         | (Ret (Some err), w) \<Rightarrow> (Ret ((False, 0), Some err), w)
         | (Ret None, w) \<Rightarrow> (Ret ((False, 0), None), w))"

definition with_ca :: "('k, 'w) ClusterReconciler \<Rightarrow> Cluster \<Rightarrow> Cluster" where
  "with_ca r instance = set_spec (\<lambda>sp. sp\<lparr>cs_APIServer :=
     (cs_APIServer sp)\<lparr>api_CertificateAuthorityData := cr_CAData r\<rparr>\<rparr>) instance"

definition cluster_Reconcile ::
  "('k, 'w) ClusterReconciler \<Rightarrow> string \<times> string \<Rightarrow> 'k \<times> 'w \<Rightarrow> ctrl_result run \<times> ('k \<times> 'w)" where
  "cluster_Reconcile r req s =
     (case s of (k, w) \<Rightarrow>
        (case cr_Get r req k of
           (Inl err, k) \<Rightarrow> (Ret ((False, 0), cr_IgnoreNotFound r err), (k, w))
         | (Inr instance, k) \<Rightarrow>
             (let continue = (\<lambda>instance k. let (x, w) = ReconcileCreateUpdate r instance w in (x, (k, w)))
              in if annotations_of instance ''registry.ethos.adobe.com/skip-ca-cert'' \<noteq> Some ''true''
                 then if cr_CAData r \<noteq> []
                      then case cr_Update r (with_ca r instance) k of
                             ((Some err, _), k) \<Rightarrow> (Ret ((True, 5), Some err), (k, w))
                           | ((None, instance), k) \<Rightarrow> continue instance k
                      else continue instance k
                 else continue instance k)))"

section \<open>Properties\<close>

lemma annotation_names [simp]: "HashAnnotation \<noteq> SkipCacheInvalidationAnnotation" "SkipCacheInvalidationAnnotation \<noteq> HashAnnotation"
  by (simp_all add: HashAnnotation_def SkipCacheInvalidationAnnotation_def)

text \<open>Two clusters that differ only in what the hash leaves out.\<close>

definition same_content :: "Cluster \<Rightarrow> Cluster \<Rightarrow> bool" where
  "same_content c c' \<longleftrightarrow> cl_Spec c = cl_Spec c' \<and>
     (\<forall>n. n \<notin> {HashAnnotation, SkipCacheInvalidationAnnotation} \<longrightarrow> annotations_of c n = annotations_of c' n) \<and>
     meta_Name (cl_Meta c) = meta_Name (cl_Meta c') \<and> meta_Namespace (cl_Meta c) = meta_Namespace (cl_Meta c') \<and>
     meta_Labels (cl_Meta c) = meta_Labels (cl_Meta c') \<and>
     meta_DeletionTimestamp (cl_Meta c) = meta_DeletionTimestamp (cl_Meta c')"

lemma hash_same_content:
  assumes "same_content c c'"
  shows "hashCluster r c = hashCluster r c'"
proof -
  have "(annotations_of c)(HashAnnotation := None, SkipCacheInvalidationAnnotation := None) =
      (annotations_of c')(HashAnnotation := None, SkipCacheInvalidationAnnotation := None)"
    using assms by (auto simp: same_content_def fun_eq_iff)
  then show ?thesis using assms
    by (cases c; cases c'; cases "cl_Meta c"; cases "cl_Meta c'") (simp add: hashCluster_def same_content_def Let_def)
qed

lemma annotate_same_content: "same_content (annotate r c) c"
  by (simp add: same_content_def annotate_def)

text \<open>
  The hash covers the whole cluster but its own annotation, the one that asks to keep the cache,
  the resource version and the managed fields; so the cluster that is sent carries the hash of
  its own content, and as long as only those four change it is recognised as unchanged.
\<close>

theorem sent_cluster_recognised:
  assumes "same_content c (annotate r instance)" and "annotations_of c HashAnnotation = annotations_of (annotate r instance) HashAnnotation"
  shows "\<not> cluster_hasDifferentHash r c"
proof -
  have "hashCluster r c = hashCluster r instance"
    using hash_same_content [OF assms(1), of r] hash_same_content [OF annotate_same_content [of r], of r] by simp
  then show ?thesis using assms(2) by (simp add: cluster_hasDifferentHash_def annotate_def)
qed

definition example_reconciler :: "(Cluster option, SendMessageBatchRequestEntry list list) ClusterReconciler" where
  "example_reconciler = \<lparr>cr_Get = (\<lambda>req k. (case k of None \<Rightarrow> Inl (Error ''not found'') | Some c \<Rightarrow> Inr c, k)),
     cr_Update = (\<lambda>c k. ((None, c), Some c)), cr_IgnoreNotFound = (\<lambda>_. None), cr_Marshal = (\<lambda>c. Inr (cluster_name c)),
     cr_uuid = Inr ''id'',
     cr_Queue = \<lparr>AWSRegion = ''r'', QueueName = ''q'', Endpoint = ''e'', QueueURL = ''u'', MaxRetries = 0, BatchSize = 10,
       WaitSeconds = 5, VisibilityTimeout = 120, RunOnce = False, RunInterval = 20, MaxHandlers = 10, BusyTimeout = 30,
       svc = Some \<lparr>GetQueueUrl = (\<lambda>n w. (Inr ''u'', w)),
         SendMessageBatch = (\<lambda>u b w. (Inr \<lparr>res_Failed = [], res_Successful = map entry_Id b\<rparr>, w @ [b])),
         DeleteMessage = (\<lambda>u h w. (None, w)), ChangeMessageVisibility = (\<lambda>u h n w. (None, w))\<rparr>,
       handlerCount = 0, registered = False\<rparr>,
     cr_CAData = ''ca''\<rparr>"

theorem sent_cluster_recognised_witness:
  "\<not> cluster_hasDifferentHash example_reconciler
     (let c = annotate example_reconciler zero_Cluster in c\<lparr>cl_Meta := (cl_Meta c)\<lparr>meta_ResourceVersion := ''7''\<rparr>\<rparr>)"
proof -
  let ?a = "annotate example_reconciler zero_Cluster"
  let ?c = "?a\<lparr>cl_Meta := (cl_Meta ?a)\<lparr>meta_ResourceVersion := ''7''\<rparr>\<rparr>"
  have "same_content ?c ?a" by (simp add: same_content_def)
  from sent_cluster_recognised [OF this] show ?thesis by (simp add: Let_def)
qed

text \<open>
  What the controller relies on of Kubernetes: a fetched object is the stored one, and an update
  stores the object that it is given, up to fields that the API server sets.
\<close>

locale cluster_objects =
  fixes r :: "('k, 'w) ClusterReconciler" and stored :: "'k \<Rightarrow> Cluster option"
  assumes get_law: "cr_Get r req k = (g, k') \<Longrightarrow> stored k' = stored k \<and> (case g of Inl _ \<Rightarrow> True | Inr c \<Rightarrow> stored k = Some c)"
    and update_law: "cr_Update r c k = ((e, c'), k') \<Longrightarrow>
      stored k' = stored k \<and> e \<noteq> None \<or> stored k' = Some c' \<and> annotations_of c' = annotations_of c"
begin

lemma reconcile_annotations:
  assumes "cluster_Reconcile r req (k, w) = (x, (k', w'))"
  shows "map_option annotations_of (stored k') = map_option annotations_of (stored k)"
proof -
  obtain g k1 where g: "cr_Get r req k = (g, k1)" by fastforce
  note get = get_law [OF g]
  show ?thesis
  proof (cases "k' = k1")
    case False
    then obtain inst where inst: "g = Inr inst"
      using assms g by (cases g) (auto simp: cluster_Reconcile_def)
    obtain e c where u: "cr_Update r (with_ca r inst) k1 = ((e, c), k')"
      using assms g inst False
      by (auto simp: cluster_Reconcile_def Let_def split: prod.splits option.splits if_splits)
    have "annotations_of (with_ca r inst) = annotations_of inst" by (simp add: with_ca_def)
    then show ?thesis using update_law [OF u] get inst by auto
  qed (use get in simp)
qed

end

interpretation example_objects: cluster_objects example_reconciler "\<lambda>k. k"
  by unfold_locales (auto simp: example_reconciler_def split: option.splits)

text \<open>
  The hash is computed and sent, but never kept on the object: however often a cluster without
  the annotation is reconciled, the stored object has none, and the filter of the controller lets
  every further event of it through.
\<close>

theorem filter_never_stops:
  assumes "cluster_objects r stored" and "cluster_Reconcile r req (k, w) = (x, (k', w'))"
    and "stored k = Some c" and "annotations_of c HashAnnotation = None"
  shows "\<exists>c'. stored k' = Some c' \<and> annotations_of c' HashAnnotation = None \<and>
    cluster_create_filter r c' \<and> cluster_update_filter r c c'"
proof -
  from cluster_objects.reconcile_annotations [OF assms(1,2)] assms(3) obtain c' where
    c': "stored k' = Some c'" "annotations_of c' = annotations_of c" by auto
  then have "cluster_hasDifferentHash r c'"
    using assms(4) by (simp add: cluster_hasDifferentHash_def hashCluster_def Let_def)
  then show ?thesis using c' assms(4) by (simp add: cluster_create_filter_def cluster_update_filter_def)
qed

theorem filter_never_stops_witness:
  "\<exists>x k' w' c'. cluster_Reconcile example_reconciler (''n'', ''c'') (Some zero_Cluster, []) = (x, (k', w')) \<and>
     k' = Some c' \<and> cluster_create_filter example_reconciler c'"
proof -
  obtain x k' w' where run: "cluster_Reconcile example_reconciler (''n'', ''c'') (Some zero_Cluster, []) = (x, (k', w'))"
    by (metis prod.collapse)
  have "annotations_of zero_Cluster HashAnnotation = None" by (simp add: zero_Cluster_def zero_ObjectMeta_def)
  from filter_never_stops [OF example_objects.cluster_objects_axioms run refl this] run show ?thesis by blast
qed

end
