(* ===== verification/Update_Path.thy ===== *)
theory Update_Path
  imports Events Cluster_Controller
begin

text \<open>
  The way of an update through the whole system: the client's controller sends a cluster to the
  queue, the queue arrives_as it to the API server, and the API server stores it in the table.
\<close>

text \<open>
  What the queue promises about a message that comes from an entry of a batch: it has an id, the
  body and the attributes of the entry, and the time at which it was sent, in milliseconds.
\<close>

definition arrives_as :: "SendMessageBatchRequestEntry \<Rightarrow> int \<Rightarrow> Message \<Rightarrow> bool" where
  "arrives_as e sent msg \<longleftrightarrow>
     MessageId msg \<noteq> None \<and> Body msg = entry_MessageBody e \<and>
     Attributes msg ''SentTimestamp'' = Some (int_str sent) \<and>
     (\<forall>n. MessageAttributes msg n =
        map_option (\<lambda>(_, v). Some \<lparr>StringValue = Some v\<rparr>) (map_of (entry_MessageAttributes e) n))"

definition sent_time :: "int \<Rightarrow> instant" where
  "sent_time sent = time_Unix 0 (wrap64 (sent * 10 ^ 6))"

lemma delivered_event:
  assumes "arrives_as (update_entry uid obj name skip) sent msg"
  shows "NewEvent (Some msg) = Ret (Inr \<lparr>ev_Type = ClusterUpdateEvent, ev_Message = msg\<rparr>)"
    and "MessageAttributes msg MessageAttributeSkipCacheInvalidation =
      Some (Some \<lparr>StringValue = Some (if skip then ''true'' else ''false'')\<rparr>)"
  using assms
  by (simp_all add: arrives_as_def NewEvent_def update_entry_def MessageAttributeType_def MessageAttributeSkipCacheInvalidation_def)

lemma delivered_update:
  assumes "arrives_as (update_entry uid obj name skip) sent msg" and "in_int64 sent" and "decode obj = Inr c"
  shows "handle_event decode (Some \<lparr>ev_Type = ClusterUpdateEvent, ev_Message = msg\<rparr>) = Ret (Inr (c, sent_time sent))"
  using assms
  by (simp add: arrives_as_def handle_event_def update_entry_def ClusterUpdateHandler_Type_def sent_time_def)

text \<open>A reconciliation that succeeds has sent one entry with the annotated cluster.\<close>

lemma reconcile_entry:
  assumes "ReconcileCreateUpdate r instance w = (Ret (x, None), w')"
  shows "\<exists>api uid obj result. svc (cr_Queue r) = Some api \<and> cr_Marshal r (annotate r instance) = Inr obj \<and>
    SendMessageBatch api (QueueURL (cr_Queue r))
      [update_entry uid obj (cluster_name instance) (annotations_of instance SkipCacheInvalidationAnnotation \<noteq> None)] w = (Inr result, w')"
proof -
  have n: "cluster_name (annotate r instance) = cluster_name instance" by (simp add: annotate_def)
  show ?thesis
    using assms
    by (auto simp: ReconcileCreateUpdate_def enqueue_def Enqueue_def Let_def n nil_deref_def
        split: sum.splits option.splits prod.splits if_splits run.splits)
qed

text \<open>What the API server does with a message that the controller sent.\<close>

lemma on_message_update:
  assumes m: "arrives_as (update_entry uid obj name skip) sent msg" and q: "svc q = Some api"
    and i: "in_int64 sent" and d: "decode obj = Inr c"
    and r: "handle_read db c (sent_time sent) (app_db a) = (plan, s1)" and w: "handle_write db plan s1 = (err, s2)"
    and run: "on_message decode db q invalidate msg a = (x, a')"
  shows "x = Ret () \<and> app_db a' = s2 \<and> (err \<noteq> None \<longrightarrow> app_sqs a' = app_sqs a) \<and>
    (skip \<or> err \<noteq> None \<longrightarrow> app_cache a' = app_cache a)"
proof -
  have "Handle decode db (Some \<lparr>ev_Type = ClusterUpdateEvent, ev_Message = msg\<rparr>) (app_db a) = (Ret err, s2)"
    using delivered_update [OF m i, of decode] d r w by (simp add: Handle_def)
  moreover have "MessageId msg \<noteq> None" using m by (simp add: arrives_as_def)
  ultimately show ?thesis
    using run delivered_event [OF m] q
    by (auto simp: on_message_def Delete_def Let_def split: option.splits prod.splits if_splits)
qed


text \<open>An encoding of clusters that have a hash and nothing else, with its decoder, and a queue that counts deletions.\<close>

definition bare :: "string \<Rightarrow> Cluster" where
  "bare h = set_spec (\<lambda>sp. sp\<lparr>cs_Name := ''c1''\<rparr>) (set_annotations [HashAnnotation \<mapsto> h] zero_Cluster)"

definition bare_marshal :: "Cluster \<Rightarrow> goerr + string" where
  "bare_marshal c = (let h = the (annotations_of c HashAnnotation) in if c = bare h then Inr h else Inl (Error ''encoding''))"

definition bare_reconciler :: "(Cluster option, SendMessageBatchRequestEntry list list) ClusterReconciler" where
  "bare_reconciler = example_reconciler\<lparr>cr_Marshal := bare_marshal\<rparr>"

definition bare_cluster :: Cluster where
  "bare_cluster = set_spec (\<lambda>sp. sp\<lparr>cs_Name := ''c1''\<rparr>) zero_Cluster"

definition deleting_queue :: "nat Config" where
  "deleting_queue = \<lparr>AWSRegion = ''r'', QueueName = ''q'', Endpoint = ''e'', QueueURL = ''u'', MaxRetries = 0, BatchSize = 10,
     WaitSeconds = 5, VisibilityTimeout = 120, RunOnce = False, RunInterval = 20, MaxHandlers = 10, BusyTimeout = 30,
     svc = Some \<lparr>GetQueueUrl = (\<lambda>n w. (Inr ''u'', w)), SendMessageBatch = (\<lambda>u b w. (Inl (Error ''closed''), w)),
       DeleteMessage = (\<lambda>u h w. (None, Suc w)), ChangeMessageVisibility = (\<lambda>u h n w. (None, w))\<rparr>,
     handlerCount = 0, registered = False\<rparr>"

definition message_of :: "SendMessageBatchRequestEntry \<Rightarrow> int \<Rightarrow> Message" where
  "message_of e sent = \<lparr>MessageId = Some ''m'', ReceiptHandle = Some ''r'', Body = entry_MessageBody e,
     Attributes = [''SentTimestamp'' \<mapsto> int_str sent],
     MessageAttributes = (\<lambda>n. map_option (\<lambda>(_, v). Some \<lparr>StringValue = Some v\<rparr>) (map_of (entry_MessageAttributes e) n))\<rparr>"

lemma bare_annotate: "annotate bare_reconciler bare_cluster = bare (hashCluster bare_reconciler bare_cluster)"
  by (simp add: annotate_def bare_def bare_cluster_def zero_Cluster_def zero_ObjectMeta_def fun_eq_iff)

lemma bare_roundtrip: "bare_marshal c = Inr b \<Longrightarrow> (Inr (bare b) :: goerr + Cluster) = Inr c"
  by (auto simp: bare_marshal_def Let_def split: if_splits)

lemma bare_marshal_bare [simp]: "bare_marshal (bare h) = Inr h"
  by (simp add: bare_marshal_def bare_def Let_def)

lemma bare_name [simp]: "cluster_name bare_cluster = ''c1''" "cluster_name (bare h) = ''c1''"
  by (simp_all add: bare_cluster_def bare_def)

lemma arrives_message_of: "arrives_as e sent (message_of e sent)"
  by (simp add: arrives_as_def message_of_def)

lemma bare_reconcile:
  "\<exists>e. ReconcileCreateUpdate bare_reconciler bare_cluster [] = (Ret ((False, 0), None), [[e]])"
  by (simp add: ReconcileCreateUpdate_def enqueue_def bare_annotate Let_def)
    (simp add: bare_reconciler_def example_reconciler_def update_entry_def Enqueue_def)


end
