(* ===== verification/Web.thy ===== *)
theory Web
  imports Registry_Types Go_Regexp Sqs Database
    "HOL-Library.Word" "HOL-Library.List_Lexorder" "HOL-Library.Char_ord"
begin

text \<open>
  The web layer of the API server (pkg/apiserver/web and pkg/apiserver/errors): error bodies, the
  conversion of short cluster names, the response cache, the rate limiter's callbacks and the
  health endpoints.  A response is the value that a handler writes, before its encoding to JSON.
\<close>

section \<open>Requests and responses\<close>

record clusterList =
  lst_Items :: "ClusterSpec list"
  lst_ItemsCount :: int
  lst_Offset :: int
  lst_Limit :: int
  lst_More :: bool

record ServiceMetadataEntry =
  sm_Name :: string
  sm_ServiceMetadata :: ServiceMetadata

record serviceMetadataList =
  sml_Items :: "ServiceMetadataEntry list"
  sml_ItemsCount :: int
  sml_Offset :: int
  sml_Limit :: int
  sml_More :: bool

datatype body =
    ErrorBody string
  | ClusterBody ClusterSpec
  | ClusterListBody clusterList
  | ServiceBody ServiceMetadataEntry
  | ServiceListBody serviceMetadataList
  | StatusBody bool bool
  | TextBody string
  | NullBody

record response =
  resp_Status :: int
  resp_Header :: "(string \<times> string list) list"
  resp_Body :: body

text \<open>
  The request as \<^verbatim>\<open>echo.Context\<close> shows it: method, path of the URL, query parameters in their order,
  path parameters, headers, the body, and the values that the authentication has set.
\<close>

record Ctx =
  ctx_Method :: string
  ctx_Path :: string
  ctx_Query :: "(string \<times> string) list"
  ctx_Param :: "string \<Rightarrow> string"
  ctx_Header :: "string \<Rightarrow> string"
  ctx_Body :: string
  ctx_oid :: "string option"
  ctx_groups :: "string list option"

text \<open>\<^verbatim>\<open>c.QueryParam\<close>: the first value, or the empty string.\<close>

definition QueryParam :: "Ctx \<Rightarrow> string \<Rightarrow> string" where
  "QueryParam c k = (case map_of (ctx_Query c) k of None \<Rightarrow> [] | Some v \<Rightarrow> v)"

definition json_header :: "(string \<times> string list) list" where
  "json_header = [(''Content-Type'', [''application/json; charset=UTF-8''])]"

definition JSON :: "int \<Rightarrow> body \<Rightarrow> response" where
  "JSON code b = \<lparr>resp_Status = code, resp_Header = json_header, resp_Body = b\<rparr>"

text \<open>
  A handler answers or panics and changes the state of the server; a listing may also never come
  back, which is the value \<open>None\<close>.
\<close>

type_synonym 'st handler = "Ctx \<Rightarrow> 'st \<Rightarrow> (response run \<times> 'st) option"

definition answer :: "response \<Rightarrow> 'st \<Rightarrow> (response run \<times> 'st) option" where
  "answer r st = Some (Ret r, st)"

lemma answer_simps [simp]: "answer r st = Some x \<longleftrightarrow> x = (Ret r, st)"
  by (auto simp: answer_def)

section \<open>Errors (errors/errors.go)\<close>

fun err_text :: "goerr \<Rightarrow> string" where
  "err_text (Error s) = s"
| "err_text (Wrapped p e) = p @ err_text e"
| "err_text (Quoted p e s) = p @ quoted (err_text e) @ s"
| "err_text (HTTPError code msg) = ''code='' @ int_str code @ '', message='' @ msg"

definition NewError :: "goerr \<Rightarrow> body" where
  "NewError err = (case err of HTTPError code msg \<Rightarrow> ErrorBody msg | _ \<Rightarrow> ErrorBody (err_text err))"

definition NotFound :: body where
  "NotFound = ErrorBody ''resource not found''"

section \<open>Cluster names (encoding.go)\<close>

definition environments :: "string list" where
  "environments = [''sbx'', ''thrash'', ''dev'', ''stage'', ''prod'']"

definition short_name_pattern :: "item list" where
  "short_name_pattern =
     [BeginText, Chars is_lower 2 (Some 10) True, Chars is_digit 1 (Some 5) True,
      OneOf environments, Chars not_newline 0 None True, EndText]"

definition GetClusterDashName :: "string \<Rightarrow> goerr + string" where
  "GetClusterDashName shortName =
     (case find_submatch short_name_pattern 0 shortName of
        Some [_, letters, digits, env, rest, _] \<Rightarrow> Inr (letters @ digits @ ''-'' @ env @ ''-'' @ rest)
      | _ \<Rightarrow> Inl (Error (''Cannot convert shortName '' @ shortName @ '' to standard name'')))"

section \<open>The response cache (cache.go)\<close>

subsection \<open>Keys\<close>

text \<open>
  \<^verbatim>\<open>url.QueryEscape\<close>, \<^verbatim>\<open>Values.Encode\<close> and the sorting of the values: the keys in order, each with its
  values in order.
\<close>

definition hex_digit :: "nat \<Rightarrow> char" where
  "hex_digit n = (if n < 10 then char_of (48 + n) else char_of (55 + n))"

definition unreserved :: "char \<Rightarrow> bool" where
  "unreserved c \<longleftrightarrow> is_lower c \<or> is_upper c \<or> is_digit c \<or> c \<in> set ''-_.~''"

definition QueryEscape :: "string \<Rightarrow> string" where
  "QueryEscape s = concat (map (\<lambda>c. if unreserved c then [c] else if c = CHR '' '' then ''+''
     else [CHR 0x25, hex_digit (byte c div 16), hex_digit (byte c mod 16)]) s)"

definition query_values :: "(string \<times> string) list \<Rightarrow> string \<Rightarrow> string list" where
  "query_values q k = map snd (filter (\<lambda>p. fst p = k) q)"

definition sortURLParams :: "(string \<times> string) list \<Rightarrow> (string \<times> string) list" where
  "sortURLParams q =
     concat (map (\<lambda>k. map (\<lambda>v. (k, v)) (sort (query_values q k))) (sort (remdups (map fst q))))"

definition Encode :: "(string \<times> string) list \<Rightarrow> string" where
  "Encode q = str_join ''&'' (map (\<lambda>(k, v). QueryEscape k @ ''='' @ QueryEscape v) q)"

definition URL_String :: "string \<Rightarrow> (string \<times> string) list \<Rightarrow> string" where
  "URL_String path q = (if Encode q = [] then path else path @ ''?'' @ Encode q)"

text \<open>\<^verbatim>\<open>fnv.New64a\<close> and \<^verbatim>\<open>strconv.FormatUint\<close> with base 36.\<close>

definition fnv64a :: "string \<Rightarrow> 64 word" where
  "fnv64a s = fold (\<lambda>c h. (xor h (of_nat (byte c))) * 1099511628211) s 14695981039346656037"

definition base36_digit :: "nat \<Rightarrow> char" where
  "base36_digit n = (if n < 10 then char_of (48 + n) else char_of (87 + n))"

fun base36 :: "nat \<Rightarrow> string" where
  "base36 n = (if n < 36 then [base36_digit n] else base36 (n div 36) @ [base36_digit (n mod 36)])"

declare base36.simps [simp del]

definition GenerateKey :: "string \<Rightarrow> string" where
  "GenerateKey url = base36 (unat (fnv64a url))"

subsection \<open>The middleware\<close>

record Response =
  Value :: body
  Header :: "(string \<times> string list) list"

text \<open>
  The cache library and the \<^verbatim>\<open>gob\<close> encoding of responses.  The encoded text is a value of type \<open>'v\<close>;
  the empty string, which the library returns for a key it does not have, is \<open>None\<close>.
  \<open>cache_Set\<close> also gets the tags; the expiration time is a setting of the library.
\<close>

record ('v, 'c) cache_api =
  cache_Get :: "string \<Rightarrow> 'c \<Rightarrow> ('v option \<times> goerr option) \<times> 'c"
  cache_Set :: "string \<Rightarrow> 'v \<Rightarrow> string list \<Rightarrow> 'c \<Rightarrow> goerr option \<times> 'c"
  cache_Invalidate :: "string list \<Rightarrow> 'c \<Rightarrow> goerr option \<times> 'c"
  gob_encode :: "Response \<Rightarrow> 'v"
  gob_decode :: "'v \<Rightarrow> Response"

definition StringToResponse :: "('v, 'c) cache_api \<Rightarrow> 'v \<Rightarrow> Response" where
  "StringToResponse api s = gob_decode api s"

definition Response_String :: "('v, 'c) cache_api \<Rightarrow> Response \<Rightarrow> 'v" where
  "Response_String api r = gob_encode api r"

record ('st, 'c) server =
  srv_st :: 'st
  srv_cache :: 'c

text \<open>The header of a cached response is sent with the values of each field joined.\<close>

definition cached_answer :: "Response \<Rightarrow> response" where
  "cached_answer r = \<lparr>resp_Status = 200, resp_Header = map (\<lambda>(k, v). (k, [str_join '','' v])) (Header r),
     resp_Body = Value r\<rparr>"

text \<open>The key of a request whose parameters are sorted.\<close>

definition cache_key :: "Ctx \<Rightarrow> string" where
  "cache_key c = GenerateKey (URL_String (ctx_Path c) (ctx_Query c))"

text \<open>A request that is not in the cache is handled, and a successful answer is stored.\<close>

definition cache_miss ::
  "('v, 'c) cache_api \<Rightarrow> string list \<Rightarrow> 'st handler \<Rightarrow> string \<Rightarrow> ('st, 'c) server handler" where
  "cache_miss api tags next key c s =
     (case next c (srv_st s) of
        None \<Rightarrow> None
      | Some (Panic p, st) \<Rightarrow> Some (Panic p, s\<lparr>srv_st := st\<rparr>)
      | Some (Ret r, st) \<Rightarrow>
          if resp_Status r < 400
          then let newResponse = \<lparr>Value = resp_Body r, Header = resp_Header r\<rparr>;
                   (err, cache) = cache_Set api key (Response_String api newResponse) tags (srv_cache s)
               in answer r \<lparr>srv_st = st, srv_cache = cache\<rparr>
          else answer r (s\<lparr>srv_st := st\<rparr>))"

definition HTTPCache ::
  "('v, 'c) cache_api \<Rightarrow> string list \<Rightarrow> 'st handler \<Rightarrow> ('st, 'c) server handler" where
  "HTTPCache api tags next c s =
     (if ctx_Method c = ''GET''
      then let c = c\<lparr>ctx_Query := sortURLParams (ctx_Query c)\<rparr>;
               ((cachedResponse, err), cache) = cache_Get api (cache_key c) (srv_cache s);
               s = s\<lparr>srv_cache := cache\<rparr>
           in case cachedResponse of
                Some text \<Rightarrow> answer (cached_answer (StringToResponse api text)) s
              | None \<Rightarrow> cache_miss api tags next (cache_key c) c s
      else (case next c (srv_st s) of
              None \<Rightarrow> None
            | Some (r, st) \<Rightarrow> Some (r, s\<lparr>srv_st := st\<rparr>)))"

section \<open>The rate limiter (rate_limiter.go)\<close>

text \<open>The callbacks and settings that the program gives to the limiter of the framework.\<close>

record RateLimiterConfig =
  rl_Skipper :: "Ctx \<Rightarrow> bool"
  rl_Rate :: int
  rl_Burst :: int
  rl_ExpiresIn :: int \<comment> \<open>seconds\<close>
  rl_IdentifierExtractor :: "Ctx \<Rightarrow> goerr + string"
  rl_ErrorHandler :: "goerr \<Rightarrow> response"
  rl_DenyHandler :: "string \<Rightarrow> response"

definition RateLimiter :: "bool \<Rightarrow> RateLimiterConfig" where
  "RateLimiter apiRateLimiterEnabled =
     \<lparr>rl_Skipper = (\<lambda>c. \<not> apiRateLimiterEnabled), rl_Rate = 2, rl_Burst = 120, rl_ExpiresIn = 60,
      rl_IdentifierExtractor = (\<lambda>c. case ctx_oid c of
          None \<Rightarrow> Inr ''00000000-0000-0000-0000-000000000000''
        | Some oid \<Rightarrow> Inr oid),
      rl_ErrorHandler = (\<lambda>err. JSON 403 NullBody),
      rl_DenyHandler = (\<lambda>identifier. JSON 429 NullBody)\<rparr>"

section \<open>Health (readyz.go, livez.go, version.go)\<close>

definition checkDBStatus :: "'st Db \<Rightarrow> 'st \<Rightarrow> bool \<times> 'st" where
  "checkDBStatus db st = (let (e, st) = Db_Status db st in (e = None, st))"

definition checkSqsStatus :: "'w Config \<Rightarrow> 'w \<Rightarrow> bool run \<times> 'w" where
  "checkSqsStatus q w = (let (e, w) = sqs_Status q w in (run_map (\<lambda>e. e = None) e, w))"

definition Readyz :: "'st Db \<Rightarrow> 'w Config \<Rightarrow> 'st \<times> 'w \<Rightarrow> response run \<times> ('st \<times> 'w)" where
  "Readyz db q s =
     (let (d, st) = checkDBStatus db (fst s);
          (q, w) = checkSqsStatus q (snd s)
      in (run_map (\<lambda>q. JSON (if \<not> d \<or> \<not> q then 500 else 200) (StatusBody d q)) q, (st, w)))"

definition Livez :: response where
  "Livez = \<lparr>resp_Status = 200, resp_Header = [], resp_Body = TextBody ''OK''\<rparr>"

definition Version :: "string \<Rightarrow> response" where
  "Version version = \<lparr>resp_Status = 200, resp_Header = [], resp_Body = TextBody version\<rparr>"

section \<open>Properties of cluster names\<close>

lemma fits_length: "fits as n s ks \<Longrightarrow> length ks = length as"
  by (induction as n s ks rule: fits.induct) auto

lemma environment_unique:
  assumes "w \<in> set environments"
    and "e \<in> set environments" and "prefix w (e @ r)"
  shows "w = e"
  using assms by (auto simp: environments_def)

lemma lower_not_digit: "is_lower c \<Longrightarrow> \<not> is_digit c"
  by (simp add: is_lower_def is_digit_def)

lemma environment_lower:
  "e \<in> set environments \<Longrightarrow> e \<noteq> [] \<and> is_lower (hd e)"
  by (auto simp: environments_def is_lower_def byte_def)

lemma run_unique:
  assumes "list_all P xs" "ys \<noteq> []" "\<not> P (hd ys)"
    and "list_all P (take k (xs @ ys))" "k < length (xs @ ys)" "\<not> P ((xs @ ys) ! k)"
  shows "k = length xs"
proof (rule run_length_unique [of P "length xs" "xs @ ys" k])
  show "list_all P (take (length xs) (xs @ ys))" using assms(1) by simp
  show "length xs < length (xs @ ys)" using assms(2) by simp
  show "\<not> P ((xs @ ys) ! length xs)" using assms(2,3) by (simp add: nth_append hd_conv_nth)
qed (use assms in simp_all)

lemma short_name_fits:
  assumes "fits short_name_pattern 0 s ks"
  obtains k1 k2 k3 k4 where "ks = [0, k1, k2, k3, k4, 0]"
    and "list_all is_lower (take k1 s) \<and> k1 \<le> length s \<and> 1 \<le> k2 \<and> k2 \<le> length (drop k1 s) \<and>
      list_all is_digit (take k2 (drop k1 s)) \<and>
      (\<exists>w \<in> set environments. prefix w (drop k2 (drop k1 s)) \<and> k3 = length w) \<and>
      k4 \<le> length (drop k3 (drop k2 (drop k1 s))) \<and> drop k4 (drop k3 (drop k2 (drop k1 s))) = []"
proof -
  have "length ks = 6" using fits_length [OF assms] by (simp add: short_name_pattern_def)
  then obtain k0 k1 k2 k3 k4 k5 where ks: "ks = [k0, k1, k2, k3, k4, k5]"
    by (auto simp: length_Suc_conv numeral_eq_Suc)
  then show ?thesis
    using assms by (intro that [of k1 k2 k3 k4]) (auto simp: short_name_pattern_def split: if_splits)
qed

lemma short_name_match:
  assumes "list_all is_lower l" "2 \<le> length l" "length l \<le> 10"
    and "list_all is_digit d" "1 \<le> length d" "length d \<le> 5"
    and "e \<in> set environments" "list_all not_newline r"
  shows "match_items short_name_pattern 0 (l @ d @ e @ r) = Some [0, length l, length d, length e, length r, 0]"
proof (rule match_items_unique)
  have e: "e \<noteq> []" "is_lower (hd e)" using environment_lower [OF assms(7)] by auto
  show "fits short_name_pattern 0 (l @ d @ e @ r) [0, length l, length d, length e, length r, 0]"
    using assms by (auto simp: short_name_pattern_def)
  fix ks assume fit: "fits short_name_pattern 0 (l @ d @ e @ r) ks"
  then obtain k1 k2 k3 k4 where ks: "ks = [0, k1, k2, k3, k4, 0]"
    and F: "list_all is_lower (take k1 (l @ d @ e @ r)) \<and> k1 \<le> length (l @ d @ e @ r) \<and> 1 \<le> k2 \<and>
      k2 \<le> length (drop k1 (l @ d @ e @ r)) \<and> list_all is_digit (take k2 (drop k1 (l @ d @ e @ r))) \<and>
      (\<exists>w \<in> set environments.
        prefix w (drop k2 (drop k1 (l @ d @ e @ r))) \<and> k3 = length w) \<and>
      k4 \<le> length (drop k3 (drop k2 (drop k1 (l @ d @ e @ r)))) \<and>
      drop k4 (drop k3 (drop k2 (drop k1 (l @ d @ e @ r)))) = []"
    by (rule short_name_fits)
  let ?s = "l @ d @ e @ r"
  note f1 = F [THEN conjunct1] F [THEN conjunct2, THEN conjunct1]
  note F' = F [THEN conjunct2, THEN conjunct2]
  note f2 = F' [THEN conjunct1] F' [THEN conjunct2, THEN conjunct1] F' [THEN conjunct2, THEN conjunct2, THEN conjunct1]
  note F'' = F' [THEN conjunct2, THEN conjunct2, THEN conjunct2]
  note f3 = F'' [THEN conjunct1]
  note f4 = F'' [THEN conjunct2, THEN conjunct1] F'' [THEN conjunct2, THEN conjunct2]
  have k1: "k1 = length l"
  proof (rule run_unique [of is_lower l "d @ e @ r" k1])
    have lt: "k1 < length ?s" using f2(1,2) by simp
    then show "k1 < length (l @ (d @ e @ r))" by simp
    have "?s ! k1 = hd (drop k1 ?s)" by (rule hd_drop_conv_nth [symmetric, OF lt])
    also have "is_digit (hd (drop k1 ?s))"
      using f2 by (cases "drop k1 ?s"; cases k2) auto
    finally show "\<not> is_lower ((l @ (d @ e @ r)) ! k1)" using lower_not_digit by blast
    show "\<not> is_lower (hd (d @ e @ r))" using assms(4,5) lower_not_digit by (cases d) auto
  qed (use assms f1 in auto)
  have k2: "k2 = length d"
  proof (rule run_unique [of is_digit d "e @ r" k2])
    have rest: "drop k1 ?s = d @ e @ r" using k1 by simp
    from f3 [unfolded rest] obtain w where w: "w \<in> set environments"
      "prefix w (drop k2 (d @ e @ r))" by blast
    have wl: "w \<noteq> []" "is_lower (hd w)" using environment_lower [OF w(1)] by auto
    then obtain c w' where "w = c # w'" by (cases w) auto
    then obtain ws where ws: "drop k2 (d @ e @ r) = c # ws" "is_lower c"
      using w(2) wl by (auto simp: prefix_def)
    then have lt: "k2 < length (d @ e @ r)" by (metis drop_eq_Nil linorder_not_le list.distinct(1))
    then show "k2 < length (d @ (e @ r))" by simp
    have "(d @ e @ r) ! k2 = c" using ws(1) lt by (metis hd_drop_conv_nth list.sel(1))
    then show "\<not> is_digit ((d @ (e @ r)) ! k2)" using ws(2) lower_not_digit by auto
    show "\<not> is_digit (hd (e @ r))" using e lower_not_digit by auto
    show "e @ r \<noteq> []" using e by simp
  qed (use assms f2 k1 in auto)
  have rest: "drop k2 (drop k1 ?s) = e @ r" using k1 k2 by simp
  from f3 [unfolded rest] obtain w where w: "w \<in> set environments"
    "prefix w (e @ r)" "k3 = length w" by blast
  have "w = e" by (rule environment_unique [OF w(1) assms(7) w(2)])
  with f4 k1 k2 w(3) show "ks = [0, length l, length d, length e, length r, 0]" by (simp add: ks)
qed

text \<open>
  A short name is turned into the standard name with dashes between its three parts, for all
  letters, digits, environments and regions that the naming scheme allows.
\<close>

theorem dash_name:
  assumes "list_all is_lower l" "2 \<le> length l" "length l \<le> 10"
    and "list_all is_digit d" "1 \<le> length d" "length d \<le> 5"
    and "e \<in> set environments" "list_all not_newline r"
  shows "GetClusterDashName (l @ d @ e @ r) = Inr (l @ d @ ''-'' @ e @ ''-'' @ r)"
proof -
  have "find_submatch short_name_pattern 0 (l @ d @ e @ r) = Some [[], l, d, e, r, []]"
    by (subst find_submatch_here [OF short_name_match [OF assms]]) simp
  then show ?thesis by (simp add: GetClusterDashName_def)
qed

theorem dash_name_witness:
  "GetClusterDashName ''cluster01produseast1'' = Inr ''cluster01-prod-useast1''"
  using dash_name [of "''cluster''" "''01''" "''prod''" "''useast1''"]
  by (simp add: is_lower_def is_digit_def not_newline_def byte_def environments_def)

section \<open>Properties of the cache keys\<close>

lemma query_values_mset:
  "mset q = mset q' \<Longrightarrow> mset (query_values q k) = mset (query_values q' k)"
  by (simp add: query_values_def)

lemma sort_mset_cong: "mset xs = mset ys \<Longrightarrow> sort xs = sort (ys :: 'a :: linorder list)"
  by (metis mset_sort properties_for_sort sorted_sort)

lemma sortURLParams_cong:
  assumes "mset q = mset q'"
  shows "sortURLParams q = sortURLParams q'"
proof -
  have "set (map fst q) = set (map fst q')" using mset_eq_setD [OF assms] by simp
  then have "sort (remdups (map fst q)) = sort (remdups (map fst q'))"
    by (intro sort_mset_cong) (simp add: set_eq_iff_mset_remdups_eq [symmetric])
  moreover have "sort (query_values q k) = sort (query_values q' k)" for k
    by (rule sort_mset_cong [OF query_values_mset [OF assms]])
  ultimately show ?thesis by (simp add: sortURLParams_def)
qed

lemma base36_digit_inj: "m < 36 \<Longrightarrow> n < 36 \<Longrightarrow> base36_digit m = base36_digit n \<Longrightarrow> m = n"
  by (auto simp: base36_digit_def split: if_splits)

lemma base36_nonempty [simp]: "base36 n \<noteq> []"
  by (subst base36.simps) simp

lemma base36_inj: "base36 m = base36 n \<Longrightarrow> m = n"
proof (induction m arbitrary: n rule: base36.induct)
  case (1 m)
  show ?case
  proof (cases "m < 36")
    case True
    then have "base36 n = [base36_digit m]" using "1.prems" base36.simps [of m] by simp
    then have "n < 36" "base36_digit n = base36_digit m"
      using base36.simps [of n] by (auto split: if_splits)
    then show ?thesis using True base36_digit_inj by blast
  next
    case False
    then have m: "base36 m = base36 (m div 36) @ [base36_digit (m mod 36)]" using base36.simps [of m] by simp
    have "\<not> n < 36" using "1.prems" m base36.simps [of n] by auto
    then have n: "base36 n = base36 (n div 36) @ [base36_digit (n mod 36)]" using base36.simps [of n] by simp
    have "m div 36 = n div 36" using "1.IH" [OF False, of "n div 36"] "1.prems" m n by simp
    moreover have "m mod 36 = n mod 36" using "1.prems" m n by (intro base36_digit_inj) auto
    ultimately show ?thesis by (metis div_mult_mod_eq)
  qed
qed

text \<open>
  The order of the query parameters does not matter to the cache: requests whose parameters are
  the same up to their order get the same key, and the handler behind the cache sees the same
  parameters.  Different keys mean different hashes of the URL.
\<close>

theorem cache_key_canonical:
  assumes "mset q = mset q'"
  shows "sortURLParams q = sortURLParams q' \<and>
    GenerateKey (URL_String path (sortURLParams q)) = GenerateKey (URL_String path (sortURLParams q')) \<and>
    (GenerateKey u = GenerateKey v \<longleftrightarrow> fnv64a u = fnv64a v)"
proof -
  have "GenerateKey u = GenerateKey v \<longleftrightarrow> fnv64a u = fnv64a v"
    by (auto simp: GenerateKey_def word_unat_eq_iff dest!: base36_inj)
  then show ?thesis using sortURLParams_cong [OF assms] by simp
qed

theorem cache_key_canonical_witness:
  "sortURLParams [(''offset'', ''0''), (''limit'', ''5'')] = sortURLParams [(''limit'', ''5''), (''offset'', ''0'')]"
proof -
  have "mset [(''offset'', ''0''), (''limit'', ''5'')] = mset [(''limit'', ''5''), (''offset'', ''0'')]" by simp
  from cache_key_canonical [OF this] show ?thesis by blast
qed

section \<open>Properties of the response cache\<close>

text \<open>Every entry is the encoding of a successful answer of the handler to a request with that key.\<close>

definition cache_sound ::
  "('v, 'c) cache_api \<Rightarrow> ('c \<Rightarrow> string \<Rightarrow> 'v option) \<Rightarrow> 'st handler \<Rightarrow> 'c \<Rightarrow> bool" where
  "cache_sound api entries next c \<longleftrightarrow> (\<forall>k v. entries c k = Some v \<longrightarrow>
     (\<exists>ctx st r st'. next ctx st = Some (Ret r, st') \<and> resp_Status r < 400 \<and> k = cache_key ctx \<and>
        v = gob_encode api \<lparr>Value = resp_Body r, Header = resp_Header r\<rparr>))"

text \<open>
  What the cache library promises: a value that is found was stored under the key; entries may
  disappear at any time; invalidation by a tag that every entry has removes all of them; the
  encoding can be undone.
\<close>

locale response_cache =
  fixes api :: "('v, 'c) cache_api" and entries :: "'c \<Rightarrow> string \<Rightarrow> 'v option"
  assumes get_finds: "cache_Get api k c = ((Some v, e), c') \<Longrightarrow> entries c k = Some v"
    and get_keeps: "cache_Get api k c = (r, c') \<Longrightarrow> entries c' k' = Some x \<Longrightarrow> entries c k' = Some x"
    and set_stores: "cache_Set api k v tags c = (e, c') \<Longrightarrow> entries c' k' = Some x \<Longrightarrow>
      entries c k' = Some x \<or> k' = k \<and> x = v"
    and invalidate_clears: "cache_Invalidate api [''clusters''] c = (None, c') \<Longrightarrow> entries c' k = None"
    and gob_inverse: "gob_decode api (gob_encode api r') = r'"
begin

lemma sound_get:
  "cache_sound api entries next c \<Longrightarrow> cache_Get api k c = (r, c') \<Longrightarrow> cache_sound api entries next c'"
  unfolding cache_sound_def using get_keeps by blast

lemma sound_set:
  assumes "cache_sound api entries next c" and "next ctx st = Some (Ret r, st')" and "resp_Status r < 400"
    and "cache_Set api (cache_key ctx)
      (gob_encode api \<lparr>Value = resp_Body r, Header = resp_Header r\<rparr>) tags c = (e, c')"
  shows "cache_sound api entries next c'"
  unfolding cache_sound_def
proof (intro allI impI)
  fix k v assume "entries c' k = Some v"
  with set_stores [OF assms(4)] have "entries c k = Some v \<or> k = cache_key ctx \<and>
      v = gob_encode api \<lparr>Value = resp_Body r, Header = resp_Header r\<rparr>" by blast
  then show "\<exists>ctx st r st'. next ctx st = Some (Ret r, st') \<and> resp_Status r < 400 \<and> k = cache_key ctx \<and>
      v = gob_encode api \<lparr>Value = resp_Body r, Header = resp_Header r\<rparr>"
    using assms(1-3) unfolding cache_sound_def by blast
qed

lemma sound_hit:
  assumes "cache_sound api entries next c" and "cache_Get api (cache_key ctx) c = ((Some v, e), c')"
  shows "\<exists>ctx' st r0 st'. next ctx' st = Some (Ret r0, st') \<and> cache_key ctx' = cache_key ctx \<and>
    resp_Status r0 < 400 \<and> resp_Body (cached_answer (gob_decode api v)) = resp_Body r0 \<and>
    resp_Status (cached_answer (gob_decode api v)) = 200"
proof -
  have "entries c (cache_key ctx) = Some v" using get_finds [OF assms(2)] .
  with assms(1) obtain ctx' st r0 st' where r0: "next ctx' st = Some (Ret r0, st')" "resp_Status r0 < 400"
      "cache_key ctx = cache_key ctx'" "v = gob_encode api \<lparr>Value = resp_Body r0, Header = resp_Header r0\<rparr>"
    unfolding cache_sound_def by blast
  then show ?thesis
    by (intro exI [of _ ctx'] exI [of _ st] exI [of _ r0] exI [of _ st'])
      (simp add: cached_answer_def gob_inverse)
qed

lemma cache_miss_sound:
  assumes "cache_sound api entries next (srv_cache s)"
    and "cache_miss api tags next (cache_key ctx) ctx s = Some (r, s')"
  shows "cache_sound api entries next (srv_cache s') \<and>
    (\<forall>a. r = Ret a \<longrightarrow> next ctx (srv_st s) = Some (Ret a, srv_st s'))"
proof -
  obtain m st where nx: "next ctx (srv_st s) = Some (m, st)"
    using assms(2) by (auto simp: cache_miss_def split: option.splits)
  show ?thesis
  proof (cases m)
    case (Panic p)
    then show ?thesis using assms nx by (auto simp: cache_miss_def)
  next
    case (Ret a)
    obtain e cache' where set: "cache_Set api (cache_key ctx)
        (gob_encode api \<lparr>Value = resp_Body a, Header = resp_Header a\<rparr>) tags (srv_cache s) = (e, cache')"
      by fastforce
    show ?thesis
      using assms nx Ret set sound_set [OF assms(1) nx [unfolded Ret] _ set]
      by (auto simp: cache_miss_def Response_String_def Let_def split: if_splits)
  qed
qed

lemma HTTPCache_sound:
  assumes "cache_sound api entries next (srv_cache s)" and "ctx_Method c = ''GET''"
    and "HTTPCache api tags next c s = Some (r, s')"
  shows "cache_sound api entries next (srv_cache s') \<and>
    (\<forall>a. r = Ret a \<longrightarrow> (\<exists>ctx st r0 st'. next ctx st = Some (Ret r0, st') \<and>
       cache_key ctx = cache_key (c\<lparr>ctx_Query := sortURLParams (ctx_Query c)\<rparr>) \<and> resp_Body a = resp_Body r0 \<and>
       (a = r0 \<or> resp_Status a = 200 \<and> resp_Status r0 < 400)))"
proof -
  define c1 where "c1 = c\<lparr>ctx_Query := sortURLParams (ctx_Query c)\<rparr>"
  obtain v e cache where get: "cache_Get api (cache_key c1) (srv_cache s) = ((v, e), cache)"
    by (metis prod.collapse)
  note s1 = sound_get [OF assms(1) get]
  have step: "(case v of Some text \<Rightarrow> answer (cached_answer (gob_decode api text)) (s\<lparr>srv_cache := cache\<rparr>)
      | None \<Rightarrow> cache_miss api tags next (cache_key c1) c1 (s\<lparr>srv_cache := cache\<rparr>)) = Some (r, s')"
    using assms(2,3) get by (cases v) (simp_all add: HTTPCache_def Let_def StringToResponse_def c1_def)
  show ?thesis
  proof (cases v)
    case None
    have "cache_sound api entries next (srv_cache (s\<lparr>srv_cache := cache\<rparr>))" using s1 by simp
    from cache_miss_sound [OF this] step None show ?thesis
      unfolding c1_def [symmetric] by (metis option.simps(4))
  next
    case (Some v')
    from sound_hit [OF assms(1) get [unfolded Some]] step Some s1 show ?thesis
      unfolding c1_def [symmetric] by auto
  qed
qed

end

text \<open>A cache in memory: the entries as a list of keys and responses.\<close>

definition mem_cache :: "(Response, (string \<times> Response) list) cache_api" where
  "mem_cache = \<lparr>cache_Get = (\<lambda>k c. ((map_of c k, None), c)), cache_Set = (\<lambda>k v tags c. (None, (k, v) # c)),
     cache_Invalidate = (\<lambda>tags c. (None, [])), gob_encode = (\<lambda>r. r), gob_decode = (\<lambda>v. v)\<rparr>"

interpretation memc: response_cache mem_cache map_of
  by unfold_locales (auto simp: mem_cache_def split: if_splits)

text \<open>
  The cache only ever repeats what the handler has said: for a read request that is answered,
  the body is that of a successful answer of the handler to a request with the same key, or the
  answer is the handler's own; and the cache stays in that shape.
\<close>

theorem cache_repeats_handler:
  assumes "response_cache api entries" and "cache_sound api entries next (srv_cache s)"
    and "ctx_Method c = ''GET''" and "HTTPCache api tags next c s = Some (Ret a, s')"
  shows "cache_sound api entries next (srv_cache s') \<and>
    (\<exists>ctx st r0 st'. next ctx st = Some (Ret r0, st') \<and>
       cache_key ctx = cache_key (c\<lparr>ctx_Query := sortURLParams (ctx_Query c)\<rparr>) \<and> resp_Body a = resp_Body r0 \<and>
       (a = r0 \<or> resp_Status a = 200 \<and> resp_Status r0 < 400))"
  using response_cache.HTTPCache_sound [OF assms] by blast

definition example_ctx :: Ctx where
  "example_ctx = \<lparr>ctx_Method = ''GET'', ctx_Path = ''/api/v1/clusters'', ctx_Query = [], ctx_Param = (\<lambda>_. []),
     ctx_Header = (\<lambda>_. []), ctx_Body = [], ctx_oid = None, ctx_groups = None\<rparr>"

theorem cache_repeats_handler_witness:
  "\<exists>s'. HTTPCache mem_cache [''clusters''] (\<lambda>c n. answer (JSON 200 (TextBody ''a'')) (Suc n)) example_ctx
       \<lparr>srv_st = 0, srv_cache = []\<rparr> = Some (Ret (JSON 200 (TextBody ''a'')), s') \<and>
     cache_sound mem_cache map_of (\<lambda>c n. answer (JSON 200 (TextBody ''a'')) (Suc n)) (srv_cache s')"
proof -
  let ?next = "\<lambda>c n. answer (JSON 200 (TextBody ''a'')) (Suc n)"
  let ?s = "\<lparr>srv_st = 0, srv_cache = []\<rparr> :: (nat, (string \<times> Response) list) server"
  have "\<exists>s'. HTTPCache mem_cache [''clusters''] ?next example_ctx ?s = Some (Ret (JSON 200 (TextBody ''a'')), s')"
    by (simp add: HTTPCache_def cache_miss_def mem_cache_def example_ctx_def Let_def JSON_def answer_def)
  then obtain s' where s': "HTTPCache mem_cache [''clusters''] ?next example_ctx ?s =
      Some (Ret (JSON 200 (TextBody ''a'')), s')" by blast
  have "cache_sound mem_cache map_of ?next (srv_cache ?s)" by (simp add: cache_sound_def)
  from cache_repeats_handler [OF memc.response_cache_axioms this _ s'] s' show ?thesis
    by (simp add: example_ctx_def)
qed

end
