(* ===== verification/Auth.thy ===== *)
theory Auth
  imports Web
begin

text \<open>
  pkg/auth/auth.go: the middleware that verifies the token of a request and the one that checks
  group membership.  The two OIDC verifiers and the decoding of the claims are arguments.
\<close>

definition auth_egressTarget :: string where
  "auth_egressTarget = ''azure_ad''"

definition tokenLookup :: string where
  "tokenLookup = ''Authorization''"

definition authScheme :: string where
  "authScheme = ''Bearer''"

record 'tok Authenticator =
  verifier :: "string \<Rightarrow> goerr + 'tok"
  spnVerifier :: "string \<Rightarrow> goerr + 'tok"
  Claims :: "'tok \<Rightarrow> goerr + (string \<times> string list)"

text \<open>The OIDC provider gives a verifier for a client id.\<close>

definition NewAuthenticator ::
  "(string \<Rightarrow> goerr + (string \<Rightarrow> string \<Rightarrow> goerr + 'tok)) \<Rightarrow> ('tok \<Rightarrow> goerr + (string \<times> string list)) \<Rightarrow>
   string \<Rightarrow> string \<Rightarrow> goerr + 'tok Authenticator" where
  "NewAuthenticator NewProvider claims oidcIssuerUrl oidcClientId =
     (case NewProvider oidcIssuerUrl of
        Inl err \<Rightarrow> Inl (Wrapped ''init verifier failed: '' err)
      | Inr provider \<Rightarrow>
          Inr \<lparr>verifier = provider oidcClientId, spnVerifier = provider (''spn:'' @ oidcClientId),
               Claims = claims\<rparr>)"

text \<open>\<^verbatim>\<open>setVerifiers\<close>, which the tests use.\<close>

definition setVerifiers ::
  "'tok Authenticator \<Rightarrow> (string \<Rightarrow> goerr + 'tok) \<Rightarrow> (string \<Rightarrow> goerr + 'tok) \<Rightarrow> 'tok Authenticator" where
  "setVerifiers a v spnv = a\<lparr>verifier := v, spnVerifier := spnv\<rparr>"

definition verify :: "'tok Authenticator \<Rightarrow> string \<Rightarrow> goerr + 'tok" where
  "verify a rawToken =
     (case verifier a rawToken of
        Inr token \<Rightarrow> Inr token
      | Inl err \<Rightarrow> if str_contains (err_text err) ''spn:'' then spnVerifier a rawToken else Inl err)"

definition extractToken :: "string \<Rightarrow> goerr + string" where
  "extractToken authorization =
     (let l = length authScheme
      in if length authorization > l + 1 \<and> take l authorization = authScheme
         then Inr (drop (l + 1) authorization)
         else Inl (Error ''missing or malformed jwt''))"

text \<open>The middleware records its metrics in a state of its own beside the state of the handlers.\<close>

definition VerifyToken ::
  "'tok Authenticator \<Rightarrow> 'st handler \<Rightarrow> (metric list \<times> 'st) handler" where
  "VerifyToken a next c s =
     (case extractToken (ctx_Header c tokenLookup) of
        Inl err \<Rightarrow> answer (JSON 400 (NewError err)) s
      | Inr rawToken \<Rightarrow>
          (let ms = EgressRequestDur auth_egressTarget # EgressRequestCnt auth_egressTarget # fst s
           in case verify a rawToken of
                Inl err \<Rightarrow> answer (JSON 403 (NewError err)) (ms, snd s)
              | Inr token \<Rightarrow>
                  (case Claims a token of
                     Inl err \<Rightarrow> answer (JSON 403 (NewError err)) (ms, snd s)
                   | Inr (oid, groups) \<Rightarrow>
                       map_option (\<lambda>(r, st). (r, (ms, st)))
                         (next (c\<lparr>ctx_oid := Some oid, ctx_groups := Some groups\<rparr>) (snd s)))))"

definition not_authorized :: "string \<Rightarrow> response" where
  "not_authorized oid =
     JSON 403 (NewError (Error (''identity '' @ oid @ '' is not authorized to perform this request'')))"

definition VerifyGroupAccess :: "string \<Rightarrow> 'st handler \<Rightarrow> 'st handler" where
  "VerifyGroupAccess grp next c s =
     (case ctx_oid c of
        None \<Rightarrow> Some (Panic ''interface conversion: interface {} is nil, not string'', s)
      | Some oid \<Rightarrow>
          (case ctx_groups c of
             None \<Rightarrow> answer (not_authorized oid) s
           | Some groups \<Rightarrow> if \<not> list_contains grp groups then answer (not_authorized oid) s else next c s))"

section \<open>Properties\<close>

text \<open>A token that one of the verifiers accepts and whose claims can be read.\<close>

definition authenticated :: "'tok Authenticator \<Rightarrow> Ctx \<Rightarrow> string \<Rightarrow> string list \<Rightarrow> bool" where
  "authenticated a c oid groups \<longleftrightarrow>
     (\<exists>scheme raw token. ctx_Header c tokenLookup = ''Bearer'' @ scheme # raw \<and> raw \<noteq> [] \<and>
        (verifier a raw = Inr token \<or> spnVerifier a raw = Inr token) \<and> Claims a token = Inr (oid, groups))"

lemma extractToken_Inr:
  "extractToken s = Inr raw \<longleftrightarrow> (\<exists>x. s = ''Bearer'' @ x # raw) \<and> raw \<noteq> []"
proof
  assume "extractToken s = Inr raw"
  then have l: "length s > 7" "take 6 s = ''Bearer''" "raw = drop 7 s"
    by (auto simp: extractToken_def authScheme_def Let_def numeral_eq_Suc split: if_splits)
  have "s = take 6 s @ s ! 6 # drop 7 s"
    using l(1) id_take_nth_drop [of 6 s] by simp
  then show "(\<exists>x. s = ''Bearer'' @ x # raw) \<and> raw \<noteq> []" using l by auto
qed (auto simp: extractToken_def authScheme_def Let_def)

lemma token_gate:
  "(\<exists>oid groups ms. authenticated a c oid groups \<and>
      VerifyToken a next c s =
        map_option (\<lambda>(r, st). (r, (ms, st)))
          (next (c\<lparr>ctx_oid := Some oid, ctx_groups := Some groups\<rparr>) (snd s))) \<or>
   (\<exists>code e ms. code \<in> {400, 403} \<and> VerifyToken a next c s = answer (JSON code e) (ms, snd s))"
proof (cases "extractToken (ctx_Header c tokenLookup)")
  case (Inl err)
  then have "VerifyToken a next c s = answer (JSON 400 (NewError err)) (fst s, snd s)"
    by (simp add: VerifyToken_def)
  then show ?thesis by blast
next
  case (Inr raw)
  then obtain x where hd: "ctx_Header c tokenLookup = ''Bearer'' @ x # raw" "raw \<noteq> []"
    by (auto simp: extractToken_Inr)
  let ?ms = "EgressRequestDur auth_egressTarget # EgressRequestCnt auth_egressTarget # fst s"
  show ?thesis
  proof (cases "verify a raw")
    case (Inl err)
    then have "VerifyToken a next c s = answer (JSON 403 (NewError err)) (?ms, snd s)"
      using Inr by (simp add: VerifyToken_def Let_def)
    then show ?thesis by blast
  next
    case token: (Inr token)
    then have v: "verifier a raw = Inr token \<or> spnVerifier a raw = Inr token"
      by (auto simp: verify_def split: sum.splits if_splits)
    show ?thesis
    proof (cases "Claims a token")
      case (Inl err)
      then have "VerifyToken a next c s = answer (JSON 403 (NewError err)) (?ms, snd s)"
        using Inr token by (simp add: VerifyToken_def Let_def)
      then show ?thesis by blast
    next
      case claims: (Inr og)
      obtain oid groups where og: "og = (oid, groups)" by (cases og)
      have "authenticated a c oid groups"
        unfolding authenticated_def using hd v claims og by blast
      moreover have "VerifyToken a next c s = map_option (\<lambda>(r, st). (r, (?ms, st)))
          (next (c\<lparr>ctx_oid := Some oid, ctx_groups := Some groups\<rparr>) (snd s))"
        using Inr token claims og by (simp add: VerifyToken_def Let_def)
      ultimately show ?thesis by blast
    qed
  qed
qed

text \<open>
  \<^verbatim>\<open>VerifyToken\<close> lets a request pass only with a token that one of the two verifiers accepts and
  whose claims can be read, and then the handler sees the identity and the groups of the token.
  Every other request is answered with 400 or 403 and does not reach the handler.
\<close>

theorem VerifyToken_gate:
  "(\<exists>oid groups ms. authenticated a c oid groups \<and>
      VerifyToken a next c s =
        map_option (\<lambda>(r, st). (r, (ms, st)))
          (next (c\<lparr>ctx_oid := Some oid, ctx_groups := Some groups\<rparr>) (snd s))) \<or>
   (\<exists>code e ms. code \<in> {400, 403} \<and> VerifyToken a next c s = answer (JSON code e) (ms, snd s))"
  by (rule token_gate)

lemma VerifyToken_passes:
  assumes "VerifyToken a next c s = Some (r, s')" and "snd s' \<noteq> snd s"
  shows "\<exists>oid groups. authenticated a c oid groups \<and>
    next (c\<lparr>ctx_oid := Some oid, ctx_groups := Some groups\<rparr>) (snd s) = Some (r, snd s')"
proof -
  let ?next = "\<lambda>oid groups. next (c\<lparr>ctx_oid := Some oid, ctx_groups := Some groups\<rparr>) (snd s)"
  from token_gate [of a c "next" s] consider
      (pass) oid groups ms where "authenticated a c oid groups"
        "VerifyToken a next c s = map_option (\<lambda>(r, st). (r, (ms, st))) (?next oid groups)"
    | (stop) code e ms where "VerifyToken a next c s = answer (JSON code e) (ms, snd s)" by blast
  then show ?thesis
  proof cases
    case (pass oid groups ms)
    then have "map_option (\<lambda>(r, st). (r, (ms, st))) (?next oid groups) = Some (r, s')" using assms(1) by simp
    then have "?next oid groups = Some (r, snd s')" by (auto simp: map_option_eq_Some)
    with pass(1) show ?thesis by blast
  next
    case (stop code e ms)
    then show ?thesis using assms by (auto simp: answer_def)
  qed
qed

lemma VerifyGroupAccess_reaches:
  assumes "VerifyGroupAccess grp next c s = Some (r, s')" and "s' \<noteq> s"
  shows "next c s = Some (r, s') \<and> (\<exists>groups. ctx_groups c = Some groups \<and> grp \<in> set groups)"
  using assms by (auto simp: VerifyGroupAccess_def split: option.splits if_splits)

end
