(* ===== verification/Api_Handlers.thy ===== *)
theory Api_Handlers
  imports Auth
begin

text \<open>
  The handlers of the API: pkg/apiserver/web/handler/v1, pkg/apiserver/web/handler/v2 and the
  Kubernetes client of pkg/k8s that a patch goes through.  A name that both versions use has
  the version as a prefix.
\<close>

section \<open>Responses (v1/response.go, v2/response.go)\<close>

definition without_metadata :: "ClusterSpec \<Rightarrow> ClusterSpec" where
  "without_metadata cs = cs\<lparr>cs_ServiceMetadata := Map.empty\<rparr>"

definition newClusterResponse :: "Cluster \<Rightarrow> body" where
  "newClusterResponse c = ClusterBody (without_metadata (cl_Spec c))"

definition newClusterListResponse :: "Cluster list \<Rightarrow> int \<Rightarrow> int \<Rightarrow> int \<Rightarrow> bool \<Rightarrow> body" where
  "newClusterListResponse clusters cnt offset limit hasMore =
     ClusterListBody \<lparr>lst_Items = map (\<lambda>c. without_metadata (cl_Spec c)) clusters, lst_ItemsCount = cnt,
       lst_Offset = offset, lst_Limit = limit, lst_More = hasMore\<rparr>"

text \<open>The first version of the API has its own copies.\<close>

definition v1_newClusterResponse :: "Cluster \<Rightarrow> body" where
  "v1_newClusterResponse c = (let cs = (cl_Spec c)\<lparr>cs_ServiceMetadata := Map.empty\<rparr> in ClusterBody cs)"

definition v1_newClusterListResponse :: "Cluster list \<Rightarrow> int \<Rightarrow> int \<Rightarrow> int \<Rightarrow> bool \<Rightarrow> body" where
  "v1_newClusterListResponse clusters cnt offset limit hasMore =
     ClusterListBody \<lparr>lst_Items = map (\<lambda>c. (cl_Spec c)\<lparr>cs_ServiceMetadata := Map.empty\<rparr>) clusters,
       lst_ItemsCount = cnt, lst_Offset = offset, lst_Limit = limit, lst_More = hasMore\<rparr>"

lemma v1_responses [simp]:
  "v1_newClusterResponse = newClusterResponse" "v1_newClusterListResponse = newClusterListResponse"
  by (simp_all add: fun_eq_iff v1_newClusterResponse_def newClusterResponse_def v1_newClusterListResponse_def
      newClusterListResponse_def without_metadata_def)

definition service_entry :: "Cluster \<Rightarrow> ServiceMetadataEntry" where
  "service_entry c = \<lparr>sm_Name = cluster_name c, sm_ServiceMetadata = cs_ServiceMetadata (cl_Spec c)\<rparr>"

definition newServiceMetadataResponse :: "Cluster \<Rightarrow> body" where
  "newServiceMetadataResponse c = ServiceBody (service_entry c)"

definition newServiceMetadataListResponse :: "Cluster list \<Rightarrow> int \<Rightarrow> int \<Rightarrow> int \<Rightarrow> bool \<Rightarrow> body" where
  "newServiceMetadataListResponse clusters cnt offset limit hasMore =
     ServiceListBody \<lparr>sml_Items = map service_entry clusters, sml_ItemsCount = cnt,
       sml_Offset = offset, sml_Limit = limit, sml_More = hasMore\<rparr>"

section \<open>Reading clusters\<close>

text \<open>\<^verbatim>\<open>getCluster\<close>: by the name as it is, then by the standard name of a short one.\<close>

definition getCluster :: "'st Db \<Rightarrow> string \<Rightarrow> 'st \<Rightarrow> (Cluster option \<times> goerr option) \<times> 'st" where
  "getCluster db name st =
     (case Db_GetCluster db name st of
        ((_, Some err), st) \<Rightarrow> ((None, Some err), st)
      | ((Some c, None), st) \<Rightarrow> ((Some c, None), st)
      | ((None, None), st) \<Rightarrow>
          (case GetClusterDashName name of
             Inl err \<Rightarrow> ((None, None), st)
           | Inr dashName \<Rightarrow>
               (case Db_GetCluster db dashName st of
                  ((_, Some err), st) \<Rightarrow> ((None, Some err), st)
                | ((c, None), st) \<Rightarrow> ((c, None), st))))"

definition v1_getCluster :: "'st Db \<Rightarrow> string \<Rightarrow> 'st \<Rightarrow> (Cluster option \<times> goerr option) \<times> 'st" where
  "v1_getCluster db name st =
     (case Db_GetCluster db name st of
        ((c, Some err), st) \<Rightarrow> ((None, Some err), st)
      | ((c, None), st) \<Rightarrow>
          if c = None
          then case GetClusterDashName name of
                 Inl err \<Rightarrow> ((c, None), st)
               | Inr dashName \<Rightarrow>
                   (case Db_GetCluster db dashName st of
                      ((c, Some err), st) \<Rightarrow> ((None, Some err), st)
                    | ((c, None), st) \<Rightarrow> ((c, None), st))
          else ((c, None), st))"

lemma v1_getCluster_eq [simp]: "v1_getCluster = getCluster"
  by (auto simp: fun_eq_iff v1_getCluster_def getCluster_def split: prod.split option.split sum.split)

definition cluster_answer :: "Cluster option \<times> goerr option \<Rightarrow> (Cluster \<Rightarrow> body) \<Rightarrow> response" where
  "cluster_answer r f =
     (case r of
        (_, Some err) \<Rightarrow> JSON 500 (NewError err)
      | (None, None) \<Rightarrow> JSON 404 NotFound
      | (Some c, None) \<Rightarrow> JSON 200 (f c))"

definition v1_GetCluster :: "'st Db \<Rightarrow> 'st handler" where
  "v1_GetCluster db c st =
     (let (r, st) = v1_getCluster db (ctx_Param c ''name'') st
      in answer (cluster_answer r v1_newClusterResponse) st)"

definition v2_GetCluster :: "'st Db \<Rightarrow> 'st handler" where
  "v2_GetCluster db c st =
     (let (r, st) = getCluster db (ctx_Param c ''name'') st
      in answer (cluster_answer r newClusterResponse) st)"

definition GetServiceMetadataForCluster :: "'st Db \<Rightarrow> 'st handler" where
  "GetServiceMetadataForCluster db c st =
     (let (r, st) = Db_GetClusterWithService db (ctx_Param c ''serviceId'') (ctx_Param c ''clusterName'') st
      in answer (cluster_answer r newServiceMetadataResponse) st)"

section \<open>Listing clusters\<close>

definition offset_param :: "Ctx \<Rightarrow> int" where
  "offset_param c = (case parse_int64 (QueryParam c ''offset'') of None \<Rightarrow> 0 | Some n \<Rightarrow> n)"

definition limit_param :: "Ctx \<Rightarrow> int" where
  "limit_param c = (case parse_int64 (QueryParam c ''limit'') of None \<Rightarrow> 200 | Some n \<Rightarrow> n)"

text \<open>The answer to a listing; the error of the database is not looked at.\<close>

definition list_answer ::
  "(Cluster list \<Rightarrow> int \<Rightarrow> int \<Rightarrow> int \<Rightarrow> bool \<Rightarrow> body) \<Rightarrow> Ctx \<Rightarrow> (listing run \<times> 'st) option \<Rightarrow>
   (response run \<times> 'st) option" where
  "list_answer f c l =
     map_option (\<lambda>(r, st). (run_map (\<lambda>(clusters, cnt, hasMore, _).
        JSON 200 (f clusters cnt (offset_param c) (limit_param c) hasMore)) r, st)) l"

definition v1_ListClusters :: "'st Db \<Rightarrow> 'st handler" where
  "v1_ListClusters db c st =
     list_answer v1_newClusterListResponse c
       (Db_ListClusters db (offset_param c) (limit_param c) (QueryParam c ''region'')
          (QueryParam c ''environment'') (QueryParam c ''status'') (QueryParam c ''lastUpdated'') st)"

definition getQueryConditions :: "Ctx \<Rightarrow> string list" where
  "getQueryConditions c = query_values (ctx_Query c) ''conditions''"

fun build_filter :: "DynamoDBFilter \<Rightarrow> string list \<Rightarrow> goerr + DynamoDBFilter" where
  "build_filter filt [] = Inr filt"
| "build_filter filt (qc # qcs) =
     (case NewFilterConditionFromQuery qc of
        Inl err \<Rightarrow> Inl err
      | Inr condition \<Rightarrow> build_filter (AddCondition filt condition) qcs)"

definition v2_ListClusters :: "'st Db \<Rightarrow> 'st handler" where
  "v2_ListClusters db c st =
     (if length (getQueryConditions c) = 0
      then list_answer newClusterListResponse c (Db_ListClusters db (offset_param c) (limit_param c) [] [] [] [] st)
      else case build_filter NewDynamoDBFilter (getQueryConditions c) of
             Inl err \<Rightarrow> answer (JSON 400 (NewError err)) st
           | Inr filt \<Rightarrow>
               list_answer newClusterListResponse c
                 (Db_ListClustersWithFilter db (offset_param c) (limit_param c) filt st))"

definition GetServiceMetadata :: "'st Db \<Rightarrow> 'st handler" where
  "GetServiceMetadata db c st =
     (let serviceId = ctx_Param c ''serviceId'' in
      if length (getQueryConditions c) = 0
      then list_answer newServiceMetadataListResponse c
             (Db_ListClustersWithService db serviceId (offset_param c) (limit_param c) [] [] [] [] st)
      else case build_filter NewDynamoDBFilter (getQueryConditions c) of
             Inl err \<Rightarrow> answer (JSON 400 (NewError err)) st
           | Inr filt \<Rightarrow>
               list_answer newServiceMetadataListResponse c
                 (Db_ListClustersWithServiceAndFilter db serviceId (offset_param c) (limit_param c) filt st))"

section \<open>The Kubernetes client (k8s/client.go)\<close>

record AppCredentials =
  ApiClientId :: string
  ApiClientSecret :: string
  ApiTenantId :: string
  K8sResourceId :: string

record AzureSPCredentials =
  ClientID :: string
  ClientSecret :: string
  TenantID :: string
  ResourceID :: string

definition getCredentials :: "AppCredentials \<Rightarrow> AzureSPCredentials" where
  "getCredentials a = \<lparr>ClientID = ApiClientId a, ClientSecret = ApiClientSecret a,
     TenantID = ApiTenantId a, ResourceID = K8sResourceId a\<rparr>"

text \<open>The configuration of a client, and the Azure and Kubernetes libraries.\<close>

record rest_config =
  rc_Host :: string
  rc_BearerToken :: string
  rc_CAData :: string

record ('sp, 'k) k8s_libs =
  BuildConfigFromFlags :: "string \<Rightarrow> goerr + rest_config"
  ServicePrincipalToken :: "string \<Rightarrow> string \<Rightarrow> string \<Rightarrow> goerr + 'sp"
  RefreshExchange :: "'sp \<Rightarrow> string \<Rightarrow> 'k \<Rightarrow> (goerr + 'sp) \<times> 'k"
  AccessToken :: "'sp \<Rightarrow> string"
  NewForConfig :: "rest_config \<Rightarrow> goerr option"

definition getToken :: "('sp, 'k) k8s_libs \<Rightarrow> AzureSPCredentials \<Rightarrow> 'k \<Rightarrow> (goerr + string) \<times> 'k" where
  "getToken libs cr k =
     (case ServicePrincipalToken libs (ClientID cr) (ClientSecret cr) (TenantID cr) of
        Inl err \<Rightarrow> (Inl err, k)
      | Inr token \<Rightarrow>
          (case RefreshExchange libs token (ResourceID cr) k of
             (Inl err, k) \<Rightarrow> (Inl err, k)
           | (Inr token, k) \<Rightarrow> (Inr (AccessToken libs token), k)))"

text \<open>\<^verbatim>\<open>base64.StdEncoding.DecodeString\<close>; line breaks in the input are ignored.\<close>

definition b64_value :: "char \<Rightarrow> nat option" where
  "b64_value c =
     (if is_upper c then Some (byte c - 65)
      else if is_lower c then Some (byte c - 71)
      else if is_digit c then Some (byte c + 4)
      else if c = CHR ''+'' then Some 62
      else if c = CHR ''/'' then Some 63
      else None)"

fun b64_decode :: "string \<Rightarrow> string option" where
  "b64_decode [] = Some []"
| "b64_decode (a # b # c # d # r) =
     (case (b64_value a, b64_value b, b64_value c, b64_value d) of
        (Some w, Some x, Some y, Some z) \<Rightarrow>
          map_option (\<lambda>rest. char_of (w * 4 + x div 16) # char_of (x mod 16 * 16 + y div 4) #
                             char_of (y mod 4 * 64 + z) # rest) (b64_decode r)
      | (Some w, Some x, Some y, None) \<Rightarrow>
          if d = CHR ''='' \<and> r = []
          then Some [char_of (w * 4 + x div 16), char_of (x mod 16 * 16 + y div 4)] else None
      | (Some w, Some x, None, None) \<Rightarrow>
          if c = CHR ''='' \<and> d = CHR ''='' \<and> r = [] then Some [char_of (w * 4 + x div 16)] else None
      | _ \<Rightarrow> None)"
| "b64_decode _ = None"

definition base64_DecodeString :: "string \<Rightarrow> goerr + string" where
  "base64_DecodeString s =
     (case b64_decode (filter (\<lambda>c. byte c \<noteq> 10 \<and> byte c \<noteq> 13) s) of
        None \<Rightarrow> Inl (Error ''illegal base64 data'')
      | Some bs \<Rightarrow> Inr bs)"

definition GetClient ::
  "('sp, 'k) k8s_libs \<Rightarrow> AppCredentials \<Rightarrow> Cluster \<Rightarrow> 'k \<Rightarrow> (goerr + rest_config) \<times> 'k" where
  "GetClient libs a cluster k =
     (let credentials = getCredentials a in
      case BuildConfigFromFlags libs (api_Endpoint (cs_APIServer (cl_Spec cluster))) of
        Inl err \<Rightarrow> (Inl err, k)
      | Inr kubecfg \<Rightarrow>
          (case getToken libs credentials k of
             (Inl err, k) \<Rightarrow> (Inl err, k)
           | (Inr accessToken, k) \<Rightarrow>
               (case base64_DecodeString (api_CertificateAuthorityData (cs_APIServer (cl_Spec cluster))) of
                  Inl err \<Rightarrow> (Inl err, k)
                | Inr decodedCAData \<Rightarrow>
                    (let kubecfg = kubecfg\<lparr>rc_BearerToken := accessToken, rc_CAData := decodedCAData\<rparr>
                     in case NewForConfig libs kubecfg of
                          Some err \<Rightarrow> (Inl err, k)
                        | None \<Rightarrow> (Inr kubecfg, k)))))"

section \<open>Patching a cluster (v2/handler.go)\<close>

text \<open>The fields a patch may set; \<open>None\<close> is a nil pointer.  Tags are listed in iteration order.\<close>

record PatchSpec =
  ps_Status :: "string option"
  ps_Phase :: "string option"
  ps_Tags :: "(string \<times> string) list option"

record PatchRequest =
  pr_AbsPath :: string
  pr_Namespace :: string
  pr_Resource :: string
  pr_Name :: string
  pr_Body :: PatchSpec

text \<open>
  The client provider, the encoding of the patch, the call of the API server, the binding of the
  request body, and the validation of the struct tags.
\<close>

record 'k patch_libs =
  pl_GetClient :: "Cluster \<Rightarrow> 'k \<Rightarrow> (goerr + rest_config) \<times> 'k"
  pl_Marshal :: "PatchSpec \<Rightarrow> goerr option"
  pl_DoRaw :: "rest_config \<Rightarrow> PatchRequest \<Rightarrow> 'k \<Rightarrow> goerr option \<times> 'k"
  pl_Bind :: "Ctx \<Rightarrow> goerr + PatchSpec"
  pl_Validate :: "PatchSpec \<Rightarrow> goerr option"

definition validateTag :: "string \<Rightarrow> string \<Rightarrow> goerr option" where
  "validateTag key val =
     (if key = ''onboarding'' \<or> key = ''scaling''
      then if val \<noteq> ''on'' \<and> val \<noteq> ''off'' then Some (Error (key @ '' tag value must be '' @ quoted ''on'' @ '' or '' @ quoted ''off''))
           else None
      else Some (Error (''invalid tag '' @ key)))"

fun validate_tags :: "(string \<times> string) list \<Rightarrow> goerr option" where
  "validate_tags [] = None"
| "validate_tags ((key, val) # tags) =
     (case validateTag key val of Some err \<Rightarrow> Some err | None \<Rightarrow> validate_tags tags)"

definition Validate :: "'k patch_libs \<Rightarrow> PatchSpec \<Rightarrow> goerr option" where
  "Validate libs patch =
     (case pl_Validate libs patch of
        Some err \<Rightarrow> Some err
      | None \<Rightarrow>
          (case ps_Tags patch of
             None \<Rightarrow> None
           | Some tags \<Rightarrow> if length tags > 0 then validate_tags tags else None))"

definition patchCluster :: "'k patch_libs \<Rightarrow> Cluster \<Rightarrow> PatchSpec \<Rightarrow> 'k \<Rightarrow> goerr option \<times> 'k" where
  "patchCluster libs cluster spec k =
     (case pl_GetClient libs cluster k of
        (Inl err, k) \<Rightarrow> (Some (Wrapped (''failed to get client for cluster '' @ cluster_name cluster @ '': '') err), k)
      | (Inr client, k) \<Rightarrow>
          (case pl_Marshal libs spec of
             Some err \<Rightarrow> (Some err, k)
           | None \<Rightarrow>
               pl_DoRaw libs client
                 \<lparr>pr_AbsPath = ''/apis/registry.ethos.adobe.com/v1'', pr_Namespace = ''cluster-registry'',
                  pr_Resource = ''clusters'', pr_Name = cluster_name cluster, pr_Body = spec\<rparr> k))"

definition PatchCluster :: "'st Db \<Rightarrow> 'k patch_libs \<Rightarrow> ('st \<times> 'k) handler" where
  "PatchCluster db libs c s =
     (case getCluster db (ctx_Param c ''name'') (fst s) of
        ((_, Some err), st) \<Rightarrow> answer (JSON 500 (NewError err)) (st, snd s)
      | ((None, None), st) \<Rightarrow> answer (JSON 404 NotFound) (st, snd s)
      | ((Some cluster, None), st) \<Rightarrow>
          (case pl_Bind libs c of
             Inl err \<Rightarrow> answer (JSON 400 (NewError err)) (st, snd s)
           | Inr clusterSpec \<Rightarrow>
               (case Validate libs clusterSpec of
                  Some err \<Rightarrow> answer (JSON 400 (NewError err)) (st, snd s)
                | None \<Rightarrow>
                    (case patchCluster libs cluster clusterSpec (snd s) of
                       (Some err, k) \<Rightarrow> answer (JSON 500 (NewError err)) (st, k)
                     | (None, k) \<Rightarrow> answer (JSON 200 (newClusterResponse cluster)) (st, k)))))"

section \<open>The routes (Register)\<close>

text \<open>
  The framework's rate limiter is the argument \<open>limit\<close>: what it makes of the callbacks of
  \<^verbatim>\<open>RateLimiter\<close> and of the handler behind it.
\<close>

definition patch_route ::
  "'tok Authenticator \<Rightarrow> (RateLimiterConfig \<Rightarrow> ('st \<times> 'k) handler \<Rightarrow> ('st \<times> 'k) handler) \<Rightarrow> bool \<Rightarrow> string \<Rightarrow>
   'st Db \<Rightarrow> 'k patch_libs \<Rightarrow> (metric list \<times> 'st \<times> 'k) handler" where
  "patch_route a limit rateLimiterEnabled authorizedGroupId db libs =
     VerifyToken a (limit (RateLimiter rateLimiterEnabled)
       (VerifyGroupAccess authorizedGroupId (PatchCluster db libs)))"

definition list_route ::
  "'tok Authenticator \<Rightarrow> (RateLimiterConfig \<Rightarrow> ('st, 'c) server handler \<Rightarrow> ('st, 'c) server handler) \<Rightarrow> bool \<Rightarrow>
   ('v, 'c) cache_api \<Rightarrow> 'st handler \<Rightarrow> (metric list \<times> ('st, 'c) server) handler" where
  "list_route a limit rateLimiterEnabled cache h =
     VerifyToken a (limit (RateLimiter rateLimiterEnabled) (HTTPCache cache [''clusters''] h))"

definition get_route ::
  "'tok Authenticator \<Rightarrow> (RateLimiterConfig \<Rightarrow> 'st handler \<Rightarrow> 'st handler) \<Rightarrow> bool \<Rightarrow> 'st handler \<Rightarrow>
   (metric list \<times> 'st) handler" where
  "get_route a limit rateLimiterEnabled h = VerifyToken a (limit (RateLimiter rateLimiterEnabled) h)"

section \<open>Properties\<close>

subsection \<open>Patches\<close>

text \<open>A limiter that runs the handler behind it or answers by itself.\<close>

definition limiter_law :: "(RateLimiterConfig \<Rightarrow> 'st handler \<Rightarrow> 'st handler) \<Rightarrow> bool" where
  "limiter_law limit \<longleftrightarrow>
     (\<forall>cf h c s. limit cf h c s = h c s \<or> (\<exists>r. limit cf h c s = answer r s))"

lemma validate_tags_None:
  "validate_tags tags = None \<longleftrightarrow>
     (\<forall>(key, val) \<in> set tags. key \<in> {''onboarding'', ''scaling''} \<and> val \<in> {''on'', ''off''})"
  by (induction tags rule: validate_tags.induct) (auto simp: validateTag_def split: option.splits if_splits)

lemma Validate_None:
  "Validate libs spec = None \<longleftrightarrow> pl_Validate libs spec = None \<and>
     (\<forall>tags. ps_Tags spec = Some tags \<longrightarrow>
       (\<forall>(key, val) \<in> set tags. key \<in> {''onboarding'', ''scaling''} \<and> val \<in> {''on'', ''off''}))"
  by (auto simp: Validate_def validate_tags_None split: option.splits)

lemma PatchCluster_touches:
  assumes "PatchCluster db libs c s = Some (r, s')" and "snd s' \<noteq> snd s"
  shows "\<exists>cluster spec st. getCluster db (ctx_Param c ''name'') (fst s) = ((Some cluster, None), st) \<and>
    pl_Bind libs c = Inr spec \<and> Validate libs spec = None \<and>
    snd s' = snd (patchCluster libs cluster spec (snd s))"
  using assms by (auto simp: PatchCluster_def split: prod.splits option.splits sum.splits)

text \<open>
  C17. A request through the patch route reaches Kubernetes only if its token was accepted, the
  identity is a member of the authorized group, the cluster is in the registry, the body was
  accepted, and all tags are among the two that may be set, with the values on or off.
\<close>

theorem patch_authorized:
  assumes "limiter_law limit"
    and "patch_route a limit enabled grp db libs c (ms, st, k) = Some (r, (ms', st', k'))" and "k' \<noteq> k"
  shows "\<exists>oid groups cluster spec c' st1. authenticated a c oid groups \<and> grp \<in> set groups \<and>
    c' = c\<lparr>ctx_oid := Some oid, ctx_groups := Some groups\<rparr> \<and>
    getCluster db (ctx_Param c ''name'') st = ((Some cluster, None), st1) \<and> pl_Bind libs c' = Inr spec \<and>
    pl_Validate libs spec = None \<and> k' = snd (patchCluster libs cluster spec k) \<and>
    (\<forall>tags. ps_Tags spec = Some tags \<longrightarrow>
      (\<forall>(key, val) \<in> set tags. key \<in> {''onboarding'', ''scaling''} \<and> val \<in> {''on'', ''off''}))"
proof -
  let ?inner = "limit (RateLimiter enabled) (VerifyGroupAccess grp (PatchCluster db libs))"
  from VerifyToken_passes [OF assms(2) [unfolded patch_route_def]] assms(3) obtain oid groups where
    auth: "authenticated a c oid groups"
    and inner: "?inner (c\<lparr>ctx_oid := Some oid, ctx_groups := Some groups\<rparr>) (st, k) = Some (r, (st', k'))"
    by auto
  define c' where "c' = c\<lparr>ctx_oid := Some oid, ctx_groups := Some groups\<rparr>"
  have "VerifyGroupAccess grp (PatchCluster db libs) c' (st, k) = Some (r, (st', k'))"
    using inner assms(1,3) unfolding limiter_law_def c'_def [symmetric] by (metis answer_simps prod.inject)
  from VerifyGroupAccess_reaches [OF this] assms(3)
  have p: "PatchCluster db libs c' (st, k) = Some (r, (st', k'))" and g: "grp \<in> set groups"
    by (auto simp: c'_def)
  from PatchCluster_touches [OF p] assms(3) obtain cluster spec st1 where
    "getCluster db (ctx_Param c' ''name'') st = ((Some cluster, None), st1)" "pl_Bind libs c' = Inr spec"
    "Validate libs spec = None" "k' = snd (patchCluster libs cluster spec k)" by auto
  then show ?thesis using auth g c'_def unfolding Validate_None
    by (intro exI [of _ oid] exI [of _ groups] exI [of _ cluster] exI [of _ spec] exI [of _ c'] exI [of _ st1]) simp
qed

end
