(* ===== verification/Api_Spec.thy ===== *)
theory Api_Spec
  imports Api_Handlers Events
begin

text \<open>
  What the API answers, in terms of the registry behind it: the handlers of Api_Handlers composed
  with the database client of Database, for every table with the documented behaviour of DynamoDB.
\<close>

section \<open>Reading one cluster\<close>

text \<open>The cluster that a request means: by its name, or by the standard name of a short one.\<close>

definition find_cluster :: "(string \<Rightarrow> Cluster option) \<Rightarrow> string \<Rightarrow> Cluster option" where
  "find_cluster m n =
     (case m n of
        Some c \<Rightarrow> Some c
      | None \<Rightarrow> (case GetClusterDashName n of Inl _ \<Rightarrow> None | Inr dashName \<Rightarrow> m dashName))"

context event_store
begin

lemma getCluster_finds:
  assumes "inv s" and "getCluster db n s = ((found, e), s')"
  shows "inv s' \<and> contents s' = contents s \<and>
    (case e of
       None \<Rightarrow> found = find_cluster (contents s) n
     | Some err \<Rightarrow> \<exists>n s1 s2. Db_GetCluster db n s1 = ((None, Some err), s2))"
proof -
  obtain x ge s1 where get: "Db_GetCluster db n s = ((x, ge), s1)" by (metis prod.collapse)
  note k1 = get_keeps [OF assms(1) get]
  show ?thesis
  proof (cases ge)
    case (Some err)
    then have "(found, e) = (None, Some err)" "s' = s1"
      using get assms(2) by (auto simp: getCluster_def split: option.splits)
    then show ?thesis using k1 get get_error [OF assms(1) get [unfolded Some]] Some by auto
  next
    case None
    note x = get_returns [OF assms(1) get [unfolded None]]
    show ?thesis
    proof (cases "x = None \<and> (\<exists>dn. GetClusterDashName n = Inr dn)")
      case False
      then have "(found, e) = (x, None)" "s' = s1"
        using get None assms(2) by (auto simp: getCluster_def split: option.splits sum.splits)
      then show ?thesis using k1 x False by (auto simp: find_cluster_def split: option.splits sum.splits)
    next
      case True
      then obtain dn where dn: "GetClusterDashName n = Inr dn" by blast
      obtain y ge2 s2 where get2: "Db_GetCluster db dn s1 = ((y, ge2), s2)" by (metis prod.collapse)
      have i1: "inv s1" using k1 by simp
      note k2 = get_keeps [OF i1 get2]
      have r: "s' = s2" "(found, e) = (case ge2 of None \<Rightarrow> (y, None) | Some err \<Rightarrow> (None, Some err))"
        using get None assms(2) True dn get2 by (auto simp: getCluster_def split: option.splits)
      show ?thesis
      proof (cases ge2)
        case None
        then show ?thesis using r k1 k2 x True dn get_returns [OF i1 get2 [unfolded None]]
          by (simp add: find_cluster_def)
      next
        case (Some err)
        then show ?thesis using r k1 k2 get2 get_error [OF i1 get2 [unfolded Some]] by auto
      qed
    qed
  qed
qed

lemma cluster_answer_finds:
  assumes "inv s" and "getCluster db n s = (res, s')"
  shows "inv s' \<and> contents s' = contents s \<and>
    ((\<exists>err n s1 s2. Db_GetCluster db n s1 = ((None, Some err), s2) \<and>
        cluster_answer res f = JSON 500 (NewError err)) \<or>
     cluster_answer res f =
       (case find_cluster (contents s) n of None \<Rightarrow> JSON 404 NotFound | Some x \<Rightarrow> JSON 200 (f x)))"
proof -
  obtain found e where res: "res = (found, e)" by (cases res)
  show ?thesis
    using getCluster_finds [OF assms(1) assms(2) [unfolded res]]
    by (cases e) (auto simp: res cluster_answer_def split: option.splits)
qed

end

lemma GetCluster_finds:
  assumes "dynamodb d rows sat" and "table_ok (rows (world st))" and "h \<in> {v1_GetCluster, v2_GetCluster}"
  shows "\<exists>r st'. h (as_Db local d) c st = Some (Ret r, st') \<and>
    clusters_in (rows (world st')) = clusters_in (rows (world st)) \<and>
    ((\<exists>err n s1 s2. GetCluster d n s1 = ((None, Some err), s2) \<and> r = JSON 500 (NewError err)) \<or>
     r = (case find_cluster (clusters_in (rows (world st))) (ctx_Param c ''name'') of
            None \<Rightarrow> JSON 404 NotFound
          | Some x \<Rightarrow> JSON 200 (ClusterBody ((cl_Spec x)\<lparr>cs_ServiceMetadata := Map.empty\<rparr>))))"
proof -
  obtain res st' where g: "getCluster (as_Db local d) (ctx_Param c ''name'') st = (res, st')" by fastforce
  have h: "h (as_Db local d) c st = answer (cluster_answer res newClusterResponse) st'"
    using assms(3) g by (auto simp: v1_GetCluster_def v2_GetCluster_def)
  have db: "Db_GetCluster (as_Db local d) = GetCluster d" by (simp add: as_Db_def)
  have body: "newClusterResponse = (\<lambda>x. ClusterBody ((cl_Spec x)\<lparr>cs_ServiceMetadata := Map.empty\<rparr>))"
    by (simp add: newClusterResponse_def without_metadata_def fun_eq_iff)
  show ?thesis
    using event_store.cluster_answer_finds [OF event_store_as_Db [OF assms(1)] assms(2) g, of newClusterResponse]
    unfolding h db body by (auto simp: answer_def)
qed

text \<open>
  C19. Reading a cluster, in both versions of the API: it changes nothing and answers 200 with the
  cluster stored under the name or, failing that, under the standard name of a short name, without
  its service metadata; 404 when there is none; and 500 only when a call of the database failed.
\<close>

theorem GetCluster_answer:
  assumes "dynamodb d rows sat" and "table_ok (rows (world st))" and "h \<in> {v1_GetCluster, v2_GetCluster}"
  shows "\<exists>r st'. h (as_Db local d) c st = Some (Ret r, st') \<and>
    clusters_in (rows (world st')) = clusters_in (rows (world st)) \<and>
    ((\<exists>err n s1 s2. GetCluster d n s1 = ((None, Some err), s2) \<and> r = JSON 500 (NewError err)) \<or>
     r = (case find_cluster (clusters_in (rows (world st))) (ctx_Param c ''name'') of
            None \<Rightarrow> JSON 404 NotFound
          | Some x \<Rightarrow> JSON 200 (ClusterBody ((cl_Spec x)\<lparr>cs_ServiceMetadata := Map.empty\<rparr>))))"
  using assms by (rule GetCluster_finds)

text \<open>A request for the cluster with a name.\<close>

definition named_ctx :: "string \<Rightarrow> Ctx" where
  "named_ctx n = example_ctx\<lparr>ctx_Param := (\<lambda>p. if p = ''name'' then n else [])\<rparr>"

theorem GetCluster_answer_witness:
  "\<exists>st'. v2_GetCluster mem_Db (named_ctx ''c1'') (mem_state [row1]) =
     Some (Ret (JSON 200 (ClusterBody ((cl_Spec (example_cluster ''c1'' ''east'' ''Active'' ''2021''))
       \<lparr>cs_ServiceMetadata := Map.empty\<rparr>))), st')"
proof -
  let ?c = "example_cluster ''c1'' ''east'' ''Active'' ''2021''"
  have ok: "table_ok (mem_rows (world (mem_state [row1])))" using table_ok_row1 by simp
  have found: "clusters_in (mem_rows (world (mem_state [row1]))) ''c1'' = Some ?c"
    by (simp add: clusters_in_def mem_rows_def)
  have no_error: "GetCluster mem_db n s1 \<noteq> ((None, Some err), s2)" for n err s1 s2
    using mem_get_ok [of n s1] by auto
  show ?thesis
    using GetCluster_answer [OF mem.dynamodb_axioms ok, of v2_GetCluster "\<lambda>_. (''UTC'', 0)" "named_ctx ''c1''"]
      found no_error
    by (simp add: mem_Db_def find_cluster_def named_ctx_def) blast
qed

section \<open>Listing clusters\<close>

lemma build_filter_parses:
  "case build_filter filt qs of
     Inl err \<Rightarrow> \<exists>q \<in> set qs. NewFilterConditionFromQuery q = Inl err
   | Inr f \<Rightarrow> \<exists>fcs. list_all2 (\<lambda>q fc. NewFilterConditionFromQuery q = Inr fc) qs fcs \<and>
       f = \<lparr>conditions = conditions filt @ fcs\<rparr>"
proof (induction qs arbitrary: filt)
  case Nil
  then show ?case by simp
next
  case (Cons q qs)
  show ?case
  proof (cases "NewFilterConditionFromQuery q")
    case (Inr fc)
    then show ?thesis
      using Cons.IH [of "AddCondition filt fc"]
      by (auto simp: AddCondition_def list_all2_Cons1 split: sum.splits)
  qed simp
qed

lemma parsed_operands:
  assumes "list_all2 (\<lambda>q fc. NewFilterConditionFromQuery q = Inr fc) qs fcs" and "fc \<in> set fcs"
  shows "fc_Operand fc \<in> set AllowedOperands"
proof -
  from assms obtain q where "NewFilterConditionFromQuery q = Inr fc"
    by (auto simp: in_set_conv_nth list_all2_conv_all_nth)
  from query_condition_shape [OF this] show ?thesis by (auto simp: AllowedOperands_def)
qed

text \<open>The page of a listing as the API sends it.\<close>

definition page_answer :: "Ctx \<Rightarrow> listing \<Rightarrow> response" where
  "page_answer c l =
     (case l of (clusters, n, hasMore, _) \<Rightarrow>
        JSON 200 (newClusterListResponse clusters n (offset_param c) (limit_param c) hasMore))"

lemma list_answer_page:
  "list_answer newClusterListResponse c l = map_option (\<lambda>(r, st). (run_map (page_answer c) r, st)) l"
proof -
  have "page_answer c = (\<lambda>(clusters, cnt, hasMore, _).
      JSON 200 (newClusterListResponse clusters cnt (offset_param c) (limit_param c) hasMore))"
    by (simp add: fun_eq_iff page_answer_def)
  then show ?thesis by (simp add: list_answer_def)
qed


definition conditions_ctx :: "string list \<Rightarrow> Ctx" where
  "conditions_ctx qs = example_ctx\<lparr>ctx_Query := map (\<lambda>q. (''conditions'', q)) qs\<rparr>"

lemma conditions_ctx_query [simp]: "getQueryConditions (conditions_ctx qs) = qs"
  by (simp add: getQueryConditions_def conditions_ctx_def query_values_def comp_def)


text \<open>
  A listing that fails is answered with 200 and an empty list, and the cache stores that
  answer for the requests that follow.
\<close>

theorem failed_listing_cached:
  assumes "Db_ListClusters db (offset_param c') (limit_param c') (QueryParam c' ''region'')
      (QueryParam c' ''environment'') (QueryParam c' ''status'') (QueryParam c' ''lastUpdated'') st =
    Some (Ret (list_error err), st')"
    and "c' = c\<lparr>ctx_Query := sortURLParams (ctx_Query c)\<rparr>" and "ctx_Method c = ''GET''"
    and "cache_Get api (cache_key c') cache = ((None, e), cache1)"
  shows "\<exists>r. r = JSON 200 (ClusterListBody \<lparr>lst_Items = [], lst_ItemsCount = 0, lst_Offset = offset_param c',
        lst_Limit = limit_param c', lst_More = False\<rparr>) \<and>
     HTTPCache api [''clusters''] (v1_ListClusters db) c \<lparr>srv_st = st, srv_cache = cache\<rparr> =
       answer r \<lparr>srv_st = st', srv_cache = snd (cache_Set api (cache_key c')
         (gob_encode api \<lparr>Value = resp_Body r, Header = resp_Header r\<rparr>) [''clusters''] cache1)\<rparr>"
proof -
  let ?r = "page_answer c' (list_error err)"
  have r: "?r = JSON 200 (ClusterListBody \<lparr>lst_Items = [], lst_ItemsCount = 0, lst_Offset = offset_param c',
      lst_Limit = limit_param c', lst_More = False\<rparr>)"
    by (simp add: page_answer_def list_error_def newClusterListResponse_def)
  have v1: "v1_ListClusters db c' st = answer ?r st'"
    using assms(1) by (simp add: v1_ListClusters_def list_answer_page answer_def)
  have "HTTPCache api [''clusters''] (v1_ListClusters db) c \<lparr>srv_st = st, srv_cache = cache\<rparr> =
      cache_miss api [''clusters''] (v1_ListClusters db) (cache_key c') c' \<lparr>srv_st = st, srv_cache = cache1\<rparr>"
    using assms(3,4) by (simp add: HTTPCache_def assms(2) [symmetric] Let_def)
  also have "\<dots> = answer ?r \<lparr>srv_st = st', srv_cache = snd (cache_Set api (cache_key c')
      (gob_encode api \<lparr>Value = resp_Body ?r, Header = resp_Header ?r\<rparr>) [''clusters''] cache1)\<rparr>"
    using v1 by (simp add: cache_miss_def answer_def Response_String_def Let_def r JSON_def split: prod.split)
  finally show ?thesis using r by blast
qed

definition bad_date_ctx :: Ctx where
  "bad_date_ctx = example_ctx\<lparr>ctx_Query := [(''lastUpdated'', ''yesterday'')]\<rparr>"

theorem failed_listing_cached_witness:
  "\<exists>r s'. HTTPCache mem_cache [''clusters''] (v1_ListClusters mem_Db) bad_date_ctx
      \<lparr>srv_st = mem_state [row1], srv_cache = []\<rparr> = Some (Ret r, s') \<and>
    resp_Status r = 200 \<and> srv_cache s' = [(cache_key bad_date_ctx, \<lparr>Value = resp_Body r, Header = resp_Header r\<rparr>)]"
proof -
  have sorted: "bad_date_ctx = bad_date_ctx\<lparr>ctx_Query := sortURLParams (ctx_Query bad_date_ctx)\<rparr>"
    by (simp add: bad_date_ctx_def sortURLParams_def query_values_def)
  have "parse_rfc3339 ''yesterday'' = None" by code_simp
  then have err: "\<exists>err. Db_ListClusters mem_Db (offset_param bad_date_ctx) (limit_param bad_date_ctx)
      (QueryParam bad_date_ctx ''region'') (QueryParam bad_date_ctx ''environment'') (QueryParam bad_date_ctx ''status'')
      (QueryParam bad_date_ctx ''lastUpdated'') (mem_state [row1]) = Some (Ret (list_error err), mem_state [row1])"
    by (simp add: mem_Db_def as_Db_def ListClusters_def list_filter_def bad_date_ctx_def QueryParam_def
        query_values_def example_ctx_def Let_def) blast
  then obtain err where "Db_ListClusters mem_Db (offset_param bad_date_ctx) (limit_param bad_date_ctx)
      (QueryParam bad_date_ctx ''region'') (QueryParam bad_date_ctx ''environment'') (QueryParam bad_date_ctx ''status'')
      (QueryParam bad_date_ctx ''lastUpdated'') (mem_state [row1]) = Some (Ret (list_error err), mem_state [row1])" ..
  from failed_listing_cached [OF this sorted, of mem_cache "[]" None "[]"] show ?thesis
    by (auto simp: mem_cache_def bad_date_ctx_def example_ctx_def answer_def JSON_def)
qed

section \<open>A patch that is accepted\<close>

text \<open>An identity of one group, a patch of one tag, and an API server that counts its requests.\<close>

definition example_authenticator :: "unit Authenticator" where
  "example_authenticator = \<lparr>verifier = (\<lambda>raw. if raw = ''t'' then Inr () else Inl (Error ''invalid'')),
     spnVerifier = (\<lambda>raw. Inl (Error ''invalid'')), Claims = (\<lambda>_. Inr (''me'', [''admins'']))\<rparr>"

definition example_patch_libs :: "nat patch_libs" where
  "example_patch_libs =
     \<lparr>pl_GetClient = (\<lambda>c k. (Inr \<lparr>rc_Host = [], rc_BearerToken = [], rc_CAData = []\<rparr>, k)), pl_Marshal = (\<lambda>_. None),
      pl_DoRaw = (\<lambda>cl rq k. (None, Suc k)),
      pl_Bind = (\<lambda>c. Inr \<lparr>ps_Status = None, ps_Phase = None, ps_Tags = Some [(''onboarding'', ''on'')]\<rparr>),
      pl_Validate = (\<lambda>_. None)\<rparr>"

definition patch_ctx :: "string \<Rightarrow> Ctx" where
  "patch_ctx authorization = (named_ctx ''c1'')\<lparr>ctx_Method := ''PATCH'',
     ctx_Header := (\<lambda>h. if h = tokenLookup then authorization else [])\<rparr>"

lemma mem_get_c1:
  obtains st' where "GetCluster mem_db ''c1'' (mem_state [row1]) =
      ((Some (example_cluster ''c1'' ''east'' ''Active'' ''2021''), None), st')"
proof -
  have ok: "table_ok (mem_rows (world (mem_state [row1])))" using table_ok_row1 by simp
  obtain found st' where g: "GetCluster mem_db ''c1'' (mem_state [row1]) = ((found, None), st')"
    using mem_get_ok by blast
  have "found = Some (example_cluster ''c1'' ''east'' ''Active'' ''2021'')"
    using mem.store.get_returns [OF ok g] by (simp add: clusters_in_def mem_rows_def)
  then show ?thesis using that g by blast
qed

lemma example_patch:
  "\<exists>r ms' st'. patch_route example_authenticator (\<lambda>cf h. h) True ''admins'' mem_Db example_patch_libs
     (patch_ctx ''Bearer t'') ([], mem_state [row1], 0) = Some (r, (ms', st', 1))"
proof -
  obtain st' where "GetCluster mem_db ''c1'' (mem_state [row1]) =
      ((Some (example_cluster ''c1'' ''east'' ''Active'' ''2021''), None), st')" by (rule mem_get_c1)
  then show ?thesis
    by (simp add: patch_route_def VerifyToken_def extractToken_def authScheme_def patch_ctx_def verify_def
        example_authenticator_def VerifyGroupAccess_def PatchCluster_def getCluster_def
        mem_Db_def as_Db_def example_patch_libs_def Validate_def validateTag_def patchCluster_def named_ctx_def
        tokenLookup_def answer_def Let_def)
qed

theorem patch_authorized_witness:
  "\<exists>r ms' st' spec. patch_route example_authenticator (\<lambda>cf h. h) True ''admins'' mem_Db example_patch_libs
     (patch_ctx ''Bearer t'') ([], mem_state [row1], 0) = Some (r, (ms', st', 1)) \<and>
   pl_Validate example_patch_libs spec = None \<and> (\<forall>tags. ps_Tags spec = Some tags \<longrightarrow>
     (\<forall>(key, val) \<in> set tags. key \<in> {''onboarding'', ''scaling''} \<and> val \<in> {''on'', ''off''}))"
proof -
  have law: "limiter_law (\<lambda>cf h. h)" by (simp add: limiter_law_def)
  obtain r ms' st' where run: "patch_route example_authenticator (\<lambda>cf h. h) True ''admins'' mem_Db
      example_patch_libs (patch_ctx ''Bearer t'') ([], mem_state [row1], 0) = Some (r, (ms', st', 1))"
    using example_patch by blast
  from patch_authorized [OF law run] run show ?thesis by auto
qed

end
