(* ===== verification/App_Config.thy ===== *)
theory App_Config
  imports Go_Runtime Go_Strings
begin

text \<open>
  pkg/config/config.go: the settings of the programs from environment variables.
\<close>

section \<open>The configuration\<close>

text \<open>The levels of the logger that the program uses, and the zero value, which is none of them.\<close>

datatype Lvl = NoLevel | DEBUG | INFO | WARN

record AppConfig =
  ApiRateLimiterEnabled :: bool
  ApiHost :: string
  AwsRegion :: string
  DbEndpoint :: string
  DbAwsRegion :: string
  DbTableName :: string
  DbIndexName :: string
  LogLevel :: Lvl
  OidcClientId :: string
  OidcIssuerUrl :: string
  SqsEndpoint :: string
  SqsAwsRegion :: string
  SqsQueueName :: string
  SqsBatchSize :: int
  SqsWaitSeconds :: int
  SqsRunInterval :: int
  K8sResourceId :: string
  ApiTenantId :: string
  ApiClientId :: string
  ApiClientSecret :: string
  ApiAuthorizedGroupId :: string
  ApiCacheTTL :: int
  ApiCacheRedisHost :: string
  ApiCacheRedisTLSEnabled :: bool

text \<open>
  What the program reads: the environment, where an unset variable is the empty text, the parser of
  durations and the errors of the parsers of \<^verbatim>\<open>strconv\<close> for a text, by the name of the function.
\<close>

record env =
  Getenv :: "string \<Rightarrow> string"
  ParseDuration :: "string \<Rightarrow> goerr + int"
  NumError :: "string \<Rightarrow> string \<Rightarrow> goerr"

definition getEnv :: "env \<Rightarrow> string \<Rightarrow> string \<Rightarrow> string" where
  "getEnv e varName defaultValue = (let varValue = Getenv e varName in if length varValue = 0 then defaultValue else varValue)"

definition require :: "env \<Rightarrow> string \<Rightarrow> goerr + string" where
  "require e varName =
     (let v = getEnv e varName []
      in if v = [] then Inl (Error (''environment variable '' @ varName @ '' is not set'')) else Inr v)"

definition ParseInt :: "env \<Rightarrow> string \<Rightarrow> string \<Rightarrow> goerr + int" where
  "ParseInt e fn s = (case parse_int64 s of None \<Rightarrow> Inl (NumError e fn s) | Some i \<Rightarrow> Inr i)"

definition ParseBool :: "env \<Rightarrow> string \<Rightarrow> goerr + bool" where
  "ParseBool e s =
     (if s \<in> set [''1'', ''t'', ''T'', ''true'', ''TRUE'', ''True''] then Inr True
      else if s \<in> set [''0'', ''f'', ''F'', ''false'', ''FALSE'', ''False''] then Inr False
      else Inl (NumError e ''ParseBool'' s))"

text \<open>\<^verbatim>\<open>fmt.Errorf("error parsing X: %v", err)\<close>\<close>

definition parsing :: "string \<Rightarrow> goerr + 'a \<Rightarrow> goerr + 'a" where
  "parsing varName r = (case r of Inl err \<Rightarrow> Inl (Wrapped (''error parsing '' @ varName @ '': '') err) | Inr v \<Rightarrow> Inr v)"

definition log_level :: "string \<Rightarrow> Lvl" where
  "log_level configLogLevel = (if configLogLevel = ''DEBUG'' then DEBUG else if configLogLevel = ''INFO'' then INFO else WARN)"

definition LoadApiConfig :: "env \<Rightarrow> goerr + AppConfig" where
  "LoadApiConfig e =
     bind_err (require e ''AWS_REGION'') (\<lambda>awsRegion.
     bind_err (require e ''DB_AWS_REGION'') (\<lambda>dbAwsRegion.
     bind_err (require e ''DB_ENDPOINT'') (\<lambda>dbEndpoint.
     bind_err (require e ''DB_TABLE_NAME'') (\<lambda>dbTableName.
     bind_err (require e ''SQS_ENDPOINT'') (\<lambda>sqsEndpoint.
     bind_err (require e ''SQS_AWS_REGION'') (\<lambda>sqsAwsRegion.
     bind_err (require e ''SQS_QUEUE_NAME'') (\<lambda>sqsQueueName.
     bind_err (require e ''SQS_BATCH_SIZE'') (\<lambda>sqsBatchSize.
     bind_err (parsing ''SQS_BATCH_SIZE'' (ParseInt e ''ParseInt'' sqsBatchSize)) (\<lambda>sqsBatchSizeInt.
     bind_err (require e ''SQS_WAIT_SECONDS'') (\<lambda>sqsWaitSeconds.
     bind_err (parsing ''SQS_WAIT_SECONDS'' (ParseInt e ''ParseInt'' sqsWaitSeconds)) (\<lambda>sqsWaitSecondsInt.
     bind_err (require e ''SQS_RUN_INTERVAL'') (\<lambda>sqsRunInterval.
     bind_err (parsing ''SQS_RUN_INTERVAL'' (ParseInt e ''Atoi'' sqsRunInterval)) (\<lambda>sqsRunIntervalInt.
     bind_err (require e ''OIDC_CLIENT_ID'') (\<lambda>oidcClientId.
     bind_err (require e ''OIDC_ISSUER_URL'') (\<lambda>oidcIssuerUrl.
     bind_err (require e ''K8S_RESOURCE_ID'') (\<lambda>k8sResourceId.
     bind_err (require e ''API_TENANT_ID'') (\<lambda>apiTenantId.
     bind_err (require e ''API_CLIENT_ID'') (\<lambda>apiClientId.
     bind_err (require e ''API_CLIENT_SECRET'') (\<lambda>apiClientSecret.
     bind_err (require e ''API_AUTHORIZED_GROUP_ID'') (\<lambda>authorizedGroupId.
     bind_err (parsing ''API_CACHE_TTL'' (ParseDuration e (getEnv e ''API_CACHE_TTL'' ''1h''))) (\<lambda>apiCacheTTL.
     bind_err (require e ''API_CACHE_REDIS_HOST'') (\<lambda>apiCacheRedisHost.
     bind_err (parsing ''API_CACHE_REDIS_TLS_ENABLED'' (ParseBool e (getEnv e ''API_CACHE_REDIS_TLS_ENABLED'' ''true''))) (\<lambda>apiCacheRedisTLSEnabledBool.
     Inr \<lparr>ApiRateLimiterEnabled = (getEnv e ''API_RATE_LIMITER'' [] = ''enabled''),
       ApiHost = getEnv e ''API_HOST'' ''0.0.0.0:8080'',
       AwsRegion = awsRegion, DbEndpoint = dbEndpoint, DbAwsRegion = dbAwsRegion, DbTableName = dbTableName,
       DbIndexName = getEnv e ''DB_INDEX_NAME'' [], LogLevel = log_level (getEnv e ''LOG_LEVEL'' ''INFO''),
       OidcClientId = oidcClientId, OidcIssuerUrl = oidcIssuerUrl, SqsEndpoint = sqsEndpoint,
       SqsAwsRegion = sqsAwsRegion, SqsQueueName = sqsQueueName, SqsBatchSize = sqsBatchSizeInt,
       SqsWaitSeconds = sqsWaitSecondsInt, SqsRunInterval = sqsRunIntervalInt, K8sResourceId = k8sResourceId,
       ApiTenantId = apiTenantId, ApiClientId = apiClientId, ApiClientSecret = apiClientSecret,
       ApiAuthorizedGroupId = authorizedGroupId, ApiCacheTTL = apiCacheTTL, ApiCacheRedisHost = apiCacheRedisHost,
       ApiCacheRedisTLSEnabled = apiCacheRedisTLSEnabledBool\<rparr>)))))))))))))))))))))))"

definition zero_AppConfig :: AppConfig where
  "zero_AppConfig = \<lparr>ApiRateLimiterEnabled = False, ApiHost = [], AwsRegion = [], DbEndpoint = [], DbAwsRegion = [],
     DbTableName = [], DbIndexName = [], LogLevel = NoLevel, OidcClientId = [], OidcIssuerUrl = [], SqsEndpoint = [],
     SqsAwsRegion = [], SqsQueueName = [], SqsBatchSize = 0, SqsWaitSeconds = 0, SqsRunInterval = 0, K8sResourceId = [],
     ApiTenantId = [], ApiClientId = [], ApiClientSecret = [], ApiAuthorizedGroupId = [], ApiCacheTTL = 0,
     ApiCacheRedisHost = [], ApiCacheRedisTLSEnabled = False\<rparr>"

definition LoadClientConfig :: "env \<Rightarrow> goerr + AppConfig" where
  "LoadClientConfig e =
     bind_err (require e ''SQS_ENDPOINT'') (\<lambda>sqsEndpoint.
     bind_err (require e ''SQS_AWS_REGION'') (\<lambda>sqsAwsRegion.
     bind_err (require e ''SQS_QUEUE_NAME'') (\<lambda>sqsQueueName.
     Inr (zero_AppConfig\<lparr>SqsEndpoint := sqsEndpoint, SqsAwsRegion := sqsAwsRegion, SqsQueueName := sqsQueueName\<rparr>))))"

section \<open>Properties\<close>

definition required :: "string list" where
  "required = [''AWS_REGION'', ''DB_AWS_REGION'', ''DB_ENDPOINT'', ''DB_TABLE_NAME'', ''SQS_ENDPOINT'', ''SQS_AWS_REGION'',
     ''SQS_QUEUE_NAME'', ''SQS_BATCH_SIZE'', ''SQS_WAIT_SECONDS'', ''SQS_RUN_INTERVAL'', ''OIDC_CLIENT_ID'', ''OIDC_ISSUER_URL'',
     ''K8S_RESOURCE_ID'', ''API_TENANT_ID'', ''API_CLIENT_ID'', ''API_CLIENT_SECRET'', ''API_AUTHORIZED_GROUP_ID'',
     ''API_CACHE_REDIS_HOST'']"

lemma bind_err_ok: "(\<exists>y. bind_err r f = Inr y) \<longleftrightarrow> (\<exists>v. r = Inr v \<and> (\<exists>y. f v = Inr y))"
  by auto

lemma require_Inr [simp]: "require e v = Inr x \<longleftrightarrow> Getenv e v \<noteq> [] \<and> x = Getenv e v"
  by (auto simp: require_def getEnv_def Let_def)

lemma parsing_Inr [simp]: "parsing v r = Inr x \<longleftrightarrow> r = Inr x"
  by (simp add: parsing_def split: sum.split)

lemma ParseInt_Inr [simp]: "ParseInt e fn s = Inr i \<longleftrightarrow> parse_int64 s = Some i"
  by (simp add: ParseInt_def split: option.split)

text \<open>
  The settings of the API server are loaded exactly when every required variable is set and
  the numbers, the duration and the flag can be parsed; numbers then fit into 64 bits.  The
  settings of the client are loaded exactly when the three variables of the queue are set.
\<close>

theorem config_complete:
  "((\<exists>c. LoadApiConfig e = Inr c) \<longleftrightarrow>
      list_all (\<lambda>v. Getenv e v \<noteq> []) required
      \<and> list_all (\<lambda>v. parse_int64 (Getenv e v) \<noteq> None) [''SQS_BATCH_SIZE'', ''SQS_WAIT_SECONDS'', ''SQS_RUN_INTERVAL'']
      \<and> \<not> isl (ParseDuration e (getEnv e ''API_CACHE_TTL'' ''1h''))
      \<and> \<not> isl (ParseBool e (getEnv e ''API_CACHE_REDIS_TLS_ENABLED'' ''true'')))
   \<and> (\<forall>c. LoadApiConfig e = Inr c \<longrightarrow> in_int64 (SqsBatchSize c) \<and> in_int64 (SqsWaitSeconds c) \<and> in_int64 (SqsRunInterval c))
   \<and> ((\<exists>c. LoadClientConfig e = Inr c) \<longleftrightarrow> list_all (\<lambda>v. Getenv e v \<noteq> []) [''SQS_ENDPOINT'', ''SQS_AWS_REGION'', ''SQS_QUEUE_NAME''])"
proof (intro conjI)
  show "(\<exists>c. LoadApiConfig e = Inr c) \<longleftrightarrow>
      list_all (\<lambda>v. Getenv e v \<noteq> []) required
      \<and> list_all (\<lambda>v. parse_int64 (Getenv e v) \<noteq> None) [''SQS_BATCH_SIZE'', ''SQS_WAIT_SECONDS'', ''SQS_RUN_INTERVAL'']
      \<and> \<not> isl (ParseDuration e (getEnv e ''API_CACHE_TTL'' ''1h''))
      \<and> \<not> isl (ParseBool e (getEnv e ''API_CACHE_REDIS_TLS_ENABLED'' ''true''))"
    by (cases "ParseDuration e (getEnv e ''API_CACHE_TTL'' ''1h'')"; cases "ParseBool e (getEnv e ''API_CACHE_REDIS_TLS_ENABLED'' ''true'')")
      (auto simp: LoadApiConfig_def required_def bind_err_ok simp del: bind_err_Inr)
qed (auto simp: LoadApiConfig_def LoadClientConfig_def dest: parse_int64_range)

text \<open>An environment where every variable is a number, so that all of it can be read.\<close>

definition example_env :: "string \<Rightarrow> env" where
  "example_env missing = \<lparr>Getenv = (\<lambda>v. if v = missing then [] else if v = ''API_CACHE_REDIS_TLS_ENABLED'' then ''T'' else ''10''),
     ParseDuration = (\<lambda>s. Inr 10), NumError = (\<lambda>fn s. Error (fn @ s))\<rparr>"

theorem config_complete_witness:
  "(\<exists>c. LoadApiConfig (example_env []) = Inr c \<and> in_int64 (SqsBatchSize c))
   \<and> \<not> (\<exists>c. LoadApiConfig (example_env ''DB_ENDPOINT'') = Inr c)"
  using config_complete [of "example_env []"] config_complete [of "example_env ''DB_ENDPOINT''"]
  by (auto simp: example_env_def required_def getEnv_def ParseBool_def parse_int64_def is_digit_def byte_def digits_val_def digit_of_def
      in_int64_def int64_min_def int64_max_def)

end
