(* ===== verification/Monitoring.thy ===== *)
theory Monitoring
  imports Go_Runtime Go_Strings
begin

text \<open>
  pkg/monitoring/apiserver: the metrics of the API server, their registration, and the middleware
  that counts requests; pkg/monitoring/client and pkg/monitoring/manager: the metrics of the other
  two programs.  The registry of the Prometheus library is an argument.
\<close>

section \<open>Vectors of metrics\<close>

text \<open>
  A collector of the library: a vector of counters or of histograms, with its subsystem, name, help
  text and the names of its labels, or a single gauge, which has no labels.
\<close>

datatype collector =
    CounterVec (col_Subsystem: string) (col_Name: string) (col_Help: string) (col_Labels: "string list")
  | HistogramVec (col_Subsystem: string) (col_Name: string) (col_Help: string) (col_Labels: "string list")
  | Gauge (col_Subsystem: string) (col_Name: string) (col_Help: string) (col_Labels: "string list")

text \<open>The values: a counter and a list of observations for every collector and its label values, and the gauges.\<close>

record 'e samples =
  counts :: "collector \<times> string list \<Rightarrow> nat"
  observed :: "collector \<times> string list \<Rightarrow> 'e list"
  gauges :: "collector \<Rightarrow> 'e option"

text \<open>\<^verbatim>\<open>WithLabelValues\<close> panics on a nil vector and when the number of values is not that of the labels.\<close>

definition WithLabelValues :: "collector option \<Rightarrow> string list \<Rightarrow> (collector \<times> string list) run" where
  "WithLabelValues v ls =
     (case v of
        None \<Rightarrow> Panic ''nil pointer dereference''
      | Some c \<Rightarrow> if length ls = length (col_Labels c) then Ret (c, ls) else Panic ''inconsistent label cardinality'')"

definition Inc :: "collector option \<Rightarrow> string list \<Rightarrow> 'e samples \<Rightarrow> 'e samples run" where
  "Inc v ls st = run_map (\<lambda>k. st\<lparr>counts := (counts st)(k := Suc (counts st k))\<rparr>) (WithLabelValues v ls)"

definition Observe :: "collector option \<Rightarrow> string list \<Rightarrow> 'e \<Rightarrow> 'e samples \<Rightarrow> 'e samples run" where
  "Observe v ls x st = run_map (\<lambda>k. st\<lparr>observed := (observed st)(k := observed st k @ [x])\<rparr>) (WithLabelValues v ls)"

text \<open>
  A factory of the library registers what it makes and panics when the registry, the function
  \<open>register\<close>, refuses it.
\<close>

type_synonym 'r registerer = "collector \<Rightarrow> 'r \<Rightarrow> goerr option \<times> 'r"

definition new_registered :: "'r registerer \<Rightarrow> collector \<Rightarrow> 'r \<Rightarrow> collector run \<times> 'r" where
  "new_registered register c reg =
     (case register c reg of (None, reg) \<Rightarrow> (Ret c, reg) | (Some err, reg) \<Rightarrow> (Panic ''register'', reg))"

section \<open>The metrics of the API server (metrics.go)\<close>

text \<open>The definition of a metric; the program tells definitions apart by their address, here by \<open>met_ID\<close>.\<close>

record Metric =
  met_ID :: string
  met_Name :: string
  met_Description :: string
  met_Type :: string
  met_Args :: "string list"

definition ingressReqCnt :: Metric where
  "ingressReqCnt = \<lparr>met_ID = ''ingresReqCnt'', met_Name = ''ingress_requests_total'',
     met_Description = ''How many HTTP requests processed, partitioned by status code, HTTP method and url.'',
     met_Type = ''counter_vec'', met_Args = [''code'', ''method'', ''url'']\<rparr>"

definition ingressReqDur :: Metric where
  "ingressReqDur = \<lparr>met_ID = ''ingressReqDur'', met_Name = ''ingress_request_duration_seconds'',
     met_Description = ''The HTTP request latencies in seconds partitioned by status code, HTTP method and url.'',
     met_Type = ''histogram_vec'', met_Args = [''code'', ''method'', ''url'']\<rparr>"

definition ingressMetrics :: "Metric list" where
  "ingressMetrics = [ingressReqCnt, ingressReqDur]"

definition egressReqCnt :: Metric where
  "egressReqCnt = \<lparr>met_ID = ''egressReqCnt'', met_Name = ''egress_requests_total'',
     met_Description = ''How many egress requests sent, partitioned by target.'',
     met_Type = ''counter_vec'', met_Args = [''target'']\<rparr>"

definition egressReqDur :: Metric where
  "egressReqDur = \<lparr>met_ID = ''egressReqDur'', met_Name = ''egress_request_duration_seconds'',
     met_Description = ''The Egress HTTP request latencies in seconds partitioned by target.'',
     met_Type = ''histogram_vec'', met_Args = [''target'']\<rparr>"

definition egressMetrics :: "Metric list" where
  "egressMetrics = [egressReqCnt, egressReqDur]"

definition errCnt :: Metric where
  "errCnt = \<lparr>met_ID = ''ErrCnt'', met_Name = ''error_count'', met_Description = ''The total number of errors, partitioned by target.'',
     met_Type = ''counter_vec'', met_Args = [''target'']\<rparr>"

record Metrics =
  m_ingressReqCnt :: "collector option"
  m_egressReqCnt :: "collector option"
  m_ingressReqDur :: "collector option"
  m_egressReqDur :: "collector option"
  m_errCnt :: "collector option"
  m_metricsList :: "Metric list"
  m_subsystem :: string
  m_isUnitTest :: bool
  m_URLLabelFromContext :: string

text \<open>Type assertions \<^verbatim>\<open>metric.(*prometheus.CounterVec)\<close> and \<^verbatim>\<open>metric.(*prometheus.HistogramVec)\<close>.\<close>

definition assert_counter :: "collector option \<Rightarrow> collector option run" where
  "assert_counter metric =
     (case metric of Some c \<Rightarrow> if is_CounterVec c then Ret (Some c) else Panic ''interface conversion'' | None \<Rightarrow> Panic ''interface conversion'')"

definition assert_histogram :: "collector option \<Rightarrow> collector option run" where
  "assert_histogram metric =
     (case metric of Some c \<Rightarrow> if is_HistogramVec c then Ret (Some c) else Panic ''interface conversion'' | None \<Rightarrow> Panic ''interface conversion'')"

text \<open>The second switch: which field of the metrics gets the collector.\<close>

definition set_vector :: "Metric \<Rightarrow> collector option \<Rightarrow> Metrics \<Rightarrow> Metrics run" where
  "set_vector metricDef metric m =
     (if met_ID metricDef = met_ID ingressReqCnt then run_map (\<lambda>v. m\<lparr>m_ingressReqCnt := v\<rparr>) (assert_counter metric)
      else if met_ID metricDef = met_ID ingressReqDur then run_map (\<lambda>v. m\<lparr>m_ingressReqDur := v\<rparr>) (assert_histogram metric)
      else if met_ID metricDef = met_ID egressReqCnt then run_map (\<lambda>v. m\<lparr>m_egressReqCnt := v\<rparr>) (assert_counter metric)
      else if met_ID metricDef = met_ID egressReqDur then run_map (\<lambda>v. m\<lparr>m_egressReqDur := v\<rparr>) (assert_histogram metric)
      else if met_ID metricDef = met_ID errCnt then run_map (\<lambda>v. m\<lparr>m_errCnt := v\<rparr>) (assert_counter metric)
      else Ret m)"

text \<open>
  The first switch: a collector by the type of the definition; with another type the variable keeps
  its value.
\<close>

definition new_collector ::
  "'r registerer \<Rightarrow> string \<Rightarrow> Metric \<Rightarrow> collector option \<Rightarrow> 'r \<Rightarrow> collector option run \<times> 'r" where
  "new_collector register subsystem metricDef metric reg =
     (let c = (if met_Type metricDef = ''counter_vec''
               then Some (CounterVec subsystem (met_Name metricDef) (met_Description metricDef) (met_Args metricDef))
               else if met_Type metricDef = ''histogram_vec''
               then Some (HistogramVec subsystem (met_Name metricDef) (met_Description metricDef) (met_Args metricDef))
               else None)
      in case c of
           None \<Rightarrow> (Ret metric, reg)
         | Some c \<Rightarrow> (let (x, reg) = new_registered register c reg in (run_map Some x, reg)))"

fun register_loop ::
  "'r registerer \<Rightarrow> string \<Rightarrow> Metric list \<Rightarrow> collector option \<Rightarrow> Metrics \<Rightarrow> 'r \<Rightarrow> Metrics run \<times> 'r" where
  "register_loop register subsystem [] metric m reg = (Ret m, reg)"
| "register_loop register subsystem (metricDef # ds) metric m reg =
     (case new_collector register subsystem metricDef metric reg of
        (Panic p, reg) \<Rightarrow> (Panic p, reg)
      | (Ret metric, reg) \<Rightarrow>
          (case set_vector metricDef metric m of
             Panic p \<Rightarrow> (Panic p, reg)
           | Ret m \<Rightarrow> register_loop register subsystem ds metric m reg))"

definition registerMetrics ::
  "'r registerer \<Rightarrow> string \<Rightarrow> Metrics \<Rightarrow> 'r \<Rightarrow> Metrics run \<times> 'r" where
  "registerMetrics register subsystem m reg = register_loop register subsystem (m_metricsList m) None m reg"

definition NewMetrics ::
  "'r registerer \<Rightarrow> string \<Rightarrow> bool \<Rightarrow> 'r \<Rightarrow> Metrics run \<times> 'r" where
  "NewMetrics register subsystem isUnitTest reg =
     registerMetrics register subsystem \<lparr>m_ingressReqCnt = None, m_egressReqCnt = None, m_ingressReqDur = None,
       m_egressReqDur = None, m_errCnt = None, m_metricsList = ingressMetrics @ egressMetrics @ [errCnt],
       m_subsystem = subsystem, m_isUnitTest = isUnitTest, m_URLLabelFromContext = []\<rparr> reg"

definition RecordErrorCnt :: "Metrics \<Rightarrow> string \<Rightarrow> 'e samples \<Rightarrow> 'e samples run" where
  "RecordErrorCnt m target = Inc (m_errCnt m) [target]"

definition RecordEgressRequestCnt :: "Metrics \<Rightarrow> string \<Rightarrow> 'e samples \<Rightarrow> 'e samples run" where
  "RecordEgressRequestCnt m target = Inc (m_egressReqCnt m) [target]"

definition RecordEgressRequestDur :: "Metrics \<Rightarrow> string \<Rightarrow> 'e \<Rightarrow> 'e samples \<Rightarrow> 'e samples run" where
  "RecordEgressRequestDur m target elapsed = Observe (m_egressReqDur m) [target] elapsed"

definition RecordIngressRequestCnt :: "Metrics \<Rightarrow> string \<Rightarrow> string \<Rightarrow> string \<Rightarrow> 'e samples \<Rightarrow> 'e samples run" where
  "RecordIngressRequestCnt m code method url = Inc (m_ingressReqCnt m) [code, method, url]"

definition RecordIngressRequestDur :: "Metrics \<Rightarrow> string \<Rightarrow> string \<Rightarrow> string \<Rightarrow> 'e \<Rightarrow> 'e samples \<Rightarrow> 'e samples run" where
  "RecordIngressRequestDur m code method url elapsed = Observe (m_ingressReqDur m) [code, method, url] elapsed"

section \<open>The middleware (apiserver.go)\<close>

text \<open>A value kept in the context of a request: a text or something else.\<close>

datatype ctx_value = CtxString string | CtxOther

record 'e request =
  rq_Path :: string
  rq_Method :: string
  rq_Get :: "string \<Rightarrow> ctx_value option"
  rq_elapsed :: 'e

text \<open>\<^verbatim>\<open>errors.As\<close> for the error type of the framework.\<close>

fun as_HTTPError :: "goerr \<Rightarrow> int option" where
  "as_HTTPError (HTTPError code _) = Some code"
| "as_HTTPError _ = None"

definition requestCounterURLLabelMappingFunc :: "'e request \<Rightarrow> string" where
  "requestCounterURLLabelMappingFunc c = rq_Path c"

definition response_status :: "goerr option \<Rightarrow> int \<Rightarrow> int" where
  "response_status err status =
     (case err of
        None \<Rightarrow> status
      | Some e \<Rightarrow>
          (let status = (case as_HTTPError e of None \<Rightarrow> status | Some code \<Rightarrow> code)
           in if status = 0 \<or> status = 200 then 500 else status))"

definition url_label :: "Metrics \<Rightarrow> 'e request \<Rightarrow> string run" where
  "url_label m c =
     (if length (m_URLLabelFromContext m) > 0
      then case rq_Get c (m_URLLabelFromContext m) of
             None \<Rightarrow> Ret ''unknown''
           | Some (CtxString u) \<Rightarrow> Ret u
           | Some CtxOther \<Rightarrow> Panic ''interface conversion''
      else Ret (requestCounterURLLabelMappingFunc c))"

text \<open>\<open>next\<close> gives the error and the status of the response; it may record metrics of its own.\<close>

definition handlerFunc ::
  "Metrics \<Rightarrow> ('e request \<Rightarrow> 'e samples \<Rightarrow> (goerr option \<times> int) run \<times> 'e samples) \<Rightarrow> 'e request \<Rightarrow> 'e samples \<Rightarrow>
     (goerr option \<times> int) run \<times> 'e samples" where
  "handlerFunc m next c st =
     (if rq_Path c = ''/metrics'' then next c st
      else case next c st of
        (Panic p, st) \<Rightarrow> (Panic p, st)
      | (Ret (err, status), st) \<Rightarrow>
          (case url_label m c of
             Panic p \<Rightarrow> (Panic p, st)
           | Ret url \<Rightarrow>
               (let statusStr = int_str (response_status err status)
                in case RecordIngressRequestCnt m statusStr (rq_Method c) url st of
                     Panic p \<Rightarrow> (Panic p, st)
                   | Ret st \<Rightarrow>
                       (case RecordIngressRequestDur m statusStr (rq_Method c) url (rq_elapsed c) st of
                          Panic p \<Rightarrow> (Panic p, st)
                        | Ret st \<Rightarrow> (Ret (err, status), st)))))"

section \<open>The metrics of the client (client/metrics.go)\<close>

record ClientMetrics =
  c_egressReqCnt :: "collector option"
  c_egressReqDur :: "collector option"
  c_dmsLastTimestamp :: "collector option"
  c_metrics :: "collector list"

definition client_NewMetrics :: ClientMetrics where
  "client_NewMetrics = \<lparr>c_egressReqCnt = None, c_egressReqDur = None, c_dmsLastTimestamp = None, c_metrics = []\<rparr>"

definition client_egressReqCnt :: collector where
  "client_egressReqCnt = CounterVec [] ''cluster_registry_cc_egress_requests_total''
     ''How many egress requests sent, partitioned by target.'' [''target'']"

definition client_egressReqDur :: collector where
  "client_egressReqDur = HistogramVec [] ''cluster_registry_cc_egress_request_duration_seconds''
     ''The Egress HTTP request latencies in seconds partitioned by target.'' [''target'']"

definition client_dmsLastTimestamp :: collector where
  "client_dmsLastTimestamp = Gauge [] ''cluster_registry_cc_deadmansswitch_last_timestamp_seconds''
     ''Last timestamp when a DeadMansSwitch alert was received.'' []"

text \<open>One step of an initialisation: make the collector, keep it in a field and in the list.\<close>

definition init_step :: "'r registerer \<Rightarrow> collector \<Rightarrow> (collector \<Rightarrow> 'm \<Rightarrow> 'm) \<Rightarrow> 'm run \<times> 'r \<Rightarrow> 'm run \<times> 'r" where
  "init_step register c keep s =
     (case s of
        (Panic p, reg) \<Rightarrow> (Panic p, reg)
      | (Ret m, reg) \<Rightarrow> (let (x, reg) = new_registered register c reg in (run_map (\<lambda>c. keep c m) x, reg)))"

definition client_Init :: "'r registerer \<Rightarrow> ClientMetrics \<Rightarrow> 'r \<Rightarrow> ClientMetrics run \<times> 'r" where
  "client_Init register m reg =
     init_step register client_dmsLastTimestamp (\<lambda>c m. m\<lparr>c_dmsLastTimestamp := Some c, c_metrics := c_metrics m @ [c]\<rparr>)
     (init_step register client_egressReqDur (\<lambda>c m. m\<lparr>c_egressReqDur := Some c, c_metrics := c_metrics m @ [c]\<rparr>)
     (init_step register client_egressReqCnt (\<lambda>c m. m\<lparr>c_egressReqCnt := Some c, c_metrics := c_metrics m @ [c]\<rparr>)
       (Ret m, reg)))"

definition client_RecordEgressRequestCnt :: "ClientMetrics \<Rightarrow> string \<Rightarrow> 'e samples \<Rightarrow> 'e samples run" where
  "client_RecordEgressRequestCnt m target = Inc (c_egressReqCnt m) [target]"

definition client_RecordEgressRequestDur :: "ClientMetrics \<Rightarrow> string \<Rightarrow> 'e \<Rightarrow> 'e samples \<Rightarrow> 'e samples run" where
  "client_RecordEgressRequestDur m target elapsed = Observe (c_egressReqDur m) [target] elapsed"

definition RecordDMSLastTimestamp :: "ClientMetrics \<Rightarrow> 'e \<Rightarrow> 'e samples \<Rightarrow> 'e samples run" where
  "RecordDMSLastTimestamp m now st =
     (case c_dmsLastTimestamp m of
        None \<Rightarrow> Panic ''nil pointer dereference''
      | Some g \<Rightarrow> Ret (st\<lparr>gauges := (gauges st)(g \<mapsto> now)\<rparr>))"

section \<open>The metrics of the sync manager (manager/metrics.go)\<close>

record ManagerMetrics =
  s_RequeueCnt :: "collector option"
  s_ReconciliationCnt :: "collector option"
  s_ReconciliationDur :: "collector option"
  s_EnqueueCnt :: "collector option"
  s_EnqueueDur :: "collector option"
  s_ErrCnt :: "collector option"
  s_metrics :: "collector list"

definition manager_NewMetrics :: ManagerMetrics where
  "manager_NewMetrics = \<lparr>s_RequeueCnt = None, s_ReconciliationCnt = None, s_ReconciliationDur = None, s_EnqueueCnt = None,
     s_EnqueueDur = None, s_ErrCnt = None, s_metrics = []\<rparr>"

definition manager_vectors :: "collector list" where
  "manager_vectors =
    [CounterVec [] ''cluster_registry_sync_manager_requeues_total''
       ''The total number of controller-manager requeues partitioned by target.'' [''target''],
     CounterVec [] ''cluster_registry_sync_manager_reconciliation_total''
       ''How many reconciliations occurred, partitioned by target.'' [''target''],
     HistogramVec [] ''cluster_registry_sync_manager_reconciliation_duration_seconds''
       ''The time taken to reconcile resources in seconds partitioned by target.'' [''target''],
     CounterVec [] ''cluster_registry_sync_manager_enqueue_total''
       ''How many reconciliations were enqueued, partitioned by target.'' [''target''],
     HistogramVec [] ''cluster_registry_sync_manager_enqueue_duration_seconds''
       ''The time taken to enqueue a reconciliation in seconds partitioned by target.'' [''target''],
     CounterVec [] ''cluster_registry_sync_manager_error_total''
       ''The total number controller-manager errors partitioned by target.'' [''target'']]"

definition manager_fields :: "(collector \<Rightarrow> ManagerMetrics \<Rightarrow> ManagerMetrics) list" where
  "manager_fields =
    [\<lambda>c m. m\<lparr>s_RequeueCnt := Some c, s_metrics := s_metrics m @ [c]\<rparr>,
     \<lambda>c m. m\<lparr>s_ReconciliationCnt := Some c, s_metrics := s_metrics m @ [c]\<rparr>,
     \<lambda>c m. m\<lparr>s_ReconciliationDur := Some c, s_metrics := s_metrics m @ [c]\<rparr>,
     \<lambda>c m. m\<lparr>s_EnqueueCnt := Some c, s_metrics := s_metrics m @ [c]\<rparr>,
     \<lambda>c m. m\<lparr>s_EnqueueDur := Some c, s_metrics := s_metrics m @ [c]\<rparr>,
     \<lambda>c m. m\<lparr>s_ErrCnt := Some c, s_metrics := s_metrics m @ [c]\<rparr>]"

definition manager_Init :: "'r registerer \<Rightarrow> ManagerMetrics \<Rightarrow> 'r \<Rightarrow> ManagerMetrics run \<times> 'r" where
  "manager_Init register m reg =
     fold (\<lambda>(c, keep). init_step register c keep) (zip manager_vectors manager_fields) (Ret m, reg)"

definition RecordRequeueCnt :: "ManagerMetrics \<Rightarrow> string \<Rightarrow> 'e samples \<Rightarrow> 'e samples run" where
  "RecordRequeueCnt m target = Inc (s_RequeueCnt m) [target]"

definition RecordReconciliationCnt :: "ManagerMetrics \<Rightarrow> string \<Rightarrow> 'e samples \<Rightarrow> 'e samples run" where
  "RecordReconciliationCnt m target = Inc (s_ReconciliationCnt m) [target]"

definition RecordReconciliationDur :: "ManagerMetrics \<Rightarrow> string \<Rightarrow> 'e \<Rightarrow> 'e samples \<Rightarrow> 'e samples run" where
  "RecordReconciliationDur m target elapsed = Observe (s_ReconciliationDur m) [target] elapsed"

definition RecordEnqueueCnt :: "ManagerMetrics \<Rightarrow> string \<Rightarrow> 'e samples \<Rightarrow> 'e samples run" where
  "RecordEnqueueCnt m target = Inc (s_EnqueueCnt m) [target]"

definition RecordEnqueueDur :: "ManagerMetrics \<Rightarrow> string \<Rightarrow> 'e \<Rightarrow> 'e samples \<Rightarrow> 'e samples run" where
  "RecordEnqueueDur m target elapsed = Observe (s_EnqueueDur m) [target] elapsed"

definition manager_RecordErrorCnt :: "ManagerMetrics \<Rightarrow> string \<Rightarrow> 'e samples \<Rightarrow> 'e samples run" where
  "manager_RecordErrorCnt m target = Inc (s_ErrCnt m) [target]"

section \<open>The registry\<close>

text \<open>The collector of a definition, and the value of a run that returns.\<close>

definition vec_of :: "string \<Rightarrow> Metric \<Rightarrow> collector" where
  "vec_of subsystem d =
     (if met_Type d = ''counter_vec'' then CounterVec subsystem (met_Name d) (met_Description d) (met_Args d)
      else HistogramVec subsystem (met_Name d) (met_Description d) (met_Args d))"

fun ret_of :: "'a run \<Rightarrow> 'a" where
  "ret_of (Ret x) = x"
| "ret_of (Panic p) = undefined"

text \<open>The full name of a collector, by which the registry tells collectors apart.\<close>

definition fq_name :: "collector \<Rightarrow> string" where
  "fq_name c = (if col_Subsystem c = [] then col_Name c else col_Subsystem c @ ''_'' @ col_Name c)"

text \<open>What the library promises: a collector with a new name is accepted.\<close>

locale prometheus =
  fixes register :: "'r registerer" and names :: "'r \<Rightarrow> string set"
  assumes accept: "fq_name c \<notin> names reg \<Longrightarrow> \<exists>reg'. register c reg = (None, reg') \<and> names reg' = insert (fq_name c) (names reg)"
begin

lemma new_ok:
  assumes "fq_name c \<notin> names reg"
  obtains reg' where "new_registered register c reg = (Ret c, reg')" and "names reg' = insert (fq_name c) (names reg)"
  using accept [OF assms] by (auto simp: new_registered_def)

text \<open>Initialisation steps for collectors with different new names keep each of them.\<close>

lemma init_steps:
  assumes "distinct (map (fq_name \<circ> fst) steps)" and "\<forall>(c, keep) \<in> set steps. fq_name c \<notin> names reg"
  shows "\<exists>reg'. fold (\<lambda>(c, keep). init_step register c keep) steps (Ret m, reg) = (Ret (fold (\<lambda>(c, keep). keep c) steps m), reg')"
  using assms
proof (induction steps arbitrary: m reg)
  case Nil
  then show ?case by simp
next
  case (Cons s steps)
  obtain c keep where s: "s = (c, keep)" by (cases s)
  with Cons.prems obtain reg' where new: "new_registered register c reg = (Ret c, reg')" "names reg' = insert (fq_name c) (names reg)"
    using new_ok [of c reg] by auto
  have "\<forall>(c, keep) \<in> set steps. fq_name c \<notin> names reg'"
    using Cons.prems s new(2) by (force simp: image_iff)
  with Cons.IH [of reg' "keep c m"] Cons.prems(1) show ?case
    by (simp add: s init_step_def new(1))
qed

text \<open>
  The same for the definitions of the API server, whose loop chooses the collector by the type and the
  field by the definition.
\<close>

lemma register_loop_ok:
  assumes "distinct (map (\<lambda>d. fq_name (vec_of subsystem d)) ds)"
    and "\<forall>d \<in> set ds. fq_name (vec_of subsystem d) \<notin> names reg \<and> met_Type d \<in> {''counter_vec'', ''histogram_vec''} \<and>
      (\<forall>m. \<exists>m'. set_vector d (Some (vec_of subsystem d)) m = Ret m')"
  shows "\<exists>reg'. register_loop register subsystem ds metric m reg =
    (Ret (fold (\<lambda>d m. ret_of (set_vector d (Some (vec_of subsystem d)) m)) ds m), reg')"
  using assms
proof (induction ds arbitrary: metric m reg)
  case Nil
  then show ?case by simp
next
  case (Cons d ds)
  let ?c = "vec_of subsystem d"
  obtain reg' where new: "new_registered register ?c reg = (Ret ?c, reg')" "names reg' = insert (fq_name ?c) (names reg)"
    using new_ok [of ?c reg] Cons.prems(2) by auto
  have c: "new_collector register subsystem d metric reg = (Ret (Some ?c), reg')"
    using Cons.prems(2) new(1) by (auto simp: new_collector_def vec_of_def)
  obtain m' where m': "set_vector d (Some ?c) m = Ret m'" using Cons.prems(2) by (meson list.set_intros(1))
  have "\<forall>d \<in> set ds. fq_name (vec_of subsystem d) \<notin> names reg'"
    using Cons.prems new(2) by (force simp: image_iff)
  with Cons.IH [of reg' "Some ?c" m'] Cons.prems c m' show ?case by simp
qed

end

text \<open>A registry that keeps the names in a list.\<close>

definition list_register :: "string list registerer" where
  "list_register c reg =
     (if fq_name c \<in> set reg then (Some (Error ''duplicate metrics collector registration attempted''), reg) else (None, fq_name c # reg))"

interpretation list_registry: prometheus list_register set
  by unfold_locales (simp add: list_register_def)

section \<open>Properties\<close>

lemmas metric_defs = ingressReqCnt_def ingressReqDur_def egressReqCnt_def egressReqDur_def errCnt_def

definition api_metrics :: "Metric list" where
  "api_metrics = ingressMetrics @ egressMetrics @ [errCnt]"

lemma api_names: "distinct (map (\<lambda>d. fq_name (vec_of subsystem d)) api_metrics)"
  by (cases "subsystem = []") (simp_all add: api_metrics_def ingressMetrics_def egressMetrics_def metric_defs fq_name_def vec_of_def)

lemma api_vectors:
  assumes "d \<in> set api_metrics"
  shows "met_Type d \<in> {''counter_vec'', ''histogram_vec''} \<and> (\<forall>m. \<exists>m'. set_vector d (Some (vec_of subsystem d)) m = Ret m')"
  using assms
  by (auto simp: api_metrics_def ingressMetrics_def egressMetrics_def metric_defs vec_of_def set_vector_def assert_counter_def assert_histogram_def)

text \<open>The metrics that the API server ends up with.\<close>

definition api_ready :: "string \<Rightarrow> bool \<Rightarrow> Metrics" where
  "api_ready subsystem isUnitTest = \<lparr>m_ingressReqCnt = Some (vec_of subsystem ingressReqCnt), m_egressReqCnt = Some (vec_of subsystem egressReqCnt),
     m_ingressReqDur = Some (vec_of subsystem ingressReqDur), m_egressReqDur = Some (vec_of subsystem egressReqDur),
     m_errCnt = Some (vec_of subsystem errCnt), m_metricsList = api_metrics, m_subsystem = subsystem, m_isUnitTest = isUnitTest,
     m_URLLabelFromContext = []\<rparr>"

lemma NewMetrics_ready:
  assumes "prometheus register names" and "\<forall>d \<in> set api_metrics. fq_name (vec_of subsystem d) \<notin> names reg"
  shows "\<exists>reg'. NewMetrics register subsystem t reg = (Ret (api_ready subsystem t), reg')"
proof -
  let ?z = "\<lparr>m_ingressReqCnt = None, m_egressReqCnt = None, m_ingressReqDur = None, m_egressReqDur = None, m_errCnt = None,
    m_metricsList = api_metrics, m_subsystem = subsystem, m_isUnitTest = t, m_URLLabelFromContext = []\<rparr>"
  have "fold (\<lambda>d m. ret_of (set_vector d (Some (vec_of subsystem d)) m)) api_metrics ?z = api_ready subsystem t"
    by (simp add: api_ready_def) (simp add: api_metrics_def ingressMetrics_def egressMetrics_def metric_defs vec_of_def set_vector_def
        assert_counter_def assert_histogram_def)
  then show ?thesis
    using prometheus.register_loop_ok [OF assms(1) api_names, where subsystem = subsystem and reg = reg and metric = None and m = ?z] assms(2) api_vectors
    by (simp add: NewMetrics_def registerMetrics_def api_metrics_def [symmetric])
qed


text \<open>A handler that fails after the status of the response was left at 200.\<close>

definition example_request :: "unit request" where
  "example_request = \<lparr>rq_Path = ''/api/v1/clusters'', rq_Method = ''GET'', rq_Get = Map.empty, rq_elapsed = ()\<rparr>"

definition no_samples :: "unit samples" where
  "no_samples = \<lparr>counts = (\<lambda>_. 0), observed = (\<lambda>_. []), gauges = Map.empty\<rparr>"


text \<open>The same for the other two programs: their metrics are created, and no recording panics.\<close>

lemma client_metrics_ready:
  assumes "prometheus register names"
    and "\<forall>c \<in> {client_egressReqCnt, client_egressReqDur, client_dmsLastTimestamp}. fq_name c \<notin> names reg"
  shows "\<exists>m reg'. client_Init register client_NewMetrics reg = (Ret m, reg') \<and>
    (\<forall>target x st. returns (client_RecordEgressRequestCnt m target st) \<and> returns (client_RecordEgressRequestDur m target x st) \<and>
      returns (RecordDMSLastTimestamp m x st))"
proof -
  let ?steps = "[(client_egressReqCnt, \<lambda>c m. m\<lparr>c_egressReqCnt := Some c, c_metrics := c_metrics m @ [c]\<rparr>),
    (client_egressReqDur, \<lambda>c m. m\<lparr>c_egressReqDur := Some c, c_metrics := c_metrics m @ [c]\<rparr>),
    (client_dmsLastTimestamp, \<lambda>c m. m\<lparr>c_dmsLastTimestamp := Some c, c_metrics := c_metrics m @ [c]\<rparr>)]"
  have "distinct (map (fq_name \<circ> fst) ?steps)"
    by (simp add: client_egressReqCnt_def client_egressReqDur_def client_dmsLastTimestamp_def fq_name_def)
  from prometheus.init_steps [OF assms(1) this, of reg client_NewMetrics] assms(2)
  show ?thesis
    by (auto simp: client_Init_def client_NewMetrics_def client_RecordEgressRequestCnt_def client_RecordEgressRequestDur_def
        RecordDMSLastTimestamp_def Inc_def Observe_def WithLabelValues_def client_egressReqCnt_def client_egressReqDur_def)
qed

lemma manager_metrics_ready:
  assumes "prometheus register names" and "\<forall>c \<in> set manager_vectors. fq_name c \<notin> names reg"
  shows "\<exists>m reg'. manager_Init register manager_NewMetrics reg = (Ret m, reg') \<and>
    (\<forall>target x st. returns (RecordRequeueCnt m target st) \<and> returns (RecordReconciliationCnt m target st) \<and>
      returns (RecordReconciliationDur m target x st) \<and> returns (RecordEnqueueCnt m target st) \<and>
      returns (RecordEnqueueDur m target x st) \<and> returns (manager_RecordErrorCnt m target st))"
proof -
  let ?steps = "zip manager_vectors manager_fields"
  have "distinct (map (fq_name \<circ> fst) ?steps)" and "\<forall>(c, keep) \<in> set ?steps. fq_name c \<notin> names reg"
    using assms(2) by (auto simp: manager_vectors_def manager_fields_def fq_name_def)
  from prometheus.init_steps [OF assms(1) this, of manager_NewMetrics] show ?thesis
    by (auto simp: manager_Init_def manager_NewMetrics_def manager_vectors_def manager_fields_def RecordRequeueCnt_def
        RecordReconciliationCnt_def RecordReconciliationDur_def RecordEnqueueCnt_def RecordEnqueueDur_def manager_RecordErrorCnt_def
        Inc_def Observe_def WithLabelValues_def)
qed

lemma api_metrics_ready:
  assumes "prometheus register names" and "\<forall>d \<in> set api_metrics. fq_name (vec_of subsystem d) \<notin> names reg"
  shows "\<exists>m reg'. NewMetrics register subsystem t reg = (Ret m, reg') \<and>
    (\<forall>target code method url x st. returns (RecordErrorCnt m target st) \<and> returns (RecordEgressRequestCnt m target st) \<and>
      returns (RecordEgressRequestDur m target x st) \<and> returns (RecordIngressRequestCnt m code method url st) \<and>
      returns (RecordIngressRequestDur m code method url x st))"
  using NewMetrics_ready [OF assms, of t]
  by (auto simp: api_ready_def vec_of_def metric_defs RecordErrorCnt_def RecordEgressRequestCnt_def RecordEgressRequestDur_def
      RecordIngressRequestCnt_def RecordIngressRequestDur_def Inc_def Observe_def WithLabelValues_def)



end
