(* ===== verification/Api_Server.thy ===== *)
theory Api_Server
  imports Api_Spec App_Config Monitoring
begin

text \<open>
  The API server as a whole: its routes (Register of pkg/apiserver/web/handler/v1 and v2, NewRouter of
  pkg/apiserver/web/router.go), how a request runs through the middleware of its route, and \<^verbatim>\<open>main\<close>
  of cmd/apiserver/apiserver.go, from the environment to the served routes and the polled queue.
\<close>

section \<open>Routes\<close>

datatype endpoint =
    SwaggerDocs
  | LivezCheck
  | ReadyzCheck
  | VersionText
  | MetricsPage
  | V1_GetCluster
  | V1_ListClusters
  | V2_GetCluster
  | V2_PatchCluster
  | V2_ListClusters
  | V2_GetServiceMetadata
  | V2_GetServiceMetadataForCluster

text \<open>A middleware of the program; each version of the API has an authenticator of its own.\<close>

datatype 'tok middleware =
    TokenCheck "'tok Authenticator"
  | Limiter bool
  | GroupCheck string
  | ResponseCache "string list"

record 'tok route =
  rt_Method :: string
  rt_Path :: string
  rt_Endpoint :: endpoint
  rt_Middleware :: "'tok middleware list"

text \<open>A group of the framework: a prefix and the middleware of all its routes.\<close>

record 'tok group =
  grp_Prefix :: string
  grp_Middleware :: "'tok middleware list"

definition Group :: "'tok group \<Rightarrow> string \<Rightarrow> 'tok middleware list \<Rightarrow> 'tok group" where
  "Group g p ms = \<lparr>grp_Prefix = grp_Prefix g @ p, grp_Middleware = grp_Middleware g @ ms\<rparr>"

definition add_route :: "'tok group \<Rightarrow> string \<Rightarrow> string \<Rightarrow> endpoint \<Rightarrow> 'tok middleware list \<Rightarrow> 'tok route" where
  "add_route g m p e ms =
     \<lparr>rt_Method = m, rt_Path = grp_Prefix g @ p, rt_Endpoint = e, rt_Middleware = grp_Middleware g @ ms\<rparr>"

text \<open>\<^verbatim>\<open>Register\<close> of the two versions; an authenticator that cannot be created ends the program.\<close>

definition v1_Register :: "goerr + 'tok Authenticator \<Rightarrow> AppConfig \<Rightarrow> 'tok group \<Rightarrow> goerr + 'tok route list" where
  "v1_Register newAuthenticator appConfig v1 =
     bind_err newAuthenticator (\<lambda>a.
       let clusters = Group v1 ''/clusters'' [TokenCheck a, Limiter (ApiRateLimiterEnabled appConfig)]
       in Inr [add_route clusters ''GET'' ''/:name'' V1_GetCluster [],
               add_route clusters ''GET'' [] V1_ListClusters [ResponseCache [''clusters'']]])"

definition v2_Register :: "goerr + 'tok Authenticator \<Rightarrow> AppConfig \<Rightarrow> 'tok group \<Rightarrow> goerr + 'tok route list" where
  "v2_Register newAuthenticator appConfig v2 =
     bind_err newAuthenticator (\<lambda>a.
       let clusters = Group v2 ''/clusters'' [TokenCheck a, Limiter (ApiRateLimiterEnabled appConfig)];
           services = Group v2 ''/services'' [TokenCheck a, Limiter (ApiRateLimiterEnabled appConfig)]
       in Inr [add_route clusters ''GET'' ''/:name'' V2_GetCluster [],
               add_route clusters ''PATCH'' ''/:name'' V2_PatchCluster [GroupCheck (App_Config.ApiAuthorizedGroupId appConfig)],
               add_route clusters ''GET'' [] V2_ListClusters [ResponseCache [''clusters'']],
               add_route services ''GET'' ''/:serviceId'' V2_GetServiceMetadata [],
               add_route services ''GET'' ''/:serviceId/cluster/:clusterName'' V2_GetServiceMetadataForCluster []])"

text \<open>The routes of \<^verbatim>\<open>main\<close> itself, which need no token.\<close>

definition root_group :: "string \<Rightarrow> 'tok group" where
  "root_group p = \<lparr>grp_Prefix = p, grp_Middleware = []\<rparr>"

definition open_routes :: "'tok route list" where
  "open_routes =
     [add_route (root_group []) ''GET'' ''/api/swagger/*'' SwaggerDocs [],
      add_route (root_group []) ''GET'' ''/livez'' LivezCheck [],
      add_route (root_group []) ''GET'' ''/readyz'' ReadyzCheck [],
      add_route (root_group []) ''GET'' ''/version'' VersionText [],
      add_route (root_group []) ''GET'' ''/metrics'' MetricsPage []]"

text \<open>The settings of \<^verbatim>\<open>NewRouter\<close>: what runs before the routing and for every route.\<close>

datatype router_middleware =
    RemoveTrailingSlash
  | RequestLogger
  | CORS "string list" "string list" "string list"
  | RequestID

record router =
  rou_Pre :: "router_middleware list"
  rou_Use :: "router_middleware list"

definition NewRouter :: router where
  "NewRouter =
     \<lparr>rou_Pre = [RemoveTrailingSlash],
      rou_Use = [RequestLogger,
        CORS [''*''] [''Origin'', ''Content-Type'', ''Accept'', ''Authorization''] [''GET'', ''HEAD''],
        RequestID]\<rparr>"

section \<open>A request\<close>

record ('st, 'k, 'c, 'w) api_state =
  as_metrics :: "metric list"
  as_st :: 'st
  as_k :: 'k
  as_cache :: 'c
  as_w :: 'w

text \<open>A handler of a part of the state as a handler of the whole.\<close>

definition via :: "('s \<Rightarrow> 'x) \<Rightarrow> ('x \<Rightarrow> 's \<Rightarrow> 's) \<Rightarrow> 'x handler \<Rightarrow> 's handler" where
  "via get put h c s = map_option (\<lambda>(r, x). (r, put x s)) (h c (get s))"

text \<open>
  What the routes call: the database, the libraries of a patch, the cache, the queue, the limiter of
  the framework, and \<open>page\<close>, the pages that the framework or a library serves by itself.
\<close>

record ('st, 'k, 'v, 'c, 'w) services =
  sv_db :: "'st Db"
  sv_libs :: "'k patch_libs"
  sv_cache :: "('v, 'c) cache_api"
  sv_queue :: "'w Config"
  sv_limit :: "RateLimiterConfig \<Rightarrow> ('st, 'k, 'c, 'w) api_state handler \<Rightarrow> ('st, 'k, 'c, 'w) api_state handler"
  sv_version :: string
  sv_page :: "endpoint \<Rightarrow> Ctx \<Rightarrow> response"

definition on_db :: "'st handler \<Rightarrow> ('st, 'k, 'c, 'w) api_state handler" where
  "on_db = via as_st (\<lambda>x. as_st_update (\<lambda>_. x))"

definition endpoint_handler :: "('st, 'k, 'v, 'c, 'w) services \<Rightarrow> endpoint \<Rightarrow> ('st, 'k, 'c, 'w) api_state handler" where
  "endpoint_handler sv e c s =
     (case e of
        LivezCheck \<Rightarrow> answer Livez s
      | ReadyzCheck \<Rightarrow>
          (let (r, (st, w)) = Readyz (sv_db sv) (sv_queue sv) (as_st s, as_w s) in Some (r, s\<lparr>as_st := st, as_w := w\<rparr>))
      | VersionText \<Rightarrow> answer (Version (sv_version sv)) s
      | V1_GetCluster \<Rightarrow> on_db (v1_GetCluster (sv_db sv)) c s
      | V1_ListClusters \<Rightarrow> on_db (v1_ListClusters (sv_db sv)) c s
      | V2_GetCluster \<Rightarrow> on_db (v2_GetCluster (sv_db sv)) c s
      | V2_PatchCluster \<Rightarrow>
          via (\<lambda>s. (as_st s, as_k s)) (\<lambda>(x, k) s. s\<lparr>as_st := x, as_k := k\<rparr>) (PatchCluster (sv_db sv) (sv_libs sv)) c s
      | V2_ListClusters \<Rightarrow> on_db (v2_ListClusters (sv_db sv)) c s
      | V2_GetServiceMetadata \<Rightarrow> on_db (GetServiceMetadata (sv_db sv)) c s
      | V2_GetServiceMetadataForCluster \<Rightarrow> on_db (GetServiceMetadataForCluster (sv_db sv)) c s
      | _ \<Rightarrow> answer (sv_page sv e c) s)"

definition run_middleware ::
  "('st, 'k, 'v, 'c, 'w) services \<Rightarrow> 'tok middleware \<Rightarrow> ('st, 'k, 'c, 'w) api_state handler \<Rightarrow> ('st, 'k, 'c, 'w) api_state handler" where
  "run_middleware sv m next =
     (case m of
        TokenCheck a \<Rightarrow> via (\<lambda>s. (as_metrics s, s)) (\<lambda>(ms, s') s. s'\<lparr>as_metrics := ms\<rparr>) (VerifyToken a next)
      | Limiter enabled \<Rightarrow> sv_limit sv (RateLimiter enabled) next
      | GroupCheck g \<Rightarrow> VerifyGroupAccess g next
      | ResponseCache tags \<Rightarrow>
          via (\<lambda>s. \<lparr>srv_st = s, srv_cache = as_cache s\<rparr>) (\<lambda>v s. (srv_st v)\<lparr>as_cache := srv_cache v\<rparr>)
            (HTTPCache (sv_cache sv) tags next))"

definition route_handler :: "('st, 'k, 'v, 'c, 'w) services \<Rightarrow> 'tok route \<Rightarrow> ('st, 'k, 'c, 'w) api_state handler" where
  "route_handler sv r = foldr (run_middleware sv) (rt_Middleware r) (endpoint_handler sv (rt_Endpoint r))"

text \<open>
  The router of the framework finds the route of a request and its path parameters; \<open>missing\<close> is its
  answer when there is none.
\<close>

type_synonym 'tok finder = "'tok route list \<Rightarrow> Ctx \<Rightarrow> ('tok route \<times> (string \<Rightarrow> string)) option"

definition serve ::
  "'tok finder \<Rightarrow> (Ctx \<Rightarrow> response) \<Rightarrow> ('st, 'k, 'v, 'c, 'w) services \<Rightarrow> 'tok route list \<Rightarrow> ('st, 'k, 'c, 'w) api_state handler" where
  "serve lookup missing sv rs c s =
     (case lookup rs c of
        None \<Rightarrow> answer (missing c) s
      | Some (r, params) \<Rightarrow> route_handler sv r (c\<lparr>ctx_Param := params\<rparr>) s)"

section \<open>The start of the server\<close>

text \<open>A program ends with a message and an error, panics, or runs with what it has set up.\<close>

datatype 'a start = Exit string goerr | Abort string | Started 'a

text \<open>The queue that the server polls: at most ten handlers, 120 seconds for each message.\<close>

definition queue_config :: "AppConfig \<Rightarrow> int \<Rightarrow> int \<Rightarrow> int \<Rightarrow> 'w Config" where
  "queue_config appConfig batchSize waitSeconds runInterval =
     \<lparr>AWSRegion = SqsAwsRegion appConfig, QueueName = SqsQueueName appConfig, Endpoint = SqsEndpoint appConfig, QueueURL = [],
      MaxRetries = 0, BatchSize = batchSize, WaitSeconds = waitSeconds, VisibilityTimeout = 120, RunOnce = False,
      RunInterval = runInterval, MaxHandlers = 10, BusyTimeout = 30, svc = None, handlerCount = 0, registered = False\<rparr>"

definition api_queue :: "AppConfig \<Rightarrow> 'w Config" where
  "api_queue appConfig = queue_config appConfig (SqsBatchSize appConfig) (SqsWaitSeconds appConfig) (SqsRunInterval appConfig)"

text \<open>The options of the redis client; a host that is not an address is checked by its name.\<close>

record tls_config =
  tls_MinVersion :: string
  tls_ServerName :: string

record redis_options =
  redis_Addr :: string
  redis_TLSConfig :: "tls_config option"

definition redisOptions :: "(string \<Rightarrow> bool) \<Rightarrow> AppConfig \<Rightarrow> redis_options" where
  "redisOptions is_ip appConfig =
     (let opts = \<lparr>redis_Addr = ApiCacheRedisHost appConfig, redis_TLSConfig = None\<rparr>
      in if ApiCacheRedisTLSEnabled appConfig
         then let tls = \<lparr>tls_MinVersion = ''1.2'', tls_ServerName = []\<rparr>;
                  redisHost = hd (str_split CHR '':'' (ApiCacheRedisHost appConfig));
                  tls = (if \<not> is_ip redisHost then tls\<lparr>tls_ServerName := redisHost\<rparr> else tls)
              in opts\<lparr>redis_TLSConfig := Some tls\<rparr>
         else opts)"

text \<open>The libraries that \<^verbatim>\<open>main\<close> calls; a session that cannot be created is a panic.\<close>

record ('tok, 'w, 'r, 'd, 'item, 'key) api_libs =
  al_register :: "'r registerer"
  al_dynamodb :: "string \<Rightarrow> string \<Rightarrow> ('d, 'item, 'key) dynamo_api run"
  al_connect :: "'w Config \<Rightarrow> 'w aws_outcome"
  al_ParseIP :: "string \<Rightarrow> bool"
  al_redis :: "redis_options \<Rightarrow> goerr option"
  al_NewProvider :: "string \<Rightarrow> goerr + (string \<Rightarrow> string \<Rightarrow> goerr + 'tok)"
  al_Claims :: "'tok \<Rightarrow> goerr + (string \<times> string list)"

record ('tok, 'w, 'd, 'item, 'key) api_server =
  srv_config :: AppConfig
  srv_metrics :: Metrics
  srv_db :: "('d, 'item, 'key) db"
  srv_queue :: "'w Config"
  srv_redis :: redis_options
  srv_router :: router
  srv_routes :: "'tok route list"

definition fatal :: "string \<Rightarrow> goerr + 'a \<Rightarrow> ('a \<Rightarrow> 'b start) \<Rightarrow> 'b start" where
  "fatal msg r f = (case r of Inl err \<Rightarrow> Exit msg err | Inr x \<Rightarrow> f x)"

definition or_abort :: "'a run \<Rightarrow> ('a \<Rightarrow> 'b start) \<Rightarrow> 'b start" where
  "or_abort r f = (case r of Panic p \<Rightarrow> Abort p | Ret x \<Rightarrow> f x)"

definition new_authenticator :: "('tok, 'w, 'r, 'd, 'item, 'key) api_libs \<Rightarrow> AppConfig \<Rightarrow> goerr + 'tok Authenticator" where
  "new_authenticator l appConfig =
     NewAuthenticator (al_NewProvider l) (al_Claims l) (OidcIssuerUrl appConfig) (OidcClientId appConfig)"

text \<open>\<^verbatim>\<open>main\<close> up to the point where it serves requests and polls the queue.\<close>

definition api_main ::
  "('tok, 'w, 'r, 'd, 'item, 'key) api_libs \<Rightarrow> env \<Rightarrow> 'r \<Rightarrow> 'w \<Rightarrow> ('tok, 'w, 'd, 'item, 'key) api_server start" where
  "api_main l e reg w =
     fatal ''Cannot load the api configuration'' (LoadApiConfig e) (\<lambda>appConfig.
     or_abort (fst (NewMetrics (al_register l) ''cluster_registry_api'' False reg)) (\<lambda>m.
     or_abort (al_dynamodb l (AwsRegion appConfig) (DbEndpoint appConfig)) (\<lambda>d.
     let db = NewDb (DbTableName appConfig) (DbIndexName appConfig) d in
     or_abort (fst (NewSQS (al_connect l) (api_queue appConfig) w)) (\<lambda>nq.
     fatal ''Cannot create SQS client'' nq (\<lambda>q.
     let opts = redisOptions (al_ParseIP l) appConfig in
     fatal ''Cannot connect to redis'' (case al_redis l opts of Some err \<Rightarrow> Inl err | None \<Rightarrow> Inr ()) (\<lambda>_.
     let q = RegisterHandler q in
     fatal ''Failed to initialize authenticator''
       (v1_Register (new_authenticator l appConfig) appConfig (root_group ''/api/v1'')) (\<lambda>v1.
     fatal ''Failed to initialize authenticator''
       (v2_Register (new_authenticator l appConfig) appConfig (root_group ''/api/v2'')) (\<lambda>v2.
     Started \<lparr>srv_config = appConfig, srv_metrics = m, srv_db = db, srv_queue = q, srv_redis = opts,
       srv_router = NewRouter, srv_routes = open_routes @ v1 @ v2\<rparr>))))))))"

lemma fatal_Started: "fatal msg r f = Started x \<longleftrightarrow> (\<exists>y. r = Inr y \<and> f y = Started x)"
  by (auto simp: fatal_def split: sum.splits)

lemma or_abort_Started: "or_abort r f = Started x \<longleftrightarrow> (\<exists>y. r = Ret y \<and> f y = Started x)"
  by (auto simp: or_abort_def split: run.splits)

section \<open>Who is served\<close>

text \<open>
  What the framework promises of its router: it finds a registered route with the method of the
  request and a path that matches, where \<^verbatim>\<open>:name\<close> stands for one segment and \<^verbatim>\<open>*\<close> for the rest.
\<close>

fun segments_match :: "string list \<Rightarrow> string list \<Rightarrow> bool" where
  "segments_match [] ss = (ss = [])"
| "segments_match (p # ps) ss =
     (p = ''*'' \<or> (case ss of [] \<Rightarrow> False | s # ss \<Rightarrow> (p = s \<or> p \<noteq> [] \<and> hd p = CHR '':'') \<and> segments_match ps ss))"

definition path_matches :: "string \<Rightarrow> string \<Rightarrow> bool" where
  "path_matches pat p = segments_match (str_split CHR ''/'' pat) (str_split CHR ''/'' p)"

definition router_law :: "'tok finder \<Rightarrow> bool" where
  "router_law lookup \<longleftrightarrow>
     (\<forall>rs c r params. lookup rs c = Some (r, params) \<longrightarrow>
        r \<in> set rs \<and> rt_Method r = ctx_Method c \<and> path_matches (rt_Path r) (ctx_Path c))"

text \<open>The paths of the two versions of the API.\<close>

definition api_path :: "string \<Rightarrow> bool" where
  "api_path p \<longleftrightarrow> prefix ''/api/v1/'' p \<or> prefix ''/api/v2/'' p"

lemma api_path_split:
  assumes "api_path p"
  obtains v rest where "v \<in> {''v1'', ''v2''}" and "str_split CHR ''/'' p = [] # ''api'' # v # rest"
  using assms by (auto simp: api_path_def prefix_def)

lemma open_routes_closed:
  assumes "r \<in> set open_routes" and "api_path p"
  shows "\<not> path_matches (rt_Path r) p"
proof -
  obtain v rest where v: "v \<in> {''v1'', ''v2''}" "str_split CHR ''/'' p = [] # ''api'' # v # rest"
    using api_path_split [OF assms(2)] by blast
  then show ?thesis using assms(1) by (auto simp: open_routes_def add_route_def root_group_def path_matches_def)
qed

text \<open>Every route of the two versions starts with the check of the token.\<close>

definition guarded :: "'tok Authenticator set \<Rightarrow> string \<Rightarrow> 'tok route \<Rightarrow> bool" where
  "guarded as g r \<longleftrightarrow> (\<exists>a e ms. a \<in> as \<and> rt_Middleware r = TokenCheck a # Limiter e # ms \<and>
     set ms \<subseteq> {GroupCheck g} \<union> range ResponseCache \<and> (rt_Endpoint r = V2_PatchCluster \<longrightarrow> ms = [GroupCheck g]))"

lemma Register_guarded:
  "v1_Register (Inr a) conf (root_group p) = Inr rs \<Longrightarrow> r \<in> set rs \<Longrightarrow> guarded {a} (App_Config.ApiAuthorizedGroupId conf) r"
  "v2_Register (Inr a) conf (root_group p) = Inr rs \<Longrightarrow> r \<in> set rs \<Longrightarrow> guarded {a} (App_Config.ApiAuthorizedGroupId conf) r"
  by (auto simp: v1_Register_def v2_Register_def guarded_def add_route_def Group_def root_group_def Let_def)

lemma TokenCheck_passes:
  assumes "run_middleware sv (TokenCheck a) next c s = Some (r, s')"
    and "(\<exists>x. r = Ret x \<and> resp_Status x < 400) \<or> s'\<lparr>as_metrics := as_metrics s\<rparr> \<noteq> s"
  shows "\<exists>oid groups s1. authenticated a c oid groups \<and> s' = s1\<lparr>as_metrics := as_metrics s'\<rparr> \<and>
    next (c\<lparr>ctx_oid := Some oid, ctx_groups := Some groups\<rparr>) s = Some (r, s1)"
proof -
  obtain ms s1 where v: "VerifyToken a next c (as_metrics s, s) = Some (r, (ms, s1))" and s': "s' = s1\<lparr>as_metrics := ms\<rparr>"
    using assms(1) by (auto simp: run_middleware_def via_def)
  from token_gate [of a c "next" "(as_metrics s, s)", unfolded snd_conv] consider
      (pass) oid groups ms' where "authenticated a c oid groups"
        "VerifyToken a next c (as_metrics s, s) =
          map_option (\<lambda>(r, st). (r, (ms', st))) (next (c\<lparr>ctx_oid := Some oid, ctx_groups := Some groups\<rparr>) s)"
    | (stop) code e ms' where "code \<in> {400, 403}" "VerifyToken a next c (as_metrics s, s) = answer (JSON code e) (ms', s)"
    by blast
  then show ?thesis
  proof cases
    case (pass oid groups ms')
    then have "map_option (\<lambda>(r, st). (r, (ms', st))) (next (c\<lparr>ctx_oid := Some oid, ctx_groups := Some groups\<rparr>) s) = Some (r, (ms, s1))"
      using v by simp
    then have "next (c\<lparr>ctx_oid := Some oid, ctx_groups := Some groups\<rparr>) s = Some (r, s1)"
      by (auto simp: map_option_eq_Some)
    then show ?thesis using pass(1) s' by auto
  next
    case (stop code e ms')
    then have "r = Ret (JSON code e)" "s1 = s" using v by (auto simp: answer_def)
    then show ?thesis using assms(2) stop(1) s' by (auto simp: JSON_def)
  qed
qed

text \<open>Only a patch reaches Kubernetes.\<close>

definition keeps_k :: "('st, 'k, 'c, 'w) api_state handler \<Rightarrow> bool" where
  "keeps_k h \<longleftrightarrow> (\<forall>c s r s'. h c s = Some (r, s') \<longrightarrow> as_k s' = as_k s)"

lemma keeps_k_endpoint: "e \<noteq> V2_PatchCluster \<Longrightarrow> keeps_k (endpoint_handler sv e)"
  by (cases e) (auto simp: keeps_k_def endpoint_handler_def on_db_def via_def answer_def split: prod.splits)

lemma keeps_k_group: "keeps_k next \<Longrightarrow> keeps_k (run_middleware sv (GroupCheck g) next)"
  by (auto simp: keeps_k_def run_middleware_def VerifyGroupAccess_def answer_def split: option.splits if_splits)

lemma HTTPCache_next:
  assumes "HTTPCache api tags next c v = Some (r, v')"
  shows "srv_st v' = srv_st v \<or> (\<exists>c r'. next c (srv_st v) = Some (r', srv_st v'))"
  using assms
  by (auto simp: HTTPCache_def cache_miss_def answer_def Let_def split: if_splits option.splits prod.splits run.splits)

lemma keeps_k_cache: "keeps_k next \<Longrightarrow> keeps_k (run_middleware sv (ResponseCache tags) next)"
  unfolding keeps_k_def run_middleware_def via_def
  by (auto dest!: HTTPCache_next)

lemma keeps_k_chain:
  assumes "keeps_k h" and "set ms \<subseteq> {GroupCheck g} \<union> range ResponseCache"
  shows "keeps_k (foldr (run_middleware sv) ms h)"
  using assms(2)
proof (induction ms)
  case (Cons m ms)
  then show ?case using keeps_k_group keeps_k_cache by auto
qed (use assms(1) in simp)

lemma guarded_route:
  assumes "guarded as g rt" and "limiter_law (sv_limit sv)" and "route_handler sv rt c s = Some (r, s')"
    and "(\<exists>x. r = Ret x \<and> resp_Status x < 400) \<or> s'\<lparr>as_metrics := as_metrics s\<rparr> \<noteq> s"
  shows "\<exists>a oid groups. a \<in> as \<and> authenticated a c oid groups \<and> (as_k s' \<noteq> as_k s \<longrightarrow> g \<in> set groups)"
proof -
  obtain a e ms where a: "a \<in> as" "rt_Middleware rt = TokenCheck a # Limiter e # ms"
    and ms: "set ms \<subseteq> {GroupCheck g} \<union> range ResponseCache" "rt_Endpoint rt = V2_PatchCluster \<Longrightarrow> ms = [GroupCheck g]"
    using assms(1) by (auto simp: guarded_def)
  let ?inner = "foldr (run_middleware sv) ms (endpoint_handler sv (rt_Endpoint rt))"
  have "run_middleware sv (TokenCheck a) (foldr (run_middleware sv) (Limiter e # ms) (endpoint_handler sv (rt_Endpoint rt))) c s = Some (r, s')"
    using assms(3) a(2) by (simp add: route_handler_def)
  from TokenCheck_passes [OF this assms(4)] obtain oid groups s1 where auth: "authenticated a c oid groups"
    and s': "s' = s1\<lparr>as_metrics := as_metrics s'\<rparr>"
    and lim: "sv_limit sv (RateLimiter e) ?inner (c\<lparr>ctx_oid := Some oid, ctx_groups := Some groups\<rparr>) s = Some (r, s1)"
    by (auto simp: run_middleware_def)
  have "g \<in> set groups" if "as_k s' \<noteq> as_k s"
  proof -
    have k: "as_k s1 \<noteq> as_k s" using that s' by (metis api_state.select_convs(3) api_state.surjective api_state.update_convs(1))
    then have inner: "?inner (c\<lparr>ctx_oid := Some oid, ctx_groups := Some groups\<rparr>) s = Some (r, s1)"
      using lim assms(2) unfolding limiter_law_def by (metis answer_simps prod.inject)
    then have "rt_Endpoint rt = V2_PatchCluster"
      using k keeps_k_chain [OF keeps_k_endpoint ms(1)] unfolding keeps_k_def by blast
    with inner ms(2) have "VerifyGroupAccess g (endpoint_handler sv V2_PatchCluster) (c\<lparr>ctx_oid := Some oid, ctx_groups := Some groups\<rparr>) s = Some (r, s1)"
      by (simp add: run_middleware_def)
    from VerifyGroupAccess_reaches [OF this] k show ?thesis by auto
  qed
  then show ?thesis using a(1) auth by blast
qed

section \<open>Properties\<close>

lemma NewSQS_Inr:
  assumes "fst (NewSQS connect conf w) = Ret (Inr q)"
  shows "validateConfig q = None" and "svc q \<noteq> None" and "handlerCount q = handlerCount conf"
    and "MaxHandlers q = MaxHandlers conf" and "RunOnce q = RunOnce conf"
proof -
  have v: "validateConfig conf = None" using assms by (auto simp: NewSQS_def split: option.splits)
  then obtain s where "connect conf = Connected s"
    using assms by (cases "connect conf") (simp_all add: NewSQS_def)
  then obtain url where q: "q = conf\<lparr>svc := Some s\<rparr> \<or> QueueURL conf = [] \<and> q = conf\<lparr>QueueURL := url, svc := Some s\<rparr>"
    using assms v by (auto simp: NewSQS_def split: if_splits prod.splits sum.splits)
  then show "svc q \<noteq> None" "handlerCount q = handlerCount conf" "MaxHandlers q = MaxHandlers conf" "RunOnce q = RunOnce conf"
    by auto
  show "validateConfig q = None" using q v by (elim disjE) (simp_all add: validateConfig_def split: if_splits)
qed

lemma validate_registered [simp]: "validateConfig (RegisterHandler q) = validateConfig q"
  by (simp add: validateConfig_def RegisterHandler_def)

lemma authenticated_param [simp]: "authenticated a (c\<lparr>ctx_Param := p\<rparr>) oid groups = authenticated a c oid groups"
  by (simp add: authenticated_def)

lemma api_main_Started:
  assumes "api_main l e reg w = Started srv"
  obtains q v1 v2 where "LoadApiConfig e = Inr (srv_config srv)"
    and "fst (NewSQS (al_connect l) (api_queue (srv_config srv)) w) = Ret (Inr q)" and "srv_queue srv = RegisterHandler q"
    and "v1_Register (new_authenticator l (srv_config srv)) (srv_config srv) (root_group ''/api/v1'') = Inr v1"
    and "v2_Register (new_authenticator l (srv_config srv)) (srv_config srv) (root_group ''/api/v2'') = Inr v2"
    and "srv_routes srv = open_routes @ v1 @ v2"
  using assms unfolding api_main_def Let_def fatal_Started or_abort_Started by fastforce

text \<open>Libraries with which the server starts: every service can be reached and one token is accepted.\<close>

definition server_libs :: "(unit, unit, string list, ClusterDb list, ClusterDb, nat) api_libs" where
  "server_libs =
     \<lparr>al_register = list_register, al_dynamodb = (\<lambda>region endpoint. Ret mem_api), al_connect = (\<lambda>_. Connected example_service),
      al_ParseIP = (\<lambda>_. False), al_redis = (\<lambda>_. None),
      al_NewProvider = (\<lambda>_. Inr (\<lambda>_ raw. if raw = ''t'' then Inr () else Inl (Error ''invalid''))),
      al_Claims = (\<lambda>_. Inr (''me'', [''10'']))\<rparr>"

lemma server_libs [simp]:
  "al_register server_libs = list_register" "al_dynamodb server_libs region endpoint = Ret mem_api"
  "al_connect server_libs = (\<lambda>_. Connected example_service)" "al_redis server_libs opts = None"
  by (simp_all add: server_libs_def)

definition started_config :: AppConfig where
  "started_config = (case LoadApiConfig (example_env []) of Inr c \<Rightarrow> c | Inl _ \<Rightarrow> zero_AppConfig)"

lemma started_config:
  "LoadApiConfig (example_env []) = Inr started_config"
  "App_Config.ApiAuthorizedGroupId started_config = ''10''" "SqsBatchSize started_config = 10" "SqsWaitSeconds started_config = 10"
  "SqsAwsRegion started_config = ''10''" "SqsEndpoint started_config = ''10''" "SqsQueueName started_config = ''10''"
  by (simp_all add: started_config_def LoadApiConfig_def bind_err_def example_env_def require_def getEnv_def ParseInt_def ParseBool_def
      parsing_def parse_int64_def is_digit_def byte_def digits_val_def digit_of_def in_int64_def int64_min_def int64_max_def Let_def)

definition example_routes :: "unit route list" where
  "example_routes = (let a = new_authenticator server_libs started_config in
     open_routes @ (case v1_Register a started_config (root_group ''/api/v1'') of Inr v1 \<Rightarrow> v1 | _ \<Rightarrow> []) @
       (case v2_Register a started_config (root_group ''/api/v2'') of Inr v2 \<Rightarrow> v2 | _ \<Rightarrow> []))"

lemma example_main:
  "\<exists>srv. api_main server_libs (example_env []) [] () = Started srv \<and> srv_config srv = started_config \<and> srv_routes srv = example_routes"
proof -
  have "\<forall>d \<in> set api_metrics. fq_name (vec_of ''cluster_registry_api'' d) \<notin> set []" by simp
  from NewMetrics_ready [OF list_registry.prometheus_axioms this, of False] obtain reg' where
    m: "NewMetrics list_register ''cluster_registry_api'' False [] = (Ret (api_ready ''cluster_registry_api'' False), reg')" by blast
  obtain a where a: "new_authenticator server_libs started_config = Inr a"
    by (simp add: new_authenticator_def NewAuthenticator_def server_libs_def)
  have q: "fst (NewSQS (\<lambda>_. Connected example_service) (api_queue started_config) ()) =
      Ret (Inr ((api_queue started_config)\<lparr>QueueURL := ''10'', svc := Some example_service\<rparr>))"
    by (simp add: NewSQS_def validateConfig_def api_queue_def queue_config_def started_config example_service_def)
  obtain v1 v2 where v: "v1_Register (new_authenticator server_libs started_config) started_config (root_group ''/api/v1'') = Inr v1"
    "v2_Register (new_authenticator server_libs started_config) started_config (root_group ''/api/v2'') = Inr v2"
    by (simp add: a v1_Register_def v2_Register_def Let_def)
  show ?thesis using m q v by (simp add: api_main_def example_routes_def started_config(1) fatal_def or_abort_def Let_def)
qed




text \<open>A router that takes the first route that matches, and a patch by a member of the group.\<close>

definition first_match :: "'tok finder" where
  "first_match rs c =
     map_option (\<lambda>r. (r, \<lambda>_. ''c1'')) (find (\<lambda>r. rt_Method r = ctx_Method c \<and> path_matches (rt_Path r) (ctx_Path c)) rs)"

lemma first_match_law: "router_law first_match"
  by (auto simp: router_law_def first_match_def find_Some_iff)

definition example_services :: "(ClusterDb list dbst, nat, Response, unit, unit) services" where
  "example_services = \<lparr>sv_db = mem_Db, sv_libs = example_patch_libs,
     sv_cache = \<lparr>cache_Get = (\<lambda>k c. ((None, None), c)), cache_Set = (\<lambda>k v t c. (None, c)), cache_Invalidate = (\<lambda>t c. (None, c)),
       gob_encode = id, gob_decode = id\<rparr>,
     sv_queue = api_queue started_config, sv_limit = (\<lambda>cf h. h), sv_version = ''dev'', sv_page = (\<lambda>e c. JSON 200 NullBody)\<rparr>"

definition example_patch_ctx :: Ctx where
  "example_patch_ctx = (patch_ctx ''Bearer t'')\<lparr>ctx_Path := ''/api/v2/clusters/c1''\<rparr>"

lemma example_serve:
  "\<exists>r s'. serve first_match (\<lambda>_. JSON 404 NullBody) example_services example_routes example_patch_ctx
     \<lparr>as_metrics = [], as_st = mem_state [row1], as_k = 0, as_cache = (), as_w = ()\<rparr> = Some (r, s') \<and> as_k s' = 1"
proof -
  obtain st' where g: "GetCluster mem_db ''c1'' (mem_state [row1]) =
      ((Some (example_cluster ''c1'' ''east'' ''Active'' ''2021''), None), st')" by (rule mem_get_c1)
  obtain a where a: "new_authenticator server_libs started_config = Inr a" and v: "verify a ''t'' = Inr ()" and cl: "Claims a () = Inr (''me'', [''10''])"
    by (simp add: new_authenticator_def NewAuthenticator_def server_libs_def verify_def)
  let ?r = "\<lparr>rt_Method = ''PATCH'', rt_Path = ''/api/v2/clusters/:name'', rt_Endpoint = V2_PatchCluster,
    rt_Middleware = [TokenCheck a, Limiter (ApiRateLimiterEnabled started_config), GroupCheck ''10'']\<rparr>"
  have "first_match example_routes example_patch_ctx = Some (?r, \<lambda>_. ''c1'')"
    by (simp add: first_match_def example_routes_def bind_err_def a v1_Register_def v2_Register_def open_routes_def add_route_def Group_def
        root_group_def Let_def example_patch_ctx_def patch_ctx_def named_ctx_def example_ctx_def path_matches_def started_config)
  then show ?thesis
    using g v cl
    by (simp add: serve_def route_handler_def run_middleware_def via_def VerifyToken_def extractToken_def authScheme_def tokenLookup_def
        example_patch_ctx_def patch_ctx_def named_ctx_def example_ctx_def example_services_def VerifyGroupAccess_def endpoint_handler_def
        PatchCluster_def getCluster_def mem_Db_def as_Db_def example_patch_libs_def Validate_def validateTag_def patchCluster_def
        answer_def Let_def)
qed


end
