(* ===== verification/Cache_Coherence.thy ===== *)
theory Cache_Coherence
  imports Api_Server
begin

text \<open>
  The running API server: the requests that it serves and the messages that it takes from the queue
  share the table and the response cache.  This theory puts the two together and shows when a listing
  from the cache is one of the registry as it is, and when it is not.
\<close>

section \<open>Requests only read\<close>

text \<open>
  What a request may rely on: the database without \<^verbatim>\<open>PutCluster\<close> and \<^verbatim>\<open>DeleteCluster\<close> leaves
  the registry as it is.
\<close>

definition reads_only :: "('s \<Rightarrow> 'm) \<Rightarrow> ('s \<Rightarrow> bool) \<Rightarrow> 's \<Rightarrow> 's \<Rightarrow> bool" where
  "reads_only contents ok s s' \<longleftrightarrow> (ok s \<longrightarrow> ok s' \<and> contents s' = contents s)"

lemma reads_only_refl [simp, intro]: "reads_only contents ok s s"
  by (simp add: reads_only_def)

lemma reads_only_trans [trans]:
  "reads_only contents ok s1 s2 \<Longrightarrow> reads_only contents ok s2 s3 \<Longrightarrow> reads_only contents ok s1 s3"
  by (simp add: reads_only_def)

locale read_store =
  event_store db contents inv for db :: "'st Db" and contents inv +
  assumes status_reads: "Db_Status db s = (e, s') \<Longrightarrow> reads_only contents inv s s'"
    and list_reads: "Db_ListClusters db offset limit region environment status updated s = Some (l, s') \<Longrightarrow> reads_only contents inv s s'"
    and filter_reads: "Db_ListClustersWithFilter db offset limit filt s = Some (l, s') \<Longrightarrow> reads_only contents inv s s'"
    and service_reads: "Db_ListClustersWithService db i offset limit environment region status updated s = Some (l, s') \<Longrightarrow> reads_only contents inv s s'"
    and service_filter_reads: "Db_ListClustersWithServiceAndFilter db i offset limit filt s = Some (l, s') \<Longrightarrow> reads_only contents inv s s'"
    and get_service_reads: "Db_GetClusterWithService db i n s = (x, s') \<Longrightarrow> reads_only contents inv s s'"
begin

lemma get_reads: "Db_GetCluster db n s = (x, s') \<Longrightarrow> reads_only contents inv s s'"
  using get_keeps by (auto simp: reads_only_def)

lemma getCluster_reads:
  assumes "getCluster db n s = (x, s')"
  shows "reads_only contents inv s s'"
  using getCluster_finds [of s n "fst x" "snd x" s'] assms by (simp add: reads_only_def)

lemma handlers_read:
  "v1_ListClusters db c s = Some (r, s') \<Longrightarrow> reads_only contents inv s s'"
  "v2_ListClusters db c s = Some (r, s') \<Longrightarrow> reads_only contents inv s s'"
  "GetServiceMetadata db c s = Some (r, s') \<Longrightarrow> reads_only contents inv s s'"
  "v1_GetCluster db c s = Some (r, s') \<Longrightarrow> reads_only contents inv s s'"
  "v2_GetCluster db c s = Some (r, s') \<Longrightarrow> reads_only contents inv s s'"
  "GetServiceMetadataForCluster db c s = Some (r, s') \<Longrightarrow> reads_only contents inv s s'"
  by (auto simp: v1_ListClusters_def v2_ListClusters_def GetServiceMetadata_def list_answer_def answer_def Let_def
      v1_GetCluster_def v2_GetCluster_def GetServiceMetadataForCluster_def split: if_splits sum.splits prod.splits
      intro: list_reads filter_reads service_reads service_filter_reads getCluster_reads get_service_reads)

lemma patch_reads:
  assumes "PatchCluster db libs c (s, k) = Some (r, (s', k'))"
  shows "reads_only contents inv s s'"
  using assms getCluster_reads
  by (auto simp: PatchCluster_def answer_def split: prod.splits option.splits sum.splits)

text \<open>No endpoint changes the registry, and only the middleware changes the cache.\<close>

lemma endpoint_reads:
  assumes "sv_db sv = db" and "endpoint_handler sv e c s = Some (r, s')"
  shows "reads_only contents inv (as_st s) (as_st s') \<and> as_cache s' = as_cache s"
proof (cases e)
  case ReadyzCheck
  then show ?thesis
    using assms status_reads
    by (auto simp: endpoint_handler_def Readyz_def checkDBStatus_def split: prod.splits)
next
  case V2_PatchCluster
  then show ?thesis
    using assms patch_reads by (auto simp: endpoint_handler_def via_def)
qed (use assms in \<open>auto simp: endpoint_handler_def on_db_def via_def answer_def intro: handlers_read\<close>)

end

text \<open>The client of DynamoDB, whose table does not change when it is described.\<close>

context dynamodb
begin

lemma query_reads:
  assumes "table_ok (rows (world st))" and "ListClusters d offset limit region environment status updated st = Some (l, st')"
  shows "rows (world st') = rows (world st)"
proof (cases "list_filter region environment status updated")
  case (Inr f)
  let ?inp = "page_input d (Some (NameEqual (tbl_partitionKey (db_index d)) (Str ''cluster''))) f"
  have tn: "in_TableName ?inp = tbl_name (db_table d)" "in_ExclusiveStartKey ?inp = None" by (simp_all add: page_input_def)
  from query_pages_spec [OF tn assms(1)] obtain x st1 where
    "rows (world st1) = rows (world st)" "query_pages d ?inp st = Some (Ret x, st1)" by metis
  then show ?thesis
    using assms(2) Inr by (auto simp: ListClusters_def finish_listing_def Let_def split: option.splits sum.splits)
qed (use assms(2) in \<open>auto simp: ListClusters_def\<close>)

lemma scan_reads:
  assumes "table_ok (rows (world st))" and "ListClustersWithFilter local d offset limit filt st = Some (l, st')"
  shows "rows (world st') = rows (world st)"
proof (cases "Build local filt")
  case (Inr f)
  let ?inp = "page_input d None f"
  have tn: "in_TableName ?inp = tbl_name (db_table d)" "in_ExclusiveStartKey ?inp = None" by (simp_all add: page_input_def)
  from scan_pages_spec [OF tn assms(1)] obtain x st1 where
    "rows (world st1) = rows (world st)" "scan_pages d ?inp st = Some (Ret x, st1)" by metis
  then show ?thesis
    using assms(2) Inr by (auto simp: ListClustersWithFilter_def finish_listing_def split: option.splits sum.splits)
qed (use assms(2) in \<open>auto simp: ListClustersWithFilter_def\<close>)

end

lemma read_store_as_Db:
  assumes "dynamodb d rows sat" and "\<forall>w. rows (snd (DescribeTable (dbAPI d) (tbl_name (db_table d)) w)) = rows w"
  shows "read_store (as_Db local d) (\<lambda>st. clusters_in (rows (world st))) (\<lambda>st. table_ok (rows (world st)))"
proof -
  note es = event_store_as_Db [OF assms(1), of local]
  have list: "reads_only (\<lambda>st. clusters_in (rows (world st))) (\<lambda>st. table_ok (rows (world st))) s s'"
    if "table_ok (rows (world s)) \<longrightarrow> rows (world s') = rows (world s)" for s s' :: "'a dbst"
    using that by (auto simp: reads_only_def)
  have get: "rows (world s') = rows (world s)" if "GetCluster d n s = (x, s')" for n s x s'
    using dynamodb.GetCluster_spec [OF assms(1), of n s "fst x" "snd x" s'] that by simp
  have status: "rows (world s') = rows (world s)" if "Status d s = (e, s')" for s e s'
    using that spec [OF assms(2), of "world s"]
    by (auto simp: Status_def record_metric_def split: prod.splits option.splits)
  show ?thesis
    by (intro read_store.intro read_store_axioms.intro es)
      (auto simp: as_Db_def ListClustersWithService_def ListClustersWithServiceAndFilter_def GetClusterWithService_def
        intro!: list dest: get status dynamodb.query_reads [OF assms(1)] dynamodb.scan_reads [OF assms(1)]
        split: prod.splits option.splits)
qed

interpretation mem_reads: read_store mem_Db "\<lambda>st. clusters_in (mem_rows (world st))" "\<lambda>st. table_ok (mem_rows (world st))"
  unfolding mem_Db_def by (rule read_store_as_Db [OF mem.dynamodb_axioms]) (simp add: mem_db_def NewDb_def mem_api_def)

section \<open>Listings in the cache\<close>

text \<open>An answer that one of the two listings gives to a request with a key while the registry has the contents \<open>m\<close>.\<close>

definition listing_now :: "'st Db \<Rightarrow> ('st \<Rightarrow> 'm) \<Rightarrow> ('st \<Rightarrow> bool) \<Rightarrow> 'm \<Rightarrow> string \<Rightarrow> response \<Rightarrow> bool" where
  "listing_now db contents ok m k r \<longleftrightarrow>
     (\<exists>h ctx st st'. h \<in> {v1_ListClusters db, v2_ListClusters db} \<and> ok st \<and> contents st = m \<and>
        h ctx st = Some (Ret r, st') \<and> resp_Status r < 400 \<and> cache_key ctx = k)"

text \<open>Every entry of the cache is such an answer for the contents that the registry has now.\<close>

definition cache_fresh ::
  "('v, 'c) cache_api \<Rightarrow> ('c \<Rightarrow> string \<Rightarrow> 'v option) \<Rightarrow> 'st Db \<Rightarrow> ('st \<Rightarrow> 'm) \<Rightarrow> ('st \<Rightarrow> bool) \<Rightarrow> 'm \<Rightarrow> 'c \<Rightarrow> bool" where
  "cache_fresh api entries db contents ok m cache \<longleftrightarrow>
     (\<forall>k v. entries cache k = Some v \<longrightarrow>
        (\<exists>r. listing_now db contents ok m k r \<and> v = gob_encode api \<lparr>Value = resp_Body r, Header = resp_Header r\<rparr>))"

lemma cache_fresh_empty: "\<forall>k. entries cache k = None \<Longrightarrow> cache_fresh api entries db contents ok m cache"
  by (simp add: cache_fresh_def)

text \<open>What the server keeps between its steps.\<close>

definition coherent where
  "coherent api entries db contents ok s \<longleftrightarrow>
     ok (as_st s) \<and> cache_fresh api entries db contents ok (contents (as_st s)) (as_cache s)"

definition sorted_key :: "Ctx \<Rightarrow> string" where
  "sorted_key c = cache_key (c\<lparr>ctx_Query := sortURLParams (ctx_Query c)\<rparr>)"

lemma sorted_key_simps [simp]:
  "sorted_key (c\<lparr>ctx_oid := a, ctx_groups := b\<rparr>) = sorted_key c" "sorted_key (c\<lparr>ctx_Param := p\<rparr>) = sorted_key c"
  by (simp_all add: sorted_key_def cache_key_def)

locale cached_registry =
  read_store db contents inv + lib: response_cache api entries
  for db :: "'st Db" and contents :: "'st \<Rightarrow> string \<Rightarrow> Cluster option" and inv
    and api :: "('v, 'c) cache_api" and entries
begin

abbreviation fresh :: "(string \<Rightarrow> Cluster option) \<Rightarrow> 'c \<Rightarrow> bool" where
  "fresh \<equiv> cache_fresh api entries db contents inv"

abbreviation listing :: "(string \<Rightarrow> Cluster option) \<Rightarrow> string \<Rightarrow> response \<Rightarrow> bool" where
  "listing \<equiv> listing_now db contents inv"

lemma fresh_get: "fresh m c \<Longrightarrow> cache_Get api k c = (x, c') \<Longrightarrow> fresh m c'"
  unfolding cache_fresh_def using lib.get_keeps by blast

lemma fresh_set:
  assumes "fresh m c" and "listing m k r"
    and "cache_Set api k (gob_encode api \<lparr>Value = resp_Body r, Header = resp_Header r\<rparr>) tags c = (e, c')"
  shows "fresh m c'"
  using assms(1,2) lib.set_stores [OF assms(3)] unfolding cache_fresh_def by metis

lemma fresh_hit:
  assumes "fresh m c" and "cache_Get api k c = ((Some v, e), c')"
  shows "\<exists>r0. listing m k r0 \<and> resp_Body (cached_answer (gob_decode api v)) = resp_Body r0"
  using assms lib.get_finds [OF assms(2)] lib.gob_inverse by (fastforce simp: cache_fresh_def cached_answer_def)

lemma list_endpoint_listing:
  assumes "sv_db sv = db" and "e \<in> {V1_ListClusters, V2_ListClusters}" and "inv (as_st s)"
    and "endpoint_handler sv e c s = Some (Ret r, s')" and "resp_Status r < 400"
  shows "listing (contents (as_st s)) (cache_key c) r"
proof -
  obtain h where h: "h \<in> {v1_ListClusters db, v2_ListClusters db}" "endpoint_handler sv e = on_db h"
  proof
    let ?h = "if e = V1_ListClusters then v1_ListClusters db else v2_ListClusters db"
    show "?h \<in> {v1_ListClusters db, v2_ListClusters db}" by simp
    show "endpoint_handler sv e = on_db ?h" using assms(1,2) by (auto simp: endpoint_handler_def intro!: ext)
  qed
  then obtain st' where "h c (as_st s) = Some (Ret r, st')"
    using assms(4) by (auto simp: on_db_def via_def)
  then show ?thesis using h(1) assms(3,5) unfolding listing_now_def by blast
qed

text \<open>The middleware in front of a listing: the request that is not in the cache, then every request.\<close>

lemma endpoint_keeps:
  assumes "sv_db sv = db" and "inv (as_st s)" and "endpoint_handler sv e c s = Some (r, s')"
  shows "inv (as_st s') \<and> contents (as_st s') = contents (as_st s) \<and> as_cache s' = as_cache s"
  using endpoint_reads [OF assms(1,3)] assms(2) by (simp add: reads_only_def)

lemma cache_miss_fresh:
  assumes "sv_db sv = db" and "e \<in> {V1_ListClusters, V2_ListClusters}" and "inv (as_st s)" and "fresh (contents (as_st s)) cache"
    and "cache_miss api tags (endpoint_handler sv e) (cache_key c) c \<lparr>srv_st = s, srv_cache = cache\<rparr> = Some (r, v)"
  shows "inv (as_st (srv_st v)) \<and> contents (as_st (srv_st v)) = contents (as_st s) \<and> fresh (contents (as_st s)) (srv_cache v) \<and>
    (\<forall>a. r = Ret a \<and> resp_Status a < 400 \<longrightarrow> listing (contents (as_st s)) (cache_key c) a)"
proof -
  obtain y s1 where nx: "endpoint_handler sv e c s = Some (y, s1)" using assms(5) by (auto simp: cache_miss_def split: option.splits)
  note keeps = endpoint_keeps [OF assms(1,3) nx]
  show ?thesis
  proof (cases "\<exists>a. y = Ret a \<and> resp_Status a < 400")
    case False
    then show ?thesis using assms(4,5) nx keeps by (cases y) (auto simp: cache_miss_def answer_def)
  next
    case True
    then obtain a where a: "y = Ret a" "resp_Status a < 400" by blast
    note l = list_endpoint_listing [OF assms(1-3) nx [unfolded a(1)] a(2)]
    obtain e2 cache2 where set: "cache_Set api (cache_key c) (gob_encode api \<lparr>Value = resp_Body a, Header = resp_Header a\<rparr>) tags cache = (e2, cache2)"
      by fastforce
    have "r = Ret a" "srv_st v = s1" "srv_cache v = cache2"
      using assms(5) nx a set by (auto simp: cache_miss_def answer_def Response_String_def Let_def)
    then show ?thesis using keeps fresh_set [OF assms(4) l set] l by auto
  qed
qed

lemma HTTPCache_fresh:
  assumes "sv_db sv = db" and "e \<in> {V1_ListClusters, V2_ListClusters}" and "coherent api entries db contents inv s"
    and "HTTPCache api tags (endpoint_handler sv e) c \<lparr>srv_st = s, srv_cache = as_cache s\<rparr> = Some (r, v)"
  shows "inv (as_st (srv_st v)) \<and> contents (as_st (srv_st v)) = contents (as_st s) \<and>
    fresh (contents (as_st s)) (srv_cache v) \<and>
    (ctx_Method c = ''GET'' \<longrightarrow> (\<forall>a. r = Ret a \<and> resp_Status a < 400 \<longrightarrow>
       (\<exists>r0. listing (contents (as_st s)) (sorted_key c) r0 \<and> resp_Body a = resp_Body r0)))"
proof -
  let ?m = "contents (as_st s)"
  have s: "inv (as_st s)" "fresh ?m (as_cache s)" using assms(3) by (simp_all add: coherent_def)
  show ?thesis
  proof (cases "ctx_Method c = ''GET''")
    case False
    then show ?thesis using assms(4) s(2) endpoint_keeps [OF assms(1) s(1)] by (auto simp: HTTPCache_def split: option.splits)
  next
    case True
    define c1 where "c1 = c\<lparr>ctx_Query := sortURLParams (ctx_Query c)\<rparr>"
    obtain x e' cache where get: "cache_Get api (cache_key c1) (as_cache s) = ((x, e'), cache)" by (metis prod.collapse)
    have f1: "fresh ?m cache" using fresh_get [OF s(2) get] .
    show ?thesis
    proof (cases x)
      case (Some v')
      then have "r = Ret (cached_answer (gob_decode api v'))" "srv_st v = s" "srv_cache v = cache"
        using assms(4) True get by (auto simp: HTTPCache_def Let_def StringToResponse_def answer_def c1_def)
      then show ?thesis
        using f1 s(1) fresh_hit [OF s(2) get [unfolded Some]] by (auto simp: sorted_key_def c1_def)
    next
      case None
      then have "cache_miss api tags (endpoint_handler sv e) (cache_key c1) c1 \<lparr>srv_st = s, srv_cache = cache\<rparr> = Some (r, v)"
        using assms(4) True get by (simp add: HTTPCache_def Let_def c1_def)
      from cache_miss_fresh [OF assms(1,2) s(1) f1 this] show ?thesis by (auto simp: sorted_key_def c1_def)
    qed
  qed
qed

end

section \<open>Every request keeps the cache coherent\<close>

text \<open>What holds of every answer of a handler; \<open>c\<close> and \<open>s\<close> are the request and the state before it.\<close>

definition always :: "(Ctx \<Rightarrow> 's \<Rightarrow> response run \<Rightarrow> 's \<Rightarrow> bool) \<Rightarrow> 's handler \<Rightarrow> bool" where
  "always Q h \<longleftrightarrow> (\<forall>c s r s'. h c s = Some (r, s') \<longrightarrow> Q c s r s')"

text \<open>
  A limiter as the framework documents it: it runs the handler behind it or answers with one of the
  two callbacks of its configuration.
\<close>

definition limiter_callbacks :: "(RateLimiterConfig \<Rightarrow> 'st handler \<Rightarrow> 'st handler) \<Rightarrow> bool" where
  "limiter_callbacks limit \<longleftrightarrow>
     (\<forall>cf h c s. limit cf h c s = h c s \<or>
        (\<exists>r \<in> range (rl_ErrorHandler cf) \<union> range (rl_DenyHandler cf). limit cf h c s = answer r s))"

lemma limiter_refuses:
  assumes "limiter_callbacks limit"
  shows "limit (RateLimiter b) h c s = h c s \<or> (\<exists>r. resp_Status r \<ge> 400 \<and> limit (RateLimiter b) h c s = answer r s)"
proof -
  have "resp_Status r \<ge> 400" if "r \<in> range (rl_ErrorHandler (RateLimiter b)) \<union> range (rl_DenyHandler (RateLimiter b))" for r
    using that by (auto simp: RateLimiter_def JSON_def)
  then show ?thesis using assms unfolding limiter_callbacks_def by meson
qed

text \<open>A property that the checks in front of a handler do not disturb.\<close>

definition through_checks :: "(Ctx \<Rightarrow> ('st, 'k, 'c, 'w) api_state \<Rightarrow> response run \<Rightarrow> ('st, 'k, 'c, 'w) api_state \<Rightarrow> bool) \<Rightarrow> bool" where
  "through_checks Q \<longleftrightarrow>
     (\<forall>c s r s' oid groups ms. Q (c\<lparr>ctx_oid := oid, ctx_groups := groups\<rparr>) s r s' \<longrightarrow> Q c s r (s'\<lparr>as_metrics := ms\<rparr>)) \<and>
     (\<forall>c s r ms. (\<forall>a. r = Ret a \<longrightarrow> resp_Status a \<ge> 400) \<longrightarrow> Q c s r (s\<lparr>as_metrics := ms\<rparr>))"

lemma through_checks_passed:
  "through_checks Q \<Longrightarrow> Q (c\<lparr>ctx_oid := oid, ctx_groups := groups\<rparr>) s r s' \<Longrightarrow> Q c s r (s'\<lparr>as_metrics := ms\<rparr>)"
  unfolding through_checks_def by blast

lemma through_checks_refused:
  "through_checks Q \<Longrightarrow> (\<forall>a. r = Ret a \<longrightarrow> resp_Status a \<ge> 400) \<Longrightarrow> Q c s r s"
  unfolding through_checks_def by (metis api_state.surjective api_state.update_convs(1))

lemma always_check:
  assumes "through_checks Q" and "limiter_callbacks (sv_limit sv)" and "always Q next" and "m \<notin> range ResponseCache"
  shows "always Q (run_middleware sv m next)"
  unfolding always_def
proof (intro allI impI)
  fix c s r s' assume run: "run_middleware sv m next c s = Some (r, s')"
  show "Q c s r s'"
  proof (cases m)
    case (TokenCheck a)
    obtain ms s1 where v: "VerifyToken a next c (as_metrics s, s) = Some (r, (ms, s1))" and s': "s' = s1\<lparr>as_metrics := ms\<rparr>"
      using run TokenCheck by (auto simp: run_middleware_def via_def)
    consider (pass) oid groups where "next (c\<lparr>ctx_oid := Some oid, ctx_groups := Some groups\<rparr>) s = Some (r, s1)"
      | (stop) "\<forall>a. r = Ret a \<longrightarrow> resp_Status a \<ge> 400" "s1 = s"
      using v by (auto simp: VerifyToken_def answer_def JSON_def Let_def map_option_case split: sum.splits option.splits prod.splits)
    then show ?thesis
    proof cases
      case pass
      then show ?thesis using assms(3) through_checks_passed [OF assms(1)] unfolding s' always_def by blast
    next
      case stop
      then show ?thesis using assms(1) unfolding s' through_checks_def by blast
    qed
  next
    case (Limiter b)
    then show ?thesis
      using run limiter_refuses [OF assms(2), of b "next" c s] assms(3) through_checks_refused [OF assms(1)]
      by (auto simp: run_middleware_def always_def answer_def)
  next
    case (GroupCheck g)
    then show ?thesis
      using run assms(3) through_checks_refused [OF assms(1)]
      by (auto simp: run_middleware_def VerifyGroupAccess_def not_authorized_def JSON_def always_def answer_def split: option.splits if_splits)
  qed (use assms(4) in simp)
qed

lemma always_checks:
  assumes "through_checks Q" and "limiter_callbacks (sv_limit sv)" and "always Q h" and "set ms \<inter> range ResponseCache = {}"
  shows "always Q (foldr (run_middleware sv) ms h)"
  using assms(4) by (induction ms) (use assms(3) always_check [OF assms(1,2)] in auto)

definition list_endpoints :: "endpoint set" where
  "list_endpoints = {V1_ListClusters, V2_ListClusters}"

definition request_ok where
  "request_ok api entries db contents ok e c s r s' \<longleftrightarrow>
     (coherent api entries db contents ok s \<longrightarrow>
        coherent api entries db contents ok s' \<and> contents (as_st s') = contents (as_st s) \<and>
        (e \<in> list_endpoints \<and> ctx_Method c = ''GET'' \<longrightarrow> (\<forall>a. r = Ret a \<and> resp_Status a < 400 \<longrightarrow>
           (\<exists>r0. listing_now db contents ok (contents (as_st s)) (sorted_key c) r0 \<and> resp_Body a = resp_Body r0))))"

lemma request_ok_checks: "through_checks (request_ok api entries db contents ok e)"
  unfolding through_checks_def by (auto simp: request_ok_def coherent_def)

text \<open>The cache stands directly in front of the two listings and nowhere else.\<close>

definition caches_listings :: "'tok route \<Rightarrow> bool" where
  "caches_listings rt \<longleftrightarrow>
     (if rt_Endpoint rt \<in> list_endpoints
      then rt_Method rt = ''GET'' \<and>
        (\<exists>ms. rt_Middleware rt = ms @ [ResponseCache [''clusters'']] \<and> set ms \<inter> range ResponseCache = {})
      else set (rt_Middleware rt) \<inter> range ResponseCache = {})"

lemma open_routes_caches: "rt \<in> set open_routes \<Longrightarrow> caches_listings rt"
  by (auto simp: open_routes_def add_route_def root_group_def caches_listings_def list_endpoints_def)

lemma Register_caches:
  "v1_Register (Inr a) conf (root_group p) = Inr rs \<Longrightarrow> rt \<in> set rs \<Longrightarrow> caches_listings rt"
  "v2_Register (Inr a) conf (root_group p) = Inr rs \<Longrightarrow> rt \<in> set rs \<Longrightarrow> caches_listings rt"
  by (auto simp: v1_Register_def v2_Register_def caches_listings_def list_endpoints_def add_route_def Group_def root_group_def Let_def
      append_eq_append_conv2 Cons_eq_append_conv)

lemma server_caches:
  assumes "api_main l e reg w = Started srv" and "rt \<in> set (srv_routes srv)"
  shows "caches_listings rt"
proof -
  obtain v1 v2 where v: "v1_Register (new_authenticator l (srv_config srv)) (srv_config srv) (root_group ''/api/v1'') = Inr v1"
    "v2_Register (new_authenticator l (srv_config srv)) (srv_config srv) (root_group ''/api/v2'') = Inr v2"
    and rs: "srv_routes srv = open_routes @ v1 @ v2"
    using api_main_Started [OF assms(1)] by metis
  moreover obtain a where "new_authenticator l (srv_config srv) = Inr a"
    using v(1) by (cases "new_authenticator l (srv_config srv)") (auto simp: v1_Register_def)
  ultimately show ?thesis using assms(2) open_routes_caches Register_caches by fastforce
qed

context cached_registry
begin

lemma endpoint_request_ok:
  assumes "sv_db sv = db" and "e \<notin> list_endpoints"
  shows "always (request_ok api entries db contents inv e) (endpoint_handler sv e)"
  using assms(2) by (auto simp: always_def request_ok_def coherent_def dest: endpoint_keeps [OF assms(1)])

lemma cached_request_ok:
  assumes "sv_db sv = db" and "sv_cache sv = api" and "e \<in> list_endpoints"
  shows "always (request_ok api entries db contents inv e) (run_middleware sv (ResponseCache tags) (endpoint_handler sv e))"
  unfolding always_def
proof (intro allI impI)
  fix c s r s' assume "run_middleware sv (ResponseCache tags) (endpoint_handler sv e) c s = Some (r, s')"
  then obtain v where "HTTPCache api tags (endpoint_handler sv e) c \<lparr>srv_st = s, srv_cache = as_cache s\<rparr> = Some (r, v)"
    and s': "s' = (srv_st v)\<lparr>as_cache := srv_cache v\<rparr>"
    using assms(2) by (auto simp: run_middleware_def via_def)
  from HTTPCache_fresh [OF assms(1) assms(3) [unfolded list_endpoints_def] _ this(1)]
  show "request_ok api entries db contents inv e c s r s'" by (auto simp: request_ok_def coherent_def s')
qed

lemma route_request_ok:
  assumes "sv_db sv = db" and "sv_cache sv = api" and "limiter_callbacks (sv_limit sv)" and "caches_listings rt"
  shows "always (request_ok api entries db contents inv (rt_Endpoint rt)) (route_handler sv rt)"
proof (cases "rt_Endpoint rt \<in> list_endpoints")
  case True
  with assms(4) obtain ms where "rt_Middleware rt = ms @ [ResponseCache [''clusters'']]" "set ms \<inter> range ResponseCache = {}"
    by (auto simp: caches_listings_def)
  with always_checks [OF request_ok_checks assms(3) cached_request_ok [OF assms(1,2) True]] show ?thesis
    by (simp add: route_handler_def)
next
  case False
  with assms(4) always_checks [OF request_ok_checks assms(3) endpoint_request_ok [OF assms(1) False]] show ?thesis
    by (simp add: route_handler_def caches_listings_def)
qed

end

section \<open>Messages\<close>

text \<open>The handler of the queue on the state of the server.\<close>

definition deliver ::
  "(string \<Rightarrow> goerr + Cluster) \<Rightarrow> ('st, 'k, 'v, 'c, 'w) services \<Rightarrow> Message \<Rightarrow> ('st, 'k, 'c, 'w) api_state \<Rightarrow>
   unit run \<times> ('st, 'k, 'c, 'w) api_state" where
  "deliver decode sv msg s =
     (let (r, a) = on_message decode (sv_db sv) (sv_queue sv) (cache_Invalidate (sv_cache sv)) msg
                     \<lparr>app_db = as_st s, app_sqs = as_w s, app_cache = as_cache s\<rparr>
      in (r, s\<lparr>as_st := app_db a, as_w := app_sqs a, as_cache := app_cache a\<rparr>))"

text \<open>
  What can leave an old listing in the cache although the update was stored: the message asks for it,
  the message cannot be deleted, the cache cannot be invalidated, or a write reports an error
  and takes place all the same.
\<close>

definition asks_to_skip :: "Message \<Rightarrow> bool" where
  "asks_to_skip msg \<longleftrightarrow>
     (case MessageAttributes msg MessageAttributeSkipCacheInvalidation of
        Some (Some v) \<Rightarrow> StringValue v = Some ''true''
      | _ \<Rightarrow> False)"

definition may_leave_stale where
  "may_leave_stale db contents ok q invalidate msg \<longleftrightarrow>
     asks_to_skip msg \<or> (\<exists>w err. fst (Delete q msg w) = Ret (Some err)) \<or>
     (\<exists>cache err. fst (invalidate [''clusters''] cache) = Some err) \<or>
     (\<exists>c st err c' st'. ok st \<and> Db_PutCluster db c st = ((Some err, c'), st') \<and> contents st' \<noteq> contents st)"

lemma on_message_outcome:
  assumes "on_message decode db q invalidate msg a = (Ret (), a')"
    and "\<not> asks_to_skip msg" and "\<And>w err. fst (Delete q msg w) \<noteq> Ret (Some err)"
  obtains (same) "app_db a' = app_db a" "app_cache a' = app_cache a"
    | (failed) e err where "Handle decode db e (app_db a) = (Ret (Some err), app_db a')" "app_cache a' = app_cache a"
    | (flushed) e where "Handle decode db e (app_db a) = (Ret None, app_db a')" "app_cache a' = snd (invalidate [''clusters''] (app_cache a))"
proof -
  consider (ignored) "a' = a"
    | (handled) e r st where "Handle decode db (Some e) (app_db a) = (Ret r, st)"
      "(case r of Some err \<Rightarrow> (Ret (), a\<lparr>app_db := st\<rparr>)
        | None \<Rightarrow> on_message decode db q invalidate msg a) = (Ret (), a')"
      "NewEvent (Some msg) = Ret (Inr e)" "ev_Type e = ClusterUpdateEvent" "MessageId msg \<noteq> None"
    using assms(1)
    by (auto simp: on_message_def split: if_splits run.splits sum.splits prod.splits option.splits)
  then show ?thesis
  proof cases
    case ignored
    then show ?thesis using same by simp
  next
    case (handled e r st)
    show ?thesis
    proof (cases r)
      case (Some err)
      then show ?thesis using handled failed by auto
    next
      case None
      obtain x w where del: "Delete q msg (app_sqs a) = (x, w)" by fastforce
      then have "x \<noteq> Ret (Some err)" for err using assms(3) [of "app_sqs a"] by simp
      then have "app_db a' = st \<and> app_cache a' = snd (invalidate [''clusters''] (app_cache a))"
        using assms(1,2) handled(1,3-5) None del
        by (auto simp: on_message_def asks_to_skip_def Let_def nil_deref_def split: run.splits option.splits prod.splits if_splits)
      then show ?thesis using handled(1) None flushed by auto
    qed
  qed
qed

context event_store
begin

lemma Handle_keeps_inv:
  assumes "inv s" and "Handle decode db e s = (r, s')"
  shows "inv s'"
  using assms handle_keeps
  by (auto simp: Handle_def Let_def split: run.splits sum.splits prod.splits)

lemma Handle_error:
  assumes "inv s" and "Handle decode db e s = (Ret (Some err), s')"
    and "\<forall>c st err c' st'. inv st \<and> Db_PutCluster db c st = ((Some err, c'), st') \<longrightarrow> contents st' = contents st"
  shows "contents s' = contents s"
proof (cases "handle_event decode e")
  case (Ret x)
  show ?thesis
  proof (cases x)
    case (Inr y)
    obtain c t where y: "y = (c, t)" by (cases y)
    obtain x1 e1 s1 where get: "Db_GetCluster db (cluster_name c) s = ((x1, e1), s1)" by (metis prod.collapse)
    have "inv s1" "contents s1 = contents s" using get_keeps [OF assms(1) get] by simp_all
    then show ?thesis
      using assms(2,3) Ret Inr y get
      by (auto simp: Handle_def handle_read_def handle_write_def Let_def split: option.splits prod.splits)
  qed (use assms(2) Ret in \<open>simp add: Handle_def\<close>)
qed (use assms(2) in \<open>simp add: Handle_def\<close>)

lemma Handle_panic: "Handle decode db e s = (Panic p, s') \<Longrightarrow> s' = s"
  by (auto simp: Handle_def Let_def split: run.splits sum.splits prod.splits)

end

context cached_registry
begin

lemma deliver_coherent:
  assumes "sv_db sv = db" and "sv_cache sv = api" and "\<not> may_leave_stale db contents inv (sv_queue sv) (cache_Invalidate api) msg"
    and "coherent api entries db contents inv s" and "deliver decode sv msg s = (Ret (), s')"
  shows "coherent api entries db contents inv s'"
proof -
  let ?a = "\<lparr>app_db = as_st s, app_sqs = as_w s, app_cache = as_cache s\<rparr>"
  obtain a where run: "on_message decode db (sv_queue sv) (cache_Invalidate api) msg ?a = (Ret (), a)"
    and s': "s' = s\<lparr>as_st := app_db a, as_w := app_sqs a, as_cache := app_cache a\<rparr>"
    using assms(1,2,5) by (auto simp: deliver_def split: prod.splits)
  have inv: "inv (as_st s)" using assms(4) by (simp add: coherent_def)
  have causes: "\<not> asks_to_skip msg" "\<And>w err. fst (Delete (sv_queue sv) msg w) \<noteq> Ret (Some err)"
    "\<And>cache. fst (cache_Invalidate api [''clusters''] cache) = None"
    and put: "\<forall>c st err c' st'. inv st \<and> Db_PutCluster db c st = ((Some err, c'), st') \<longrightarrow> contents st' = contents st"
    using assms(3) unfolding may_leave_stale_def by (auto simp: not_Some_eq)
  consider (same) "app_db a = as_st s" "app_cache a = as_cache s"
    | (failed) e err where "Handle decode db e (as_st s) = (Ret (Some err), app_db a)" "app_cache a = as_cache s"
    | (flushed) e where "Handle decode db e (as_st s) = (Ret None, app_db a)" "app_cache a = snd (cache_Invalidate api [''clusters''] (as_cache s))"
    using on_message_outcome [OF run causes(1,2)] by auto
  then show ?thesis
  proof cases
    case same
    then show ?thesis using assms(4) by (simp add: s' coherent_def)
  next
    case (failed e err)
    then show ?thesis using assms(4) Handle_error [OF inv failed(1) put] Handle_keeps_inv [OF inv failed(1)] by (simp add: s' coherent_def)
  next
    case (flushed e)
    have "entries (app_cache a) k = None" for k
      using lib.invalidate_clears causes(3) flushed(2) by (metis prod.collapse)
    then show ?thesis using Handle_keeps_inv [OF inv flushed(1)] by (simp add: s' coherent_def cache_fresh_empty)
  qed
qed

end

section \<open>The running server\<close>

datatype api_event = Served Ctx | Delivered Message

inductive api_run ::
  "'tok finder \<Rightarrow> (Ctx \<Rightarrow> response) \<Rightarrow> ('st, 'k, 'v, 'c, 'w) services \<Rightarrow> 'tok route list \<Rightarrow> (string \<Rightarrow> goerr + Cluster) \<Rightarrow>
   ('st, 'k, 'c, 'w) api_state \<Rightarrow> api_event list \<Rightarrow> ('st, 'k, 'c, 'w) api_state \<Rightarrow> bool"
  for lookup missing sv rs decode s where
  idle: "api_run lookup missing sv rs decode s [] s"
| served: "api_run lookup missing sv rs decode s es s1 \<Longrightarrow> serve lookup missing sv rs c s1 = Some (r, s2) \<Longrightarrow>
    api_run lookup missing sv rs decode s (es @ [Served c]) s2"
| delivered: "api_run lookup missing sv rs decode s es s1 \<Longrightarrow> deliver decode sv msg s1 = (Ret (), s2) \<Longrightarrow>
    api_run lookup missing sv rs decode s (es @ [Delivered msg]) s2"

context cached_registry
begin

lemma serve_request_ok:
  assumes "sv_db sv = db" and "sv_cache sv = api" and "limiter_callbacks (sv_limit sv)" and "router_law lookup"
    and "\<forall>rt \<in> set rs. caches_listings rt" and "lookup rs c = Some (rt, params)"
    and "serve lookup missing sv rs c s = Some (r, s')"
  shows "request_ok api entries db contents inv (rt_Endpoint rt) (c\<lparr>ctx_Param := params\<rparr>) s r s'"
proof -
  have "rt \<in> set rs" using assms(4,6) unfolding router_law_def by blast
  then have "caches_listings rt" using assms(5) by blast
  from route_request_ok [OF assms(1-3) this] assms(6,7) show ?thesis by (simp add: serve_def always_def)
qed

lemma serve_coherent:
  assumes "sv_db sv = db" and "sv_cache sv = api" and "limiter_callbacks (sv_limit sv)" and "router_law lookup"
    and "\<forall>rt \<in> set rs. caches_listings rt" and "coherent api entries db contents inv s"
    and "serve lookup missing sv rs c s = Some (r, s')"
  shows "coherent api entries db contents inv s'"
proof (cases "lookup rs c")
  case None
  then show ?thesis using assms(6,7) by (auto simp: serve_def answer_def)
next
  case (Some x)
  obtain rt params where "x = (rt, params)" by (cases x)
  with serve_request_ok [OF assms(1-5) _ assms(7)] Some assms(6) show ?thesis by (auto simp: request_ok_def)
qed

lemma run_coherent:
  assumes "sv_db sv = db" and "sv_cache sv = api" and "limiter_callbacks (sv_limit sv)" and "router_law lookup"
    and "\<forall>rt \<in> set rs. caches_listings rt"
    and "api_run lookup missing sv rs decode s es s'" and "coherent api entries db contents inv s"
    and "\<forall>msg. Delivered msg \<in> set es \<longrightarrow> \<not> may_leave_stale db contents inv (sv_queue sv) (cache_Invalidate api) msg"
  shows "coherent api entries db contents inv s'"
  using assms(6,8)
proof induction
  case idle
  then show ?case using assms(7) by simp
next
  case (served es s1 c r s2)
  then show ?case using serve_coherent [OF assms(1-5)] by simp
next
  case (delivered es s1 msg s2)
  then have "\<not> may_leave_stale db contents inv (sv_queue sv) (cache_Invalidate api) msg" "coherent api entries db contents inv s1" by auto
  from deliver_coherent [OF assms(1,2) this delivered.hyps(2)] show ?case .
qed

lemma run_listing:
  assumes "sv_db sv = db" and "sv_cache sv = api" and "limiter_callbacks (sv_limit sv)" and "router_law lookup"
    and "\<forall>rt \<in> set rs. caches_listings rt" and "coherent api entries db contents inv s"
    and "lookup rs c = Some (rt, params)" and "rt_Endpoint rt \<in> list_endpoints"
    and "serve lookup missing sv rs c s = Some (Ret a, s')" and "resp_Status a < 400"
  shows "\<exists>r. listing (contents (as_st s)) (sorted_key c) r \<and> resp_Body a = resp_Body r"
proof -
  have rt: "rt \<in> set rs" "rt_Method rt = ctx_Method c" using assms(4,7) unfolding router_law_def by blast+
  then have "ctx_Method c = ''GET''" using assms(5,8) by (auto simp: caches_listings_def)
  then show ?thesis
    using serve_request_ok [OF assms(1-5,7,9)] assms(6,8,10) by (auto simp: request_ok_def)
qed

end

interpretation mem_cached: cached_registry mem_Db "\<lambda>st. clusters_in (mem_rows (world st))" "\<lambda>st. table_ok (mem_rows (world st))"
  mem_cache map_of
  by (intro cached_registry.intro mem_reads.read_store_axioms memc.response_cache_axioms)

section \<open>Properties\<close>


text \<open>A server on the table and the cache in memory, with a queue that counts deletions.\<close>

definition memory_services :: "(ClusterDb list dbst, nat, Response, (string \<times> Response) list, nat) services" where
  "memory_services = \<lparr>sv_db = mem_Db, sv_libs = example_patch_libs, sv_cache = mem_cache, sv_queue = counting_queue,
     sv_limit = (\<lambda>cf h. h), sv_version = ''dev'', sv_page = (\<lambda>e c. JSON 200 NullBody)\<rparr>"

lemma memory_services_simps [simp]:
  "sv_db memory_services = mem_Db" "sv_cache memory_services = mem_cache" "sv_queue memory_services = counting_queue"
  "limiter_callbacks (sv_limit memory_services)"
  by (simp_all add: memory_services_def limiter_callbacks_def)

abbreviation example_message_c1 :: Message where
  "example_message_c1 \<equiv> ev_Message (example_event ''c1'' (int_str 5))"

lemma mem_put_error:
  assumes "PutCluster mem_db c st = ((Some err, c'), st')"
  shows "world st' = world st"
  using assms
  by (auto simp: PutCluster_def mem_call_defs Let_def split: option.splits sum.splits prod.splits)

lemma memory_never_stale:
  "\<not> may_leave_stale mem_Db (\<lambda>st. clusters_in (mem_rows (world st))) (\<lambda>st. table_ok (mem_rows (world st)))
     counting_queue (cache_Invalidate mem_cache) example_message_c1"
  using mem_put_error
  by (auto simp: may_leave_stale_def asks_to_skip_def mem_Db_def as_Db_def mem_cache_def counting_queue_def Delete_def
      example_event_def MessageAttributeSkipCacheInvalidation_def)

text \<open>The message is taken: the cluster is stored and the cache is empty.\<close>

lemma example_delivered:
  assumes "table_ok (mem_rows (world st))" and "clusters_in (mem_rows (world st)) = Map.empty"
  obtains st' x where "on_message example_decode mem_Db counting_queue (cache_Invalidate mem_cache) example_message_c1
      \<lparr>app_db = st, app_sqs = w, app_cache = cache\<rparr> = (Ret (), \<lparr>app_db = st', app_sqs = Suc w, app_cache = []\<rparr>)"
    and "table_ok (mem_rows (world st'))" and "clusters_in (mem_rows (world st')) = [''c1'' \<mapsto> x]" and "cs_Status (cl_Spec x) = ''Active''"
proof -
  let ?e = "example_event ''c1'' (int_str 5)" and ?c = "example_cluster ''c1'' ''east'' ''Active'' ''2021''"
  have i: "in_int64 5" by (simp add: in_int64_def int64_min_def int64_max_def)
  note u = example_update [OF i, of "''c1''"]
  from mem_Handle_ok [OF u handler_time_range] obtain st' where
    h: "Handle example_decode mem_Db (Some ?e) st = (Ret None, st')" by blast
  have e: "NewEvent (Some (ev_Message ?e)) = Ret (Inr ?e)"
    by (simp add: NewEvent_def example_event_def MessageAttributeType_def ClusterUpdateEvent_def)
  have run: "on_message example_decode mem_Db counting_queue (cache_Invalidate mem_cache) example_message_c1
      \<lparr>app_db = st, app_sqs = w, app_cache = cache\<rparr> = (Ret (), \<lparr>app_db = st', app_sqs = Suc w, app_cache = []\<rparr>)"
    by (simp add: on_message_def e h Delete_def counting_queue_def Let_def)
      (simp add: example_event_def ClusterUpdateEvent_def MessageAttributeSkipCacheInvalidation_def mem_cache_def)
  from Handle_update [OF h] obtain c t plan s1 where ct: "event_update example_decode ?e = Some (c, t)" "rfc3339_range t"
    and r: "handle_read mem_Db c t st = (plan, s1)" and wr: "handle_write mem_Db plan s1 = (None, st')" by metis
  have c: "c = ?c" using ct(1) u by simp
  from mem_events.handle_keeps [OF assms(1) r wr] have keep: "table_ok (mem_rows (world st'))"
    "\<And>n. n \<noteq> ''c1'' \<Longrightarrow> clusters_in (mem_rows (world st')) n = None" using assms(2) c by auto
  from mem_events.handle_outcome [OF assms(1) r wr] obtain x where x: "clusters_in (mem_rows (world st')) ''c1'' = Some x"
    "forget_registered x = forget_registered (stamp ?c t)" using assms(2) c by (auto split: if_splits)
  have "cs_Status (cl_Spec (forget_registered x)) = cs_Status (cl_Spec x)" by (simp add: forget_registered_def)
  moreover have "cs_Status (cl_Spec (forget_registered (stamp ?c t))) = ''Active''" by (simp add: forget_registered_def stamp_def)
  ultimately have "cs_Status (cl_Spec x) = ''Active''" using x(2) by simp
  moreover have "clusters_in (mem_rows (world st')) = [''c1'' \<mapsto> x]" using keep(2) x(1) by (auto simp: fun_eq_iff)
  ultimately show ?thesis using that run keep(1) by blast
qed

text \<open>The first page of the listing, when no cluster is deleted and there are few.\<close>

lemma memory_listing:
  assumes "table_ok (mem_rows (world st))" and "ctx_Query c = []" and "card (ran (clusters_in (mem_rows (world st)))) \<le> 200"
    and "\<forall>x \<in> ran (clusters_in (mem_rows (world st))). cs_Status (cl_Spec x) \<noteq> ''Deleted''"
  obtains cs st' where "v1_ListClusters mem_Db c st = answer (JSON 200 (newClusterListResponse cs (int (length cs)) 0 200 False)) st'"
    and "set cs = ran (clusters_in (mem_rows (world st)))" and "clusters_in (mem_rows (world st')) = clusters_in (mem_rows (world st))"
    and "table_ok (mem_rows (world st'))"
proof -
  from ListClusters_complete [OF mem.dynamodb_attributes_axioms assms(1), of 0 200 "[]" "[]" "[]" "[]"] obtain r st' where
    run: "ListClusters mem_db 0 200 [] [] [] [] st = Some (r, st')"
    and keep: "clusters_in (mem_rows (world st')) = clusters_in (mem_rows (world st))"
    and r: "\<exists>cs. lists_exactly cs (clusters_in (mem_rows (world st))) (list_match [] [] [] []) \<and> r = paginate cs 0 200"
    by (auto simp: mem_no_failure)
  then obtain cs where cs: "lists_exactly cs (clusters_in (mem_rows (world st))) (list_match [] [] [] [])" "r = paginate cs 0 200" by blast
  have set: "set cs = ran (clusters_in (mem_rows (world st)))"
    using cs(1) assms(4) by (auto simp: lists_exactly_def list_match_def)
  have "distinct cs" using cs(1) by (simp add: lists_exactly_def distinct_map)
  then have "length cs \<le> 200" using assms(3) set by (simp add: distinct_card [symmetric])
  then have "r = Ret (cs, int (length cs), False, None)"
    by (simp add: cs(2) paginate_def slice_range_def Let_def wrap64_id in_int64_def int64_min_def int64_max_def)
  moreover have "offset_param c = 0" "limit_param c = 200"
    using assms(2) by (simp_all add: offset_param_def limit_param_def QueryParam_def query_values_def parse_int64_def)
  ultimately have "v1_ListClusters mem_Db c st = answer (JSON 200 (newClusterListResponse cs (int (length cs)) 0 200 False)) st'"
    using run assms(2) by (simp add: v1_ListClusters_def mem_Db_def as_Db_def list_answer_def QueryParam_def query_values_def answer_def)
  moreover have "table_ok (mem_rows (world st'))" using mem.query_reads [OF assms(1) run] assms(1) by simp
  ultimately show ?thesis using that set keep by blast
qed

text \<open>A listing with a token that is accepted.\<close>

definition list_ctx :: Ctx where
  "list_ctx = example_ctx\<lparr>ctx_Header := (\<lambda>h. if h = tokenLookup then ''Bearer t'' else [])\<rparr>"

lemma sort_no_params [simp]: "sortURLParams [] = []"
  by (simp add: sortURLParams_def)

abbreviation memory_start :: "(ClusterDb list dbst, nat, (string \<times> Response) list, nat) api_state" where
  "memory_start \<equiv> \<lparr>as_metrics = [], as_st = mem_state [], as_k = 0, as_cache = [], as_w = 0\<rparr>"

lemma memory_start:
  "table_ok (mem_rows (world (mem_state [])))" "clusters_in (mem_rows (world (mem_state []))) = Map.empty"
  using table_ok_Nil by (simp_all add: clusters_in_def mem_rows_def fun_eq_iff)

lemma memory_delivered:
  obtains st x where "deliver example_decode memory_services example_message_c1 memory_start =
      (Ret (), memory_start\<lparr>as_st := st, as_w := Suc 0\<rparr>)"
    and "table_ok (mem_rows (world st))" and "clusters_in (mem_rows (world st)) = [''c1'' \<mapsto> x]" and "cs_Status (cl_Spec x) = ''Active''"
proof -
  obtain st x where "on_message example_decode mem_Db counting_queue (cache_Invalidate mem_cache) example_message_c1
      \<lparr>app_db = mem_state [], app_sqs = 0, app_cache = []\<rparr> = (Ret (), \<lparr>app_db = st, app_sqs = Suc 0, app_cache = []\<rparr>)"
    and "table_ok (mem_rows (world st))" "clusters_in (mem_rows (world st)) = [''c1'' \<mapsto> x]" "cs_Status (cl_Spec x) = ''Active''"
    by (rule example_delivered [OF memory_start])
  then show ?thesis by (intro that [of st x]) (simp_all add: deliver_def)
qed

lemma list_ctx_route:
  obtains a where "new_authenticator server_libs started_config = Inr a" and "verify a ''t'' = Inr ()" and "Claims a () = Inr (''me'', [''10''])"
    and "first_match example_routes list_ctx = Some (\<lparr>rt_Method = ''GET'', rt_Path = ''/api/v1/clusters'', rt_Endpoint = V1_ListClusters,
      rt_Middleware = [TokenCheck a, Limiter (ApiRateLimiterEnabled started_config), ResponseCache [''clusters'']]\<rparr>, \<lambda>_. ''c1'')"
proof -
  obtain a where a: "new_authenticator server_libs started_config = Inr a" "verify a ''t'' = Inr ()" "Claims a () = Inr (''me'', [''10''])"
    by (simp add: new_authenticator_def NewAuthenticator_def server_libs_def verify_def)
  then show ?thesis
    by (intro that) (simp_all add: first_match_def example_routes_def bind_err_def v1_Register_def v2_Register_def open_routes_def
        add_route_def Group_def root_group_def Let_def list_ctx_def example_ctx_def path_matches_def)
qed

lemma memory_serves:
  assumes "table_ok (mem_rows (world (as_st s)))" and "clusters_in (mem_rows (world (as_st s))) = [''c1'' \<mapsto> x]"
    and "cs_Status (cl_Spec x) = ''Active''" and "as_cache s = []"
  shows "\<exists>a s'. serve first_match (\<lambda>_. JSON 404 NullBody) memory_services example_routes list_ctx s = Some (Ret a, s') \<and> resp_Status a = 200"
proof -
  obtain a where a: "verify a ''t'' = Inr ()" "Claims a () = Inr (''me'', [''10''])"
    "first_match example_routes list_ctx = Some (\<lparr>rt_Method = ''GET'', rt_Path = ''/api/v1/clusters'', rt_Endpoint = V1_ListClusters,
      rt_Middleware = [TokenCheck a, Limiter (ApiRateLimiterEnabled started_config), ResponseCache [''clusters'']]\<rparr>, \<lambda>_. ''c1'')"
    by (rule list_ctx_route)
  let ?c = "list_ctx\<lparr>ctx_Param := \<lambda>_. ''c1'', ctx_oid := Some ''me'', ctx_groups := Some [''10'']\<rparr>"
  have few: "ctx_Query ?c = []" "card (ran (clusters_in (mem_rows (world (as_st s))))) \<le> 200"
    "\<forall>x \<in> ran (clusters_in (mem_rows (world (as_st s)))). cs_Status (cl_Spec x) \<noteq> ''Deleted''"
    using assms(2,3) by (simp_all add: list_ctx_def example_ctx_def)
  from memory_listing [OF assms(1) few] obtain cs st2 where
    "v1_ListClusters mem_Db ?c (as_st s) = answer (JSON 200 (newClusterListResponse cs (int (length cs)) 0 200 False)) st2" by metis
  then show ?thesis
    using a assms(4)
    by (simp add: serve_def route_handler_def run_middleware_def via_def VerifyToken_def extractToken_def authScheme_def tokenLookup_def
        list_ctx_def example_ctx_def memory_services_def HTTPCache_def cache_miss_def mem_cache_def endpoint_handler_def on_db_def
        answer_def Let_def JSON_def)
qed


section \<open>A listing that is read while a message is handled\<close>

text \<open>
  The middleware in two steps, between which other goroutines run: up to the answer of the handler,
  and the entry of that answer into the cache.
\<close>

datatype pending = Answered "response run" | Filling string response

definition HTTPCache_begin :: "('v, 'c) cache_api \<Rightarrow> 'st handler \<Rightarrow> Ctx \<Rightarrow> ('st, 'c) server \<Rightarrow> (pending \<times> ('st, 'c) server) option" where
  "HTTPCache_begin api next c s =
     (if ctx_Method c = ''GET''
      then let c = c\<lparr>ctx_Query := sortURLParams (ctx_Query c)\<rparr>;
               ((cachedResponse, err), cache) = cache_Get api (cache_key c) (srv_cache s);
               s = s\<lparr>srv_cache := cache\<rparr>
           in case cachedResponse of
                Some text \<Rightarrow> Some (Answered (Ret (cached_answer (StringToResponse api text))), s)
              | None \<Rightarrow>
                  map_option (\<lambda>(r, st). (case r of Panic p \<Rightarrow> Answered (Panic p) | Ret a \<Rightarrow> Filling (cache_key c) a, s\<lparr>srv_st := st\<rparr>))
                    (next c (srv_st s))
      else map_option (\<lambda>(r, st). (Answered r, s\<lparr>srv_st := st\<rparr>)) (next c (srv_st s)))"

definition HTTPCache_end :: "('v, 'c) cache_api \<Rightarrow> string list \<Rightarrow> pending \<Rightarrow> ('st, 'c) server \<Rightarrow> response run \<times> ('st, 'c) server" where
  "HTTPCache_end api tags p s =
     (case p of
        Answered r \<Rightarrow> (r, s)
      | Filling key r \<Rightarrow>
          if resp_Status r < 400
          then let newResponse = \<lparr>Value = resp_Body r, Header = resp_Header r\<rparr>;
                   (err, cache) = cache_Set api key (Response_String api newResponse) tags (srv_cache s)
               in (Ret r, s\<lparr>srv_cache := cache\<rparr>)
          else (Ret r, s))"

lemma HTTPCache_split:
  "HTTPCache api tags next c s = map_option (\<lambda>(p, s). HTTPCache_end api tags p s) (HTTPCache_begin api next c s)"
  by (simp add: HTTPCache_def HTTPCache_begin_def HTTPCache_end_def cache_miss_def answer_def Let_def
      split: option.split prod.split run.split)

text \<open>
  C37. A listing that is read while a message is handled can be stored after the cache was invalidated:
  no call fails and nobody asks to keep the cache, but the next listing is the old one, without
  the cluster that the registry has by then.
\<close>

theorem cache_race:
  "\<exists>p s1 a r s2 r' s3 r'' st3. \<not> may_leave_stale mem_Db (\<lambda>st. clusters_in (mem_rows (world st))) (\<lambda>st. table_ok (mem_rows (world st)))
      counting_queue (cache_Invalidate mem_cache) example_message_c1 \<and>
    HTTPCache_begin mem_cache (v1_ListClusters mem_Db) example_ctx \<lparr>srv_st = mem_state [], srv_cache = []\<rparr> = Some (p, s1) \<and>
    on_message example_decode mem_Db counting_queue (cache_Invalidate mem_cache) example_message_c1
      \<lparr>app_db = srv_st s1, app_sqs = 0, app_cache = srv_cache s1\<rparr> = (Ret (), a) \<and>
    HTTPCache_end mem_cache [''clusters''] p \<lparr>srv_st = app_db a, srv_cache = app_cache a\<rparr> = (Ret r, s2) \<and>
    HTTPCache mem_cache [''clusters''] (v1_ListClusters mem_Db) example_ctx s2 = Some (Ret r', s3) \<and>
    v1_ListClusters mem_Db example_ctx (srv_st s2) = Some (Ret r'', st3) \<and>
    clusters_in (mem_rows (world (srv_st s2))) ''c1'' \<noteq> None \<and> resp_Body r' \<noteq> resp_Body r''"
proof -
  let ?page = "\<lambda>cs. JSON 200 (newClusterListResponse cs (int (length cs)) 0 200 False)"
  have q: "ctx_Query example_ctx = []" "ctx_Method example_ctx = ''GET''" by (simp_all add: example_ctx_def)
  have c: "example_ctx\<lparr>ctx_Query := []\<rparr> = example_ctx" by (simp add: example_ctx_def)
  from memory_listing [OF memory_start(1) q(1)] memory_start(2) obtain st1 where
    l1: "v1_ListClusters mem_Db example_ctx (mem_state []) = answer (?page []) st1"
    and st1: "table_ok (mem_rows (world st1))" "clusters_in (mem_rows (world st1)) = Map.empty" by auto
  obtain st2 x where m: "on_message example_decode mem_Db counting_queue (cache_Invalidate mem_cache) example_message_c1
      \<lparr>app_db = st1, app_sqs = 0, app_cache = []\<rparr> = (Ret (), \<lparr>app_db = st2, app_sqs = Suc 0, app_cache = []\<rparr>)"
    and st2: "table_ok (mem_rows (world st2))" "clusters_in (mem_rows (world st2)) = [''c1'' \<mapsto> x]" "cs_Status (cl_Spec x) = ''Active''"
    by (rule example_delivered [OF st1])
  have few: "card (ran (clusters_in (mem_rows (world st2)))) \<le> 200"
    "\<forall>x \<in> ran (clusters_in (mem_rows (world st2))). cs_Status (cl_Spec x) \<noteq> ''Deleted''" using st2(2,3) by simp_all
  obtain cs st3 where l2: "v1_ListClusters mem_Db example_ctx st2 = answer (?page cs) st3"
    and cs: "set cs = ran (clusters_in (mem_rows (world st2)))" by (rule memory_listing [OF st2(1) q(1) few])
  have ne: "resp_Body (?page []) \<noteq> resp_Body (?page cs)" using cs st2(2) by (auto simp: newClusterListResponse_def JSON_def)
  let ?p = "Filling (cache_key example_ctx) (?page [])" and ?s1 = "\<lparr>srv_st = st1, srv_cache = []\<rparr>"
  have b: "HTTPCache_begin mem_cache (v1_ListClusters mem_Db) example_ctx \<lparr>srv_st = mem_state [], srv_cache = []\<rparr> = Some (?p, ?s1)"
    using l1 by (simp add: HTTPCache_begin_def q c mem_cache_def answer_def)
  let ?v = "\<lparr>Value = resp_Body (?page []), Header = resp_Header (?page [])\<rparr>"
  let ?s2 = "\<lparr>srv_st = st2, srv_cache = [(cache_key example_ctx, ?v)]\<rparr>"
  have e: "HTTPCache_end mem_cache [''clusters''] ?p \<lparr>srv_st = st2, srv_cache = []\<rparr> = (Ret (?page []), ?s2)"
    by (simp add: HTTPCache_end_def mem_cache_def Response_String_def JSON_def)
  have h: "HTTPCache mem_cache [''clusters''] (v1_ListClusters mem_Db) example_ctx ?s2 = Some (Ret (cached_answer ?v), ?s2)"
    by (simp add: HTTPCache_def q c mem_cache_def StringToResponse_def answer_def)
  have "resp_Body (cached_answer ?v) = resp_Body (?page [])" by (simp add: cached_answer_def)
  then show ?thesis
    using memory_never_stale b m e h l2 ne st2(2)
    by (intro exI [of _ ?p] exI [of _ ?s1] exI [of _ "\<lparr>app_db = st2, app_sqs = Suc 0, app_cache = []\<rparr>"] exI [of _ "?page []"]
        exI [of _ ?s2] exI [of _ "cached_answer ?v"] exI [of _ ?s2] exI [of _ "?page cs"] exI [of _ st3]) (simp add: answer_def)
qed

end
