(* ===== verification/Service_Tests.thy ===== *)
theory Service_Tests
  imports Api_Server Cluster_Controller
begin

text \<open>
  The service under test/slt, which checks a running registry all the time: it changes a tag of a
  cluster and waits until the registry shows it, and times two requests.  Kubernetes, the identity
  provider, the HTTP client, the encoders and the clock are arguments.
\<close>

section \<open>The service and its libraries\<close>

text \<open>A program goes on with a value, or the logger's \<^verbatim>\<open>Fatalf\<close> ends it.\<close>

datatype 'a proc = Exited string | Running 'a

definition proc_bind :: "'a proc \<Rightarrow> ('a \<Rightarrow> 'b proc) \<Rightarrow> 'b proc" where
  "proc_bind x f = (case x of Exited m \<Rightarrow> Exited m | Running v \<Rightarrow> f v)"

lemma proc_bind_Running [simp]: "proc_bind x f = Running y \<longleftrightarrow> (\<exists>v. x = Running v \<and> f v = Running y)"
  by (auto simp: proc_bind_def split: proc.splits)

text \<open>The two request objects of the Kubernetes client that the service builds.\<close>

record rest_request =
  rr_AbsPath :: string
  rr_Resource :: string
  rr_Namespace :: string
  rr_Name :: string

text \<open>The answer to a listing of the registry, \<^verbatim>\<open>ClusterList\<close> of helpers.go.\<close>

record slt_ClusterList =
  scl_Items :: "ClusterSpec list"
  scl_ItemsCount :: int

text \<open>
  \<open>'cs\<close> is a client of Kubernetes, \<open>'spt\<close> a token of the identity provider.  \<open>sl_Do\<close> is the HTTP client:
  an answer has a status and a body, whose reading can fail.
\<close>

record ('cfg, 'cs, 'spt, 'w) slt_libs =
  sl_GetConfig :: "'w \<Rightarrow> (goerr + 'cfg) \<times> 'w"
  sl_NewForConfig :: "'cfg \<Rightarrow> goerr + 'cs"
  sl_GetRaw :: "'cs \<Rightarrow> rest_request \<Rightarrow> 'w \<Rightarrow> (string \<times> goerr option) \<times> 'w"
  sl_Patch :: "'cs \<Rightarrow> rest_request \<Rightarrow> string \<Rightarrow> 'w \<Rightarrow> goerr option \<times> 'w"
  sl_UnmarshalClusters :: "string \<Rightarrow> goerr + Cluster list"
  sl_MarshalCluster :: "Cluster \<Rightarrow> goerr + string"
  sl_NewRequest :: "string \<Rightarrow> goerr option"
  sl_Do :: "string \<Rightarrow> string \<Rightarrow> 'w \<Rightarrow> (goerr + int \<times> (goerr + string)) \<times> 'w"
  sl_UnmarshalSpec :: "string \<Rightarrow> goerr + ClusterSpec"
  sl_UnmarshalList :: "string \<Rightarrow> goerr + slt_ClusterList"
  sl_ServicePrincipalToken :: "string \<Rightarrow> string \<Rightarrow> string \<Rightarrow> goerr + 'spt"
  sl_RefreshExchange :: "string \<Rightarrow> 'spt \<Rightarrow> 'w \<Rightarrow> (goerr + 'spt) \<times> 'w"
  sl_AccessToken :: "'spt \<Rightarrow> string"
  sl_Sleep :: "int \<Rightarrow> 'w \<Rightarrow> 'w"
  sl_Now :: "'w \<Rightarrow> int"
  sl_ParseDuration :: "string \<Rightarrow> goerr + int"

section \<open>Metrics (metrics.go)\<close>

text \<open>The series of the four vectors, by the values of their labels; durations are nanoseconds.\<close>

record slt_metrics =
  TestStatus :: "string \<rightharpoonup> int"
  ErrCnt :: "string \<rightharpoonup> nat"
  TestDuration :: "string \<Rightarrow> int list"
  EgressReqDuration :: "string \<times> string \<times> string \<Rightarrow> int list"

definition slt_collectors :: "collector list" where
  "slt_collectors =
     [Gauge ''cluster_registry_slt'' ''test_status''
        ''The status of the last SLT, has values between 1 if the check passed and 0 if it failed.'' [''test''],
      HistogramVec ''cluster_registry_slt'' ''egress_request_duration_seconds''
        ''The duration of the requests to the Cluster Registry API.'' [''route'', ''method'', ''status_code''],
      HistogramVec ''cluster_registry_slt'' ''test_duration_seconds''
        ''It is how much time took for the test to complete. For the e2e test the sleeps are excluded.'' [''test''],
      CounterVec ''cluster_registry_slt'' ''error_count'' ''The total number of errors, labeled by the test'' [''test'']]"

text \<open>The logger of this package is never set, so that reporting an error is a nil dereference.\<close>

fun register_all :: "'r registerer \<Rightarrow> collector list \<Rightarrow> 'r \<Rightarrow> unit run \<times> 'r" where
  "register_all register [] reg = (Ret (), reg)"
| "register_all register (c # cs) reg =
     (case register c reg of
        (None, reg) \<Rightarrow> register_all register cs reg
      | (Some err, reg) \<Rightarrow> (Panic ''nil pointer dereference'', reg))"

definition RegisterMetrics :: "'r registerer \<Rightarrow> 'r \<Rightarrow> unit run \<times> 'r" where
  "RegisterMetrics register reg = register_all register slt_collectors reg"

definition no_series :: slt_metrics where
  "no_series = \<lparr>TestStatus = Map.empty, ErrCnt = Map.empty, TestDuration = (\<lambda>_. []), EgressReqDuration = (\<lambda>_. [])\<rparr>"

definition add_err :: "string \<Rightarrow> nat \<Rightarrow> slt_metrics \<Rightarrow> slt_metrics" where
  "add_err l n m = m\<lparr>ErrCnt := (ErrCnt m)(l \<mapsto> (case ErrCnt m l of None \<Rightarrow> n | Some k \<Rightarrow> k + n))\<rparr>"

definition set_status :: "string \<Rightarrow> int \<Rightarrow> slt_metrics \<Rightarrow> slt_metrics" where
  "set_status l v m = m\<lparr>TestStatus := (TestStatus m)(l \<mapsto> v)\<rparr>"

definition observe_test :: "string \<Rightarrow> int \<Rightarrow> slt_metrics \<Rightarrow> slt_metrics" where
  "observe_test l t m = m\<lparr>TestDuration := (TestDuration m)(l := TestDuration m l @ [t])\<rparr>"

definition observe_egress :: "string \<Rightarrow> string \<Rightarrow> string \<Rightarrow> int \<Rightarrow> slt_metrics \<Rightarrow> slt_metrics" where
  "observe_egress route method code t m =
     m\<lparr>EgressReqDuration := (EgressReqDuration m)((route, method, code) := EgressReqDuration m (route, method, code) @ [t])\<rparr>"

text \<open>The state of the service: the token that all checks share, the metrics and the rest of the world.\<close>

record 'w slt =
  slt_token :: string
  slt_met :: slt_metrics
  slt_world :: 'w

definition record_slt :: "(slt_metrics \<Rightarrow> slt_metrics) \<Rightarrow> 'w slt \<Rightarrow> 'w slt" where
  "record_slt f s = s\<lparr>slt_met := f (slt_met s)\<rparr>"

definition on_world :: "('w \<Rightarrow> 'r \<times> 'w) \<Rightarrow> 'w slt \<Rightarrow> 'r \<times> 'w slt" where
  "on_world f s = (let (r, w) = f (slt_world s) in (r, s\<lparr>slt_world := w\<rparr>))"

section \<open>Helpers (helpers.go)\<close>

definition GetEnv :: "(string \<Rightarrow> string option) \<Rightarrow> string \<Rightarrow> string \<Rightarrow> string proc" where
  "GetEnv lookup key fallback =
     (case lookup key of
        Some v \<Rightarrow> Running v
      | None \<Rightarrow> if fallback = [] then Exited (''missing environment variable '' @ key) else Running fallback)"

text \<open>\<^verbatim>\<open>rand.Intn\<close>, which panics on a bound that is not positive, and the text of a duration are arguments.\<close>

definition GetRandomTime ::
  "(string \<Rightarrow> goerr + int) \<Rightarrow> (int \<Rightarrow> int) \<Rightarrow> (int \<Rightarrow> string) \<Rightarrow> string \<Rightarrow> string run proc" where
  "GetRandomTime parse intn show_duration maxTime =
     (case parse maxTime of
        Inl err \<Rightarrow> Exited (''error parsing time interval: '' @ err_text err)
      | Inr interval \<Rightarrow>
          (let maxSeconds = (if interval < 0 then - ((- interval) div 10 ^ 9) else interval div 10 ^ 9)
           in Running (if maxSeconds \<le> 0 then Panic ''invalid argument to Intn''
                       else Ret (show_duration (wrap64 (10 ^ 9 * intn maxSeconds))))))"

text \<open>
  What \<^verbatim>\<open>RunFuncInLoop\<close> does before its loop: the pause between two rounds and the one before the first.
  The loop itself, which never ends, is the relation \<open>slt_step\<close> below.
\<close>

definition RunFuncInLoop :: "(string \<Rightarrow> goerr + int) \<Rightarrow> string \<Rightarrow> string \<Rightarrow> string \<Rightarrow> (int \<times> int) proc" where
  "RunFuncInLoop parse f timeInterval offSetStart =
     (let failed = (\<lambda>err. Exited (''error parsing time interval to run '' @ f @ '' function in loop: '' @ err_text err))
      in case parse timeInterval of
           Inl err \<Rightarrow> failed err
         | Inr interval \<Rightarrow>
             if offSetStart \<noteq> []
             then (case parse offSetStart of Inl err \<Rightarrow> failed err | Inr offSet \<Rightarrow> Running (interval, offSet))
             else Running (interval, 0))"

text \<open>An answer other than 200 is an error with its status; without an answer the status is zero.\<close>

definition reqGet ::
  "('cfg, 'cs, 'spt, 'w) slt_libs \<Rightarrow> string \<Rightarrow> string \<Rightarrow> 'w \<Rightarrow> ((goerr + string) \<times> int) \<times> 'w" where
  "reqGet l endpoint bearer w =
     (case sl_NewRequest l endpoint of
        Some err \<Rightarrow> ((Inl (Error (''cannot build http request: '' @ err_text err)), 0), w)
      | None \<Rightarrow>
          (case sl_Do l endpoint bearer w of
             (Inl err, w) \<Rightarrow> ((Inl (Error (''cannot make http request: '' @ err_text err)), 0), w)
           | (Inr (code, content), w) \<Rightarrow>
               if code \<noteq> 200
               then (case content of
                       Inl err \<Rightarrow> ((Inl (Error (''status code '' @ int_str code @ '': could not read response body: '' @ err_text err)), code), w)
                     | Inr message \<Rightarrow>
                         ((Inl (Error (''cannot get cluster: Status code '' @ int_str code @ '', body:'' @ message)), code), w))
               else (case content of
                       Inl err \<Rightarrow> ((Inl (Error (''cannot read response body: '' @ err_text err)), code), w)
                     | Inr text \<Rightarrow> ((Inr text, code), w))))"

text \<open>A request with its duration in the metrics.\<close>

definition timed_get ::
  "('cfg, 'cs, 'spt, 'w) slt_libs \<Rightarrow> string \<Rightarrow> string \<Rightarrow> string \<Rightarrow> 'w slt \<Rightarrow> ((goerr + string) \<times> int) \<times> 'w slt" where
  "timed_get l endpoint route bearer s =
     (let start = sl_Now l (slt_world s);
          ((r, respCode), s) = on_world (reqGet l endpoint bearer) s;
          timeTook = sl_Now l (slt_world s) - start
      in ((r, respCode), record_slt (observe_egress route ''GET'' (int_str respCode) timeTook) s))"

definition slt_GetCluster ::
  "('cfg, 'cs, 'spt, 'w) slt_libs \<Rightarrow> string \<Rightarrow> string \<Rightarrow> string \<Rightarrow> 'w slt \<Rightarrow> (goerr + ClusterSpec) \<times> 'w slt" where
  "slt_GetCluster l url clusterName jwtToken s =
     (case timed_get l (url @ ''/api/v2/clusters/'' @ clusterName) ''/api/v2/clusters/[cluster]'' (''Bearer '' @ jwtToken) s of
        ((Inl err, respCode), s) \<Rightarrow>
          (Inl (if respCode = 404 then Error (''cluster '' @ clusterName @ '' was not found: '' @ err_text err) else err), s)
      | ((Inr body, _), s) \<Rightarrow>
          (case sl_UnmarshalSpec l body of
             Inl err \<Rightarrow> (Inl (Error (''failed to unmarshal response: '' @ err_text err)), s)
           | Inr cluster \<Rightarrow> (Inr cluster, s)))"

definition slt_GetClusters ::
  "('cfg, 'cs, 'spt, 'w) slt_libs \<Rightarrow> string \<Rightarrow> string \<Rightarrow> string \<Rightarrow> string \<Rightarrow> 'w slt \<Rightarrow> (goerr + slt_ClusterList) \<times> 'w slt" where
  "slt_GetClusters l url perPageLimit pageNr jwtToken s =
     (case timed_get l (url @ ''/api/v2/clusters?offset='' @ pageNr @ ''&limit='' @ perPageLimit) ''/api/v2/clusters''
             (''Bearer '' @ jwtToken) s of
        ((Inl err, _), s) \<Rightarrow> (Inl err, s)
      | ((Inr body, _), s) \<Rightarrow>
          (case sl_UnmarshalList l body of
             Inl err \<Rightarrow> (Inl (Error (''failed to unmarshal response: '' @ err_text err)), s)
           | Inr clusters \<Rightarrow> (Inr clusters, s)))"

section \<open>The end-to-end check (update.go)\<close>

definition tagSLT :: string where
  "tagSLT = ''update-slt''"

definition MetricLabel :: string where
  "MetricLabel = ''e2e_test''"

record TestConfig =
  tc_url :: string
  tc_namespace :: string

definition update_InitMetrics :: "slt_metrics \<Rightarrow> slt_metrics" where
  "update_InitMetrics m = set_status MetricLabel 0 (add_err MetricLabel 0 m)"

definition GetConfigFromEnv :: "(string \<Rightarrow> string option) \<Rightarrow> TestConfig proc" where
  "GetConfigFromEnv lookup =
     proc_bind (GetEnv lookup ''URL'' ''http://localhost:8080'') (\<lambda>url.
     proc_bind (GetEnv lookup ''NAMESPACE'' ''cluster-registry'') (\<lambda>ns.
     Running \<lparr>tc_url = url, tc_namespace = ns\<rparr>))"

text \<open>Reading a key that is not in a map gives the empty text.\<close>

definition read_str :: "str_map \<Rightarrow> string \<Rightarrow> string" where
  "read_str m k = (case m k of None \<Rightarrow> [] | Some v \<Rightarrow> v)"

text \<open>The next value of the tag; a nil map of tags reads like an empty one.\<close>

definition next_tag :: "str_map \<Rightarrow> goerr + str_map" where
  "next_tag tags =
     (case tags tagSLT of
        None \<Rightarrow> Inr (tags(tagSLT \<mapsto> ''Tick''))
      | Some value \<Rightarrow>
          if value = ''Tick'' then Inr (tags(tagSLT \<mapsto> ''Tack''))
          else if value = ''Tack'' then Inr (tags(tagSLT \<mapsto> ''Tick''))
          else Inl (Error (''found '' @ quoted tagSLT @ '' tag with wrong value '' @ quoted value)))"

text \<open>The cluster that is sent: the new tag, no managed fields, and the mark that keeps the cache.\<close>

definition prepared :: "str_map \<Rightarrow> Cluster \<Rightarrow> Cluster" where
  "prepared tags cluster =
     (let cluster = set_spec (cs_Tags_update (\<lambda>_. tags)) cluster;
          cluster = cluster\<lparr>cl_Meta := (cl_Meta cluster)\<lparr>meta_ManagedFields := []\<rparr>\<rparr>
      in set_annotations ((annotations_of cluster)(SkipCacheInvalidationAnnotation \<mapsto> [])) cluster)"

definition registry_request :: "string \<Rightarrow> string \<Rightarrow> rest_request" where
  "registry_request namespace name =
     \<lparr>rr_AbsPath = ''/apis/registry.ethos.adobe.com/v1'', rr_Resource = ''clusters'', rr_Namespace = namespace, rr_Name = name\<rparr>"

text \<open>The part of \<^verbatim>\<open>updateCrd\<close> after the client is there: read the first cluster, change it, send it.\<close>

definition patch_first :: "('cfg, 'cs, 'spt, 'w) slt_libs \<Rightarrow> string \<Rightarrow> 'cs \<Rightarrow> Cluster list \<Rightarrow> 'w \<Rightarrow> (goerr + string \<times> string) \<times> 'w" where
  "patch_first l namespace clientset items w =
     (case items of
        [] \<Rightarrow> (Inl (Error ''no CRD found, the 'Items' list is empty''), w)
      | cluster # _ \<Rightarrow>
          (case next_tag (cs_Tags (cl_Spec cluster)) of
             Inl err \<Rightarrow> (Inl err, w)
           | Inr tags \<Rightarrow>
               (let cluster = prepared tags cluster
                in case sl_MarshalCluster l cluster of
                     Inl err \<Rightarrow> (Inl (Error (''could not marshal updated CRD: '' @ err_text err)), w)
                   | Inr data \<Rightarrow>
                       (case sl_Patch l clientset (registry_request namespace (cluster_name cluster)) data w of
                          (Some err, w) \<Rightarrow> (Inl (Error (''could not update the CRD: '' @ err_text err)), w)
                        | (None, w) \<Rightarrow> (Inr (cluster_name cluster, read_str tags tagSLT), w)))))"

definition updateCrd :: "('cfg, 'cs, 'spt, 'w) slt_libs \<Rightarrow> string \<Rightarrow> 'w \<Rightarrow> (goerr + string \<times> string) \<times> 'w" where
  "updateCrd l namespace w =
     (case sl_GetConfig l w of
        (Inl err, w) \<Rightarrow> (Inl (Error (''could not create Kubernetes config: '' @ err_text err)), w)
      | (Inr conf, w) \<Rightarrow>
          (case sl_NewForConfig l conf of
             Inl err \<Rightarrow> (Inl (Error (''could not create Kubernetes client: '' @ err_text err)), w)
           | Inr clientset \<Rightarrow>
               (case sl_GetRaw l clientset (registry_request namespace []) w of
                  ((result, Some err), w) \<Rightarrow>
                    (Inl (Error (''could not get the custom resource: '' @ err_text err @ ''. Response '' @ result)), w)
                | ((result, None), w) \<Rightarrow>
                    (case sl_UnmarshalClusters l result of
                       Inl err \<Rightarrow> (Inl (Error (''could not unmarshal Kubernetes response: '' @ err_text err)), w)
                     | Inr items \<Rightarrow> patch_first l namespace clientset items w))))"

text \<open>Tags without any entry count as the nil map here: both are errors, with different texts.\<close>

definition checkAPIforUpdate ::
  "('cfg, 'cs, 'spt, 'w) slt_libs \<Rightarrow> string \<Rightarrow> string \<Rightarrow> string \<Rightarrow> string \<Rightarrow> 'w slt \<Rightarrow> goerr option \<times> 'w slt" where
  "checkAPIforUpdate l url clusterName tagSLTValue jwtToken s =
     (case slt_GetCluster l url clusterName jwtToken s of
        (Inl err, s) \<Rightarrow> (Some err, s)
      | (Inr cluster, s) \<Rightarrow>
          (let v = read_str (cs_Tags cluster) tagSLT
           in if cs_Tags cluster = Map.empty then (Some (Error ''tags field is empty''), s)
              else if tagSLTValue \<noteq> v
              then (Some (Error (''the 'Tags' field is not what expected. The value is '' @ quoted v @ '', expected '' @ quoted tagSLTValue)), s)
              else (None, s)))"

definition maxNrOfTries :: int where
  "maxNrOfTries = 3"

function confirm_loop ::
  "('cfg, 'cs, 'spt, 'w) slt_libs \<Rightarrow> string \<Rightarrow> string \<Rightarrow> string \<Rightarrow> string \<Rightarrow> int \<Rightarrow> 'w slt \<Rightarrow> (int \<times> goerr option) \<times> 'w slt" where
  "confirm_loop l url clusterName tagSLTValue jwtToken nrOfTries s =
     (if nrOfTries \<le> maxNrOfTries
      then let s = s\<lparr>slt_world := sl_Sleep l (30 * 10 ^ 9) (slt_world s)\<rparr>
           in case checkAPIforUpdate l url clusterName tagSLTValue jwtToken s of
                (Some err, s) \<Rightarrow> confirm_loop l url clusterName tagSLTValue jwtToken (nrOfTries + 1) s
              | (None, s) \<Rightarrow> ((nrOfTries, None), s)
      else ((nrOfTries, Some (Error ''failed to confirm the update'')), s))"
  by pat_completeness auto
termination
  by (relation "measure (\<lambda>(_, _, _, _, _, n, _). nat (4 - n))") (auto simp: maxNrOfTries_def)

declare confirm_loop.simps [simp del]

definition update_Run ::
  "('cfg, 'cs, 'spt, 'w) slt_libs \<Rightarrow> TestConfig \<Rightarrow> string \<Rightarrow> 'w slt \<Rightarrow> (int \<times> goerr option) \<times> 'w slt" where
  "update_Run l config jwtToken s =
     (case on_world (updateCrd l (tc_namespace config)) s of
        (Inl err, s) \<Rightarrow> ((0, Some err), s)
      | (Inr (clusterName, tagSLTValue), s) \<Rightarrow> confirm_loop l (tc_url config) clusterName tagSLTValue jwtToken 1 s)"

section \<open>The timed requests (request.go)\<close>

definition MetricLabelGetCluster :: string where
  "MetricLabelGetCluster = ''get_cluster_test''"

definition MetricLabelGetAllClusters :: string where
  "MetricLabelGetAllClusters = ''get_multiple_clusters_test''"

record GetClusterConfig =
  gc_url :: string
  gc_clusterName :: string

record GetAllClusterConfig =
  ga_url :: string
  ga_pageNr :: string
  ga_perPageLimit :: string

definition request_InitMetrics :: "slt_metrics \<Rightarrow> slt_metrics" where
  "request_InitMetrics m =
     set_status MetricLabelGetAllClusters 0 (set_status MetricLabelGetCluster 0
       (add_err MetricLabelGetAllClusters 0 (add_err MetricLabelGetCluster 0 m)))"

definition GetClusterConfigFromEnv :: "(string \<Rightarrow> string option) \<Rightarrow> GetClusterConfig proc" where
  "GetClusterConfigFromEnv lookup =
     proc_bind (GetEnv lookup ''URL'' ''http://localhost:8080'') (\<lambda>url.
     proc_bind (GetEnv lookup ''CLUSTER_NAME'' []) (\<lambda>name.
     Running \<lparr>gc_url = url, gc_clusterName = name\<rparr>))"

definition GetAllClusterConfigFromEnv :: "(string \<Rightarrow> string option) \<Rightarrow> GetAllClusterConfig proc" where
  "GetAllClusterConfigFromEnv lookup =
     proc_bind (GetEnv lookup ''URL'' ''http://localhost:8080'') (\<lambda>url.
     proc_bind (GetEnv lookup ''PAGE_NR'' ''0'') (\<lambda>pageNr.
     proc_bind (GetEnv lookup ''PER_PAGE_LIMIT'' ''200'') (\<lambda>limit.
     Running \<lparr>ga_url = url, ga_pageNr = pageNr, ga_perPageLimit = limit\<rparr>)))"

definition RunGetCluster ::
  "('cfg, 'cs, 'spt, 'w) slt_libs \<Rightarrow> GetClusterConfig \<Rightarrow> string \<Rightarrow> 'w slt \<Rightarrow> goerr option \<times> 'w slt" where
  "RunGetCluster l config jwtToken s =
     (case slt_GetCluster l (gc_url config) (gc_clusterName config) jwtToken s of
        (Inl err, s) \<Rightarrow> (Some err, s)
      | (Inr _, s) \<Rightarrow> (None, s))"

definition RunGetAllClusters ::
  "('cfg, 'cs, 'spt, 'w) slt_libs \<Rightarrow> GetAllClusterConfig \<Rightarrow> string \<Rightarrow> 'w slt \<Rightarrow> goerr option \<times> 'w slt" where
  "RunGetAllClusters l config jwtToken s =
     (case slt_GetClusters l (ga_url config) (ga_perPageLimit config) (ga_pageNr config) jwtToken s of
        (Inl err, s) \<Rightarrow> (Some err, s)
      | (Inr _, s) \<Rightarrow> (None, s))"

section \<open>The checks (checks.go)\<close>

definition MetricLabelToken :: string where
  "MetricLabelToken = ''token_refresh''"

text \<open>\<^verbatim>\<open>init\<close>: the metrics are registered and the series of the checks start at zero.\<close>

definition checks_init :: "'r registerer \<Rightarrow> 'r \<Rightarrow> slt_metrics run \<times> 'r" where
  "checks_init register reg =
     (let (r, reg) = RegisterMetrics register reg
      in (run_map (\<lambda>_. add_err MetricLabelToken 0 (request_InitMetrics (update_InitMetrics no_series))) r, reg))"

text \<open>\<^verbatim>\<open>readToken\<close> waits as long as there is no token; \<open>None\<close> means that it still waits.\<close>

definition readToken :: "'w slt \<Rightarrow> string option" where
  "readToken s = (if slt_token s = [] then None else Some (slt_token s))"

definition GetAuthDetails :: "(string \<Rightarrow> string option) \<Rightarrow> (string \<times> string \<times> string \<times> string) proc" where
  "GetAuthDetails lookup =
     proc_bind (GetEnv lookup ''RESOURCE_ID'' []) (\<lambda>resourceID.
     proc_bind (GetEnv lookup ''TENANT_ID'' []) (\<lambda>tenantID.
     proc_bind (GetEnv lookup ''CLIENT_ID'' []) (\<lambda>clientID.
     proc_bind (GetEnv lookup ''APP_SECRET'' []) (\<lambda>clientSecret.
     Running (resourceID, tenantID, clientID, clientSecret)))))"

definition requestToken ::
  "('cfg, 'cs, 'spt, 'w) slt_libs \<Rightarrow> string \<Rightarrow> string \<Rightarrow> string \<Rightarrow> string \<Rightarrow> 'w \<Rightarrow> (string \<times> goerr option) \<times> 'w" where
  "requestToken l resourceID tenantID clientID clientSecret w =
     (case sl_ServicePrincipalToken l clientID clientSecret tenantID of
        Inl err \<Rightarrow> (([], Some err), w)
      | Inr token \<Rightarrow>
          (case sl_RefreshExchange l resourceID token w of
             (Inl err, w) \<Rightarrow> (([], Some err), w)
           | (Inr token, w) \<Rightarrow> ((sl_AccessToken l token, None), w)))"

text \<open>After an error the new token is assigned all the same.\<close>

definition RefreshToken :: "('cfg, 'cs, 'spt, 'w) slt_libs \<Rightarrow> (string \<Rightarrow> string option) \<Rightarrow> 'w slt \<Rightarrow> 'w slt proc" where
  "RefreshToken l lookup s =
     proc_bind (GetAuthDetails lookup) (\<lambda>(resourceID, tenantID, clientID, clientSecret).
       let ((localToken, err), s) = on_world (requestToken l resourceID tenantID clientID clientSecret) s
       in proc_bind (case err of
            None \<Rightarrow> Running s
          | Some e \<Rightarrow>
              if slt_token s = [] then Exited (''error getting jwt token: '' @ err_text e)
              else Running (record_slt (add_err MetricLabelToken 1) s)) (\<lambda>s.
          Running (s\<lparr>slt_token := localToken\<rparr>)))"

text \<open>The argument of a check is an interface value.\<close>

datatype check_config = E2eConfig TestConfig | OneConfig GetClusterConfig | AllConfig GetAllClusterConfig | NilConfig

text \<open>A check that waits for a token has the value \<open>Running None\<close>.\<close>

definition with_token :: "(string \<Rightarrow> 'w slt \<Rightarrow> 'w slt) \<Rightarrow> 'w slt \<Rightarrow> 'w slt option proc" where
  "with_token f s = Running (map_option (\<lambda>jwtToken. f jwtToken s) (readToken s))"

definition e2e_round :: "('cfg, 'cs, 'spt, 'w) slt_libs \<Rightarrow> TestConfig \<Rightarrow> string \<Rightarrow> 'w slt \<Rightarrow> 'w slt" where
  "e2e_round l conf jwtToken s =
     (let start = sl_Now l (slt_world s)
      in case update_Run l conf jwtToken s of
           ((_, Some err), s) \<Rightarrow> record_slt (set_status MetricLabel 0 \<circ> add_err MetricLabel 1) s
         | ((nrOfTries, None), s) \<Rightarrow>
             (let timeTook = sl_Now l (slt_world s) - start
              in record_slt (set_status MetricLabel 1 \<circ> observe_test MetricLabel (timeTook - nrOfTries * 11 * 10 ^ 9)) s))"

definition RunE2eTest :: "('cfg, 'cs, 'spt, 'w) slt_libs \<Rightarrow> check_config \<Rightarrow> 'w slt \<Rightarrow> 'w slt option proc" where
  "RunE2eTest l config s =
     (case config of
        E2eConfig conf \<Rightarrow> with_token (e2e_round l conf) s
      | _ \<Rightarrow> Exited ''failed to type assert config for the e2e test'')"

definition timed_round ::
  "('cfg, 'cs, 'spt, 'w) slt_libs \<Rightarrow> string \<Rightarrow> ('w slt \<Rightarrow> goerr option \<times> 'w slt) \<Rightarrow> 'w slt \<Rightarrow> 'w slt" where
  "timed_round l label run s =
     (let start = sl_Now l (slt_world s);
          (err, s) = run s;
          timeTook = sl_Now l (slt_world s) - start
      in case err of
           Some e \<Rightarrow> record_slt (add_err label 1 \<circ> set_status label 0) s
         | None \<Rightarrow> record_slt (observe_test label timeTook \<circ> set_status label 1) s)"

definition RunClusterRequest :: "('cfg, 'cs, 'spt, 'w) slt_libs \<Rightarrow> check_config \<Rightarrow> 'w slt \<Rightarrow> 'w slt option proc" where
  "RunClusterRequest l config s =
     (case config of
        OneConfig conf \<Rightarrow> with_token (\<lambda>jwtToken. timed_round l MetricLabelGetCluster (RunGetCluster l conf jwtToken)) s
      | _ \<Rightarrow> Exited ''failed to type assert config for the get a cluster test'')"

definition RunAllClustersRequests :: "('cfg, 'cs, 'spt, 'w) slt_libs \<Rightarrow> check_config \<Rightarrow> 'w slt \<Rightarrow> 'w slt option proc" where
  "RunAllClustersRequests l config s =
     (case config of
        AllConfig conf \<Rightarrow> with_token (\<lambda>jwtToken. timed_round l MetricLabelGetAllClusters (RunGetAllClusters l conf jwtToken)) s
      | _ \<Rightarrow> Exited ''failed to type assert config for the get multiple clusters test'')"

section \<open>The service (service.go)\<close>

text \<open>The four functions that run in loops, each with its argument, pause and delay.\<close>

datatype slt_check = Refresh | E2e | GetOne | GetAll

record slt_loop =
  loop_Check :: slt_check
  loop_Config :: check_config
  loop_Interval :: int
  loop_Offset :: int

definition start_loop :: "(string \<Rightarrow> goerr + int) \<Rightarrow> slt_check \<Rightarrow> string \<Rightarrow> check_config \<Rightarrow> string \<Rightarrow> string \<Rightarrow> slt_loop proc" where
  "start_loop parse c f config timeInterval offSetStart =
     proc_bind (RunFuncInLoop parse f timeInterval offSetStart) (\<lambda>(interval, offSet).
       Running \<lparr>loop_Check = c, loop_Config = config, loop_Interval = interval, loop_Offset = offSet\<rparr>)"

text \<open>\<^verbatim>\<open>init\<close> and \<^verbatim>\<open>main\<close> up to the loops; the server for the metrics is the framework's.\<close>

definition slt_main :: "('cfg, 'cs, 'spt, 'w) slt_libs \<Rightarrow> (string \<Rightarrow> string option) \<Rightarrow> slt_loop list proc" where
  "slt_main l lookup =
     proc_bind (GetEnv lookup ''TIME_BETWEEN_E2E'' ''2m'') (\<lambda>timeBetweenE2e.
     proc_bind (GetEnv lookup ''TIME_BETWEEN_GET_CLUSTER'' ''1m'') (\<lambda>timeBetweenGetCluster.
     proc_bind (GetEnv lookup ''TIME_BETWEEN_GET_ALL_CLUSTERS'' ''1m'') (\<lambda>timeBetweenGetAllClusters.
     proc_bind (GetEnv lookup ''TOKEN_REFRESH_TIME'' ''29m'') (\<lambda>tokenRefreshTime.
     proc_bind (start_loop (sl_ParseDuration l) Refresh ''checks.RefreshToken'' NilConfig tokenRefreshTime []) (\<lambda>l1.
     proc_bind (GetConfigFromEnv lookup) (\<lambda>c2.
     proc_bind (start_loop (sl_ParseDuration l) E2e ''checks.RunE2eTest'' (E2eConfig c2) timeBetweenE2e ''5s'') (\<lambda>l2.
     proc_bind (GetClusterConfigFromEnv lookup) (\<lambda>c3.
     proc_bind (start_loop (sl_ParseDuration l) GetOne ''checks.RunClusterRequest'' (OneConfig c3) timeBetweenGetCluster ''15s'') (\<lambda>l3.
     proc_bind (GetAllClusterConfigFromEnv lookup) (\<lambda>c4.
     proc_bind (start_loop (sl_ParseDuration l) GetAll ''checks.RunAllClustersRequests'' (AllConfig c4) timeBetweenGetAllClusters ''20s'') (\<lambda>l4.
     Running [l1, l2, l3, l4])))))))))))"

definition run_check ::
  "('cfg, 'cs, 'spt, 'w) slt_libs \<Rightarrow> (string \<Rightarrow> string option) \<Rightarrow> slt_loop \<Rightarrow> 'w slt \<Rightarrow> 'w slt option proc" where
  "run_check l lookup lp s =
     (case loop_Check lp of
        Refresh \<Rightarrow> proc_bind (RefreshToken l lookup s) (\<lambda>s. Running (Some s))
      | E2e \<Rightarrow> RunE2eTest l (loop_Config lp) s
      | GetOne \<Rightarrow> RunClusterRequest l (loop_Config lp) s
      | GetAll \<Rightarrow> RunAllClustersRequests l (loop_Config lp) s)"

text \<open>
  One round of one of the loops; the checks use the token that they read at their beginning and their
  own series, so that their order within a round of another does not matter.
\<close>

inductive slt_step :: "('cfg, 'cs, 'spt, 'w) slt_libs \<Rightarrow> (string \<Rightarrow> string option) \<Rightarrow> slt_loop list \<Rightarrow> 'w slt \<Rightarrow> slt_check \<Rightarrow> 'w slt \<Rightarrow> bool"
  for l lookup loops where
  round: "lp \<in> set loops \<Longrightarrow> run_check l lookup lp s = Running (Some s') \<Longrightarrow> slt_step l lookup loops s (loop_Check lp) s'"

inductive_cases slt_stepE [elim]: "slt_step l lookup loops s c s'"

section \<open>What a confirmed update means\<close>

lemma next_tag_Inr:
  assumes "next_tag tags = Inr tags'"
  shows "\<exists>v. tags' = tags(tagSLT \<mapsto> v) \<and> v \<in> {''Tick'', ''Tack''} \<and> tags tagSLT \<noteq> Some v"
  using assms by (auto simp: next_tag_def split: option.splits if_splits)

lemma reqGet_Inr:
  assumes "reqGet l endpoint bearer w = ((Inr text, code), w')"
  shows "code = 200 \<and> sl_Do l endpoint bearer w = (Inr (200, Inr text), w')"
  using assms by (auto simp: reqGet_def split: option.splits prod.splits sum.splits if_splits)

lemma slt_GetCluster_Inr:
  assumes "slt_GetCluster l url n jwtToken s = (Inr spec, s')"
  shows "\<exists>text. sl_Do l (url @ ''/api/v2/clusters/'' @ n) (''Bearer '' @ jwtToken) (slt_world s) = (Inr (200, Inr text), slt_world s') \<and>
    sl_UnmarshalSpec l text = Inr spec"
  using assms
  by (auto simp: slt_GetCluster_def timed_get_def on_world_def record_slt_def Let_def split: prod.splits sum.splits dest!: reqGet_Inr)

lemma checkAPIforUpdate_None:
  assumes "checkAPIforUpdate l url n v jwtToken s = (None, s')" and "v \<noteq> []"
  shows "\<exists>spec. slt_GetCluster l url n jwtToken s = (Inr spec, s') \<and> cs_Tags spec tagSLT = Some v"
  using assms by (auto simp: checkAPIforUpdate_def read_str_def Let_def split: prod.splits sum.splits if_splits option.splits)

lemma confirm_loop_None:
  assumes "confirm_loop l url n v jwtToken k s = ((tries, None), s')"
  shows "k \<le> tries \<and> tries \<le> maxNrOfTries \<and> (\<exists>s1. checkAPIforUpdate l url n v jwtToken s1 = (None, s'))"
  using assms
proof (induction l url n v jwtToken k s rule: confirm_loop.induct)
  case (1 l url n v jwtToken k s)
  show ?case
  proof (cases "k \<le> maxNrOfTries")
    case True
    define s0 where "s0 = s\<lparr>slt_world := sl_Sleep l (30 * 10 ^ 9) (slt_world s)\<rparr>"
    obtain e s1 where c: "checkAPIforUpdate l url n v jwtToken s0 = (e, s1)" by fastforce
    show ?thesis
    proof (cases e)
      case None
      then show ?thesis using "1.prems" True c by (auto simp: confirm_loop.simps [of l url n v jwtToken k] s0_def)
    next
      case (Some err)
      then have "confirm_loop l url n v jwtToken (k + 1) s1 = ((tries, None), s')"
        using "1.prems" True c by (simp add: confirm_loop.simps [of l url n v jwtToken k] s0_def)
      from "1.IH" [OF True s0_def c [symmetric] Some this] show ?thesis by simp
    qed
  next
    case False
    then show ?thesis using "1.prems" by (simp add: confirm_loop.simps [of l url n v jwtToken k])
  qed
qed

lemma updateCrd_Inr:
  assumes "updateCrd l namespace w = (Inr (n, v), w')"
  shows "\<exists>clientset result c items tags data w1 w2 w3. sl_GetRaw l clientset (registry_request namespace []) w1 = ((result, None), w2) \<and>
    sl_UnmarshalClusters l result = Inr (c # items) \<and> next_tag (cs_Tags (cl_Spec c)) = Inr tags \<and>
    sl_MarshalCluster l (prepared tags c) = Inr data \<and>
    sl_Patch l clientset (registry_request namespace n) data w3 = (None, w') \<and> n = cluster_name c \<and> tags tagSLT = Some v"
proof -
  obtain clientset result items w1 w2 where
    get: "sl_GetRaw l clientset (registry_request namespace []) w1 = ((result, None), w2)"
    and items: "sl_UnmarshalClusters l result = Inr items" and p: "patch_first l namespace clientset items w2 = (Inr (n, v), w')"
    using assms by (auto simp: updateCrd_def split: prod.splits sum.splits option.splits)
  obtain c cs tags data where c: "items = c # cs" "next_tag (cs_Tags (cl_Spec c)) = Inr tags" "sl_MarshalCluster l (prepared tags c) = Inr data"
    and patch: "sl_Patch l clientset (registry_request namespace (cluster_name (prepared tags c))) data w2 = (None, w')"
    and nv: "n = cluster_name (prepared tags c)" "v = read_str tags tagSLT"
    using p by (auto simp: patch_first_def Let_def split: list.splits sum.splits prod.splits option.splits)
  have "cluster_name (prepared tags c) = cluster_name c" by (simp add: prepared_def)
  moreover have "tags tagSLT = Some v" using next_tag_Inr [OF c(2)] nv(2) by (auto simp: read_str_def)
  ultimately show ?thesis using get items c patch nv by metis
qed

text \<open>
  The registry behind the URL: an answer of 200 to a request for a cluster is the answer of the handler of
  the second version, for the table at that moment, and its text is decoded to the cluster in it.
\<close>

definition registry_behind where
  "registry_behind l url db st_of \<longleftrightarrow>
     (\<forall>n bearer w text w'. sl_Do l (url @ ''/api/v2/clusters/'' @ n) bearer w = (Inr (200, Inr text), w') \<longrightarrow>
        (\<exists>c r st'. ctx_Param c ''name'' = n \<and> v2_GetCluster db c (st_of w) = Some (Ret r, st') \<and>
           (\<exists>spec. r = JSON 200 (ClusterBody spec) \<and> sl_UnmarshalSpec l text = Inr spec)))"


text \<open>A registry that already has the new value, and a Kubernetes that has the cluster without the tag.\<close>

definition ticked :: Cluster where
  "ticked = set_spec (cs_Tags_update (\<lambda>_. [tagSLT \<mapsto> ''Tick''])) (example_cluster ''c1'' ''east'' ''Active'' ''2021'')"

definition ticked_table :: "ClusterDb list" where
  "ticked_table = [row_of ticked (1651708800, 0)]"

definition example_slt :: "(unit, unit, unit, unit) slt_libs" where
  "example_slt =
     \<lparr>sl_GetConfig = (\<lambda>w. (Inr (), w)), sl_NewForConfig = (\<lambda>_. Inr ()), sl_GetRaw = (\<lambda>_ _ w. (([], None), w)),
      sl_Patch = (\<lambda>_ _ _ w. (None, w)),
      sl_UnmarshalClusters = (\<lambda>_. Inr [example_cluster ''c1'' ''east'' ''Active'' ''2021'']), sl_MarshalCluster = (\<lambda>_. Inr []),
      sl_NewRequest = (\<lambda>_. None),
      sl_Do = (\<lambda>e b w. (Inr (if e = ''u/api/v2/clusters/c1'' then 200 else 404, Inr []), w)),
      sl_UnmarshalSpec = (\<lambda>_. Inr ((cl_Spec ticked)\<lparr>cs_ServiceMetadata := Map.empty\<rparr>)),
      sl_UnmarshalList = (\<lambda>_. Inl (Error ''list'')), sl_ServicePrincipalToken = (\<lambda>_ _ _. Inl (Error ''refused'')),
      sl_RefreshExchange = (\<lambda>_ t w. (Inr t, w)), sl_AccessToken = (\<lambda>_. ''t''), sl_Sleep = (\<lambda>_ w. w), sl_Now = (\<lambda>_. 0),
      sl_ParseDuration = (\<lambda>_. Inr 1)\<rparr>"

lemma ticked_simps [simp]:
  "cluster_name ticked = ''c1''" "cs_Tags (cl_Spec ticked) = [tagSLT \<mapsto> ''Tick'']" "cs_LastUpdated (cl_Spec ticked) = ''2022-05-05T00:00:00Z''"
  by (simp_all add: ticked_def)

lemma ticked_table:
  "table_ok (mem_rows ticked_table)" "clusters_in (mem_rows ticked_table) ''c1'' = Some ticked"
proof -
  have "row_ok (row_of ticked (1651708800, 0))" by (rule row_ok_row_of) (simp add: example_time)
  from table_ok_update [OF table_ok_Nil this] show "table_ok (mem_rows ticked_table)" by (simp only: ticked_table_def mem_rows_Cons)
  show "clusters_in (mem_rows ticked_table) ''c1'' = Some ticked" by (simp add: ticked_table_def clusters_in_def mem_rows_def)
qed

lemma example_registry: "registry_behind example_slt ''u'' mem_Db (\<lambda>_. mem_state ticked_table)"
  unfolding registry_behind_def
proof (intro allI impI)
  fix n bearer w t w'
  assume "sl_Do example_slt (''u'' @ ''/api/v2/clusters/'' @ n) bearer w = (Inr (200, Inr t), w')"
  then have n: "n = ''c1''" by (simp add: example_slt_def split: if_splits)
  have ok: "table_ok (mem_rows (world (mem_state ticked_table)))" using ticked_table(1) by simp
  have no_error: "GetCluster mem_db n s1 \<noteq> ((None, Some err), s2)" for n err s1 s2 using mem_get_ok [of n s1] by auto
  from GetCluster_finds [OF mem.dynamodb_axioms ok, of v2_GetCluster "\<lambda>_. (''UTC'', 0)" "named_ctx n"] no_error ticked_table(2)
  obtain st' where "v2_GetCluster mem_Db (named_ctx n) (mem_state ticked_table) =
      Some (Ret (JSON 200 (ClusterBody ((cl_Spec ticked)\<lparr>cs_ServiceMetadata := Map.empty\<rparr>))), st')"
    by (auto simp: mem_Db_def find_cluster_def named_ctx_def n)
  then show "\<exists>c r st'. ctx_Param c ''name'' = n \<and> v2_GetCluster mem_Db c (mem_state ticked_table) = Some (Ret r, st') \<and>
      (\<exists>spec. r = JSON 200 (ClusterBody spec) \<and> sl_UnmarshalSpec example_slt t = Inr spec)"
    by (intro exI [of _ "named_ctx n"] exI) (auto simp: named_ctx_def example_slt_def)
qed

lemma example_Run:
  "update_Run example_slt \<lparr>tc_url = ''u'', tc_namespace = ''ns''\<rparr> ''t'' s = ((1, None), s') \<longleftrightarrow>
     s' = s\<lparr>slt_met := observe_egress ''/api/v2/clusters/[cluster]'' ''GET'' (int_str 200) 0 (slt_met s)\<rparr>"
  by (auto simp: update_Run_def on_world_def updateCrd_def patch_first_def prepared_def next_tag_def read_str_def Let_def
      confirm_loop.simps [of _ _ _ _ _ 1] maxNrOfTries_def checkAPIforUpdate_def slt_GetCluster_def timed_get_def reqGet_def
      record_slt_def example_slt_def example_cluster_def zero_Cluster_def zero_ClusterSpec_def)


section \<open>The token\<close>

lemma RefreshToken_ok:
  assumes "GetAuthDetails lookup = Running (resourceID, tenantID, clientID, clientSecret)"
    and "requestToken l resourceID tenantID clientID clientSecret (slt_world s) = ((t, None), w)"
  shows "RefreshToken l lookup s = Running (s\<lparr>slt_world := w, slt_token := t\<rparr>)"
  using assms by (simp add: RefreshToken_def on_world_def proc_bind_def Let_def)

lemma RefreshToken_failed:
  assumes "GetAuthDetails lookup = Running (resourceID, tenantID, clientID, clientSecret)"
    and "requestToken l resourceID tenantID clientID clientSecret (slt_world s) = ((t, Some err), w)"
  shows "RefreshToken l lookup s =
    (if slt_token s = [] then Exited (''error getting jwt token: '' @ err_text err)
     else Running (s\<lparr>slt_met := add_err MetricLabelToken 1 (slt_met s), slt_world := w, slt_token := []\<rparr>))"
proof -
  have "t = []" using assms(2) by (auto simp: requestToken_def split: sum.splits prod.splits)
  then show ?thesis using assms by (simp add: RefreshToken_def on_world_def record_slt_def proc_bind_def Let_def)
qed

lemma no_token_waits:
  "slt_token s = [] \<Longrightarrow> loop_Check lp \<noteq> Refresh \<Longrightarrow> run_check l lookup lp s \<noteq> Running (Some s')"
  by (cases "loop_Check lp") (auto simp: run_check_def RunE2eTest_def RunClusterRequest_def RunAllClustersRequests_def
      with_token_def readToken_def split: check_config.splits)

text \<open>
  A refresh that fails takes away the token that the service has: from then on no check makes a
  step until a refresh succeeds, and if the next one fails too the service ends, although the old
  token might still be valid.
\<close>

theorem failed_refresh_loses_token:
  assumes "slt_token s \<noteq> []" and "GetAuthDetails lookup = Running (resourceID, tenantID, clientID, clientSecret)"
    and "requestToken l resourceID tenantID clientID clientSecret (slt_world s) = ((t, Some err), w)"
  shows "\<exists>s'. RefreshToken l lookup s = Running s' \<and> slt_token s' = [] \<and>
    (\<forall>c s''. slt_step l lookup loops s' c s'' \<longrightarrow> c = Refresh) \<and>
    (\<forall>t err w. requestToken l resourceID tenantID clientID clientSecret (slt_world s') = ((t, Some err), w) \<longrightarrow>
       RefreshToken l lookup s' = Exited (''error getting jwt token: '' @ err_text err))"
proof -
  let ?s = "s\<lparr>slt_met := add_err MetricLabelToken 1 (slt_met s), slt_world := w, slt_token := []\<rparr>"
  have "RefreshToken l lookup s = Running ?s" using RefreshToken_failed [OF assms(2,3)] assms(1) by simp
  moreover have "c = Refresh" if "slt_step l lookup loops ?s c s''" for c s''
    using that
  proof cases
    case (round lp)
    have "slt_token ?s = []" by simp
    from no_token_waits [OF this, of lp l lookup s''] round show ?thesis by blast
  qed
  moreover have "RefreshToken l lookup ?s = Exited (''error getting jwt token: '' @ err_text e)"
    if "requestToken l resourceID tenantID clientID clientSecret (slt_world ?s) = ((t', Some e), w')" for t' e w'
    using RefreshToken_failed [OF assms(2) that] by simp
  ultimately show ?thesis by (intro exI [of _ ?s]) auto
qed

theorem failed_refresh_loses_token_witness:
  "\<exists>s'. RefreshToken example_slt (\<lambda>_. Some ''x'') \<lparr>slt_token = ''t'', slt_met = no_series, slt_world = ()\<rparr> = Running s' \<and> slt_token s' = [] \<and>
     RefreshToken example_slt (\<lambda>_. Some ''x'') s' = Exited (''error getting jwt token: '' @ err_text (Error ''refused''))"
proof -
  have a: "GetAuthDetails (\<lambda>_. Some ''x'') = Running (''x'', ''x'', ''x'', ''x'')" by (simp add: GetAuthDetails_def GetEnv_def proc_bind_def)
  have r: "requestToken example_slt ''x'' ''x'' ''x'' ''x'' w = (([], Some (Error ''refused'')), w)" for w
    by (simp add: requestToken_def example_slt_def)
  have "slt_token \<lparr>slt_token = ''t'', slt_met = no_series, slt_world = ()\<rparr> \<noteq> []" by simp
  from failed_refresh_loses_token [OF this a r] r show ?thesis by blast
qed

section \<open>What is reported\<close>

text \<open>A round of a check reports 1 exactly when it succeeded, counts an error otherwise, and leaves the series of the others alone.\<close>

lemma metric_simps [simp]:
  "TestStatus (set_status l v m) = (TestStatus m)(l \<mapsto> v)" "TestStatus (add_err l n m) = TestStatus m"
  "TestStatus (observe_test l t m) = TestStatus m" "TestStatus (observe_egress r me c t m) = TestStatus m"
  "ErrCnt (set_status l v m) = ErrCnt m" "ErrCnt (observe_test l t m) = ErrCnt m" "ErrCnt (observe_egress r me c t m) = ErrCnt m"
  "ErrCnt (add_err l n m) = (ErrCnt m)(l \<mapsto> (case ErrCnt m l of None \<Rightarrow> n | Some k \<Rightarrow> k + n))"
  "TestDuration (set_status l v m) = TestDuration m" "TestDuration (add_err l n m) = TestDuration m"
  "TestDuration (observe_egress r me c t m) = TestDuration m"
  "TestDuration (observe_test l t m) = (TestDuration m)(l := TestDuration m l @ [t])"
  by (simp_all add: set_status_def add_err_def observe_test_def observe_egress_def)

lemma record_slt_simps [simp]:
  "slt_met (record_slt f s) = f (slt_met s)" "slt_world (record_slt f s) = slt_world s" "slt_token (record_slt f s) = slt_token s"
  by (simp_all add: record_slt_def)

text \<open>The requests only add to the durations of requests.\<close>

definition same_tests :: "'w slt \<Rightarrow> 'w slt \<Rightarrow> bool" where
  "same_tests s s' \<longleftrightarrow> slt_token s' = slt_token s \<and> TestStatus (slt_met s') = TestStatus (slt_met s) \<and>
     ErrCnt (slt_met s') = ErrCnt (slt_met s) \<and> TestDuration (slt_met s') = TestDuration (slt_met s)"

lemma same_tests_on_world: "on_world f s = (r, s') \<Longrightarrow> same_tests s s'"
  by (auto simp: on_world_def same_tests_def split: prod.splits)

lemma same_tests_timed: "timed_get l e route b s = (r, s') \<Longrightarrow> same_tests s s'"
  by (auto simp: timed_get_def Let_def same_tests_def split: prod.splits dest: same_tests_on_world)

lemma same_tests_get:
  "slt_GetCluster l url n t s = (r, s') \<Longrightarrow> same_tests s s'" "slt_GetClusters l url p o' t s = (r', s') \<Longrightarrow> same_tests s s'"
  by (auto simp: slt_GetCluster_def slt_GetClusters_def split: prod.splits sum.splits dest: same_tests_timed)

lemma same_tests_confirm:
  "confirm_loop l url n v t k s = (r, s') \<Longrightarrow> same_tests s s'"
proof (induction l url n v t k s rule: confirm_loop.induct)
  case (1 l url n v t k s)
  show ?case
  proof (cases "k \<le> maxNrOfTries")
    case True
    define s0 where "s0 = s\<lparr>slt_world := sl_Sleep l (30 * 10 ^ 9) (slt_world s)\<rparr>"
    obtain e s1 where c: "checkAPIforUpdate l url n v t s0 = (e, s1)" by fastforce
    have "same_tests s0 s1"
      using c by (auto simp: checkAPIforUpdate_def Let_def split: prod.splits sum.splits if_splits dest: same_tests_get)
    then have s1: "same_tests s s1" by (simp add: same_tests_def s0_def)
    show ?thesis
    proof (cases e)
      case None
      then show ?thesis using "1.prems" True c s1 by (auto simp: confirm_loop.simps [of l url n v t k] s0_def)
    next
      case (Some err)
      then have "confirm_loop l url n v t (k + 1) s1 = (r, s')"
        using "1.prems" True c by (simp add: confirm_loop.simps [of l url n v t k] s0_def)
      from "1.IH" [OF True s0_def c [symmetric] Some this] s1 show ?thesis by (simp add: same_tests_def)
    qed
  next
    case False
    then show ?thesis using "1.prems" by (simp add: confirm_loop.simps [of l url n v t k] same_tests_def)
  qed
qed

lemma same_tests_Run: "update_Run l conf t s = (r, s') \<Longrightarrow> same_tests s s'"
  by (auto simp: update_Run_def same_tests_def split: prod.splits sum.splits dest!: same_tests_on_world same_tests_confirm)

text \<open>What a clock promises: no call takes it back, and a pause takes at least its time.\<close>

definition clock_law :: "('cfg, 'cs, 'spt, 'w) slt_libs \<Rightarrow> bool" where
  "clock_law l \<longleftrightarrow>
     (\<forall>w. sl_Now l w \<le> sl_Now l (snd (sl_GetConfig l w))) \<and>
     (\<forall>cs rq w. sl_Now l w \<le> sl_Now l (snd (sl_GetRaw l cs rq w))) \<and>
     (\<forall>cs rq b w. sl_Now l w \<le> sl_Now l (snd (sl_Patch l cs rq b w))) \<and>
     (\<forall>e b w. sl_Now l w \<le> sl_Now l (snd (sl_Do l e b w))) \<and>
     (\<forall>t w. sl_Now l w + t \<le> sl_Now l (sl_Sleep l t w))"

lemma clock_updateCrd:
  assumes "clock_law l" and "updateCrd l ns w = (r, w')"
  shows "sl_Now l w \<le> sl_Now l w'"
proof -
  note laws = assms(1) [unfolded clock_law_def, THEN conjunct1] assms(1) [unfolded clock_law_def, THEN conjunct2, THEN conjunct1]
    assms(1) [unfolded clock_law_def, THEN conjunct2, THEN conjunct2, THEN conjunct1]
  obtain x w1 where g: "sl_GetConfig l w = (x, w1)" by fastforce
  have t1: "sl_Now l w \<le> sl_Now l w1" using laws(1) g by (metis snd_conv)
  have patch: "sl_Now l w2 \<le> sl_Now l w3" if "patch_first l ns cs items w2 = (r, w3)" for cs items w2 r w3
    using that laws(3)
    by (auto simp: patch_first_def Let_def split: list.splits sum.splits prod.splits option.splits) (metis snd_conv)+
  show ?thesis
  proof (cases x)
    case (Inl err)
    then show ?thesis using assms(2) g t1 by (auto simp: updateCrd_def)
  next
    case (Inr conf)
    show ?thesis
    proof (cases "sl_NewForConfig l conf")
      case (Inl err)
      then show ?thesis using assms(2) g Inr t1 by (auto simp: updateCrd_def)
    next
      case (Inr cs)
      obtain y w2 where raw: "sl_GetRaw l cs (registry_request ns []) w1 = (y, w2)" by fastforce
      have "sl_Now l w1 \<le> sl_Now l w2" using laws(2) raw by (metis snd_conv)
      moreover have "sl_Now l w2 \<le> sl_Now l w'"
        using assms(2) g \<open>x = Inr conf\<close> Inr raw patch by (auto simp: updateCrd_def split: prod.splits option.splits sum.splits)
      ultimately show ?thesis using t1 by simp
    qed
  qed
qed

lemma clock_check:
  assumes "clock_law l" and "checkAPIforUpdate l url n v t s = (r, s')"
  shows "sl_Now l (slt_world s) \<le> sl_Now l (slt_world s')"
proof -
  have do: "sl_Now l w \<le> sl_Now l w'" if "reqGet l e b w = (x, w')" for e b w x w'
    using that assms(1) unfolding clock_law_def
    by (auto simp: reqGet_def split: option.splits prod.splits sum.splits if_splits) (metis snd_conv)+
  have "sl_Now l (slt_world s) \<le> sl_Now l (slt_world s')" if "timed_get l e route b s = (x, s')" for e route b x s'
    using that do by (auto simp: timed_get_def on_world_def Let_def split: prod.splits)
  then have "sl_Now l (slt_world s) \<le> sl_Now l (slt_world s')" if "slt_GetCluster l url n t s = (x, s')" for x s'
    using that by (auto simp: slt_GetCluster_def split: prod.splits sum.splits)
  then show ?thesis using assms(2) by (auto simp: checkAPIforUpdate_def Let_def split: prod.splits sum.splits if_splits)
qed

lemma clock_confirm:
  assumes "clock_law l" and "confirm_loop l url n v t k s = ((tries, None), s')"
  shows "sl_Now l (slt_world s) + (tries - k + 1) * (30 * 10 ^ 9) \<le> sl_Now l (slt_world s')"
  using assms
proof (induction l url n v t k s rule: confirm_loop.induct)
  case (1 l url n v t k s)
  show ?case
  proof (cases "k \<le> maxNrOfTries")
    case True
    define s0 where "s0 = s\<lparr>slt_world := sl_Sleep l (30 * 10 ^ 9) (slt_world s)\<rparr>"
    obtain e s1 where c: "checkAPIforUpdate l url n v t s0 = (e, s1)" by fastforce
    have "sl_Now l (slt_world s) + 30 * 10 ^ 9 \<le> sl_Now l (slt_world s0)"
      using "1.prems"(1) by (simp add: clock_law_def s0_def)
    then have step: "sl_Now l (slt_world s) + 30 * 10 ^ 9 \<le> sl_Now l (slt_world s1)" using clock_check [OF "1.prems"(1) c] by simp
    show ?thesis
    proof (cases e)
      case None
      then have "tries = k" "s' = s1" using "1.prems"(2) True c by (simp_all add: confirm_loop.simps [of l url n v t k] s0_def)
      then show ?thesis using step by simp
    next
      case (Some err)
      then have "confirm_loop l url n v t (k + 1) s1 = ((tries, None), s')"
        using "1.prems"(2) True c by (simp add: confirm_loop.simps [of l url n v t k] s0_def)
      from "1.IH" [OF True s0_def c [symmetric] Some "1.prems"(1) this] step show ?thesis by (simp add: algebra_simps)
    qed
  next
    case False
    then show ?thesis using "1.prems" by (simp add: confirm_loop.simps [of l url n v t k])
  qed
qed

text \<open>
  What the end-to-end check reports: 1 and a duration exactly when the update was confirmed, 0 and one more error
  otherwise; nothing else of the tests changes.  The duration, from which the pauses are meant to be
  excluded, still has at least nineteen seconds for every try, since eleven seconds are subtracted for
  a pause of thirty.
\<close>

theorem e2e_reported:
  assumes "update_Run l conf t s = ((tries, e), s1)"
  shows "\<exists>d. slt_token (e2e_round l conf t s) = slt_token s \<and>
    TestStatus (slt_met (e2e_round l conf t s)) = (TestStatus (slt_met s))(MetricLabel \<mapsto> (if e = None then 1 else 0)) \<and>
    ErrCnt (slt_met (e2e_round l conf t s)) =
      (if e = None then ErrCnt (slt_met s) else ErrCnt (add_err MetricLabel 1 (slt_met s))) \<and>
    TestDuration (slt_met (e2e_round l conf t s)) =
      (if e = None then TestDuration (observe_test MetricLabel d (slt_met s)) else TestDuration (slt_met s)) \<and>
    (clock_law l \<and> e = None \<longrightarrow> 19 * 10 ^ 9 * tries \<le> d)"
proof -
  note same = same_tests_Run [OF assms, unfolded same_tests_def]
  let ?d = "sl_Now l (slt_world s1) - sl_Now l (slt_world s) - tries * 11 * 10 ^ 9"
  have "19 * 10 ^ 9 * tries \<le> ?d" if c: "clock_law l" and e: "e = None"
  proof -
    obtain n v w1 where crd: "updateCrd l (tc_namespace conf) (slt_world s) = (Inr (n, v), w1)"
      and loop: "confirm_loop l (tc_url conf) n v t 1 (s\<lparr>slt_world := w1\<rparr>) = ((tries, None), s1)"
      using assms e by (auto simp: update_Run_def on_world_def split: prod.splits sum.splits)
    from clock_updateCrd [OF c crd] clock_confirm [OF c loop] show ?thesis by simp
  qed
  then show ?thesis
    using same assms by (intro exI [of _ ?d]) (cases e, simp_all add: e2e_round_def Let_def)
qed

end
