(* ===== verification/Test_Tools.thy ===== *)
theory Test_Tools
  imports Complex_Main Auth App_Config Go_Time Sha256 "HOL-Library.Multiset"
begin

text \<open>
  The tools under test: the summary of a benchmark (test/performance) and the tokens with which the tests
  authenticate (test/jwt).  The arithmetic of floating-point numbers, the reader of tables and the
  cryptographic libraries are arguments.
\<close>

section \<open>Statistics (stats.go)\<close>

text \<open>\<^verbatim>\<open>float64\<close> with the operations that the program uses; \<open>fl_trunc\<close> is the conversion to an integer.\<close>

record 'f float_ops =
  fl_add :: "'f \<Rightarrow> 'f \<Rightarrow> 'f"
  fl_mul :: "'f \<Rightarrow> 'f \<Rightarrow> 'f"
  fl_div :: "'f \<Rightarrow> 'f \<Rightarrow> 'f"
  fl_of_int :: "int \<Rightarrow> 'f"
  fl_trunc :: "'f \<Rightarrow> int"
  fl_eq :: "'f \<Rightarrow> 'f \<Rightarrow> bool"
  fl_less :: "'f \<Rightarrow> 'f \<Rightarrow> bool"
  fl_le :: "'f \<Rightarrow> 'f \<Rightarrow> bool"
  fl_NaN :: 'f
  fl_sort :: "'f list \<Rightarrow> 'f list"
  fl_RoundToEven :: "'f \<Rightarrow> 'f"

text \<open>\<^verbatim>\<open>xs[i]\<close>, which panics out of range.\<close>

definition slice_index :: "'a list \<Rightarrow> int \<Rightarrow> 'a run" where
  "slice_index xs i = (if 0 \<le> i \<and> i < int (length xs) then Ret (xs ! nat i) else Panic ''index out of range'')"

definition empty_array :: goerr where
  "empty_array = Error ''The array given is empty''"

definition Sum :: "'f float_ops \<Rightarrow> 'f list \<Rightarrow> 'f \<times> goerr option" where
  "Sum fl input = (if input = [] then (fl_NaN fl, Some empty_array) else (fold (\<lambda>n sum. fl_add fl sum n) input (fl_of_int fl 0), None))"

definition Mean :: "'f float_ops \<Rightarrow> 'f list \<Rightarrow> 'f \<times> goerr option" where
  "Mean fl input =
     (if input = [] then (fl_NaN fl, Some empty_array)
      else (fl_div fl (fst (Sum fl input)) (fl_of_int fl (int (length input))), None))"

definition sortedCopy :: "'f float_ops \<Rightarrow> 'f list \<Rightarrow> 'f list" where
  "sortedCopy fl input = fl_sort fl input"

definition Median :: "'f float_ops \<Rightarrow> 'f list \<Rightarrow> ('f \<times> goerr option) run" where
  "Median fl input =
     (let c = sortedCopy fl input; l = int (length c)
      in if l = 0 then Ret (fl_NaN fl, Some empty_array)
         else if l mod 2 = 0 then run_map (\<lambda>mid. (fst (Mean fl mid), None)) (slice_range c (l div 2 - 1) (l div 2 + 1))
         else run_map (\<lambda>x. (x, None)) (slice_index c (l div 2)))"

definition Percentile :: "'f float_ops \<Rightarrow> 'f list \<Rightarrow> 'f \<Rightarrow> ('f \<times> goerr option) run" where
  "Percentile fl input percent =
     (if input = [] then Ret (fl_NaN fl, Some empty_array)
      else if length input = 1 then Ret (hd input, None)
      else if fl_le fl percent (fl_of_int fl 0) \<or> fl_less fl (fl_of_int fl 100) percent
      then Ret (fl_NaN fl, Some (Error ''Invalid given percentage''))
      else let c = sortedCopy fl input;
               index = fl_mul fl (fl_div fl percent (fl_of_int fl 100)) (fl_of_int fl (int (length c)));
               i = fl_trunc fl index
           in if fl_eq fl index (fl_of_int fl i) then run_map (\<lambda>x. (x, None)) (slice_index c (i - 1))
              else if fl_less fl (fl_of_int fl 1) index
              then (case slice_index c (i - 1) of
                      Panic p \<Rightarrow> Panic p
                    | Ret x \<Rightarrow> run_map (\<lambda>y. (fst (Mean fl [x, y]), None)) (slice_index c i))
              else Ret (fl_NaN fl, Some (Error ''Out of scope'')))"

section \<open>The summary of a benchmark (heyparser.go)\<close>

record 'f heyReportRow =
  hr_ResponseTime :: 'f
  hr_DNSPlusDialup :: 'f
  hr_DNS :: 'f
  hr_RequestWrite :: 'f
  hr_ResponseDelay :: 'f
  hr_ResponseRead :: 'f
  hr_StatusCode :: int
  hr_Offset :: 'f

text \<open>The parsers give a value also when they fail.  A program ends with a code and what it has printed as an error.\<close>

record 'f number_libs =
  nl_ParseFloat :: "string \<Rightarrow> 'f \<times> goerr option"
  nl_Atoi :: "string \<Rightarrow> int \<times> goerr option"

datatype 'a ends = Ends int string | Continues 'a

definition newReportRow :: "'f number_libs \<Rightarrow> string list \<Rightarrow> 'f heyReportRow ends run" where
  "newReportRow nl rec =
     (case rec of
        [] \<Rightarrow> Panic ''index out of range''
      | r0 # _ \<Rightarrow>
          (case nl_ParseFloat nl r0 of
             (_, Some err) \<Rightarrow> Ret (Ends 1 (''ERROR parsing file line '' @ err_text err))
           | (responseTime, None) \<Rightarrow>
               if length rec < 8 then Panic ''index out of range''
               else Ret (Continues
                 \<lparr>hr_ResponseTime = responseTime, hr_DNSPlusDialup = fst (nl_ParseFloat nl (rec ! 1)),
                  hr_DNS = fst (nl_ParseFloat nl (rec ! 2)), hr_RequestWrite = fst (nl_ParseFloat nl (rec ! 3)),
                  hr_ResponseDelay = fst (nl_ParseFloat nl (rec ! 4)), hr_ResponseRead = fst (nl_ParseFloat nl (rec ! 5)),
                  hr_StatusCode = fst (nl_Atoi nl (rec ! 6)), hr_Offset = fst (nl_ParseFloat nl (rec ! 7))\<rparr>)))"

text \<open>The counts of the status codes as pairs, one for each code.\<close>

fun count_code :: "int \<Rightarrow> (int \<times> int) list \<Rightarrow> (int \<times> int) list" where
  "count_code k [] = [(k, 1)]"
| "count_code k ((c, n) # xs) = (if c = k then (c, n + 1) # xs else (c, n) # count_code k xs)"

definition checkOKResponse :: "(int \<times> int) list \<Rightarrow> bool" where
  "checkOKResponse respCodes = list_all (\<lambda>code. \<not> (code \<ge> 400 \<and> code < 500)) (map fst respCodes)"

record 'f hey_summary =
  hs_totalRequests :: int
  hs_responseTimes :: "'f list"
  hs_benchmarkTotalTime :: 'f
  hs_statusCodeCount :: "(int \<times> int) list"

definition add_row :: "'f float_ops \<Rightarrow> 'f heyReportRow \<Rightarrow> 'f hey_summary \<Rightarrow> 'f hey_summary" where
  "add_row fl row s = s\<lparr>
     hs_responseTimes := hs_responseTimes s @ [hr_ResponseTime row],
     hs_benchmarkTotalTime :=
       (if fl_less fl (hs_benchmarkTotalTime s) (hr_Offset row) then fl_add fl (hr_Offset row) (hr_ResponseRead row)
        else hs_benchmarkTotalTime s),
     hs_statusCodeCount := count_code (hr_StatusCode row) (hs_statusCodeCount s),
     hs_totalRequests := hs_totalRequests s + 1\<rparr>"

text \<open>The loop over what the reader of tables returns before the end of the file.\<close>

fun read_rows :: "'f float_ops \<Rightarrow> 'f number_libs \<Rightarrow> (goerr + string list) list \<Rightarrow> 'f hey_summary \<Rightarrow> 'f hey_summary ends run" where
  "read_rows fl nl [] s = Ret (Continues s)"
| "read_rows fl nl (Inl err # rs) s = Ret (Ends 1 (''ERROR parsing hey report: '' @ err_text err))"
| "read_rows fl nl (Inr rec # rs) s =
     (case newReportRow nl rec of
        Panic p \<Rightarrow> Panic p
      | Ret (Ends code msg) \<Rightarrow> Ret (Ends code msg)
      | Ret (Continues row) \<Rightarrow> read_rows fl nl rs (add_row fl row s))"

text \<open>What is printed: the numbers of the table, and whether the codes and the percentile are reported as errors.\<close>

record 'f hey_report =
  rep_Requests :: int
  rep_PerSecond :: 'f
  rep_Average :: 'f
  rep_Percentile :: 'f
  rep_BadCodes :: bool
  rep_PercentileError :: "goerr option"
  rep_Exit :: int

definition hey_main :: "'f float_ops \<Rightarrow> 'f number_libs \<Rightarrow> 'f \<Rightarrow> (goerr + string list) list \<Rightarrow> 'f hey_report ends run" where
  "hey_main fl nl p999 rows =
     (case read_rows fl nl (drop 1 rows)
             \<lparr>hs_totalRequests = 0, hs_responseTimes = [], hs_benchmarkTotalTime = fl_of_int fl 0, hs_statusCodeCount = []\<rparr> of
        Panic p \<Rightarrow> Panic p
      | Ret (Ends code msg) \<Rightarrow> Ret (Ends code msg)
      | Ret (Continues s) \<Rightarrow>
          (case Percentile fl (hs_responseTimes s) p999 of
             Panic p \<Rightarrow> Panic p
           | Ret (percentile, perr) \<Rightarrow>
               (let (mean, err) = Mean fl (hs_responseTimes s)
                in Ret (Continues
                     \<lparr>rep_Requests = hs_totalRequests s,
                      rep_PerSecond = fl_RoundToEven fl (fl_div fl (fl_of_int fl (hs_totalRequests s)) (hs_benchmarkTotalTime s)),
                      rep_Average = mean, rep_Percentile = percentile, rep_BadCodes = (\<not> checkOKResponse (hs_statusCodeCount s)),
                      rep_PercentileError = perr, rep_Exit = (if err = None then 0 else 1)\<rparr>))))"

section \<open>Tokens (jwt.go)\<close>

definition dummySigningKeyFile :: string where
  "dummySigningKeyFile = ''../testdata/dummyRsaPrivateKey.pem''"

definition dummySigningKeyType :: string where
  "dummySigningKeyType = ''RSA PRIVATE KEY''"

definition jwt_authScheme :: string where
  "jwt_authScheme = ''Bearer''"

definition dummyOid :: string where
  "dummyOid = ''00000000-0000-0000-0000-000000000001''"

definition expiredDate :: string where
  "expiredDate = ''2021-03-11T00:00:00Z''"

text \<open>The value of a claim is a string or anything else that can be encoded.\<close>

datatype 'v claim_value = StringClaim string | OtherClaim 'v

record 'v Claim =
  Claim_Key :: string
  Claim_Value :: "'v claim_value option"

record 'v dummyToken =
  claims :: "string \<rightharpoonup> 'v claim_value option"
  signingKeyFile :: string
  signingKeyType :: string

datatype 'k rsa_key = RsaPrivate 'k | RsaPublic 'k

record 'k JSONWebKey =
  jwk_Key :: "'k rsa_key"
  jwk_Use :: string
  jwk_Algorithm :: string
  jwk_KeyID :: string

text \<open>The file system and the libraries for keys, signatures and JSON.\<close>

record ('v, 'k, 'j) jwt_libs =
  jl_ReadFile :: "string \<Rightarrow> goerr + string"
  jl_pem_Decode :: "string \<Rightarrow> string option"
  jl_ParsePKCS1PrivateKey :: "string \<Rightarrow> goerr + 'k"
  jl_Thumbprint :: "'k JSONWebKey \<Rightarrow> goerr + string"
  jl_NewSigner :: "string \<Rightarrow> 'k JSONWebKey \<Rightarrow> goerr + (string \<Rightarrow> goerr + 'j)"
  jl_Marshal :: "(string \<rightharpoonup> 'v claim_value option) \<Rightarrow> goerr + string"
  jl_CompactSerialize :: "'j \<Rightarrow> goerr + string"

definition panics_with :: "string \<Rightarrow> goerr + 'a \<Rightarrow> ('a \<Rightarrow> 'b run) \<Rightarrow> 'b run" where
  "panics_with msg r f = (case r of Inl err \<Rightarrow> Panic (msg @ err_text err) | Inr v \<Rightarrow> f v)"

definition GetSigningKey :: "('v, 'k, 'j) jwt_libs \<Rightarrow> string \<Rightarrow> string \<Rightarrow> 'k JSONWebKey run" where
  "GetSigningKey l keyFile rsaKeyType =
     (case jl_ReadFile l keyFile of
        Inl err \<Rightarrow> Panic (''Failed to read file '' @ keyFile)
      | Inr rsaPrivateKey \<Rightarrow>
          (case jl_pem_Decode l rsaPrivateKey of
             None \<Rightarrow> Panic ''Failed to decode pem.''
           | Some block \<Rightarrow>
               panics_with ''Failed to parse the key: '' (jl_ParsePKCS1PrivateKey l block) (\<lambda>rsaKey.
                 let key = \<lparr>jwk_Key = (if rsaKeyType = dummySigningKeyType then RsaPrivate rsaKey else RsaPublic rsaKey),
                            jwk_Use = ''sig'', jwk_Algorithm = ''RS256'', jwk_KeyID = []\<rparr>
                 in panics_with ''Failed to compute thumbprint:'' (jl_Thumbprint l key) (\<lambda>thumbprint.
                      Ret (key\<lparr>jwk_KeyID := hex_string (map byte thumbprint)\<rparr>)))))"

text \<open>The clock is read once for each of the two times.\<close>

definition newDummyToken :: "instant \<Rightarrow> instant \<Rightarrow> AppConfig \<Rightarrow> string \<Rightarrow> string \<Rightarrow> 'v dummyToken" where
  "newDummyToken now1 now2 appConfig keyFile keyType =
     \<lparr>claims = [''exp'' \<mapsto> Some (StringClaim (int_str (fst now1 + 3600))), ''iat'' \<mapsto> Some (StringClaim (int_str (fst now2))),
        ''iss'' \<mapsto> Some (StringClaim (OidcIssuerUrl appConfig)), ''ipd'' \<mapsto> Some (StringClaim (OidcIssuerUrl appConfig)),
        ''aud'' \<mapsto> Some (StringClaim (OidcClientId appConfig)), ''oid'' \<mapsto> Some (StringClaim dummyOid)],
      signingKeyFile = keyFile, signingKeyType = keyType\<rparr>"

definition setExpiration :: "'v dummyToken \<Rightarrow> instant \<Rightarrow> 'v dummyToken" where
  "setExpiration t tm = t\<lparr>claims := (claims t)(''exp'' \<mapsto> Some (StringClaim (int_str (fst tm))))\<rparr>"

definition setClaim :: "'v dummyToken \<Rightarrow> 'v Claim \<Rightarrow> 'v dummyToken" where
  "setClaim t c = t\<lparr>claims := (claims t)(Claim_Key c \<mapsto> Claim_Value c)\<rparr>"

definition sign :: "('v, 'k, 'j) jwt_libs \<Rightarrow> 'v dummyToken \<Rightarrow> string run" where
  "sign l t = run_bind (GetSigningKey l (signingKeyFile t) (signingKeyType t)) (\<lambda>signingKey.
     panics_with [] (jl_NewSigner l ''RS256'' signingKey) (\<lambda>signer.
     panics_with [] (jl_Marshal l (claims t)) (\<lambda>claimString.
     panics_with [] (signer claimString) (\<lambda>signedToken.
     panics_with [] (jl_CompactSerialize l signedToken) Ret))))"

text \<open>\<^verbatim>\<open>time.Parse\<close> gives the zero time, which is in the year 1, when it fails.\<close>

definition default_claim :: "AppConfig \<Rightarrow> 'v Claim \<Rightarrow> 'v Claim" where
  "default_claim appConfig c =
     (if Claim_Key c = [] then \<lparr>Claim_Key = ''aud'', Claim_Value = Some (StringClaim (OidcClientId appConfig))\<rparr> else c)"

definition GenerateSignedToken ::
  "('v, 'k, 'j) jwt_libs \<Rightarrow> instant \<Rightarrow> instant \<Rightarrow> AppConfig \<Rightarrow> bool \<Rightarrow> string \<Rightarrow> string \<Rightarrow> 'v Claim \<Rightarrow> string run" where
  "GenerateSignedToken l now1 now2 appConfig expiredToken keyFile keyType c =
     (let keyFile = (if keyFile = [] then dummySigningKeyFile else keyFile);
          keyType = (if keyType = [] then dummySigningKeyType else keyType);
          c = default_claim appConfig c;
          dt = newDummyToken now1 now2 appConfig keyFile keyType;
          dt = (if expiredToken
                then setExpiration dt (case parse_rfc3339 expiredDate of Some tm \<Rightarrow> tm | None \<Rightarrow> (- 62135596800, 0)) else dt);
          dt = (if Claim_Key c \<noteq> [] then setClaim dt c else dt)
      in sign l dt)"

definition GenerateDefaultSignedToken :: "('v, 'k, 'j) jwt_libs \<Rightarrow> instant \<Rightarrow> instant \<Rightarrow> AppConfig \<Rightarrow> string run" where
  "GenerateDefaultSignedToken l now1 now2 appConfig =
     GenerateSignedToken l now1 now2 appConfig False [] [] \<lparr>Claim_Key = [], Claim_Value = None\<rparr>"

definition BuildAuthHeader ::
  "('v, 'k, 'j) jwt_libs \<Rightarrow> instant \<Rightarrow> instant \<Rightarrow> AppConfig \<Rightarrow> bool \<Rightarrow> string \<Rightarrow> string \<Rightarrow> 'v Claim \<Rightarrow> string run" where
  "BuildAuthHeader l now1 now2 appConfig expiredToken keyFile keyType c =
     run_map (\<lambda>signedToken. jwt_authScheme @ '' '' @ signedToken)
       (GenerateSignedToken l now1 now2 appConfig expiredToken keyFile keyType c)"

section \<open>Properties of the summary\<close>

text \<open>What a conversion to integers promises of numbers that are not negative, and the sort of a slice.\<close>

locale float_arithmetic =
  fixes fl :: "'f float_ops"
  assumes trunc_pos: "fl_less fl (fl_of_int fl 0) x \<Longrightarrow> 0 \<le> fl_trunc fl x"
    and trunc_whole: "fl_less fl (fl_of_int fl 0) x \<Longrightarrow> fl_eq fl x (fl_of_int fl (fl_trunc fl x)) \<Longrightarrow> 1 \<le> fl_trunc fl x"
    and trunc_one: "fl_less fl (fl_of_int fl 1) x \<Longrightarrow> 1 \<le> fl_trunc fl x"
    and trunc_le: "fl_less fl (fl_of_int fl 0) x \<Longrightarrow> fl_le fl x (fl_of_int fl n) \<Longrightarrow> fl_trunc fl x \<le> n"
    and trunc_less: "fl_less fl (fl_of_int fl 0) x \<Longrightarrow> fl_le fl x (fl_of_int fl n) \<Longrightarrow> \<not> fl_eq fl x (fl_of_int fl (fl_trunc fl x)) \<Longrightarrow> fl_trunc fl x < n"
    and sort_mset: "mset (fl_sort fl xs) = mset xs"
begin

lemma sorted_length: "length (sortedCopy fl xs) = length xs"
  unfolding sortedCopy_def by (metis sort_mset size_mset)

lemma sorted_set: "set (sortedCopy fl xs) = set xs"
  unfolding sortedCopy_def by (metis sort_mset set_mset_mset)

lemma sorted_nth: "0 \<le> i \<Longrightarrow> i < int (length xs) \<Longrightarrow> \<exists>x \<in> set xs. slice_index (sortedCopy fl xs) i = Ret x"
proof -
  assume "0 \<le> i" "i < int (length xs)"
  then have "sortedCopy fl xs ! nat i \<in> set xs" "i < int (length (sortedCopy fl xs))"
    using nth_mem [of "nat i" "sortedCopy fl xs"] by (simp_all add: sorted_length sorted_set)
  then show ?thesis using \<open>0 \<le> i\<close> by (simp add: slice_index_def)
qed

lemma Percentile_returns:
  assumes "2 \<le> length xs" and "index = fl_mul fl (fl_div fl p (fl_of_int fl 100)) (fl_of_int fl (int (length xs)))"
    and "fl_less fl (fl_of_int fl 0) index" and "fl_le fl index (fl_of_int fl (int (length xs)))"
    and "\<not> fl_le fl p (fl_of_int fl 0)" and "\<not> fl_less fl (fl_of_int fl 100) p"
  shows "\<exists>x y. {x, y} \<subseteq> set xs \<and> Percentile fl xs p \<in> {Ret (x, None), Ret (fst (Mean fl [x, y]), None), Ret (fl_NaN fl, Some (Error ''Out of scope''))}"
proof -
  let ?i = "fl_trunc fl index"
  have p: "Percentile fl xs p =
      (if fl_eq fl index (fl_of_int fl ?i) then run_map (\<lambda>x. (x, None)) (slice_index (sortedCopy fl xs) (?i - 1))
       else if fl_less fl (fl_of_int fl 1) index
       then (case slice_index (sortedCopy fl xs) (?i - 1) of
               Panic p \<Rightarrow> Panic p
             | Ret x \<Rightarrow> run_map (\<lambda>y. (fst (Mean fl [x, y]), None)) (slice_index (sortedCopy fl xs) ?i))
       else Ret (fl_NaN fl, Some (Error ''Out of scope'')))"
  proof -
    have "xs \<noteq> []" "length xs \<noteq> 1" using assms(1) by auto
    then show ?thesis using assms(5,6) unfolding Percentile_def assms(2) sorted_length Let_def by simp
  qed
  have hd: "hd xs \<in> set xs" using assms(1) by (cases xs) auto
  have le: "?i \<le> int (length xs)" using trunc_le [OF assms(3,4)] .
  show ?thesis
  proof (cases "fl_eq fl index (fl_of_int fl ?i)")
    case True
    with trunc_whole [OF assms(3)] le sorted_nth [of "?i - 1" xs] obtain x where "x \<in> set xs" "slice_index (sortedCopy fl xs) (?i - 1) = Ret x"
      by auto
    then show ?thesis using p True by (intro exI [of _ x]) auto
  next
    case False
    note lt = trunc_less [OF assms(3,4) False]
    show ?thesis
    proof (cases "fl_less fl (fl_of_int fl 1) index")
      case True
      with trunc_one [OF True] lt sorted_nth [of "?i - 1" xs] sorted_nth [of ?i xs] obtain x y where
        "{x, y} \<subseteq> set xs" "slice_index (sortedCopy fl xs) (?i - 1) = Ret x" "slice_index (sortedCopy fl xs) ?i = Ret y" by auto
      then show ?thesis using p False True by (intro exI [of _ x] exI [of _ y]) auto
    next
      case small: False
      then show ?thesis using p False hd by (intro exI [of _ "hd xs"]) auto
    qed
  qed
qed

lemma Median_returns:
  assumes "xs \<noteq> []"
  shows "\<exists>m. Median fl xs = Ret (m, None)"
proof -
  let ?l = "int (length (sortedCopy fl xs))"
  have l: "1 \<le> ?l" and ne: "sortedCopy fl xs \<noteq> []" using assms sorted_length [of xs] by (cases xs; auto)+
  show ?thesis
  proof (cases "?l mod 2 = 0")
    case True
    then have "0 \<le> ?l div 2 - 1" "?l div 2 - 1 \<le> ?l div 2 + 1" "?l div 2 + 1 \<le> ?l" using l by presburger+
    then show ?thesis using True ne by (simp add: Median_def slice_range_def Let_def)
  next
    case False
    then have "0 \<le> ?l div 2" "?l div 2 < ?l" using l by presburger+
    then show ?thesis using False ne by (simp add: Median_def slice_index_def Let_def)
  qed
qed

end

text \<open>Rational numbers satisfy these laws; with them the functions can be evaluated (there is no NaN among them).\<close>

definition rat_round_to_even :: "rat \<Rightarrow> rat" where
  "rat_round_to_even x = (let r = \<lfloor>x + 1 / 2\<rfloor> in of_int (if x + 1 / 2 = of_int r \<and> odd r then r - 1 else r))"

definition rat_ops :: "rat float_ops" where
  "rat_ops = \<lparr>fl_add = (+), fl_mul = (*), fl_div = (/), fl_of_int = of_int, fl_trunc = (\<lambda>x. if x < 0 then - \<lfloor>- x\<rfloor> else \<lfloor>x\<rfloor>),
     fl_eq = (=), fl_less = (<), fl_le = (\<le>), fl_NaN = 0, fl_sort = sort, fl_RoundToEven = rat_round_to_even\<rparr>"

interpretation rat_float: float_arithmetic rat_ops
proof
  fix x :: rat and n
  have whole: "1 \<le> \<lfloor>x\<rfloor>" if "0 < x" "x = of_int \<lfloor>x\<rfloor>"
  proof -
    have "(0 :: rat) < of_int \<lfloor>x\<rfloor>" using that by simp
    then show ?thesis by simp
  qed
  have less: "\<lfloor>x\<rfloor> < n" if "x \<le> of_int n" "x \<noteq> of_int \<lfloor>x\<rfloor>"
  proof -
    have "\<lfloor>x\<rfloor> \<le> n" using that(1) floor_mono by fastforce
    moreover have "\<lfloor>x\<rfloor> \<noteq> n" using that of_int_floor_le [of x] by force
    ultimately show ?thesis by simp
  qed
  show "fl_less rat_ops (fl_of_int rat_ops 0) x \<Longrightarrow> 0 \<le> fl_trunc rat_ops x" by (simp add: rat_ops_def)
  show "fl_less rat_ops (fl_of_int rat_ops 0) x \<Longrightarrow> fl_eq rat_ops x (fl_of_int rat_ops (fl_trunc rat_ops x)) \<Longrightarrow> 1 \<le> fl_trunc rat_ops x"
    using whole by (simp add: rat_ops_def)
  show "fl_less rat_ops (fl_of_int rat_ops 1) x \<Longrightarrow> 1 \<le> fl_trunc rat_ops x" by (simp add: rat_ops_def le_floor_iff)
  show "fl_less rat_ops (fl_of_int rat_ops 0) x \<Longrightarrow> fl_le rat_ops x (fl_of_int rat_ops n) \<Longrightarrow> fl_trunc rat_ops x \<le> n"
    by (simp add: rat_ops_def floor_le_iff)
  show "fl_less rat_ops (fl_of_int rat_ops 0) x \<Longrightarrow> fl_le rat_ops x (fl_of_int rat_ops n) \<Longrightarrow>
      \<not> fl_eq rat_ops x (fl_of_int rat_ops (fl_trunc rat_ops x)) \<Longrightarrow> fl_trunc rat_ops x < n"
    using less by (simp add: rat_ops_def)
qed (simp add: rat_ops_def)

text \<open>What the loop over the rows keeps, and what has been read.\<close>

definition summary_ok :: "'f hey_summary \<Rightarrow> bool" where
  "summary_ok s \<longleftrightarrow> hs_totalRequests s = int (length (hs_responseTimes s)) \<and>
     distinct (map fst (hs_statusCodeCount s)) \<and> hs_totalRequests s = sum_list (map snd (hs_statusCodeCount s))"

lemma count_code_keys: "map fst (count_code k xs) = (if k \<in> fst ` set xs then map fst xs else map fst xs @ [k])"
  by (induction k xs rule: count_code.induct) auto

lemma count_code_sum: "sum_list (map snd (count_code k xs)) = sum_list (map snd xs) + 1"
  by (induction k xs rule: count_code.induct) auto

lemma summary_ok_add: "summary_ok s \<Longrightarrow> summary_ok (add_row fl row s)"
  by (auto simp: summary_ok_def add_row_def count_code_keys count_code_sum)

lemma read_rows_summary:
  assumes "read_rows fl nl rs s = Ret (Continues s')" and "summary_ok s"
  shows "\<exists>rows. list_all2 (\<lambda>r row. \<exists>rec. r = Inr rec \<and> newReportRow nl rec = Ret (Continues row)) rs rows \<and>
    summary_ok s' \<and> hs_responseTimes s' = hs_responseTimes s @ map hr_ResponseTime rows \<and>
    fst ` set (hs_statusCodeCount s') = fst ` set (hs_statusCodeCount s) \<union> hr_StatusCode ` set rows"
  using assms
proof (induction fl nl rs s arbitrary: rule: read_rows.induct)
  case (3 fl nl rec rs s)
  then obtain row where row: "newReportRow nl rec = Ret (Continues row)" and rest: "read_rows fl nl rs (add_row fl row s) = Ret (Continues s')"
    by (auto split: run.splits ends.splits)
  have codes: "fst ` set (hs_statusCodeCount (add_row fl row s)) = insert (hr_StatusCode row) (fst ` set (hs_statusCodeCount s))"
    using arg_cong [OF count_code_keys, of set] by (auto simp: add_row_def)
  from "3.IH" [OF row _ rest summary_ok_add [OF "3.prems"(2)]] obtain rows where
    "list_all2 (\<lambda>r row. \<exists>rec. r = Inr rec \<and> newReportRow nl rec = Ret (Continues row)) rs rows" "summary_ok s'"
    "hs_responseTimes s' = hs_responseTimes (add_row fl row s) @ map hr_ResponseTime rows"
    "fst ` set (hs_statusCodeCount s') = fst ` set (hs_statusCodeCount (add_row fl row s)) \<union> hr_StatusCode ` set rows" by auto
  then show ?case using row codes by (intro exI [of _ "row # rows"]) (auto simp: add_row_def)
qed auto

text \<open>
  The report of a benchmark counts every row of the file after its header, is an error exactly when
  there is none, and complains about codes exactly when one is between 400 and 499: a benchmark whose
  requests all fail with 500 is not reported.
\<close>

theorem hey_report_counts:
  assumes "hey_main fl nl p (header # rs) = Ret (Continues rep)"
  shows "\<exists>rows. list_all2 (\<lambda>r row. \<exists>rec. r = Inr rec \<and> newReportRow nl rec = Ret (Continues row)) rs rows \<and>
    rep_Requests rep = int (length rs) \<and> (rep_Exit rep = 0 \<longleftrightarrow> rs \<noteq> []) \<and>
    (rep_BadCodes rep \<longleftrightarrow> (\<exists>row \<in> set rows. 400 \<le> hr_StatusCode row \<and> hr_StatusCode row < 500))"
proof -
  let ?s = "\<lparr>hs_totalRequests = 0, hs_responseTimes = [], hs_benchmarkTotalTime = fl_of_int fl 0, hs_statusCodeCount = []\<rparr>"
  obtain s where read: "read_rows fl nl rs ?s = Ret (Continues s)"
    and rep: "rep_Requests rep = hs_totalRequests s" "rep_Exit rep = (if hs_responseTimes s = [] then 1 else 0)"
    "rep_BadCodes rep = (\<not> checkOKResponse (hs_statusCodeCount s))"
    using assms by (auto simp: hey_main_def Mean_def Let_def split: run.splits ends.splits if_splits)
  have "summary_ok ?s" by (simp add: summary_ok_def)
  from read_rows_summary [OF read this] obtain rows where
    rows: "list_all2 (\<lambda>r row. \<exists>rec. r = Inr rec \<and> newReportRow nl rec = Ret (Continues row)) rs rows" "summary_ok s"
    "hs_responseTimes s = map hr_ResponseTime rows" "fst ` set (hs_statusCodeCount s) = hr_StatusCode ` set rows" by auto
  have len: "length rs = length rows" using rows(1) by (rule list_all2_lengthD)
  have "checkOKResponse (hs_statusCodeCount s) \<longleftrightarrow> (\<forall>code \<in> hr_StatusCode ` set rows. \<not> (400 \<le> code \<and> code < 500))"
    unfolding rows(4) [symmetric] by (auto simp: checkOKResponse_def list_all_iff)
  then show ?thesis
    using rows rep len by (intro exI [of _ rows]) (auto simp: summary_ok_def)
qed

section \<open>Properties of the tokens\<close>

lemma panics_with_Ret [simp]: "panics_with msg r f = Ret y \<longleftrightarrow> (\<exists>v. r = Inr v \<and> f v = Ret y)"
  by (auto simp: panics_with_def split: sum.splits)

lemma sign_Ret:
  assumes "sign l t = Ret tok"
  obtains key signer body jws where "GetSigningKey l (signingKeyFile t) (signingKeyType t) = Ret key"
    "jl_NewSigner l ''RS256'' key = Inr signer" "jl_Marshal l (claims t) = Inr body" "signer body = Inr jws"
    "jl_CompactSerialize l jws = Inr tok"
  using assms by (cases "GetSigningKey l (signingKeyFile t) (signingKeyType t)") (auto simp: sign_def)

lemma expiredDate_parsed: "parse_rfc3339 expiredDate = Some (1615420800, 0)"
  by code_simp

text \<open>
  What the tests send: a header from which the registry extracts the token as it was signed.  The token
  carries the claims of the registry that is tested, is valid for an hour unless an expired one is asked
  for, and has the one claim that the test gives in place of its own.
\<close>

theorem header_carries_token:
  assumes "BuildAuthHeader l now1 now2 appConfig expired keyFile keyType c = Ret header"
  shows "\<exists>cl key signer body jws tok. header = ''Bearer '' @ tok \<and> (tok \<noteq> [] \<longrightarrow> extractToken header = Inr tok) \<and>
    jl_NewSigner l ''RS256'' key = Inr signer \<and> jl_Marshal l cl = Inr body \<and> signer body = Inr jws \<and>
    jl_CompactSerialize l jws = Inr tok \<and>
    cl = [''exp'' \<mapsto> Some (StringClaim (int_str (if expired then 1615420800 else fst now1 + 3600))),
      ''iat'' \<mapsto> Some (StringClaim (int_str (fst now2))), ''iss'' \<mapsto> Some (StringClaim (OidcIssuerUrl appConfig)),
      ''ipd'' \<mapsto> Some (StringClaim (OidcIssuerUrl appConfig)), ''aud'' \<mapsto> Some (StringClaim (OidcClientId appConfig)),
      ''oid'' \<mapsto> Some (StringClaim dummyOid),
      Claim_Key (default_claim appConfig c) \<mapsto> Claim_Value (default_claim appConfig c)]"
proof -
  obtain tok where tok: "GenerateSignedToken l now1 now2 appConfig expired keyFile keyType c = Ret tok" and h: "header = ''Bearer '' @ tok"
    using assms by (auto simp: BuildAuthHeader_def jwt_authScheme_def go_simps)
  have key: "Claim_Key (default_claim appConfig c) \<noteq> []" by (simp add: default_claim_def)
  let ?kf = "if keyFile = [] then dummySigningKeyFile else keyFile" and ?kt = "if keyType = [] then dummySigningKeyType else keyType"
  let ?dt = "newDummyToken now1 now2 appConfig ?kf ?kt"
  let ?t = "setClaim (if expired then setExpiration ?dt (1615420800, 0) else ?dt) (default_claim appConfig c)"
  have "sign l ?t = Ret tok"
    using tok unfolding GenerateSignedToken_def Let_def expiredDate_parsed option.case(2) if_P [OF key] .
  then show ?thesis
  proof (rule sign_Ret)
    fix k signer body jws
    assume 1: "jl_NewSigner l ''RS256'' k = Inr signer" "jl_Marshal l (claims ?t) = Inr body" "signer body = Inr jws"
      "jl_CompactSerialize l jws = Inr tok"
    have cl: "claims ?t = [''exp'' \<mapsto> Some (StringClaim (int_str (if expired then 1615420800 else fst now1 + 3600))),
      ''iat'' \<mapsto> Some (StringClaim (int_str (fst now2))), ''iss'' \<mapsto> Some (StringClaim (OidcIssuerUrl appConfig)),
      ''ipd'' \<mapsto> Some (StringClaim (OidcIssuerUrl appConfig)), ''aud'' \<mapsto> Some (StringClaim (OidcClientId appConfig)),
      ''oid'' \<mapsto> Some (StringClaim dummyOid),
      Claim_Key (default_claim appConfig c) \<mapsto> Claim_Value (default_claim appConfig c)]"
      by (auto simp: setClaim_def setExpiration_def newDummyToken_def fun_eq_iff)
    have "tok \<noteq> [] \<longrightarrow> extractToken header = Inr tok" using h by (simp add: extractToken_Inr)
    with h 1 cl show ?thesis by metis
  qed
qed

end
