(* ===== verification/Controller_Config.thy ===== *)
theory Controller_Config
  imports Registry_Types
begin

text \<open>
  pkg/api/config/v1: the configuration files of the client and of the sync manager and how they
  complete the options of the controller manager; cmd/client/client.go and
  cmd/sync/manager/manager.go: how the two programs start from their flags and such a file, and
  which kinds of objects they watch.
\<close>

section \<open>Configuration files (controllermanager_types.go, clientconfig_types.go, syncconfig_types.go)\<close>

text \<open>Durations are nanoseconds; a pointer is an option.\<close>

record LeaderElectionConfiguration =
  le_LeaderElect :: "bool option"
  le_LeaseDuration :: int
  le_RenewDeadline :: int
  le_RetryPeriod :: int
  le_ResourceLock :: string
  le_ResourceName :: string
  le_ResourceNamespace :: string

record ControllerConfigurationSpec =
  ccs_GroupKindConcurrency :: "(string \<times> int) list"
  ccs_CacheSyncTimeout :: "int option"
  ccs_RecoverPanic :: "bool option"

record ControllerMetrics =
  cmet_BindAddress :: string

record ControllerHealth =
  ch_HealthProbeBindAddress :: string
  ch_ReadinessEndpointName :: string
  ch_LivenessEndpointName :: string

record ControllerWebhook =
  cw_Port :: "int option"
  cw_Host :: string
  cw_CertDir :: string

record ControllerManager =
  cm_SyncPeriod :: "int option"
  cm_LeaderElection :: "LeaderElectionConfiguration option"
  cm_CacheNamespace :: string
  cm_GracefulShutdownTimeout :: "int option"
  cm_Controller :: "ControllerConfigurationSpec option"
  cm_Metrics :: ControllerMetrics
  cm_Health :: ControllerHealth
  cm_Webhook :: ControllerWebhook

record WatchedGVK =
  wg_Group :: string
  wg_Version :: string
  wg_Kind :: string

record AlertRule =
  ar_AlertName :: string
  ar_OnFiring :: str_map
  ar_OnResolved :: str_map

record AlertmanagerWebhookConfig =
  aw_BindAddress :: string
  aw_AlertMap :: "AlertRule list"

record ServiceMetadataConfig =
  smc_WatchedGVKs :: "WatchedGVK list"
  smc_ServiceIdAnnotation :: string

text \<open>Both configurations embed the one of the controller manager.\<close>

record ClientConfig = ControllerManager +
  cc_Namespace :: string
  cc_AlertmanagerWebhook :: AlertmanagerWebhookConfig
  cc_ServiceMetadata :: ServiceMetadataConfig

record SyncConfig = ControllerManager +
  sc_Namespace :: string
  sc_WatchedGVKs :: "WatchedGVK list"

definition zero_ControllerManager :: ControllerManager where
  "zero_ControllerManager = \<lparr>cm_SyncPeriod = None, cm_LeaderElection = None, cm_CacheNamespace = [],
     cm_GracefulShutdownTimeout = None, cm_Controller = None, cm_Metrics = \<lparr>cmet_BindAddress = []\<rparr>,
     cm_Health = \<lparr>ch_HealthProbeBindAddress = [], ch_ReadinessEndpointName = [], ch_LivenessEndpointName = []\<rparr>,
     cm_Webhook = \<lparr>cw_Port = None, cw_Host = [], cw_CertDir = []\<rparr>\<rparr>"

definition zero_ClientConfig :: ClientConfig where
  "zero_ClientConfig = ControllerManager.extend zero_ControllerManager
     (ClientConfig.fields [] \<lparr>aw_BindAddress = [], aw_AlertMap = []\<rparr>
        \<lparr>smc_WatchedGVKs = [], smc_ServiceIdAnnotation = []\<rparr>)"

definition zero_SyncConfig :: SyncConfig where
  "zero_SyncConfig = ControllerManager.extend zero_ControllerManager (SyncConfig.fields [] [])"

section \<open>Completing the options (clientconfig.go, syncconfig.go)\<close>

text \<open>
  The fields of \<^verbatim>\<open>ctrl.Options\<close> that the program sets.  A scheme and a webhook server are values of
  the framework; \<open>ns\<close> below is \<^verbatim>\<open>webhook.NewServer\<close>.
\<close>

record ('s, 'h) Options =
  opt_Scheme :: 's
  opt_LeaderElection :: bool
  opt_LeaderElectionResourceLock :: string
  opt_LeaderElectionNamespace :: string
  opt_LeaderElectionID :: string
  opt_LeaseDuration :: "int option"
  opt_RenewDeadline :: "int option"
  opt_RetryPeriod :: "int option"
  opt_MetricsBindAddress :: string
  opt_HealthProbeBindAddress :: string
  opt_ReadinessEndpointName :: string
  opt_LivenessEndpointName :: string
  opt_WebhookServer :: "'h option"
  opt_CacheSyncTimeout :: int
  opt_GroupKindConcurrency :: "(string \<times> int) list"

record WebhookOptions =
  who_Host :: string
  who_Port :: int
  who_CertDir :: string

text \<open>
  \<^verbatim>\<open>if o.X == "" && cfg.X != "" { o.X = cfg.X }\<close>, for texts and maps; the same for a duration
  that becomes a pointer, and for a pointer whose target replaces a zero value.
\<close>

definition or_list :: "'a list \<Rightarrow> 'a list \<Rightarrow> 'a list" where
  "or_list ox cx = (if ox = [] \<and> cx \<noteq> [] then cx else ox)"

definition or_duration :: "int option \<Rightarrow> int \<Rightarrow> int option" where
  "or_duration ox cx = (if ox = None \<and> cx \<noteq> 0 then Some cx else ox)"

definition or_value :: "'a \<Rightarrow> 'a \<Rightarrow> 'a option \<Rightarrow> 'a" where
  "or_value zero ox cx = (case cx of None \<Rightarrow> ox | Some v \<Rightarrow> if ox = zero then v else ox)"

definition addLeaderElectionTo :: "'c ControllerManager_scheme \<Rightarrow> ('s, 'h) Options \<Rightarrow> ('s, 'h) Options" where
  "addLeaderElectionTo cfg opt =
     (case cm_LeaderElection cfg of
        None \<Rightarrow> opt
      | Some le \<Rightarrow> opt\<lparr>
          opt_LeaderElection := or_value False (opt_LeaderElection opt) (le_LeaderElect le),
          opt_LeaderElectionResourceLock := or_list (opt_LeaderElectionResourceLock opt) (le_ResourceLock le),
          opt_LeaderElectionNamespace := or_list (opt_LeaderElectionNamespace opt) (le_ResourceNamespace le),
          opt_LeaderElectionID := or_list (opt_LeaderElectionID opt) (le_ResourceName le),
          opt_LeaseDuration := or_duration (opt_LeaseDuration opt) (le_LeaseDuration le),
          opt_RenewDeadline := or_duration (opt_RenewDeadline opt) (le_RenewDeadline le),
          opt_RetryPeriod := or_duration (opt_RetryPeriod opt) (le_RetryPeriod le)\<rparr>)"

text \<open>The port is read before it is known to be set.\<close>

definition addWebhookTo ::
  "(WebhookOptions \<Rightarrow> 'h) \<Rightarrow> 'c ControllerManager_scheme \<Rightarrow> ('s, 'h) Options \<Rightarrow> ('s, 'h) Options run" where
  "addWebhookTo ns cfg opt =
     (let w = cm_Webhook cfg
      in if opt_WebhookServer opt = None \<and> cw_Host w \<noteq> []
         then (case cw_Port w of
                 None \<Rightarrow> Panic ''nil pointer dereference''
               | Some p \<Rightarrow>
                   if 0 < p \<and> cw_CertDir w \<noteq> []
                   then Ret (opt\<lparr>opt_WebhookServer := Some (ns \<lparr>who_Host = cw_Host w, who_Port = p, who_CertDir = cw_CertDir w\<rparr>)\<rparr>)
                   else Ret opt)
         else Ret opt)"

definition addControllerTo :: "'c ControllerManager_scheme \<Rightarrow> ('s, 'h) Options \<Rightarrow> ('s, 'h) Options" where
  "addControllerTo cfg opt =
     (case cm_Controller cfg of
        None \<Rightarrow> opt
      | Some c \<Rightarrow> opt\<lparr>
          opt_CacheSyncTimeout := or_value 0 (opt_CacheSyncTimeout opt) (ccs_CacheSyncTimeout c),
          opt_GroupKindConcurrency := or_list (opt_GroupKindConcurrency opt) (ccs_GroupKindConcurrency c)\<rparr>)"

definition addAddressesTo :: "'c ControllerManager_scheme \<Rightarrow> ('s, 'h) Options \<Rightarrow> ('s, 'h) Options" where
  "addAddressesTo cfg opt = opt\<lparr>
     opt_MetricsBindAddress := or_list (opt_MetricsBindAddress opt) (cmet_BindAddress (cm_Metrics cfg)),
     opt_HealthProbeBindAddress := or_list (opt_HealthProbeBindAddress opt) (ch_HealthProbeBindAddress (cm_Health cfg)),
     opt_ReadinessEndpointName := or_list (opt_ReadinessEndpointName opt) (ch_ReadinessEndpointName (cm_Health cfg)),
     opt_LivenessEndpointName := or_list (opt_LivenessEndpointName opt) (ch_LivenessEndpointName (cm_Health cfg))\<rparr>"

definition addTo ::
  "(WebhookOptions \<Rightarrow> 'h) \<Rightarrow> 'c ControllerManager_scheme \<Rightarrow> ('s, 'h) Options \<Rightarrow> ('s, 'h) Options run" where
  "addTo ns cfg opt =
     run_map (addControllerTo cfg) (addWebhookTo ns cfg (addAddressesTo cfg (addLeaderElectionTo cfg opt)))"

text \<open>
  The libraries: reading a file, decoding it over a configuration (which may be changed even when
  decoding fails), the defaulting functions of a scheme, and the encoder of a scheme for a media
  type, if it has one.
\<close>

record ('s, 'h, 'c) config_libs =
  lib_NewServer :: "WebhookOptions \<Rightarrow> 'h"
  lib_Clean :: "string \<Rightarrow> string"
  lib_ReadFile :: "string \<Rightarrow> goerr + string"
  lib_DecodeInto :: "'s \<Rightarrow> string \<Rightarrow> 'c \<Rightarrow> goerr option \<times> 'c"
  lib_Default :: "'s \<Rightarrow> 'c \<Rightarrow> 'c"
  lib_Encoder :: "'s \<Rightarrow> string \<Rightarrow> ('c \<Rightarrow> goerr + string) option"

definition fromFile :: "('s, 'h, 'c) config_libs \<Rightarrow> string \<Rightarrow> 's \<Rightarrow> 'c \<Rightarrow> goerr option \<times> 'c" where
  "fromFile l path scheme cfg =
     (case lib_ReadFile l (lib_Clean l path) of
        Inl err \<Rightarrow> (Some err, cfg)
      | Inr content \<Rightarrow> lib_DecodeInto l scheme content cfg)"

definition Encode :: "('s, 'h, 'c) config_libs \<Rightarrow> 's \<Rightarrow> 'c \<Rightarrow> goerr + string" where
  "Encode l scheme cfg =
     (case lib_Encoder l scheme ''application/yaml'' of
        None \<Rightarrow> Inl (Error (''unable to locate encoder -- '' @ [CHR 34] @ ''application/yaml'' @ [CHR 34]
          @ '' is not a supported media type''))
      | Some enc \<Rightarrow> enc cfg)"

text \<open>The two constructors differ in the zero value of their configuration only.\<close>

definition new_config ::
  "'c ControllerManager_scheme \<Rightarrow> ('s, 'h, 'c ControllerManager_scheme) config_libs \<Rightarrow> ('s, 'h) Options \<Rightarrow> 's \<Rightarrow> string \<Rightarrow>
     'c ControllerManager_scheme option \<Rightarrow> (('s, 'h) Options \<times> 'c ControllerManager_scheme \<times> goerr option) run" where
  "new_config zero l defaultOptions scheme configFile defaults =
     (let options = defaultOptions\<lparr>opt_Scheme := scheme\<rparr>;
          cfg = (case defaults of None \<Rightarrow> zero | Some d \<Rightarrow> d)
      in if configFile = []
         then let cfg = lib_Default l scheme cfg
              in run_map (\<lambda>opt. (opt, cfg, None)) (addTo (lib_NewServer l) cfg options)
         else (case fromFile l configFile scheme cfg of
                 (Some err, cfg) \<Rightarrow> Ret (options, cfg, Some err)
               | (None, cfg) \<Rightarrow> run_map (\<lambda>opt. (opt, cfg, None)) (addTo (lib_NewServer l) cfg options)))"

definition NewClientConfig ::
  "('s, 'h, ClientConfig) config_libs \<Rightarrow> ('s, 'h) Options \<Rightarrow> 's \<Rightarrow> string \<Rightarrow> ClientConfig option \<Rightarrow>
     (('s, 'h) Options \<times> ClientConfig \<times> goerr option) run" where
  "NewClientConfig = new_config zero_ClientConfig"

definition NewSyncConfig ::
  "('s, 'h, SyncConfig) config_libs \<Rightarrow> ('s, 'h) Options \<Rightarrow> 's \<Rightarrow> string \<Rightarrow> SyncConfig option \<Rightarrow>
     (('s, 'h) Options \<times> SyncConfig \<times> goerr option) run" where
  "NewSyncConfig = new_config zero_SyncConfig"

section \<open>Start of the programs (cmd/client/client.go, cmd/sync/manager/manager.go)\<close>

definition apply_client ::
  "('s, 'h, ClientConfig) config_libs \<Rightarrow> 's \<Rightarrow> ('s, 'h) Options \<Rightarrow> string \<Rightarrow> ClientConfig \<Rightarrow>
     (('s, 'h) Options \<times> ClientConfig \<times> goerr option) run" where
  "apply_client l scheme defaultOptions configFile clientConfigDefaults =
     run_map (\<lambda>(options, cfg, err).
       case err of
         Some e \<Rightarrow> (options, cfg, Some e)
       | None \<Rightarrow> (case Encode l scheme cfg of Inl e \<Rightarrow> (options, cfg, Some e) | Inr _ \<Rightarrow> (options, cfg, None)))
       (NewClientConfig l defaultOptions scheme configFile (Some clientConfigDefaults))"

definition apply_sync ::
  "('s, 'h, SyncConfig) config_libs \<Rightarrow> 's \<Rightarrow> ('s, 'h) Options \<Rightarrow> string \<Rightarrow> SyncConfig \<Rightarrow>
     (('s, 'h) Options \<times> SyncConfig \<times> goerr option) run" where
  "apply_sync l scheme defaultOptions configFile syncConfigDefaults =
     run_map (\<lambda>(options, cfg, err).
       case err of
         Some e \<Rightarrow> (options, cfg, Some e)
       | None \<Rightarrow> (case Encode l scheme cfg of Inl e \<Rightarrow> (options, cfg, Some e) | Inr _ \<Rightarrow> (options, cfg, None)))
       (NewSyncConfig l defaultOptions scheme configFile (Some syncConfigDefaults))"

text \<open>The command-line flags; the sync manager has no address for the webhook of Alertmanager.\<close>

record flags =
  fl_config :: string
  fl_metricsAddr :: string
  fl_probeAddr :: string
  fl_namespace :: string
  fl_leaderElect :: bool

record client_flags = flags +
  fl_alertmanagerWebhookAddr :: string

definition flag_options :: "'s \<Rightarrow> string \<Rightarrow> 'f flags_scheme \<Rightarrow> ('s, 'h) Options" where
  "flag_options scheme electionID fl = \<lparr>opt_Scheme = scheme, opt_LeaderElection = fl_leaderElect fl,
     opt_LeaderElectionResourceLock = ''leases'', opt_LeaderElectionNamespace = [], opt_LeaderElectionID = electionID,
     opt_LeaseDuration = None, opt_RenewDeadline = None, opt_RetryPeriod = None,
     opt_MetricsBindAddress = fl_metricsAddr fl, opt_HealthProbeBindAddress = fl_probeAddr fl,
     opt_ReadinessEndpointName = [], opt_LivenessEndpointName = [], opt_WebhookServer = None,
     opt_CacheSyncTimeout = 0, opt_GroupKindConcurrency = []\<rparr>"

definition clientConfigDefaults :: "client_flags \<Rightarrow> ClientConfig" where
  "clientConfigDefaults fl = zero_ClientConfig\<lparr>cc_Namespace := fl_namespace fl,
     cc_AlertmanagerWebhook := \<lparr>aw_BindAddress = fl_alertmanagerWebhookAddr fl, aw_AlertMap = []\<rparr>,
     cc_ServiceMetadata := \<lparr>smc_WatchedGVKs = [], smc_ServiceIdAnnotation = ''adobe.serviceid''\<rparr>\<rparr>"

text \<open>The options and the configuration a program goes on with; an error ends it with status 1.\<close>

definition client_start ::
  "('s, 'h, ClientConfig) config_libs \<Rightarrow> 's \<Rightarrow> client_flags \<Rightarrow> (goerr + ('s, 'h) Options \<times> ClientConfig) run" where
  "client_start l scheme fl =
     (let options = flag_options scheme ''1d5078e3.registry.ethos.adobe.com'' fl
      in if fl_config fl \<noteq> []
         then run_map (\<lambda>(options, cfg, err). case err of Some e \<Rightarrow> Inl e | None \<Rightarrow> Inr (options, cfg))
                (apply_client l scheme options (fl_config fl) (clientConfigDefaults fl))
         else Ret (Inr (options, zero_ClientConfig)))"

definition syncConfigDefaults :: "'f flags_scheme \<Rightarrow> SyncConfig" where
  "syncConfigDefaults fl = zero_SyncConfig\<lparr>sc_Namespace := fl_namespace fl, sc_WatchedGVKs := []\<rparr>"

definition sync_start ::
  "('s, 'h, SyncConfig) config_libs \<Rightarrow> 's \<Rightarrow> flags \<Rightarrow> (goerr + ('s, 'h) Options \<times> SyncConfig) run" where
  "sync_start l scheme fl =
     (let options = flag_options scheme ''sync.registry.ethos.adobe.com'' fl
      in if fl_config fl \<noteq> []
         then run_map (\<lambda>(options, cfg, err). case err of Some e \<Rightarrow> Inl e | None \<Rightarrow> Inr (options, cfg))
                (apply_sync l scheme options (fl_config fl) (syncConfigDefaults fl))
         else Ret (Inr (options, zero_SyncConfig)))"

text \<open>
  The kinds that the API server knows, from a discovery client that may not be created or may fail.
  A group version that cannot be parsed counts as the empty one.
\<close>

definition getAvailableGVKs ::
  "parse_gv \<Rightarrow> goerr + (goerr + (string \<times> string list) list) \<Rightarrow> goerr + GroupVersionKind list" where
  "getAvailableGVKs parse discovery =
     (case discovery of
        Inl err \<Rightarrow> Inl (Wrapped ''unable to create discovery client: '' err)
      | Inr (Inl err) \<Rightarrow> Inl (Wrapped ''unable to get available API resources: '' err)
      | Inr (Inr resources) \<Rightarrow> Inr (concat (map (\<lambda>(groupVersion, kinds).
          let (g, v) = (case parse groupVersion of Inl _ \<Rightarrow> ([], []) | Inr gv \<Rightarrow> gv)
          in map (\<lambda>k. \<lparr>gvk_Group = g, gvk_Version = v, gvk_Kind = k\<rparr>) kinds) resources)))"

definition watched_gvks :: "goerr + GroupVersionKind list \<Rightarrow> WatchedGVK list \<Rightarrow> GroupVersionKind list" where
  "watched_gvks available ws =
     (case available of
        Inl _ \<Rightarrow> []
      | Inr as \<Rightarrow> filter (\<lambda>gvk. gvk \<in> set as)
          (map (\<lambda>w. \<lparr>gvk_Group = wg_Group w, gvk_Version = wg_Version w, gvk_Kind = wg_Kind w\<rparr>) ws))"

definition client_loadWatchedGVKs :: "goerr + GroupVersionKind list \<Rightarrow> ClientConfig \<Rightarrow> GroupVersionKind list" where
  "client_loadWatchedGVKs available cfg = watched_gvks available (smc_WatchedGVKs (cc_ServiceMetadata cfg))"

definition sync_loadWatchedGVKs :: "goerr + GroupVersionKind list \<Rightarrow> SyncConfig \<Rightarrow> GroupVersionKind list" where
  "sync_loadWatchedGVKs available cfg = watched_gvks available (sc_WatchedGVKs cfg)"

section \<open>Properties\<close>

text \<open>A text that is set stays, and what is taken once is what is taken the second time.\<close>

lemma or_list_set [simp]: "ox \<noteq> [] \<Longrightarrow> or_list ox cx = ox"
  by (simp add: or_list_def)

lemma or_list_idem [simp]: "or_list (or_list ox cx) cx = or_list ox cx"
  by (simp add: or_list_def)

lemma or_duration_set [simp]: "or_duration (Some d) cx = Some d"
  by (simp add: or_duration_def)

lemma or_duration_idem [simp]: "or_duration (or_duration ox cx) cx = or_duration ox cx"
  by (simp add: or_duration_def)

lemma or_value_set [simp]: "ox \<noteq> zero \<Longrightarrow> or_value zero ox cx = ox"
  by (simp add: or_value_def split: option.split)

lemma or_value_idem [simp]: "or_value zero (or_value zero ox cx) cx = or_value zero ox cx"
  by (simp add: or_value_def split: option.split)

text \<open>
  \<open>keeps opt opt'\<close>: every option that is set in \<open>opt\<close>, that is differs from the zero value of its
  type, has the same value in \<open>opt'\<close>.
\<close>

definition keeps :: "('s, 'h) Options \<Rightarrow> ('s, 'h) Options \<Rightarrow> bool" where
  "keeps opt opt' \<longleftrightarrow>
     opt_Scheme opt' = opt_Scheme opt \<and>
     (opt_LeaderElection opt \<longrightarrow> opt_LeaderElection opt') \<and>
     (\<forall>f \<in> {opt_LeaderElectionResourceLock, opt_LeaderElectionNamespace, opt_LeaderElectionID, opt_MetricsBindAddress,
        opt_HealthProbeBindAddress, opt_ReadinessEndpointName, opt_LivenessEndpointName}. f opt \<noteq> [] \<longrightarrow> f opt' = f opt) \<and>
     (\<forall>f \<in> {opt_LeaseDuration, opt_RenewDeadline, opt_RetryPeriod}. f opt \<noteq> None \<longrightarrow> f opt' = f opt) \<and>
     (opt_WebhookServer opt \<noteq> None \<longrightarrow> opt_WebhookServer opt' = opt_WebhookServer opt) \<and>
     (opt_CacheSyncTimeout opt \<noteq> 0 \<longrightarrow> opt_CacheSyncTimeout opt' = opt_CacheSyncTimeout opt) \<and>
     (opt_GroupKindConcurrency opt \<noteq> [] \<longrightarrow> opt_GroupKindConcurrency opt' = opt_GroupKindConcurrency opt)"

lemma keeps_refl [simp]: "keeps opt opt"
  by (simp add: keeps_def)

lemma keeps_trans: "keeps a b \<Longrightarrow> keeps b c \<Longrightarrow> keeps a c"
  by (simp add: keeps_def)

lemma keeps_leader: "keeps opt (addLeaderElectionTo cfg opt)"
  by (auto simp: keeps_def addLeaderElectionTo_def split: option.split)

lemma keeps_controller: "keeps opt (addControllerTo cfg opt)"
  by (auto simp: keeps_def addControllerTo_def split: option.split)

lemma keeps_webhook: "addWebhookTo ns cfg opt = Ret opt' \<Longrightarrow> keeps opt opt'"
  by (auto simp: keeps_def addWebhookTo_def Let_def split: if_splits option.splits)

lemma keeps_addresses: "keeps opt (addAddressesTo cfg opt)"
  by (simp add: keeps_def addAddressesTo_def)

lemma keeps_addTo:
  assumes "addTo ns cfg opt = Ret opt'"
  shows "keeps opt opt'"
proof -
  let ?b = "addAddressesTo cfg (addLeaderElectionTo cfg opt)"
  obtain c where c: "addWebhookTo ns cfg ?b = Ret c" "opt' = addControllerTo cfg c"
    using assms by (cases "addWebhookTo ns cfg ?b") (simp_all add: addTo_def)
  show ?thesis
    using c keeps_leader keeps_addresses keeps_webhook [OF c(1)] keeps_controller [of c cfg]
    by (blast intro: keeps_trans)
qed

lemma addTo_returns:
  "returns (addTo ns cfg opt) \<longleftrightarrow>
     \<not> (opt_WebhookServer opt = None \<and> cw_Host (cm_Webhook cfg) \<noteq> [] \<and> cw_Port (cm_Webhook cfg) = None)"
  by (auto simp: addTo_def addLeaderElectionTo_def addAddressesTo_def addWebhookTo_def Let_def split: option.split)

text \<open>
  The four parts touch different options, so they can be exchanged, and each is idempotent; hence
  applying the configuration to options it has completed changes nothing.
\<close>

lemma leader_idem: "addLeaderElectionTo cfg (addLeaderElectionTo cfg opt) = addLeaderElectionTo cfg opt"
  by (simp add: addLeaderElectionTo_def split: option.split)

lemma addresses_idem: "addAddressesTo cfg (addAddressesTo cfg opt) = addAddressesTo cfg opt"
  by (simp add: addAddressesTo_def)

lemma controller_idem: "addControllerTo cfg (addControllerTo cfg opt) = addControllerTo cfg opt"
  by (simp add: addControllerTo_def split: option.split)

lemma leader_addresses: "addLeaderElectionTo cfg (addAddressesTo cfg opt) = addAddressesTo cfg (addLeaderElectionTo cfg opt)"
  by (cases opt; cases "cm_LeaderElection cfg") (simp_all add: addLeaderElectionTo_def addAddressesTo_def)

lemma controller_leader: "addLeaderElectionTo cfg (addControllerTo cfg opt) = addControllerTo cfg (addLeaderElectionTo cfg opt)"
  by (cases opt; cases "cm_LeaderElection cfg"; cases "cm_Controller cfg") (simp_all add: addLeaderElectionTo_def addControllerTo_def)

lemma controller_addresses: "addAddressesTo cfg (addControllerTo cfg opt) = addControllerTo cfg (addAddressesTo cfg opt)"
  by (cases opt; cases "cm_Controller cfg") (simp_all add: addAddressesTo_def addControllerTo_def)

lemma webhook_server:
  assumes "addWebhookTo ns cfg opt = Ret c"
  shows "c = opt\<lparr>opt_WebhookServer := opt_WebhookServer c\<rparr>"
    and "opt_WebhookServer x = opt_WebhookServer c \<Longrightarrow> addWebhookTo ns cfg x = Ret x"
  using assms by (auto simp: addWebhookTo_def Let_def split: if_splits option.splits)

lemma leader_server:
  "addLeaderElectionTo cfg (opt\<lparr>opt_WebhookServer := h\<rparr>) = (addLeaderElectionTo cfg opt)\<lparr>opt_WebhookServer := h\<rparr>"
  by (simp add: addLeaderElectionTo_def split: option.split)

lemma addresses_server:
  "addAddressesTo cfg (opt\<lparr>opt_WebhookServer := h\<rparr>) = (addAddressesTo cfg opt)\<lparr>opt_WebhookServer := h\<rparr>"
  by (simp add: addAddressesTo_def)

lemma controller_server: "opt_WebhookServer (addControllerTo cfg opt) = opt_WebhookServer opt"
  by (simp add: addControllerTo_def split: option.split)

lemma addTo_again:
  assumes "addTo ns cfg opt = Ret opt'"
  shows "addTo ns cfg opt' = Ret opt'"
proof -
  let ?b = "addAddressesTo cfg (addLeaderElectionTo cfg opt)"
  obtain c where c: "addWebhookTo ns cfg ?b = Ret c" "opt' = addControllerTo cfg c"
    using assms by (cases "addWebhookTo ns cfg ?b") (simp_all add: addTo_def)
  have b: "addLeaderElectionTo cfg ?b = ?b" "addAddressesTo cfg ?b = ?b"
    by (simp_all add: leader_addresses leader_idem addresses_idem)
  have "addAddressesTo cfg (addLeaderElectionTo cfg c) = c"
    by (metis webhook_server(1) [OF c(1)] leader_server addresses_server b)
  then have "addAddressesTo cfg (addLeaderElectionTo cfg opt') = opt'"
    by (simp add: c(2) controller_leader controller_addresses)
  moreover have "addWebhookTo ns cfg opt' = Ret opt'"
    by (rule webhook_server(2) [OF c(1)]) (simp add: c(2) controller_server)
  moreover have "addControllerTo cfg opt' = opt'"
    by (simp add: c(2) controller_idem)
  ultimately show ?thesis by (simp add: addTo_def)
qed

text \<open>
  Completing the options panics exactly when no webhook server is set and the configuration
  names a host but no port.  Otherwise every option that was set keeps its value, and completing
  the result again does not change it.
\<close>

theorem addTo_correct:
  "(returns (addTo ns cfg opt) \<longleftrightarrow>
      \<not> (opt_WebhookServer opt = None \<and> cw_Host (cm_Webhook cfg) \<noteq> [] \<and> cw_Port (cm_Webhook cfg) = None)) \<and>
   (\<forall>opt'. addTo ns cfg opt = Ret opt' \<longrightarrow> keeps opt opt' \<and> addTo ns cfg opt' = Ret opt')"
  using addTo_returns keeps_addTo addTo_again by blast

text \<open>A configuration with a webhook server and without its port.\<close>

definition webhook_config :: "int option \<Rightarrow> ControllerManager" where
  "webhook_config port = zero_ControllerManager\<lparr>cm_Metrics := \<lparr>cmet_BindAddress = '':8080''\<rparr>,
     cm_Webhook := \<lparr>cw_Port = port, cw_Host = ''localhost'', cw_CertDir = ''/certs''\<rparr>\<rparr>"

definition example_flags :: "string \<Rightarrow> client_flags" where
  "example_flags file = \<lparr>fl_config = file, fl_metricsAddr = '':9090'', fl_probeAddr = '':9091'', fl_namespace = ''cluster-registry'',
     fl_leaderElect = False, fl_alertmanagerWebhookAddr = '':9092''\<rparr>"

theorem addTo_correct_witness:
  "returns (addTo id (webhook_config (Some 9443)) (flag_options () ''id'' (example_flags [])))
   \<and> \<not> returns (addTo id (webhook_config None) (flag_options () ''id'' (example_flags [])))
   \<and> (\<exists>opt'. addTo id (webhook_config (Some 9443)) (flag_options () ''id'' (example_flags [])) = Ret opt'
        \<and> opt_MetricsBindAddress opt' = '':9090'' \<and> opt_WebhookServer opt' = Some \<lparr>who_Host = ''localhost'', who_Port = 9443, who_CertDir = ''/certs''\<rparr>)"
proof -
  let ?opt = "flag_options () ''id'' (example_flags []) :: (unit, WebhookOptions) Options"
  let ?cfg = "webhook_config (Some 9443)"
  have r: "returns (addTo id ?cfg ?opt)" "\<not> returns (addTo id (webhook_config None) ?opt)"
    using addTo_correct [of id ?cfg ?opt] addTo_correct [of id "webhook_config None" ?opt]
    by (simp_all add: webhook_config_def flag_options_def)
  then obtain opt' where o: "addTo id ?cfg ?opt = Ret opt'" by (auto simp: returns_iff)
  then have "keeps ?opt opt'" using addTo_correct [of id ?cfg ?opt] by blast
  then have "opt_MetricsBindAddress opt' = '':9090''" by (simp add: keeps_def flag_options_def example_flags_def)
  moreover have "opt_WebhookServer opt' = Some \<lparr>who_Host = ''localhost'', who_Port = 9443, who_CertDir = ''/certs''\<rparr>"
    using o by (auto simp: addTo_def addWebhookTo_def addAddressesTo_def addLeaderElectionTo_def addControllerTo_def
        webhook_config_def zero_ControllerManager_def flag_options_def)
  ultimately show ?thesis using r o by blast
qed

lemma keeps_new_config:
  assumes "new_config zero l opt scheme f d = Ret (opt', cfg, e)"
  shows "keeps (opt\<lparr>opt_Scheme := scheme\<rparr>) opt'"
  using assms keeps_addTo [of "lib_NewServer l" cfg "opt\<lparr>opt_Scheme := scheme\<rparr>" opt']
  by (auto simp: new_config_def Let_def run_map_Ret_iff split: if_splits prod.splits option.splits)

text \<open>
  With a configuration file, the client starts with the addresses of its flags, which have
  defaults, whatever the file says about them.  Without a file, it starts with an empty
  configuration: the namespace and the address of the Alertmanager webhook of the flags are not
  used.
\<close>

theorem client_settings:
  assumes "client_start l scheme fl = Ret (Inr (options, cfg))"
  shows "(fl_metricsAddr fl \<noteq> [] \<longrightarrow> opt_MetricsBindAddress options = fl_metricsAddr fl)
    \<and> (fl_probeAddr fl \<noteq> [] \<longrightarrow> opt_HealthProbeBindAddress options = fl_probeAddr fl)
    \<and> opt_LeaderElectionID options = ''1d5078e3.registry.ethos.adobe.com''
    \<and> (fl_config fl = [] \<longrightarrow> cc_Namespace cfg = [] \<and> aw_BindAddress (cc_AlertmanagerWebhook cfg) = []
        \<and> aw_AlertMap (cc_AlertmanagerWebhook cfg) = [])"
proof -
  let ?opt = "flag_options scheme ''1d5078e3.registry.ethos.adobe.com'' fl :: ('a, 'b) Options"
  have "keeps ?opt options"
  proof (cases "fl_config fl = []")
    case True
    with assms show ?thesis by (simp add: client_start_def)
  next
    case False
    with assms obtain e where "new_config zero_ClientConfig l ?opt scheme (fl_config fl) (Some (clientConfigDefaults fl)) = Ret (options, cfg, e)"
      by (auto simp: client_start_def apply_client_def NewClientConfig_def run_map_Ret_iff
          split: option.splits sum.splits)
    from keeps_new_config [OF this] show ?thesis by (simp add: flag_options_def)
  qed
  moreover have "fl_config fl = [] \<Longrightarrow> cfg = zero_ClientConfig"
    using assms by (simp add: client_start_def)
  ultimately show ?thesis
    by (auto simp: keeps_def flag_options_def zero_ClientConfig_def ControllerManager.defs ClientConfig.defs)
qed

text \<open>Libraries with a file that asks for another metrics address.\<close>

definition example_libs :: "(unit, WebhookOptions, ClientConfig) config_libs" where
  "example_libs = \<lparr>lib_NewServer = id, lib_Clean = id,
     lib_ReadFile = (\<lambda>p. if p = ''config.yaml'' then Inr '':8080'' else Inl (Error ''no such file'')),
     lib_DecodeInto = (\<lambda>_ content cfg. (None, cfg\<lparr>cm_Metrics := \<lparr>cmet_BindAddress = content\<rparr>\<rparr>)),
     lib_Default = (\<lambda>_ cfg. cfg), lib_Encoder = (\<lambda>_ _. Some (\<lambda>_. Inr ''yaml''))\<rparr>"

theorem client_settings_witness:
  "(\<exists>options cfg. client_start example_libs () (example_flags ''config.yaml'') = Ret (Inr (options, cfg))
     \<and> cmet_BindAddress (cm_Metrics cfg) = '':8080'' \<and> opt_MetricsBindAddress options = '':9090'' \<and> cc_Namespace cfg = ''cluster-registry'')
   \<and> (\<exists>options cfg. client_start example_libs () (example_flags []) = Ret (Inr (options, cfg)) \<and> cc_Namespace cfg = [])"
proof
  let ?f = "example_flags ''config.yaml''"
  obtain options cfg where c: "client_start example_libs () ?f = Ret (Inr (options, cfg))"
    and m: "cmet_BindAddress (cm_Metrics cfg) = '':8080''" "cc_Namespace cfg = ''cluster-registry''"
    by (simp add: client_start_def apply_client_def NewClientConfig_def new_config_def fromFile_def Encode_def example_libs_def
        example_flags_def clientConfigDefaults_def zero_ClientConfig_def zero_ControllerManager_def ControllerManager.defs
        ClientConfig.defs addTo_def addWebhookTo_def addAddressesTo_def addLeaderElectionTo_def addControllerTo_def Let_def)
  from c m client_settings [OF c] show "\<exists>options cfg. client_start example_libs () ?f = Ret (Inr (options, cfg))
      \<and> cmet_BindAddress (cm_Metrics cfg) = '':8080'' \<and> opt_MetricsBindAddress options = '':9090'' \<and> cc_Namespace cfg = ''cluster-registry''"
    by (force simp: example_flags_def)
next
  let ?f = "example_flags []"
  obtain options cfg where c: "client_start example_libs () ?f = Ret (Inr (options, cfg))"
    by (simp add: client_start_def example_flags_def)
  from client_settings [OF c] c show "\<exists>options cfg. client_start example_libs () ?f = Ret (Inr (options, cfg)) \<and> cc_Namespace cfg = []"
    by (auto simp: example_flags_def)
qed

end
