(* ===== verification/Sync_Config.thy ===== *)
theory Sync_Config
  imports Controller_Config
begin

text \<open>
  pkg/api/config/v1/syncconfig.go and the discovery of cmd/sync/manager/manager.go, assignment by
  assignment and entry by entry as they are written there.  The file repeats clientconfig.go for the
  configuration of the sync manager; here it is shown that every method of it is the one that
  Controller_Config gives for both configurations, which updates all options at once.
\<close>

section \<open>Methods (syncconfig.go)\<close>

definition SyncConfig_fromFile :: "('s, 'h, SyncConfig) config_libs \<Rightarrow> string \<Rightarrow> 's \<Rightarrow> SyncConfig \<Rightarrow> goerr option \<times> SyncConfig" where
  "SyncConfig_fromFile l path scheme cfg =
     (case lib_ReadFile l (lib_Clean l path) of
        Inl err \<Rightarrow> (Some err, cfg)
      | Inr content \<Rightarrow> lib_DecodeInto l scheme content cfg)"

definition SyncConfig_addLeaderElectionTo :: "SyncConfig \<Rightarrow> ('s, 'h) Options \<Rightarrow> ('s, 'h) Options" where
  "SyncConfig_addLeaderElectionTo cfg opt =
     (case cm_LeaderElection cfg of
        None \<Rightarrow> opt
      | Some le \<Rightarrow>
          let opt = (case le_LeaderElect le of
                None \<Rightarrow> opt
              | Some b \<Rightarrow> if \<not> opt_LeaderElection opt then opt\<lparr>opt_LeaderElection := b\<rparr> else opt);
              opt = (if opt_LeaderElectionResourceLock opt = [] \<and> le_ResourceLock le \<noteq> []
                then opt\<lparr>opt_LeaderElectionResourceLock := le_ResourceLock le\<rparr> else opt);
              opt = (if opt_LeaderElectionNamespace opt = [] \<and> le_ResourceNamespace le \<noteq> []
                then opt\<lparr>opt_LeaderElectionNamespace := le_ResourceNamespace le\<rparr> else opt);
              opt = (if opt_LeaderElectionID opt = [] \<and> le_ResourceName le \<noteq> []
                then opt\<lparr>opt_LeaderElectionID := le_ResourceName le\<rparr> else opt);
              opt = (if opt_LeaseDuration opt = None \<and> le_LeaseDuration le \<noteq> 0
                then opt\<lparr>opt_LeaseDuration := Some (le_LeaseDuration le)\<rparr> else opt);
              opt = (if opt_RenewDeadline opt = None \<and> le_RenewDeadline le \<noteq> 0
                then opt\<lparr>opt_RenewDeadline := Some (le_RenewDeadline le)\<rparr> else opt);
              opt = (if opt_RetryPeriod opt = None \<and> le_RetryPeriod le \<noteq> 0
                then opt\<lparr>opt_RetryPeriod := Some (le_RetryPeriod le)\<rparr> else opt)
          in opt)"

text \<open>The conditions are tested from left to right; the port is dereferenced only after the first two hold.\<close>

definition SyncConfig_addWebhookTo :: "(WebhookOptions \<Rightarrow> 'h) \<Rightarrow> SyncConfig \<Rightarrow> ('s, 'h) Options \<Rightarrow> ('s, 'h) Options run" where
  "SyncConfig_addWebhookTo ns cfg opt =
     (if opt_WebhookServer opt \<noteq> None then Ret opt
      else if cw_Host (cm_Webhook cfg) = [] then Ret opt
      else case cw_Port (cm_Webhook cfg) of
             None \<Rightarrow> Panic ''nil pointer dereference''
           | Some port \<Rightarrow>
               if \<not> 0 < port then Ret opt
               else if cw_CertDir (cm_Webhook cfg) = [] then Ret opt
               else Ret (opt\<lparr>opt_WebhookServer :=
                 Some (ns \<lparr>who_Host = cw_Host (cm_Webhook cfg), who_Port = port, who_CertDir = cw_CertDir (cm_Webhook cfg)\<rparr>)\<rparr>))"

definition SyncConfig_addTo :: "(WebhookOptions \<Rightarrow> 'h) \<Rightarrow> SyncConfig \<Rightarrow> ('s, 'h) Options \<Rightarrow> ('s, 'h) Options run" where
  "SyncConfig_addTo ns cfg opt =
     (let opt = SyncConfig_addLeaderElectionTo cfg opt;
          opt = (if opt_MetricsBindAddress opt = [] \<and> cmet_BindAddress (cm_Metrics cfg) \<noteq> []
            then opt\<lparr>opt_MetricsBindAddress := cmet_BindAddress (cm_Metrics cfg)\<rparr> else opt);
          opt = (if opt_HealthProbeBindAddress opt = [] \<and> ch_HealthProbeBindAddress (cm_Health cfg) \<noteq> []
            then opt\<lparr>opt_HealthProbeBindAddress := ch_HealthProbeBindAddress (cm_Health cfg)\<rparr> else opt);
          opt = (if opt_ReadinessEndpointName opt = [] \<and> ch_ReadinessEndpointName (cm_Health cfg) \<noteq> []
            then opt\<lparr>opt_ReadinessEndpointName := ch_ReadinessEndpointName (cm_Health cfg)\<rparr> else opt);
          opt = (if opt_LivenessEndpointName opt = [] \<and> ch_LivenessEndpointName (cm_Health cfg) \<noteq> []
            then opt\<lparr>opt_LivenessEndpointName := ch_LivenessEndpointName (cm_Health cfg)\<rparr> else opt)
      in run_bind (SyncConfig_addWebhookTo ns cfg opt) (\<lambda>opt.
           case cm_Controller cfg of
             None \<Rightarrow> Ret opt
           | Some c \<Rightarrow>
               let opt = (case ccs_CacheSyncTimeout c of
                     None \<Rightarrow> opt
                   | Some d \<Rightarrow> if opt_CacheSyncTimeout opt = 0 then opt\<lparr>opt_CacheSyncTimeout := d\<rparr> else opt);
                   opt = (if opt_GroupKindConcurrency opt = [] \<and> ccs_GroupKindConcurrency c \<noteq> []
                     then opt\<lparr>opt_GroupKindConcurrency := ccs_GroupKindConcurrency c\<rparr> else opt)
               in Ret opt))"

definition SyncConfig_Encode :: "('s, 'h, SyncConfig) config_libs \<Rightarrow> 's \<Rightarrow> SyncConfig \<Rightarrow> goerr + string" where
  "SyncConfig_Encode l scheme cfg =
     (case lib_Encoder l scheme ''application/yaml'' of
        None \<Rightarrow> Inl (Error (''unable to locate encoder -- '' @ [CHR 34] @ ''application/yaml'' @ [CHR 34]
          @ '' is not a supported media type''))
      | Some encoder \<Rightarrow> encoder cfg)"

section \<open>Discovery (manager.go)\<close>

text \<open>The kinds as the map that the loops fill.\<close>

definition sync_getAvailableGVKs ::
  "parse_gv \<Rightarrow> goerr + (goerr + (string \<times> string list) list) \<Rightarrow> goerr + (GroupVersionKind \<rightharpoonup> bool)" where
  "sync_getAvailableGVKs parse discovery =
     (case discovery of
        Inl err \<Rightarrow> Inl (Wrapped ''unable to create discovery client: '' err)
      | Inr (Inl err) \<Rightarrow> Inl (Wrapped ''unable to get available API resources: '' err)
      | Inr (Inr availableResources) \<Rightarrow> Inr (fold (\<lambda>(groupVersion, kinds) availableGVKs.
          let gv = (case parse groupVersion of Inl _ \<Rightarrow> ([], []) | Inr gv \<Rightarrow> gv)
          in fold (\<lambda>k availableGVKs. availableGVKs(\<lparr>gvk_Group = fst gv, gvk_Version = snd gv, gvk_Kind = k\<rparr> \<mapsto> True)) kinds availableGVKs)
          availableResources Map.empty))"

section \<open>The methods agree with those of Controller_Config\<close>

text \<open>Each guarded assignment sets its option to what the option and the configuration give together.\<close>

lemma guarded_assignments:
  "(if opt_LeaderElectionResourceLock opt = [] \<and> x \<noteq> [] then opt\<lparr>opt_LeaderElectionResourceLock := x\<rparr> else opt) =
     opt\<lparr>opt_LeaderElectionResourceLock := or_list (opt_LeaderElectionResourceLock opt) x\<rparr>"
  "(if opt_LeaderElectionNamespace opt = [] \<and> x \<noteq> [] then opt\<lparr>opt_LeaderElectionNamespace := x\<rparr> else opt) =
     opt\<lparr>opt_LeaderElectionNamespace := or_list (opt_LeaderElectionNamespace opt) x\<rparr>"
  "(if opt_LeaderElectionID opt = [] \<and> x \<noteq> [] then opt\<lparr>opt_LeaderElectionID := x\<rparr> else opt) =
     opt\<lparr>opt_LeaderElectionID := or_list (opt_LeaderElectionID opt) x\<rparr>"
  "(if opt_MetricsBindAddress opt = [] \<and> x \<noteq> [] then opt\<lparr>opt_MetricsBindAddress := x\<rparr> else opt) =
     opt\<lparr>opt_MetricsBindAddress := or_list (opt_MetricsBindAddress opt) x\<rparr>"
  "(if opt_HealthProbeBindAddress opt = [] \<and> x \<noteq> [] then opt\<lparr>opt_HealthProbeBindAddress := x\<rparr> else opt) =
     opt\<lparr>opt_HealthProbeBindAddress := or_list (opt_HealthProbeBindAddress opt) x\<rparr>"
  "(if opt_ReadinessEndpointName opt = [] \<and> x \<noteq> [] then opt\<lparr>opt_ReadinessEndpointName := x\<rparr> else opt) =
     opt\<lparr>opt_ReadinessEndpointName := or_list (opt_ReadinessEndpointName opt) x\<rparr>"
  "(if opt_LivenessEndpointName opt = [] \<and> x \<noteq> [] then opt\<lparr>opt_LivenessEndpointName := x\<rparr> else opt) =
     opt\<lparr>opt_LivenessEndpointName := or_list (opt_LivenessEndpointName opt) x\<rparr>"
  "(if opt_GroupKindConcurrency opt = [] \<and> y \<noteq> [] then opt\<lparr>opt_GroupKindConcurrency := y\<rparr> else opt) =
     opt\<lparr>opt_GroupKindConcurrency := or_list (opt_GroupKindConcurrency opt) y\<rparr>"
  "(if opt_LeaseDuration opt = None \<and> d \<noteq> 0 then opt\<lparr>opt_LeaseDuration := Some d\<rparr> else opt) =
     opt\<lparr>opt_LeaseDuration := or_duration (opt_LeaseDuration opt) d\<rparr>"
  "(if opt_RenewDeadline opt = None \<and> d \<noteq> 0 then opt\<lparr>opt_RenewDeadline := Some d\<rparr> else opt) =
     opt\<lparr>opt_RenewDeadline := or_duration (opt_RenewDeadline opt) d\<rparr>"
  "(if opt_RetryPeriod opt = None \<and> d \<noteq> 0 then opt\<lparr>opt_RetryPeriod := Some d\<rparr> else opt) =
     opt\<lparr>opt_RetryPeriod := or_duration (opt_RetryPeriod opt) d\<rparr>"
  "(case le of None \<Rightarrow> opt | Some b \<Rightarrow> if \<not> opt_LeaderElection opt then opt\<lparr>opt_LeaderElection := b\<rparr> else opt) =
     opt\<lparr>opt_LeaderElection := or_value False (opt_LeaderElection opt) le\<rparr>"
  "(case ct of None \<Rightarrow> opt | Some t \<Rightarrow> if opt_CacheSyncTimeout opt = 0 then opt\<lparr>opt_CacheSyncTimeout := t\<rparr> else opt) =
     opt\<lparr>opt_CacheSyncTimeout := or_value 0 (opt_CacheSyncTimeout opt) ct\<rparr>"
  by (cases opt; simp add: or_list_def or_duration_def or_value_def split: option.split)+

lemma SyncConfig_addLeaderElectionTo: "SyncConfig_addLeaderElectionTo = addLeaderElectionTo"
proof (intro ext)
  fix cfg :: SyncConfig and opt :: "('s, 'h) Options"
  show "SyncConfig_addLeaderElectionTo cfg opt = addLeaderElectionTo cfg opt"
    unfolding SyncConfig_addLeaderElectionTo_def addLeaderElectionTo_def guarded_assignments
    by (simp add: Let_def split: option.split)
qed

lemma SyncConfig_addWebhookTo: "SyncConfig_addWebhookTo = addWebhookTo"
  by (intro ext) (auto simp: SyncConfig_addWebhookTo_def addWebhookTo_def Let_def split: option.split)

lemma SyncConfig_addTo: "SyncConfig_addTo = addTo"
proof (intro ext)
  fix ns :: "WebhookOptions \<Rightarrow> 'h" and cfg :: SyncConfig and opt :: "('s, 'h) Options"
  have "SyncConfig_addTo ns cfg opt =
      run_bind (addWebhookTo ns cfg (addAddressesTo cfg (addLeaderElectionTo cfg opt))) (\<lambda>opt. Ret (addControllerTo cfg opt))"
    unfolding SyncConfig_addTo_def guarded_assignments SyncConfig_addLeaderElectionTo SyncConfig_addWebhookTo
    by (cases "cm_Controller cfg") (simp_all add: Let_def addAddressesTo_def addControllerTo_def)
  then show "SyncConfig_addTo ns cfg opt = addTo ns cfg opt"
    unfolding addTo_def by (cases "addWebhookTo ns cfg (addAddressesTo cfg (addLeaderElectionTo cfg opt))") simp_all
qed

text \<open>
  The configuration of the sync manager is the one that its own methods give: reading the file over the
  defaults and then assigning every option that is not set yet.
\<close>

theorem NewSyncConfig_written_out:
  "NewSyncConfig l defaultOptions scheme configFile defaults =
     (let options = defaultOptions\<lparr>opt_Scheme := scheme\<rparr>;
          cfg = (case defaults of None \<Rightarrow> zero_SyncConfig | Some d \<Rightarrow> d);
          (err, cfg) = (if configFile = [] then (None, lib_Default l scheme cfg) else SyncConfig_fromFile l configFile scheme cfg)
      in case err of
           Some e \<Rightarrow> Ret (options, cfg, Some e)
         | None \<Rightarrow> run_map (\<lambda>opt. (opt, cfg, None)) (SyncConfig_addTo (lib_NewServer l) cfg options))"
  by (simp add: NewSyncConfig_def new_config_def fromFile_def SyncConfig_fromFile_def SyncConfig_addTo Let_def
      split: option.split prod.split sum.split)

lemma SyncConfig_Encode: "SyncConfig_Encode = Encode"
  by (intro ext) (simp add: SyncConfig_Encode_def Encode_def)

lemma fold_true_map:
  "fold (\<lambda>k m. m(f k \<mapsto> True)) ks m = (\<lambda>g. if g \<in> f ` set ks then Some True else m g)"
  by (induction ks arbitrary: m) (auto simp: fun_eq_iff)

text \<open>Looking a kind up in the map of the sync manager finds it exactly when it is among the discovered kinds.\<close>

theorem sync_getAvailableGVKs_set:
  "sync_getAvailableGVKs parse discovery =
     (case getAvailableGVKs parse discovery of
        Inl err \<Rightarrow> Inl err
      | Inr as \<Rightarrow> Inr (\<lambda>gvk. if gvk \<in> set as then Some True else None))"
proof -
  let ?gv = "\<lambda>groupVersion. case parse groupVersion of Inl _ \<Rightarrow> ([], []) | Inr gv \<Rightarrow> gv"
  let ?kinds = "\<lambda>(groupVersion, kinds). map (\<lambda>k. \<lparr>gvk_Group = fst (?gv groupVersion), gvk_Version = snd (?gv groupVersion), gvk_Kind = k\<rparr>) kinds"
  have "fold (\<lambda>(groupVersion, kinds) m. let gv = ?gv groupVersion
        in fold (\<lambda>k m. m(\<lparr>gvk_Group = fst gv, gvk_Version = snd gv, gvk_Kind = k\<rparr> \<mapsto> True)) kinds m) rs m =
      (\<lambda>g. if g \<in> set (concat (map ?kinds rs)) then Some True else m g)" for rs m
    by (induction rs arbitrary: m) (auto simp: Let_def fold_true_map fun_eq_iff)
  then show ?thesis
    by (simp add: sync_getAvailableGVKs_def getAvailableGVKs_def case_prod_unfold split: sum.split)
qed

end
