(* ===== verification/Alert_Webhook.thy ===== *)
theory Alert_Webhook
  imports Controller_Config Go_Strings
begin

text \<open>
  pkg/client/webhook: the receiver of Alertmanager alerts.  A mapped alert sets tags on every
  cluster of a namespace, except the tags that a cluster excludes; the update is tried up to
  three times.
\<close>

section \<open>Alerts (alert.go)\<close>

definition AlertStatusFiring :: string where
  "AlertStatusFiring = ''firing''"

definition AlertStatusResolved :: string where
  "AlertStatusResolved = ''resolved''"

record CommonLabels =
  cl_Alertname :: string
  cl_Service :: string
  cl_Severity :: string

record CommonAnnotations =
  ca_Summary :: string

record AlertLabels =
  al_Alertname :: string
  al_Service :: string
  al_Severity :: string

record GroupLabels =
  gl_Alertname :: string

record AlertItem =
  ai_Status :: string
  ai_Labels :: AlertLabels
  ai_Annotations :: CommonAnnotations
  ai_StartsAt :: timestamp
  ai_EndsAt :: timestamp
  ai_GeneratorURL :: string
  ai_Fingerprint :: string

record Alert =
  alert_Receiver :: string
  alert_Status :: string
  alert_Alerts :: "AlertItem list"
  alert_GroupLabels :: GroupLabels
  alert_CommonLabels :: CommonLabels
  alert_CommonAnnotations :: CommonAnnotations
  alert_ExternalURL :: string
  alert_Version :: string
  alert_GroupKey :: string

section \<open>The server (webhook.go)\<close>

text \<open>
  \<open>wh_List\<close> and \<open>wh_Update\<close> are calls of the Kubernetes client; \<open>wh_Unmarshal\<close> decodes the body of
  a request.
\<close>

record 'k Server =
  wh_List :: "string \<Rightarrow> 'k \<Rightarrow> (goerr + Cluster list) \<times> 'k"
  wh_Update :: "Cluster \<Rightarrow> 'k \<Rightarrow> goerr option \<times> 'k"
  wh_Unmarshal :: "string \<Rightarrow> goerr + Alert"
  wh_Namespace :: string
  wh_AlertMap :: "AlertRule list"

text \<open>The state: Kubernetes, and how often the time of the dead man's switch was recorded.\<close>

record 'k webhook_st =
  ws_k8s :: 'k
  ws_DMS :: nat

definition DeadMansSwitchAlertName :: string where
  "DeadMansSwitchAlertName = ''CRCDeadMansSwitch''"

fun contains :: "string \<Rightarrow> string list \<Rightarrow> bool" where
  "contains item [] = False"
| "contains item (s # slice) = (s = item \<or> contains item slice)"

definition ExcludedTagsAnnotation :: string where
  "ExcludedTagsAnnotation = ''registry.ethos.adobe.com/excluded-tags''"

definition excluded_tags :: "Cluster \<Rightarrow> string list" where
  "excluded_tags cluster =
     (case meta_Annotations (cl_Meta cluster) ExcludedTagsAnnotation of
        None \<Rightarrow> []
      | Some a \<Rightarrow> if a = [] then [] else str_split (CHR '','') a)"

text \<open>The tags of a rule have different keys, so the order in which they are set plays no role.\<close>

definition new_tags :: "str_map \<Rightarrow> string list \<Rightarrow> str_map \<Rightarrow> str_map" where
  "new_tags tag excludedTags tags = (\<lambda>key.
     case tag key of
       None \<Rightarrow> tags key
     | Some val \<Rightarrow> if contains key excludedTags then tags key else Some val)"

definition set_tags :: "str_map \<Rightarrow> Cluster \<Rightarrow> Cluster" where
  "set_tags tag cluster = cluster\<lparr>cl_Spec := (cl_Spec cluster)\<lparr>cs_Tags :=
     new_tags tag (excluded_tags cluster) (cs_Tags (cl_Spec cluster))\<rparr>\<rparr>"

fun update_clusters :: "'k Server \<Rightarrow> str_map \<Rightarrow> Cluster list \<Rightarrow> 'k \<Rightarrow> goerr option \<times> 'k" where
  "update_clusters s tag [] k = (None, k)"
| "update_clusters s tag (cluster # items) k =
     (case wh_Update s (set_tags tag cluster) k of
        (Some err, k) \<Rightarrow> (Some err, k)
      | (None, k) \<Rightarrow> update_clusters s tag items k)"

definition updateClusterTags :: "'k Server \<Rightarrow> str_map \<Rightarrow> 'k \<Rightarrow> goerr option \<times> 'k" where
  "updateClusterTags s tag k =
     (case wh_List s (wh_Namespace s) k of
        (Inl err, k) \<Rightarrow> (Some err, k)
      | (Inr items, k) \<Rightarrow> update_clusters s tag items k)"

text \<open>The loop with \<open>n\<close> attempts left and the error of the last one.\<close>

fun retry_loop :: "('p \<Rightarrow> 'k \<Rightarrow> goerr option \<times> 'k) \<Rightarrow> 'p \<Rightarrow> nat \<Rightarrow> goerr option \<Rightarrow> 'k \<Rightarrow> (unit + goerr option) \<times> 'k" where
  "retry_loop f params 0 err k = (Inr err, k)"
| "retry_loop f params (Suc n) err k =
     (case f params k of
        (None, k) \<Rightarrow> (Inl (), k)
      | (Some err, k) \<Rightarrow> retry_loop f params n (Some err) k)"

definition retry :: "('p \<Rightarrow> 'k \<Rightarrow> goerr option \<times> 'k) \<Rightarrow> 'p \<Rightarrow> int \<Rightarrow> 'k \<Rightarrow> goerr option \<times> 'k" where
  "retry f params attempts k =
     (case retry_loop f params (nat attempts) None k of
        (Inl _, k) \<Rightarrow> (None, k)
      | (Inr (Some err), k) \<Rightarrow> (Some (Wrapped (''after '' @ int_str attempts @ '' attempts, last error: '') err), k)
      | (Inr None, k) \<Rightarrow> (Some (Error (''after '' @ int_str attempts @ '' attempts, last error: %!s(<nil>)'')), k))"

definition process :: "'k Server \<Rightarrow> Alert \<Rightarrow> 'k webhook_st \<Rightarrow> goerr option \<times> 'k webhook_st" where
  "process s alert st =
     (let alertname = cl_Alertname (alert_CommonLabels alert)
      in if alertname = DeadMansSwitchAlertName \<and> alert_Status alert = AlertStatusFiring
         then (None, st\<lparr>ws_DMS := Suc (ws_DMS st)\<rparr>)
         else (case find (\<lambda>a. ar_AlertName a = alertname) (wh_AlertMap s) of
                 None \<Rightarrow> (Some (Error ''unmapped alert received via webhook''), st)
               | Some a \<Rightarrow>
                   (if alert_Status alert \<noteq> AlertStatusFiring \<and> alert_Status alert \<noteq> AlertStatusResolved
                    then (Some (Error ''invalid alert status''), st)
                    else let tag = (if alert_Status alert = AlertStatusFiring then ar_OnFiring a else ar_OnResolved a);
                             (err, k) = retry (updateClusterTags s) tag 3 (ws_k8s st)
                         in (err, st\<lparr>ws_k8s := k\<rparr>))))"

text \<open>The status of the answer; the body, or the error of reading it, is an argument.\<close>

definition webhookHandler :: "'k Server \<Rightarrow> goerr + string \<Rightarrow> 'k webhook_st \<Rightarrow> int \<times> 'k webhook_st" where
  "webhookHandler s req st =
     (case req of
        Inl err \<Rightarrow> (500, st)
      | Inr body \<Rightarrow>
          (case wh_Unmarshal s body of
             Inl err \<Rightarrow> (400, st)
           | Inr alert \<Rightarrow>
               (case process s alert st of
                  (Some err, st) \<Rightarrow> (400, st)
                | (None, st) \<Rightarrow> (200, st))))"

section \<open>The store of clusters\<close>

text \<open>What identifies a cluster, and a cluster without the version that the API server gives it.\<close>

definition cluster_key :: "Cluster \<Rightarrow> string \<times> string" where
  "cluster_key c = (meta_Namespace (cl_Meta c), meta_Name (cl_Meta c))"

definition content :: "Cluster \<Rightarrow> Cluster" where
  "content c = c\<lparr>cl_Meta := (cl_Meta c)\<lparr>meta_ResourceVersion := []\<rparr>\<rparr>"

text \<open>Listing with the empty namespace gives the clusters of all namespaces.\<close>

definition in_namespace :: "string \<Rightarrow> Cluster \<Rightarrow> bool" where
  "in_namespace ns c \<longleftrightarrow> ns = [] \<or> meta_Namespace (cl_Meta c) = ns"

definition put_cluster :: "Cluster \<Rightarrow> Cluster list \<Rightarrow> Cluster list" where
  "put_cluster c cs = map (\<lambda>d. if cluster_key d = cluster_key c then content c else d) cs"

text \<open>The tags of a rule, set on the clusters with certain keys.\<close>

definition tag_on :: "str_map \<Rightarrow> (string \<times> string) set \<Rightarrow> Cluster \<Rightarrow> Cluster" where
  "tag_on tag K d = (if cluster_key d \<in> K then set_tags tag d else d)"

lemma key_set_tags [simp]: "cluster_key (set_tags tag c) = cluster_key c"
  by (simp add: cluster_key_def set_tags_def)

lemma key_content [simp]: "cluster_key (content c) = cluster_key c"
  by (simp add: cluster_key_def content_def)

lemma key_tag_on [simp]: "cluster_key (tag_on tag K c) = cluster_key c"
  by (simp add: tag_on_def)

lemma namespace_tag_on [simp]: "in_namespace ns (tag_on tag K c) = in_namespace ns c"
  by (simp add: tag_on_def in_namespace_def set_tags_def)

lemma excluded_content [simp]: "excluded_tags (content c) = excluded_tags c"
  by (simp add: excluded_tags_def content_def)

lemma excluded_set_tags [simp]: "excluded_tags (set_tags tag c) = excluded_tags c"
  by (simp add: excluded_tags_def set_tags_def)

lemma new_tags_idem [simp]: "new_tags tag ex (new_tags tag ex tags) = new_tags tag ex tags"
  by (auto simp: new_tags_def fun_eq_iff split: option.split)

lemma content_set_tags: "content (set_tags tag c) = set_tags tag (content c)"
  by (simp add: set_tags_def) (simp add: content_def)

lemma set_tags_idem [simp]: "set_tags tag (set_tags tag c) = set_tags tag c"
  by (subst (1) set_tags_def, subst excluded_set_tags) (simp add: set_tags_def)

lemma tag_on_empty [simp]: "tag_on tag {} c = c"
  by (simp add: tag_on_def)

lemma tag_on_twice [simp]: "tag_on tag K (tag_on tag L c) = tag_on tag (K \<union> L) c"
  by (simp add: tag_on_def)

text \<open>
  The contract of the Kubernetes API for clusters.  A listing shows what is stored; an update that
  succeeds replaces the cluster; one that fails may still have been carried out.
\<close>

locale cluster_api =
  fixes List :: "string \<Rightarrow> 'k \<Rightarrow> (goerr + Cluster list) \<times> 'k"
    and Update :: "Cluster \<Rightarrow> 'k \<Rightarrow> goerr option \<times> 'k"
    and view :: "'k \<Rightarrow> Cluster list"
  assumes list_keeps: "List ns k = (r, k') \<Longrightarrow> view k' = view k"
    and list_shows: "List ns k = (Inr cs, k') \<Longrightarrow> map content cs = filter (in_namespace ns) (view k)"
    and update_puts: "Update c k = (None, k') \<Longrightarrow> view k' = put_cluster c (view k)"
    and update_fails: "Update c k = (Some e, k') \<Longrightarrow> view k' = view k \<or> view k' = put_cluster c (view k)"
begin

text \<open>No two stored clusters have the same name and namespace.\<close>

definition unique_keys :: "'k \<Rightarrow> bool" where
  "unique_keys k \<longleftrightarrow> distinct (map cluster_key (view k))"

lemma unique_keys_tagged: "unique_keys k \<Longrightarrow> view k' = map (tag_on tag K) (view k) \<Longrightarrow> unique_keys k'"
  by (simp add: unique_keys_def comp_def)

lemma put_tagged:
  assumes "unique_keys k" and "content c \<in> set (view k)"
  shows "put_cluster (set_tags tag c) (view k) = map (tag_on tag {cluster_key c}) (view k)"
proof -
  have "d = content c" if "d \<in> set (view k)" "cluster_key d = cluster_key c" for d
    using assms that unfolding unique_keys_def by (metis inj_onD distinct_map key_content)
  then show ?thesis
    by (auto simp: put_cluster_def tag_on_def content_set_tags)
qed

lemma update_tags:
  assumes "Update (set_tags tag c) k = (r, k')" and "unique_keys k" and "content c \<in> set (view k)"
  shows "\<exists>K \<subseteq> {cluster_key c}. view k' = map (tag_on tag K) (view k) \<and> (r = None \<longrightarrow> K = {cluster_key c})"
proof (cases r)
  case None
  then show ?thesis
    using assms update_puts put_tagged by (metis order_refl)
next
  case (Some e)
  moreover have "view k = map (tag_on tag {}) (view k)" by (simp add: map_idI)
  ultimately show ?thesis
    using assms update_fails put_tagged by (metis empty_subsetI option.discI order_refl)
qed

lemma tag_view:
  assumes "view k' = map (tag_on tag K) (view k)"
  shows "cluster_key ` set (filter (in_namespace ns) (view k')) = cluster_key ` set (filter (in_namespace ns) (view k))"
  using assms by (force simp: image_iff)

text \<open>Going through listed clusters tags some of them, and all of them if no update fails.\<close>

lemma update_clusters_tags:
  assumes "wh_Update s = Update" and "update_clusters s tag cs k = (r, k')" and "unique_keys k"
    and "content ` set cs \<subseteq> set (view k)" and "distinct (map cluster_key cs)"
  shows "\<exists>K \<subseteq> cluster_key ` set cs. view k' = map (tag_on tag K) (view k) \<and> (r = None \<longrightarrow> K = cluster_key ` set cs)"
  using assms
proof (induction cs arbitrary: k)
  case Nil
  then show ?case by (auto simp: map_idI)
next
  case (Cons c cs)
  obtain r1 k1 where u: "Update (set_tags tag c) k = (r1, k1)" by fastforce
  from update_tags [OF u] Cons.prems(3,4) obtain L
    where L: "L \<subseteq> {cluster_key c}" "view k1 = map (tag_on tag L) (view k)" "r1 = None \<longrightarrow> L = {cluster_key c}"
    by auto
  show ?case
  proof (cases r1)
    case (Some e)
    with u L Cons.prems(1,2) show ?thesis by (auto intro!: exI [of _ L])
  next
    case None
    have "content ` set cs \<subseteq> set (view k1)"
    proof
      fix d assume d: "d \<in> content ` set cs"
      then have "cluster_key d \<noteq> cluster_key c" using Cons.prems(5) by (force simp: image_iff)
      then have "tag_on tag L d = d" using L(1) by (auto simp: tag_on_def)
      moreover have "d \<in> set (view k)" using d Cons.prems(4) by auto
      ultimately show "d \<in> set (view k1)" unfolding L(2) set_map by (rule image_eqI [OF sym])
    qed
    with Cons.IH [of k1] Cons.prems u None unique_keys_tagged [OF _ L(2)] obtain K
      where K: "K \<subseteq> cluster_key ` set cs" "view k' = map (tag_on tag K) (view k1)" "r = None \<longrightarrow> K = cluster_key ` set cs"
      by auto
    from K L None show ?thesis by (intro exI [of _ "K \<union> L"]) auto
  qed
qed

lemma updateClusterTags_tags:
  assumes "wh_List s = List" and "wh_Update s = Update" and "updateClusterTags s tag k = (r, k')" and "unique_keys k"
  defines "N \<equiv> cluster_key ` set (filter (in_namespace (wh_Namespace s)) (view k))"
  shows "\<exists>K \<subseteq> N. view k' = map (tag_on tag K) (view k) \<and> (r = None \<longrightarrow> K = N)"
proof (cases "List (wh_Namespace s) k")
  case (Pair l k1)
  show ?thesis
  proof (cases l)
    case (Inl e)
    with Pair assms(1,3) list_keeps [OF Pair] show ?thesis
      by (intro exI [of _ "{}"]) (auto simp: updateClusterTags_def map_idI)
  next
    case (Inr cs)
    with Pair have l: "map content cs = filter (in_namespace (wh_Namespace s)) (view k)" by (intro list_shows) simp
    have N: "N = cluster_key ` set cs"
      unfolding N_def l [symmetric] by (simp add: image_image)
    have "distinct (map cluster_key (map content cs))"
      using assms(4) by (simp add: l unique_keys_def distinct_map_filter del: map_map)
    then have "distinct (map cluster_key cs)" by (simp add: comp_def)
    moreover have "content ` set cs \<subseteq> set (view k1)"
      using arg_cong [OF l, of set] list_keeps [OF Pair] by auto
    ultimately show ?thesis
      using update_clusters_tags [of s tag cs k1 r k'] assms(1-4) Pair Inr list_keeps [OF Pair]
      by (simp add: updateClusterTags_def unique_keys_def N)
  qed
qed

text \<open>Attempts that failed half-way do no harm, since setting the same tags again changes nothing.\<close>

lemma retry_loop_tags:
  assumes "wh_List s = List" and "wh_Update s = Update" and "retry_loop (updateClusterTags s) tag n e k = (r, k')" and "unique_keys k"
  defines "N \<equiv> cluster_key ` set (filter (in_namespace (wh_Namespace s)) (view k))"
  shows "\<exists>K \<subseteq> N. view k' = map (tag_on tag K) (view k) \<and> (r = Inl () \<longrightarrow> K = N)"
  using assms(3,4) unfolding N_def
proof (induction n arbitrary: e k)
  case 0
  then show ?case by (intro exI [of _ "{}"]) (auto simp: map_idI)
next
  case (Suc n)
  obtain r1 k1 where u: "updateClusterTags s tag k = (r1, k1)" by fastforce
  from updateClusterTags_tags [OF assms(1,2) u Suc.prems(2)] obtain L
    where L: "L \<subseteq> cluster_key ` set (filter (in_namespace (wh_Namespace s)) (view k))"
      "view k1 = map (tag_on tag L) (view k)" "r1 = None \<longrightarrow> L = cluster_key ` set (filter (in_namespace (wh_Namespace s)) (view k))"
    by blast
  show ?case
  proof (cases r1)
    case None
    with Suc.prems u L show ?thesis by (intro exI [of _ L]) auto
  next
    case (Some err)
    with Suc.IH [of "Some err" k1] Suc.prems u unique_keys_tagged [OF _ L(2)] obtain K
      where "K \<subseteq> cluster_key ` set (filter (in_namespace (wh_Namespace s)) (view k1))"
        "view k' = map (tag_on tag K) (view k1)" "r = Inl () \<longrightarrow> K = cluster_key ` set (filter (in_namespace (wh_Namespace s)) (view k1))"
      by auto
    with L tag_view [OF L(2)] show ?thesis by (intro exI [of _ "K \<union> L"]) auto
  qed
qed

end

section \<open>Clusters in memory\<close>

text \<open>
  A store in memory that keeps the contract: an update must name the stored version of an object
  and gives it a new one.  The second component makes the next updates fail, as a server that is
  overloaded does.
\<close>

type_synonym mem_clusters = "Cluster list \<times> bool list"

definition mem_List :: "string \<Rightarrow> mem_clusters \<Rightarrow> (goerr + Cluster list) \<times> mem_clusters" where
  "mem_List ns k = (Inr (filter (in_namespace ns) (fst k)), k)"

definition mem_Update :: "Cluster \<Rightarrow> mem_clusters \<Rightarrow> goerr option \<times> mem_clusters" where
  "mem_Update c k =
     (let version = meta_ResourceVersion (cl_Meta c);
          c' = c\<lparr>cl_Meta := (cl_Meta c)\<lparr>meta_ResourceVersion := CHR ''v'' # version\<rparr>\<rparr>
      in case snd k of
           True # fails \<Rightarrow> (Some (Error ''too many requests''), fst k, fails)
         | fails \<Rightarrow>
             if \<exists>d \<in> set (fst k). cluster_key d = cluster_key c \<and> meta_ResourceVersion (cl_Meta d) \<noteq> version
             then (Some (Error ''conflict''), fst k, tl fails)
             else (None, map (\<lambda>d. if cluster_key d = cluster_key c then c' else d) (fst k), tl fails))"

definition mem_view :: "mem_clusters \<Rightarrow> Cluster list" where
  "mem_view k = map content (fst k)"

lemma content_version [simp]: "content (c\<lparr>cl_Meta := (cl_Meta c)\<lparr>meta_ResourceVersion := v\<rparr>\<rparr>) = content c"
  by (simp add: content_def)

lemma in_namespace_content [simp]: "in_namespace ns (content c) = in_namespace ns c"
  by (simp add: in_namespace_def content_def)

interpretation mem_api: cluster_api mem_List mem_Update mem_view
proof
  fix c k k'
  assume "mem_Update c k = (None, k')"
  then show "mem_view k' = put_cluster c (mem_view k)"
    by (auto simp: mem_Update_def mem_view_def put_cluster_def Let_def split: list.splits bool.splits if_splits)
next
  fix c k e k'
  assume "mem_Update c k = (Some e, k')"
  then show "mem_view k' = mem_view k \<or> mem_view k' = put_cluster c (mem_view k)"
    by (auto simp: mem_Update_def mem_view_def Let_def split: list.splits bool.splits if_splits)
qed (auto simp: mem_List_def mem_view_def filter_map comp_def)

section \<open>Properties\<close>

text \<open>Setting tags on clusters by their keys is setting them on the clusters of the namespace.\<close>

lemma tag_on_namespace:
  "map (tag_on tag (cluster_key ` set (filter (in_namespace ns) cs))) cs = map (\<lambda>d. if in_namespace ns d then set_tags tag d else d) cs"
  by (auto simp: tag_on_def in_namespace_def cluster_key_def image_iff)

lemma tag_on_subset:
  assumes "K \<subseteq> cluster_key ` set (filter (in_namespace ns) cs)"
  shows "list_all2 (\<lambda>d d'. d' = d \<or> in_namespace ns d \<and> d' = set_tags tag d) cs (map (tag_on tag K) cs)"
proof -
  have "in_namespace ns d" if "cluster_key d \<in> K" for d
    using assms that by (auto simp: in_namespace_def cluster_key_def image_iff)
  then show ?thesis
    by (simp add: list_all2_map2 list.rel_refl_strong tag_on_def)
qed

text \<open>
  C21. Suppose that the Kubernetes API keeps its contract and that no two clusters have the same
  name and namespace.  A mapped alert that is answered with 200 has set the tags of its rule on
  exactly the clusters of the namespace, apart from the tags that a cluster excludes, however many
  attempts failed before.  If it is answered with 400, some of them have the tags and the others
  are as before.
\<close>

theorem alert_tags:
  assumes "cluster_api (wh_List s) (wh_Update s) view"
    and "distinct (map cluster_key (view (ws_k8s st)))"
    and "wh_Unmarshal s body = Inr alert"
    and "find (\<lambda>a. ar_AlertName a = cl_Alertname (alert_CommonLabels alert)) (wh_AlertMap s) = Some rule"
    and "alert_Status alert = AlertStatusFiring \<and> tag = ar_OnFiring rule \<or> alert_Status alert = AlertStatusResolved \<and> tag = ar_OnResolved rule"
    and "cl_Alertname (alert_CommonLabels alert) \<noteq> DeadMansSwitchAlertName"
    and "webhookHandler s (Inr body) st = (code, st')"
  shows "(code = 200 \<or> code = 400)
    \<and> (code = 200 \<longrightarrow> view (ws_k8s st') = map (\<lambda>d. if in_namespace (wh_Namespace s) d then set_tags tag d else d) (view (ws_k8s st)))
    \<and> list_all2 (\<lambda>d d'. d' = d \<or> in_namespace (wh_Namespace s) d \<and> d' = set_tags tag d) (view (ws_k8s st)) (view (ws_k8s st'))"
proof -
  obtain r k' where loop: "retry_loop (updateClusterTags s) tag 3 None (ws_k8s st) = (r, k')" by fastforce
  have "ws_k8s st' = k' \<and> (code = 200 \<and> r = Inl () \<or> code = 400 \<and> r \<noteq> Inl ())"
    using assms(3-7) loop
    by (auto simp: webhookHandler_def process_def retry_def AlertStatusFiring_def AlertStatusResolved_def Let_def
        split: prod.splits option.splits sum.splits)
  moreover obtain K where "K \<subseteq> cluster_key ` set (filter (in_namespace (wh_Namespace s)) (view (ws_k8s st)))"
      "view k' = map (tag_on tag K) (view (ws_k8s st))"
      "r = Inl () \<longrightarrow> K = cluster_key ` set (filter (in_namespace (wh_Namespace s)) (view (ws_k8s st)))"
    using cluster_api.retry_loop_tags [OF assms(1) refl refl loop] assms(2) cluster_api.unique_keys_def [OF assms(1)] by auto
  ultimately show ?thesis
    using tag_on_namespace tag_on_subset by auto
qed

text \<open>Three clusters; the second excludes the tag and the third is in another namespace.\<close>

definition tag_cluster :: "string \<Rightarrow> string \<Rightarrow> str_map \<Rightarrow> Cluster" where
  "tag_cluster ns name annotations = zero_Cluster\<lparr>cl_Meta := zero_ObjectMeta\<lparr>meta_Name := name, meta_Namespace := ns,
     meta_Annotations := annotations\<rparr>\<rparr>"

definition example_clusters :: "Cluster list" where
  "example_clusters = [tag_cluster ''registry'' ''a'' Map.empty,
     tag_cluster ''registry'' ''b'' [ExcludedTagsAnnotation \<mapsto> ''x,onboarding''], tag_cluster ''other'' ''c'' Map.empty]"

definition example_alert :: "string \<Rightarrow> string \<Rightarrow> Alert" where
  "example_alert name status = \<lparr>alert_Receiver = [], alert_Status = status, alert_Alerts = [], alert_GroupLabels = \<lparr>gl_Alertname = name\<rparr>,
     alert_CommonLabels = \<lparr>cl_Alertname = name, cl_Service = [], cl_Severity = []\<rparr>, alert_CommonAnnotations = \<lparr>ca_Summary = []\<rparr>,
     alert_ExternalURL = [], alert_Version = [], alert_GroupKey = []\<rparr>"

definition example_server :: "mem_clusters Server" where
  "example_server = \<lparr>wh_List = mem_List, wh_Update = mem_Update, wh_Unmarshal = (\<lambda>b. Inr (example_alert ''Full'' b)),
     wh_Namespace = ''registry'', wh_AlertMap = [\<lparr>ar_AlertName = ''Full'', ar_OnFiring = [''onboarding'' \<mapsto> ''off''],
       ar_OnResolved = [''onboarding'' \<mapsto> ''on'']\<rparr>]\<rparr>"

text \<open>The update of the second cluster fails at first, so the tags are set in the second attempt.\<close>

theorem alert_tags_witness:
  "\<exists>st'. webhookHandler example_server (Inr ''firing'') \<lparr>ws_k8s = (example_clusters, [False, True]), ws_DMS = 0\<rparr> = (200, st')
     \<and> map (\<lambda>c. cs_Tags (cl_Spec c) ''onboarding'') (mem_view (ws_k8s st')) = [Some ''off'', None, None]"
proof -
  let ?st = "\<lparr>ws_k8s = (example_clusters, [False, True]), ws_DMS = 0\<rparr>"
  have "fst (webhookHandler example_server (Inr ''firing'') ?st) = 200" by code_simp
  then obtain st' where h: "webhookHandler example_server (Inr ''firing'') ?st = (200, st')"
    by (metis prod.collapse)
  have api: "cluster_api (wh_List example_server) (wh_Update example_server) mem_view"
    unfolding example_server_def by (simp add: mem_api.cluster_api_axioms)
  have "distinct (map cluster_key (mem_view (ws_k8s ?st)))" by code_simp
  from alert_tags [OF api this _ _ _ _ h, where alert = "example_alert ''Full'' ''firing''" and tag = "[''onboarding'' \<mapsto> ''off'']"]
  have v: "mem_view (ws_k8s st') = map (\<lambda>d. if in_namespace ''registry'' d then set_tags [''onboarding'' \<mapsto> ''off''] d else d)
      (mem_view (ws_k8s ?st))"
    by (simp add: example_server_def example_alert_def AlertStatusFiring_def DeadMansSwitchAlertName_def)
  have "map (\<lambda>c. cs_Tags (cl_Spec c) ''onboarding'') (map (\<lambda>d. if in_namespace ''registry'' d
      then set_tags [''onboarding'' \<mapsto> ''off''] d else d) (mem_view (ws_k8s ?st))) = [Some ''off'', None, None]"
    by code_simp
  with h v show ?thesis by auto
qed

end
