(* ===== verification/Unstructured.thy ===== *)
theory Unstructured
  imports Registry_Types Go_Strings "HOL-Library.Word"
begin

text \<open>
  Objects whose shape is known only at run time.  A value of Go's \<^verbatim>\<open>interface{}\<close> that came from
  JSON is a tree, an object a list of fields.  The accessors of the Kubernetes library
  (\<^verbatim>\<open>unstructured.NestedString\<close> and the like) are a record of functions; what their documentation
  says about them is the locale \<open>unstructured_lib\<close>.
\<close>

section \<open>Values and paths\<close>

text \<open>A floating-point number is kept by its bits.\<close>

datatype jval =
    JNull
  | JBool bool
  | JInt int
  | JFloat "64 word"
  | JStr string
  | JList "jval list"
  | JMap "(string \<times> jval) list"

type_synonym jobj = "(string \<times> jval) list"

text \<open>The value at the end of a path of field names.\<close>

fun lookup_path :: "jval \<Rightarrow> string list \<Rightarrow> jval option" where
  "lookup_path v [] = Some v"
| "lookup_path (JMap m) (f # fs) = (case map_of m f of None \<Rightarrow> None | Some v \<Rightarrow> lookup_path v fs)"
| "lookup_path v (f # fs) = None"

lemma lookup_path_append:
  "lookup_path v (p @ q) = Option.bind (lookup_path v p) (\<lambda>w. lookup_path w q)"
  by (induction v p rule: lookup_path.induct) (auto split: option.splits)

section \<open>The accessors\<close>

type_synonym 'a nested = "jobj \<Rightarrow> string list \<Rightarrow> 'a \<times> bool \<times> goerr option"

record unstructured_api =
  NestedString :: "string nested"
  NestedInt64 :: "int nested"
  NestedBool :: "bool nested"
  NestedFloat64 :: "64 word nested"
  NestedStringSlice :: "string list nested"
  NestedStringMap :: "str_map nested"
  NestedSlice :: "jval list nested"
  NestedMap :: "jobj nested"
  GetName :: "jobj \<Rightarrow> string"
  GetNamespace :: "jobj \<Rightarrow> string"
  GetLabels :: "jobj \<Rightarrow> str_map"
  GetGVK :: "jobj \<Rightarrow> GroupVersionKind"
  GVK_String :: "GroupVersionKind \<Rightarrow> string"

text \<open>The values that the accessors look for.\<close>

fun as_string :: "jval \<Rightarrow> string option" where
  "as_string (JStr s) = Some s"
| "as_string _ = None"

fun as_int :: "jval \<Rightarrow> int option" where
  "as_int (JInt n) = Some n"
| "as_int _ = None"

fun as_bool :: "jval \<Rightarrow> bool option" where
  "as_bool (JBool b) = Some b"
| "as_bool _ = None"

fun as_float :: "jval \<Rightarrow> 64 word option" where
  "as_float (JFloat w) = Some w"
| "as_float _ = None"

fun as_slice :: "jval \<Rightarrow> jval list option" where
  "as_slice (JList vs) = Some vs"
| "as_slice _ = None"

fun as_map :: "jval \<Rightarrow> jobj option" where
  "as_map (JMap m) = Some m"
| "as_map _ = None"

fun all_some :: "'a option list \<Rightarrow> 'a list option" where
  "all_some [] = Some []"
| "all_some (None # xs) = None"
| "all_some (Some x # xs) = map_option ((#) x) (all_some xs)"

definition as_string_slice :: "jval \<Rightarrow> string list option" where
  "as_string_slice v = Option.bind (as_slice v) (\<lambda>vs. all_some (map as_string vs))"

definition as_string_map :: "jval \<Rightarrow> str_map option" where
  "as_string_map v = Option.bind (as_map v)
     (\<lambda>m. map_option (\<lambda>vs. map_of (zip (map fst m) vs)) (all_some (map (\<lambda>p. as_string (snd p)) m)))"

definition at_path :: "(jval \<Rightarrow> 'a option) \<Rightarrow> jobj \<Rightarrow> string list \<Rightarrow> 'a option" where
  "at_path as obj p = Option.bind (lookup_path (JMap obj) p) as"

text \<open>
  The documentation: the value is returned with true and no error when it is there and has the
  type; otherwise false is returned, with an error unless the field is just missing.
\<close>

definition nested_law :: "'a nested \<Rightarrow> (jval \<Rightarrow> 'a option) \<Rightarrow> bool" where
  "nested_law nested as \<longleftrightarrow> (\<forall>obj p.
     case at_path as obj p of
       Some v \<Rightarrow> nested obj p = (v, True, None)
     | None \<Rightarrow> \<exists>v e. nested obj p = (v, False, e))"

lemma nested_law_Some:
  assumes "nested_law nested as" and "at_path as obj p = Some v"
  shows "nested obj p = (v, True, None)"
  using assms(1) [unfolded nested_law_def, rule_format, of obj p] assms(2) by simp

lemma nested_law_None:
  assumes "nested_law nested as" and "at_path as obj p = None"
  shows "\<exists>v e. nested obj p = (v, False, e)"
  using assms(1) [unfolded nested_law_def, rule_format, of obj p] assms(2) by simp

locale unstructured_lib =
  fixes api :: unstructured_api
  assumes string_law: "nested_law (NestedString api) as_string"
    and int_law: "nested_law (NestedInt64 api) as_int"
    and bool_law: "nested_law (NestedBool api) as_bool"
    and float_law: "nested_law (NestedFloat64 api) as_float"
    and string_slice_law: "nested_law (NestedStringSlice api) as_string_slice"
    and string_map_law: "nested_law (NestedStringMap api) as_string_map"
    and slice_law: "nested_law (NestedSlice api) as_slice"
    and map_law: "nested_law (NestedMap api) as_map"

section \<open>An implementation\<close>

definition std_nested :: "'a \<Rightarrow> (jval \<Rightarrow> 'a option) \<Rightarrow> 'a nested" where
  "std_nested z as obj p =
     (case lookup_path (JMap obj) p of
        None \<Rightarrow> (z, False, None)
      | Some v \<Rightarrow> (case as v of None \<Rightarrow> (z, False, Some (Error ''accessor error'')) | Some x \<Rightarrow> (x, True, None)))"

lemma std_nested_law: "nested_law (std_nested z as) as"
  by (auto simp: nested_law_def std_nested_def at_path_def split: option.splits)

definition std_api :: unstructured_api where
  "std_api = \<lparr>NestedString = std_nested [] as_string, NestedInt64 = std_nested 0 as_int,
     NestedBool = std_nested False as_bool, NestedFloat64 = std_nested 0 as_float,
     NestedStringSlice = std_nested [] as_string_slice, NestedStringMap = std_nested Map.empty as_string_map,
     NestedSlice = std_nested [] as_slice, NestedMap = std_nested [] as_map,
     GetName = (\<lambda>u. fst (std_nested [] as_string u [''metadata'', ''name''])),
     GetNamespace = (\<lambda>u. fst (std_nested [] as_string u [''metadata'', ''namespace''])),
     GetLabels = (\<lambda>u. fst (std_nested Map.empty as_string_map u [''metadata'', ''labels''])),
     GetGVK = (\<lambda>u. \<lparr>gvk_Group = [], gvk_Version = fst (std_nested [] as_string u [''apiVersion'']),
                    gvk_Kind = fst (std_nested [] as_string u [''kind''])\<rparr>),
     GVK_String = (\<lambda>g. gvk_Group g @ ''/'' @ gvk_Version g @ '', Kind='' @ gvk_Kind g)\<rparr>"

interpretation std: unstructured_lib std_api
  by unfold_locales (simp_all add: std_api_def std_nested_law)

section \<open>Loops over objects\<close>

text \<open>A loop that stops at the first error.\<close>

fun fold_err :: "('s \<Rightarrow> 'a \<Rightarrow> goerr + 's) \<Rightarrow> 's \<Rightarrow> 'a list \<Rightarrow> goerr + 's" where
  "fold_err f s [] = Inr s"
| "fold_err f s (x # xs) = (case f s x of Inl err \<Rightarrow> Inl err | Inr s \<Rightarrow> fold_err f s xs)"

text \<open>A loop body that first takes something from the object and then uses it.\<close>

lemma fold_err_Inr:
  assumes "\<And>s x. f s x = (case get x of Inl err \<Rightarrow> Inl err | Inr v \<Rightarrow> Inr (use v s))"
  shows "fold_err f s xs = Inr s' \<longleftrightarrow> (\<exists>vs. list_all2 (\<lambda>x v. get x = Inr v) xs vs \<and> s' = fold use vs s)"
proof (induction xs arbitrary: s)
  case Nil
  then show ?case by auto
next
  case (Cons x xs)
  then show ?case by (cases "get x") (auto simp: assms list_all2_Cons1)
qed

lemma fold_err_Inl:
  assumes "\<And>s x. f s x = (case get x of Inl err \<Rightarrow> Inl err | Inr v \<Rightarrow> Inr (use v s))"
    and "fold_err f s xs = Inl err"
  shows "\<exists>x \<in> set xs. get x = Inl err"
  using assms(2) by (induction xs arbitrary: s) (auto simp: assms(1) split: sum.splits)

end
