(* ===== verification/Service_Metadata.thy ===== *)
theory Service_Metadata
  imports Unstructured Cluster_Controller
begin

text \<open>
  pkg/client/controllers/servicemetadatawatcher_controller.go: the controller that copies fields of
  watched objects into the service metadata of the cluster.
\<close>

section \<open>Paths\<close>

text \<open>
  \<^verbatim>\<open>parsePath\<close> cuts a path with the pattern \<^verbatim>\<open>(?:[^.\[]+|\[.*?\])\<close>: a piece is a longest run
  without dots and opening brackets, or the shortest text in brackets on one line; everything
  else is skipped.
\<close>

fun bracket :: "string \<Rightarrow> (string \<times> string) option" where
  "bracket [] = None"
| "bracket (c # s) =
     (if c = CHR '']'' then Some ([], s)
      else if byte c = 10 then None
      else map_option (\<lambda>(inner, rest). (c # inner, rest)) (bracket s))"

lemma bracket_length: "bracket s = Some (i, r) \<Longrightarrow> length r < length s"
  by (induction s arbitrary: i) (auto split: if_splits)

definition plain :: "char \<Rightarrow> bool" where
  "plain c \<longleftrightarrow> c \<noteq> CHR ''.'' \<and> c \<noteq> CHR ''[''"

function path_pieces :: "string \<Rightarrow> string list" where
  "path_pieces [] = []"
| "path_pieces (c # s) =
     (if c = CHR ''.'' then path_pieces s
      else if c = CHR ''['' then
        (case bracket s of
           Some (inner, rest) \<Rightarrow> (''['' @ inner @ '']'') # path_pieces rest
         | None \<Rightarrow> path_pieces s)
      else (c # takeWhile plain s) # path_pieces (dropWhile plain s))"
  by pat_completeness auto
termination
  by (relation "measure length") (auto dest!: bracket_length intro: le_imp_less_Suc length_dropWhile_le)

definition parsePath :: "string \<Rightarrow> goerr + string list" where
  "parsePath path =
     (let p = path_pieces path in if length p > 0 then Inr p else Inl (Error ''invalid path''))"

section \<open>Values\<close>

text \<open>\<^verbatim>\<open>object.(map[string]interface{})\<close>\<close>

definition assert_map :: "jval \<Rightarrow> jobj run" where
  "assert_map v =
     (case v of JMap m \<Rightarrow> Ret m | _ \<Rightarrow> Panic ''interface conversion: interface {} is not map[string]interface {}'')"

definition format_bool :: "bool \<Rightarrow> string" where
  "format_bool b = (if b then ''true'' else ''false'')"

text \<open>The end of \<^verbatim>\<open>getNestedString\<close>, after the loop; \<open>fmt\<close> is \<^verbatim>\<open>strconv.FormatFloat\<close>.\<close>

definition nested_leaf ::
  "unstructured_api \<Rightarrow> (64 word \<Rightarrow> string) \<Rightarrow> jval \<Rightarrow> string list \<Rightarrow> (string \<times> bool \<times> goerr option) run" where
  "nested_leaf api fmt object path =
     (case object of
        JNull \<Rightarrow> Panic ''invalid memory address or nil pointer dereference''
      | JStr s \<Rightarrow> Ret (s, True, None)
      | JBool b \<Rightarrow> Ret (format_bool b, True, None)
      | _ \<Rightarrow>
          (case assert_map object of
             Panic p \<Rightarrow> Panic p
           | Ret m \<Rightarrow>
               (case NestedString api m path of
                  (s, True, None) \<Rightarrow> Ret (s, True, None)
                | _ \<Rightarrow>
                    (case NestedBool api m path of
                       (b, True, None) \<Rightarrow> Ret (format_bool b, True, None)
                     | _ \<Rightarrow>
                         (case NestedInt64 api m path of
                            (n, True, None) \<Rightarrow> Ret (int_str n, True, None)
                          | _ \<Rightarrow>
                              (case NestedFloat64 api m path of
                                 (f, True, None) \<Rightarrow> Ret (fmt f, True, None)
                               | (f, found, _) \<Rightarrow> Ret ([], found, Some (Error ''invalid field type''))))))))"

text \<open>The index of \<^verbatim>\<open>[k]\<close> in a slice; a negative one counts from the end.\<close>

definition slice_index :: "string \<Rightarrow> jval list \<Rightarrow> goerr + jval" where
  "slice_index k vs =
     (case parse_int64 k of
        None \<Rightarrow> Inl (Error (''invalid array index: '' @ k))
      | Some index \<Rightarrow>
          (let index = (if index < 0 then int (length vs) + index else index)
           in if index \<ge> int (length vs) \<or> index < 0 then Inl (Error ''index out of range'')
              else Inr (vs ! nat index)))"

definition map_key :: "string \<Rightarrow> jobj \<Rightarrow> goerr + jval" where
  "map_key k m = (case map_of m k of None \<Rightarrow> Inl (Error (''key not found: '' @ k)) | Some v \<Rightarrow> Inr v)"

text \<open>The loop of \<^verbatim>\<open>getNestedString\<close>: the object, the whole path, \<^verbatim>\<open>cpath\<close> and the rest of the path.\<close>

fun nested_loop ::
  "unstructured_api \<Rightarrow> (64 word \<Rightarrow> string) \<Rightarrow> jval \<Rightarrow> string list \<Rightarrow> string list \<Rightarrow> string list \<Rightarrow>
   (string \<times> bool \<times> goerr option) run" where
  "nested_loop api fmt object path cpath [] = nested_leaf api fmt object path"
| "nested_loop api fmt object path cpath (key # rest) =
     (if has_prefix key ''['' \<and> has_suffix key '']'' then
        (let k = drop 1 (take (length key - 1) key);
             descend = (\<lambda>r. case r of Inl err \<Rightarrow> Ret ([], False, Some err) | Inr v \<Rightarrow> nested_loop api fmt v rest [] rest)
         in case assert_map object of
              Panic p \<Rightarrow> Panic p
            | Ret m \<Rightarrow>
                (case NestedSlice api m cpath of
                   (sliceObj, True, None) \<Rightarrow> descend (slice_index k sliceObj)
                 | _ \<Rightarrow>
                     (case NestedMap api m cpath of
                        (mapObj, True, None) \<Rightarrow> descend (map_key k mapObj)
                      | _ \<Rightarrow> nested_loop api fmt object path cpath rest)))
      else nested_loop api fmt object path (cpath @ [key]) rest)"

definition watcher_getNestedString ::
  "unstructured_api \<Rightarrow> (64 word \<Rightarrow> string) \<Rightarrow> jval \<Rightarrow> string list \<Rightarrow> (string \<times> bool \<times> goerr option) run" where
  "watcher_getNestedString api fmt object path = nested_loop api fmt object path [] path"

section \<open>Patches\<close>

text \<open>The encoding of a cluster and the library that computes the difference.\<close>

record smw_libs =
  sl_Marshal :: "Cluster \<Rightarrow> goerr + string"
  sl_CreateMergePatch :: "string \<Rightarrow> string \<Rightarrow> goerr + string"
  sl_api :: unstructured_api
  sl_FormatFloat :: "64 word \<Rightarrow> string"
  sl_ParseGroupVersion :: parse_gv
  sl_GVK_String :: "GroupVersionKind \<Rightarrow> string"
  sl_IgnoreNotFound :: "goerr \<Rightarrow> goerr option"

definition createServiceMetadataPatch :: "smw_libs \<Rightarrow> string \<Rightarrow> string \<Rightarrow> string \<Rightarrow> string \<Rightarrow> goerr + string" where
  "createServiceMetadataPatch l serviceId namespace field val =
     (case sl_Marshal l zero_Cluster of
        Inl err \<Rightarrow> Inl err
      | Inr oldClusterJSON \<Rightarrow>
          (let newCluster = set_spec (\<lambda>sp. sp\<lparr>cs_ServiceMetadata := [serviceId \<mapsto> [namespace \<mapsto> [field \<mapsto> val]]]\<rparr>) zero_Cluster
           in case sl_Marshal l newCluster of
                Inl err \<Rightarrow> Inl err
              | Inr newClusterJSON \<Rightarrow> sl_CreateMergePatch l oldClusterJSON newClusterJSON))"

text \<open>The patches for the watched fields of one object; a field that cannot be read is left out.\<close>

fun field_patches :: "smw_libs \<Rightarrow> string \<Rightarrow> string \<Rightarrow> jobj \<Rightarrow> WatchedField list \<Rightarrow> string list run" where
  "field_patches l serviceId namespace obj [] = Ret []"
| "field_patches l serviceId namespace obj (field # fs) =
     (let continue = (\<lambda>ps. run_map (\<lambda>qs. ps @ qs) (field_patches l serviceId namespace obj fs))
      in case parsePath (wf_Source field) of
           Inl err \<Rightarrow> continue []
         | Inr path \<Rightarrow>
             (case watcher_getNestedString (sl_api l) (sl_FormatFloat l) (JMap obj) path of
                Panic p \<Rightarrow> Panic p
              | Ret (val, found, Some err) \<Rightarrow> continue []
              | Ret (val, False, None) \<Rightarrow> continue []
              | Ret (val, True, None) \<Rightarrow>
                  (case createServiceMetadataPatch l serviceId namespace (wf_Destination field) val of
                     Inl err \<Rightarrow> continue []
                   | Inr patch \<Rightarrow> continue [patch])))"

section \<open>The controller\<close>

record 'k smw_client =
  w_Get :: "string \<times> string \<Rightarrow> 'k \<Rightarrow> (goerr + ServiceMetadataWatcher) \<times> 'k"
  w_GetNamespace :: "string \<Rightarrow> 'k \<Rightarrow> (goerr + str_map) \<times> 'k" \<comment> \<open>the annotations of the namespace\<close>
  w_GetObject :: "GroupVersionKind \<Rightarrow> string \<Rightarrow> string \<Rightarrow> 'k \<Rightarrow> (goerr + jobj) \<times> 'k"
  w_ListClusters :: "string \<Rightarrow> 'k \<Rightarrow> (goerr + Cluster list) \<times> 'k"
  w_Patch :: "Cluster \<Rightarrow> string \<Rightarrow> 'k \<Rightarrow> (goerr option \<times> Cluster) \<times> 'k"
  w_ListWatchers :: "string \<Rightarrow> 'k \<Rightarrow> (goerr + ServiceMetadataWatcher list) \<times> 'k"

record 'k ServiceMetadataWatcherReconciler =
  smr_client :: "'k smw_client"
  smr_libs :: smw_libs
  smr_WatchedGVKs :: "GroupVersionKind list"
  smr_ServiceIdAnnotation :: string

definition isAllowedGVK :: "'k ServiceMetadataWatcherReconciler \<Rightarrow> GroupVersionKind \<Rightarrow> bool" where
  "isAllowedGVK r gvk \<longleftrightarrow>
     list_ex (\<lambda>w. sl_GVK_String (smr_libs r) gvk = sl_GVK_String (smr_libs r) w) (smr_WatchedGVKs r)"

definition getServiceIdFromNamespaceAnnotation ::
  "'k ServiceMetadataWatcherReconciler \<Rightarrow> string \<Rightarrow> 'k \<Rightarrow> (goerr + string) \<times> 'k" where
  "getServiceIdFromNamespaceAnnotation r namespace k =
     (case w_GetNamespace (smr_client r) namespace k of
        (Inl err, k) \<Rightarrow> (Inl err, k)
      | (Inr annotations, k) \<Rightarrow>
          (case annotations (smr_ServiceIdAnnotation r) of
             None \<Rightarrow> (Inl (Error (''namespace '' @ namespace @ '' does not have annotation '' @ smr_ServiceIdAnnotation r)), k)
           | Some serviceId \<Rightarrow> (Inr serviceId, k)))"

text \<open>An error of a patch is logged; the object is what the API server returned.\<close>

fun patch_cluster :: "'k smw_client \<Rightarrow> Cluster \<Rightarrow> string list \<Rightarrow> 'k \<Rightarrow> 'k" where
  "patch_cluster c cluster [] k = k"
| "patch_cluster c cluster (patch # ps) k =
     (let ((err, cluster), k) = w_Patch c cluster patch k in patch_cluster c cluster ps k)"

definition applyServiceMetadataPatches ::
  "'k ServiceMetadataWatcherReconciler \<Rightarrow> string list \<Rightarrow> 'k \<Rightarrow> goerr option \<times> 'k" where
  "applyServiceMetadataPatches r patches k =
     (case w_ListClusters (smr_client r) ''cluster-registry'' k of
        (Inl err, k) \<Rightarrow> (Some err, k)
      | (Inr items, k) \<Rightarrow> (None, fold (\<lambda>cluster k. patch_cluster (smr_client r) cluster patches k) items k))"

text \<open>The results: no request comes back by itself, with or without an error.\<close>

definition smw_requeueIfError :: "goerr option \<Rightarrow> ctrl_result" where
  "smw_requeueIfError err = ((False, 0), err)"

definition smw_noRequeue :: ctrl_result where
  "smw_noRequeue = ((False, 0), None)"

text \<open>The loop over the watched objects: an early return, or the patches of all fields.\<close>

fun object_patches ::
  "'k ServiceMetadataWatcherReconciler \<Rightarrow> string \<Rightarrow> string \<Rightarrow> WatchedServiceObject list \<Rightarrow> 'k \<Rightarrow>
   (ctrl_result + string list) run \<times> 'k" where
  "object_patches r serviceId namespace [] k = (Ret (Inr []), k)"
| "object_patches r serviceId namespace (wso # wsos) k =
     (let ref = wso_ObjectReference wso
      in case sl_ParseGroupVersion (smr_libs r) (ref_APIVersion ref) of
           Inl err \<Rightarrow> (Ret (Inl (smw_requeueIfError (Some err))), k)
         | Inr (g, v) \<Rightarrow>
             (let gvk = \<lparr>gvk_Group = g, gvk_Version = v, gvk_Kind = ref_Kind ref\<rparr>
              in if \<not> isAllowedGVK r gvk then (Ret (Inl smw_noRequeue), k)
                 else case w_GetObject (smr_client r) gvk namespace (ref_Name ref) k of
                        (Inl err, k) \<Rightarrow> (Ret (Inl (smw_requeueIfError (Some err))), k)
                      | (Inr obj, k) \<Rightarrow>
                          if length (wso_WatchedFields wso) = 0 then (Ret (Inl smw_noRequeue), k)
                          else case field_patches (smr_libs r) serviceId namespace obj (wso_WatchedFields wso) of
                                 Panic p \<Rightarrow> (Panic p, k)
                               | Ret ps \<Rightarrow>
                                   (let (x, k) = object_patches r serviceId namespace wsos k
                                    in (run_map (map_sum id (\<lambda>qs. ps @ qs)) x, k))))"

definition smw_Reconcile ::
  "'k ServiceMetadataWatcherReconciler \<Rightarrow> string \<times> string \<Rightarrow> 'k \<Rightarrow> ctrl_result run \<times> 'k" where
  "smw_Reconcile r req k =
     (case w_Get (smr_client r) req k of
        (Inl err, k) \<Rightarrow> (Ret (smw_requeueIfError (sl_IgnoreNotFound (smr_libs r) err)), k)
      | (Inr instance, k) \<Rightarrow>
          (let wsos = smws_WatchedServiceObjects (smw_Spec instance); namespace = meta_Namespace (smw_Meta instance)
           in if meta_DeletionTimestamp (smw_Meta instance) \<noteq> None then (Ret smw_noRequeue, k)
              else if length wsos = 0 then (Ret smw_noRequeue, k)
              else case getServiceIdFromNamespaceAnnotation r namespace k of
                     (Inl err, k) \<Rightarrow> (Ret smw_noRequeue, k)
                   | (Inr serviceId, k) \<Rightarrow>
                       (case object_patches r serviceId namespace wsos k of
                          (Panic p, k) \<Rightarrow> (Panic p, k)
                        | (Ret (Inl res), k) \<Rightarrow> (Ret res, k)
                        | (Ret (Inr patches), k) \<Rightarrow>
                            if length patches = 0 then (Ret smw_noRequeue, k)
                            else (case applyServiceMetadataPatches r patches k of
                                    (Some err, k) \<Rightarrow> (Ret (smw_requeueIfError (Some err)), k)
                                  | (None, k) \<Rightarrow> (Ret smw_noRequeue, k)))))"

section \<open>Events and requests\<close>

definition smw_create_filter :: "ServiceMetadataWatcher \<Rightarrow> bool" where
  "smw_create_filter obj = True"

definition smw_update_filter :: "ServiceMetadataWatcher \<Rightarrow> ServiceMetadataWatcher \<Rightarrow> bool" where
  "smw_update_filter oldObject newObject = True"

definition smw_delete_filter :: "bool \<Rightarrow> bool" where
  "smw_delete_filter deleteStateUnknown = (\<not> deleteStateUnknown)"

text \<open>One request for every watched reference that means the object.\<close>

definition smw_requests ::
  "'k ServiceMetadataWatcherReconciler \<Rightarrow> GroupVersionKind \<Rightarrow> string \<Rightarrow> string \<Rightarrow> ServiceMetadataWatcher \<Rightarrow>
   (string \<times> string) list" where
  "smw_requests r gvk ns name smw =
     concat (map (\<lambda>wso.
       let ref = wso_ObjectReference wso
       in if sl_ParseGroupVersion (smr_libs r) (ref_APIVersion ref) \<noteq> Inr (gvk_Group gvk, gvk_Version gvk) \<or>
             ref_Kind ref \<noteq> gvk_Kind gvk then []
          else if meta_Namespace (smw_Meta smw) = ns \<and> ref_Name ref = name
          then [(meta_Namespace (smw_Meta smw), meta_Name (smw_Meta smw))] else [])
       (smws_WatchedServiceObjects (smw_Spec smw)))"

definition smw_enqueueRequestsFromMapFunc ::
  "'k ServiceMetadataWatcherReconciler \<Rightarrow> GroupVersionKind \<Rightarrow> GroupVersionKind \<Rightarrow> string \<Rightarrow> string \<Rightarrow> 'k \<Rightarrow>
   (string \<times> string) list \<times> 'k" where
  "smw_enqueueRequestsFromMapFunc r gvk obj_gvk ns name k =
     (if obj_gvk \<noteq> gvk then ([], k)
      else case w_ListWatchers (smr_client r) ns k of
             (Inl err, k) \<Rightarrow> ([], k)
           | (Inr items, k) \<Rightarrow> (concat (map (smw_requests r gvk ns name) items), k))"

section \<open>Properties of paths\<close>

text \<open>The steps of a path: a field of an object, or brackets with an index or a key.\<close>

datatype step = Field string | Bracket string

fun step_piece :: "step \<Rightarrow> string" where
  "step_piece (Field f) = f"
| "step_piece (Bracket k) = ''['' @ k @ '']''"

fun step_text :: "step \<Rightarrow> string" where
  "step_text (Field f) = ''.'' @ f"
| "step_text (Bracket k) = ''['' @ k @ '']''"

definition path_text :: "string \<Rightarrow> step list \<Rightarrow> string" where
  "path_text f ss = f @ concat (map step_text ss)"

fun wf_step :: "step \<Rightarrow> bool" where
  "wf_step (Field f) \<longleftrightarrow> f \<noteq> [] \<and> list_all plain f"
| "wf_step (Bracket k) \<longleftrightarrow> list_all (\<lambda>c. c \<noteq> CHR '']'' \<and> byte c \<noteq> 10) k"

lemma bracket_close: "list_all (\<lambda>c. c \<noteq> CHR '']'' \<and> byte c \<noteq> 10) k \<Longrightarrow> bracket (k @ CHR '']'' # r) = Some (k, r)"
  by (induction k) auto

lemma text_not_plain: "ss \<noteq> [] \<Longrightarrow> \<exists>c r. concat (map step_text ss) = c # r \<and> \<not> plain c"
  by (cases ss; cases "hd ss") (auto simp: plain_def)

lemma plain_run:
  assumes "list_all plain f"
  shows "takeWhile plain (f @ concat (map step_text ss)) = f \<and>
    dropWhile plain (f @ concat (map step_text ss)) = concat (map step_text ss)"
proof (cases "ss = []")
  case True
  then show ?thesis using assms by (simp add: takeWhile_eq_all_conv dropWhile_eq_Nil_conv list_all_iff)
next
  case False
  then obtain c r where "concat (map step_text ss) = c # r" "\<not> plain c" using text_not_plain by blast
  then show ?thesis using assms by (simp add: takeWhile_append dropWhile_append list_all_iff)
qed

lemma pieces_field:
  assumes "wf_step (Field f)"
  shows "path_pieces (f @ concat (map step_text ss)) = f # path_pieces (concat (map step_text ss))"
proof -
  obtain c g where f: "f = c # g" using assms by (cases f) auto
  then have "plain c" "list_all plain g" using assms by simp_all
  then show ?thesis using plain_run [of g ss] f by (simp add: plain_def)
qed

lemma path_pieces_steps: "list_all wf_step ss \<Longrightarrow> path_pieces (concat (map step_text ss)) = map step_piece ss"
proof (induction ss)
  case (Cons s ss)
  then show ?case
  proof (cases s)
    case (Field f)
    then show ?thesis using Cons pieces_field [of f ss] by simp
  next
    case (Bracket k)
    then show ?thesis using Cons bracket_close [of k "concat (map step_text ss)"] by simp
  qed
qed simp

lemma parsePath_text:
  assumes "wf_step (Field f)" and "list_all wf_step ss"
  shows "parsePath (path_text f ss) = Inr (map step_piece (Field f # ss))"
  using pieces_field [OF assms(1), of ss] path_pieces_steps [OF assms(2)]
  by (simp add: parsePath_def path_text_def)

section \<open>Properties of reading a value\<close>

text \<open>What a path means.\<close>

fun look :: "jval \<Rightarrow> step list \<Rightarrow> jval option" where
  "look v [] = Some v"
| "look (JMap m) (Field f # ss) = (case map_of m f of None \<Rightarrow> None | Some v \<Rightarrow> look v ss)"
| "look (JMap m) (Bracket k # ss) = (case map_key k m of Inl _ \<Rightarrow> None | Inr v \<Rightarrow> look v ss)"
| "look (JList vs) (Bracket k # ss) = (case slice_index k vs of Inl _ \<Rightarrow> None | Inr v \<Rightarrow> look v ss)"
| "look v ss = None"

text \<open>Brackets follow a field name; the first argument says whether one was seen.\<close>

fun spaced :: "bool \<Rightarrow> step list \<Rightarrow> bool" where
  "spaced b [] = True"
| "spaced b (Field f # ss) = spaced True ss"
| "spaced b (Bracket k # ss) = (b \<and> spaced False ss)"

fun ends_field :: "bool \<Rightarrow> step list \<Rightarrow> bool" where
  "ends_field b [] = b"
| "ends_field b (Field f # ss) = ends_field True ss"
| "ends_field b (Bracket k # ss) = ends_field False ss"

text \<open>How a value is shown; a number is shown only when the path ends with a field name.\<close>

fun shown :: "(64 word \<Rightarrow> string) \<Rightarrow> bool \<Rightarrow> jval \<Rightarrow> string option" where
  "shown fmt b (JStr s) = Some s"
| "shown fmt b (JBool x) = Some (format_bool x)"
| "shown fmt True (JInt n) = Some (int_str n)"
| "shown fmt True (JFloat w) = Some (fmt w)"
| "shown fmt b v = None"

fun is_map :: "jval \<Rightarrow> bool" where
  "is_map (JMap m) = True"
| "is_map v = False"

text \<open>The outcome that is right for a value: its text, or the failure of a type assertion.\<close>

definition leaf_ok :: "(64 word \<Rightarrow> string) \<Rightarrow> bool \<Rightarrow> jval \<Rightarrow> (string \<times> bool \<times> goerr option) run \<Rightarrow> bool" where
  "leaf_ok fmt b v r \<longleftrightarrow>
     (\<forall>t. shown fmt b v = Some t \<longrightarrow> r = Ret (t, True, None)) \<and>
     (\<not> b \<and> \<not> is_map v \<and> shown fmt b v = None \<longrightarrow> (\<exists>p. r = Panic p))"

lemma bracket_key:
  "has_prefix (''['' @ k @ '']'') ''[''" "has_suffix (''['' @ k @ '']'') '']''"
  "drop 1 (take (length (''['' @ k @ '']'') - 1) (''['' @ k @ '']'')) = k"
proof -
  show "has_suffix (''['' @ k @ '']'') '']''"
    unfolding has_suffix_def suffix_def by (rule exI [of _ "''['' @ k"]) simp
qed (simp_all add: has_prefix_def)

lemma look_not_map: "look w ss = Some v \<Longrightarrow> spaced False ss \<Longrightarrow> \<not> is_map w \<Longrightarrow> ss = [] \<and> v = w"
  by (induction w ss rule: look.induct) auto

lemma field_key: "wf_step (Field f) \<Longrightarrow> \<not> has_prefix f ''[''"
  by (cases f) (auto simp: has_prefix_def plain_def)

context unstructured_lib
begin

lemma leaf_map:
  assumes "lookup_path (JMap m) cpath = Some v"
  shows "leaf_ok fmt (cpath \<noteq> []) v (nested_leaf api fmt (JMap m) cpath)"
proof (cases "cpath = []")
  case True
  then show ?thesis using assms by (auto simp: leaf_ok_def)
next
  case False
  have str: "at_path as_string m cpath = as_string v" and bool: "at_path as_bool m cpath = as_bool v"
    and int: "at_path as_int m cpath = as_int v" and float: "at_path as_float m cpath = as_float v"
    using assms by (simp_all add: at_path_def)
  show ?thesis
  proof (cases v)
    case (JStr s)
    then show ?thesis using nested_law_Some [OF string_law, of m cpath s] str
      by (simp add: leaf_ok_def nested_leaf_def assert_map_def)
  next
    case (JBool b)
    then show ?thesis using nested_law_None [OF string_law, of m cpath] nested_law_Some [OF bool_law, of m cpath b] str bool
      by (auto simp: leaf_ok_def nested_leaf_def assert_map_def)
  next
    case (JInt n)
    then show ?thesis using nested_law_None [OF string_law, of m cpath] nested_law_None [OF bool_law, of m cpath]
        nested_law_Some [OF int_law, of m cpath n] str bool int False
      by (auto simp: leaf_ok_def nested_leaf_def assert_map_def)
  next
    case (JFloat w)
    then show ?thesis using nested_law_None [OF string_law, of m cpath] nested_law_None [OF bool_law, of m cpath]
        nested_law_None [OF int_law, of m cpath] nested_law_Some [OF float_law, of m cpath w] str bool int float False
      by (auto simp: leaf_ok_def nested_leaf_def assert_map_def)
  qed (use False in \<open>simp_all add: leaf_ok_def\<close>)
qed

lemma leaf_other: "\<not> is_map v \<Longrightarrow> leaf_ok fmt False v (nested_leaf api fmt v [])"
  by (cases v) (simp_all add: leaf_ok_def nested_leaf_def assert_map_def)

lemma loop_reads:
  assumes "lookup_path (JMap m) cpath = Some cur" and "look cur ss = Some v" and "spaced (cpath \<noteq> []) ss"
    and "list_all wf_step ss" and "path = cpath @ map step_piece ss"
  shows "leaf_ok fmt (ends_field (cpath \<noteq> []) ss) v (nested_loop api fmt (JMap m) path cpath (map step_piece ss))"
  using assms
proof (induction ss arbitrary: m cpath cur path)
  case Nil
  then show ?case using leaf_map [of m cpath v] by simp
next
  case (Cons s ss)
  have rest: "leaf_ok fmt (ends_field False ss) v (nested_loop api fmt w (map step_piece ss) [] (map step_piece ss))"
    if "look w ss = Some v" "spaced False ss" for w
  proof (cases "is_map w")
    case True
    then obtain m' where "w = JMap m'" by (cases w) simp_all
    then show ?thesis using Cons.IH [of m' "[]" w] that Cons.prems(4) by simp
  next
    case False
    then show ?thesis using look_not_map [OF that False] leaf_other [OF False] by simp
  qed
  show ?case
  proof (cases s)
    case (Field f)
    then have wf: "wf_step (Field f)" using Cons.prems(4) by simp
    obtain m' v' where cur: "cur = JMap m'" "map_of m' f = Some v'" "look v' ss = Some v"
      using Cons.prems(2) Field by (cases cur) (auto split: option.splits)
    have "lookup_path (JMap m) (cpath @ [f]) = Some v'"
      using Cons.prems(1) cur by (simp add: lookup_path_append)
    from Cons.IH [OF this cur(3), of path] show ?thesis
      using Cons.prems(3-5) Field field_key [OF wf] by simp
  next
    case (Bracket k)
    have key: "step_piece s = ''['' @ k @ '']''" using Bracket by simp
    have sp: "spaced False ss" using Cons.prems(3) Bracket by simp
    show ?thesis
    proof (cases cur)
      case (JList vs)
      then obtain w where w: "slice_index k vs = Inr w" "look w ss = Some v"
        using Cons.prems(2) Bracket by (auto split: sum.splits)
      have "NestedSlice api m cpath = (vs, True, None)"
        using nested_law_Some [OF slice_law, of m cpath vs] Cons.prems(1) JList by (simp add: at_path_def)
      then show ?thesis using rest [OF w(2) sp] w(1) Bracket bracket_key [of k]
        by (simp add: assert_map_def Let_def)
    next
      case (JMap m')
      then obtain w where w: "map_key k m' = Inr w" "look w ss = Some v"
        using Cons.prems(2) Bracket by (auto split: sum.splits)
      obtain x e where "NestedSlice api m cpath = (x, False, e)"
        using nested_law_None [OF slice_law, of m cpath] Cons.prems(1) JMap by (auto simp: at_path_def)
      moreover have "NestedMap api m cpath = (m', True, None)"
        using nested_law_Some [OF map_law, of m cpath m'] Cons.prems(1) JMap by (simp add: at_path_def)
      ultimately show ?thesis using rest [OF w(2) sp] w(1) Bracket bracket_key [of k]
        by (simp add: assert_map_def Let_def)
    qed (use Cons.prems(2) Bracket in simp_all)
  qed
qed

end


definition example_pod :: jobj where
  "example_pod = [(''spec'', JMap [(''containers'', JList [JMap [(''image'', JStr ''nginx''), (''port'', JInt 80)]]),
     (''ports'', JList [JInt 80])])]"


text \<open>
  A number, a list or a null that is an element of a list cannot be read: the controller
  panics at a type assertion.
\<close>

theorem element_panics:
  assumes "unstructured_lib api" and "wf_step (Field f)" and "list_all wf_step ss" and "spaced True ss"
    and "look (JMap obj) (Field f # ss) = Some v" and "\<not> ends_field True ss"
    and "v = JNull \<or> (\<exists>n. v = JInt n) \<or> (\<exists>w. v = JFloat w) \<or> (\<exists>vs. v = JList vs)"
  shows "\<exists>path p. parsePath (path_text f ss) = Inr path \<and> watcher_getNestedString api fmt (JMap obj) path = Panic p"
proof -
  let ?p = "map step_piece (Field f # ss)"
  have "leaf_ok fmt (ends_field True ss) v (nested_loop api fmt (JMap obj) ?p [] ?p)"
    using unstructured_lib.loop_reads [OF assms(1), of obj "[]" "JMap obj" "Field f # ss" v ?p fmt] assms(2-5)
    by simp
  then have "\<exists>p. watcher_getNestedString api fmt (JMap obj) ?p = Panic p"
    using assms(6,7) by (auto simp: leaf_ok_def watcher_getNestedString_def)
  then show ?thesis using parsePath_text [OF assms(2,3)] by blast
qed

theorem element_panics_witness:
  "\<exists>path p. parsePath ''spec.ports[0]'' = Inr path \<and>
     watcher_getNestedString std_api (\<lambda>_. []) (JMap example_pod) path = Panic p"
proof -
  let ?ss = "[Field ''ports'', Bracket ''0'']"
  have idx: "parse_int64 ''0'' = Some 0" by code_simp
  have "look (JMap example_pod) (Field ''spec'' # ?ss) = Some (JInt 80)"
    by (simp add: example_pod_def slice_index_def idx)
  from element_panics [OF std.unstructured_lib_axioms _ _ _ this, of "\<lambda>_. []"] show ?thesis
    by (simp add: plain_def byte_def path_text_def)
qed

end
