(* ===== verification/Sync_Handlers.thy ===== *)
theory Sync_Handlers
  imports Unstructured
begin

text \<open>
  pkg/sync/parser/handler: the handlers that take the registry's data from the objects of a
  management cluster, one for each kind of object.
\<close>

section \<open>Reading fields (util.go, errors.go)\<close>

definition ParseError_Error :: "unstructured_api \<Rightarrow> jobj \<Rightarrow> string list \<Rightarrow> string" where
  "ParseError_Error api obj fs =
     ''failed to get value ('' @ str_join ''.'' fs @ '') from object (namespace: '' @ GetNamespace api obj @
     '', name: '' @ GetName api obj @ '', gvk: '' @ GVK_String api (GetGVK api obj) @ ''): ''"

definition ParseError_Wrap :: "unstructured_api \<Rightarrow> jobj \<Rightarrow> string list \<Rightarrow> goerr \<Rightarrow> goerr" where
  "ParseError_Wrap api obj fs err = Wrapped (ParseError_Error api obj fs) err"

definition get_nested :: "'a nested \<Rightarrow> unstructured_api \<Rightarrow> jobj \<Rightarrow> string list \<Rightarrow> goerr + 'a" where
  "get_nested nested api obj fs =
     (case nested obj fs of
        (value, found, Some err) \<Rightarrow> Inl (ParseError_Wrap api obj fs err)
      | (value, found, None) \<Rightarrow>
          if \<not> found then Inl (ParseError_Wrap api obj fs (Error ''field not found'')) else Inr value)"

definition getNestedString :: "unstructured_api \<Rightarrow> jobj \<Rightarrow> string list \<Rightarrow> goerr + string" where
  "getNestedString api = get_nested (NestedString api) api"

definition getNestedInt64 :: "unstructured_api \<Rightarrow> jobj \<Rightarrow> string list \<Rightarrow> goerr + int" where
  "getNestedInt64 api = get_nested (NestedInt64 api) api"

definition getNestedStringSlice :: "unstructured_api \<Rightarrow> jobj \<Rightarrow> string list \<Rightarrow> goerr + string list" where
  "getNestedStringSlice api = get_nested (NestedStringSlice api) api"

definition getNestedStringMap :: "unstructured_api \<Rightarrow> jobj \<Rightarrow> string list \<Rightarrow> goerr + str_map" where
  "getNestedStringMap api = get_nested (NestedStringMap api) api"

definition getNestedSlice :: "unstructured_api \<Rightarrow> jobj \<Rightarrow> string list \<Rightarrow> goerr + jval list" where
  "getNestedSlice api = get_nested (NestedSlice api) api"

section \<open>Clusters (cluster.go)\<close>

record cluster_labels =
  lab_ShortName :: string
  lab_Region :: string
  lab_CloudType :: string
  lab_CloudProviderRegion :: string
  lab_Environment :: string

definition get_cluster_labels :: "unstructured_api \<Rightarrow> jobj \<Rightarrow> goerr + cluster_labels" where
  "get_cluster_labels api obj =
     bind_err (getNestedString api obj [''metadata'', ''labels'', ''clusterShortName'']) (\<lambda>clusterShortName.
     bind_err (getNestedString api obj [''metadata'', ''labels'', ''locationShortName'']) (\<lambda>region.
     bind_err (getNestedString api obj [''metadata'', ''labels'', ''provider'']) (\<lambda>provider.
     bind_err (getNestedString api obj [''metadata'', ''labels'', ''location'']) (\<lambda>cloudProviderRegion.
     bind_err (getNestedString api obj [''metadata'', ''labels'', ''environment'']) (\<lambda>environment.
       Inr \<lparr>lab_ShortName = clusterShortName, lab_Region = region, lab_CloudType = provider,
            lab_CloudProviderRegion = cloudProviderRegion, lab_Environment = environment\<rparr>)))))"

definition set_cluster_labels :: "cluster_labels \<Rightarrow> ClusterSpec \<Rightarrow> ClusterSpec" where
  "set_cluster_labels l spec = spec\<lparr>cs_ShortName := lab_ShortName l, cs_Region := lab_Region l,
     cs_CloudType := lab_CloudType l, cs_CloudProviderRegion := lab_CloudProviderRegion l,
     cs_Environment := lab_Environment l\<rparr>"

type_synonym object_handler = "jobj list \<Rightarrow> goerr + ClusterSpec"

definition ClusterHandler_Handle :: "unstructured_api \<Rightarrow> object_handler" where
  "ClusterHandler_Handle api objects =
     fold_err (\<lambda>spec obj. bind_err (get_cluster_labels api obj) (\<lambda>l. Inr (set_cluster_labels l spec)))
       zero_ClusterSpec objects"

section \<open>Control planes (awsmanagedcontrolplane.go)\<close>

definition extractOIDCIssuerFromARN :: "string \<Rightarrow> string" where
  "extractOIDCIssuerFromARN arn = (case str_cut (CHR ''/'') arn of None \<Rightarrow> [] | Some (_, after) \<Rightarrow> after)"

definition AWSManagedControlPlaneHandler_Handle :: "unstructured_api \<Rightarrow> object_handler" where
  "AWSManagedControlPlaneHandler_Handle api objects =
     fold_err (\<lambda>spec obj. bind_err (getNestedString api obj [''status'', ''oidcProvider'', ''arn'']) (\<lambda>arn.
         Inr (spec\<lparr>cs_Extra := (cs_Extra spec)\<lparr>extra_OidcIssuer := extractOIDCIssuerFromARN arn\<rparr>\<rparr>)))
       zero_ClusterSpec objects"

section \<open>Subnets (subnet.go)\<close>

definition isPrivateSubnet :: "unstructured_api \<Rightarrow> jobj \<Rightarrow> bool" where
  "isPrivateSubnet api obj = str_contains (GetName api obj) ''private''"

definition get_zone :: "unstructured_api \<Rightarrow> jobj \<Rightarrow> goerr + AvailabilityZone" where
  "get_zone api obj =
     bind_err (getNestedString api obj [''spec'', ''availabilityZone'']) (\<lambda>availabilityZone.
     bind_err (getNestedString api obj [''spec'', ''availabilityZoneID'']) (\<lambda>availabilityZoneID.
       Inr \<lparr>az_Name = availabilityZone, az_ID = availabilityZoneID\<rparr>))"

definition add_zone :: "AvailabilityZone \<Rightarrow> ClusterSpec \<Rightarrow> ClusterSpec" where
  "add_zone z spec = spec\<lparr>cs_AvailabilityZones := cs_AvailabilityZones spec @ [z]\<rparr>"

definition SubnetHandler_Handle :: "unstructured_api \<Rightarrow> object_handler" where
  "SubnetHandler_Handle api objects =
     fold_err (\<lambda>spec obj. if \<not> isPrivateSubnet api obj then Inr spec
         else bind_err (get_zone api obj) (\<lambda>z. Inr (add_zone z spec)))
       zero_ClusterSpec objects"

section \<open>Networks (vpc.go)\<close>

definition get_network :: "unstructured_api \<Rightarrow> jobj \<Rightarrow> goerr + VirtualNetwork \<times> string" where
  "get_network api obj =
     bind_err (getNestedString api obj [''status'', ''vpcID'']) (\<lambda>vpcID.
     bind_err (getNestedStringSlice api obj [''spec'', ''cidrBlocks'']) (\<lambda>cidrs.
     bind_err (getNestedString api obj [''status'', ''ownerID'']) (\<lambda>accountId.
       Inr (\<lparr>vnet_ID = vpcID, vnet_Cidrs = cidrs\<rparr>, accountId))))"

definition add_network :: "VirtualNetwork \<times> string \<Rightarrow> ClusterSpec \<Rightarrow> ClusterSpec" where
  "add_network n spec =
     spec\<lparr>cs_VirtualNetworks := cs_VirtualNetworks spec @ [fst n], cs_AccountID := snd n\<rparr>"

definition VPCHandler_Handle :: "unstructured_api \<Rightarrow> object_handler" where
  "VPCHandler_Handle api objects =
     fold_err (\<lambda>spec obj. bind_err (get_network api obj) (\<lambda>n. Inr (add_network n spec)))
       zero_ClusterSpec objects"

section \<open>Container runtimes (eksconfig.go)\<close>

definition get_runtime :: "unstructured_api \<Rightarrow> jobj \<Rightarrow> goerr + string \<times> string" where
  "get_runtime api obj =
     bind_err (getNestedString api obj [''spec'', ''containerRuntime'']) (\<lambda>containerRuntime.
       Inr (GetName api obj, containerRuntime))"

definition set_runtime :: "string \<times> string \<Rightarrow> Tier list \<Rightarrow> Tier list" where
  "set_runtime nr tiers =
     (case index_func (\<lambda>t. tier_Name t = fst nr) tiers of
        Some k \<Rightarrow> tiers[k := (tiers ! k)\<lparr>tier_ContainerRuntime := snd nr\<rparr>]
      | None \<Rightarrow> tiers @ [zero_Tier\<lparr>tier_Name := fst nr, tier_ContainerRuntime := snd nr\<rparr>])"

definition EKSConfigHandler_Handle :: "unstructured_api \<Rightarrow> object_handler" where
  "EKSConfigHandler_Handle api objects =
     fold_err (\<lambda>spec obj. bind_err (get_runtime api obj) (\<lambda>nr.
         Inr (spec\<lparr>cs_Tiers := set_runtime nr (cs_Tiers spec)\<rparr>)))
       zero_ClusterSpec objects"

section \<open>Machine pools (awsmanagedmachinepool.go)\<close>

text \<open>
  A taint is read through its JSON encoding into the type of the Kubernetes library, whose
  \<^verbatim>\<open>ToString\<close> prints it: the argument \<open>taint\<close>.
\<close>

definition getTaintsAsStringSlice ::
  "unstructured_api \<Rightarrow> (jval \<Rightarrow> goerr + string) \<Rightarrow> jobj \<Rightarrow> string list \<Rightarrow> goerr + string list" where
  "getTaintsAsStringSlice api taint obj fs =
     bind_err (getNestedSlice api obj fs) (\<lambda>taints.
       fold_err (\<lambda>taintsSlice t. bind_err (taint t) (\<lambda>s. Inr (taintsSlice @ [s]))) [] taints)"

definition get_tier :: "unstructured_api \<Rightarrow> (jval \<Rightarrow> goerr + string) \<Rightarrow> jobj \<Rightarrow> goerr + Tier" where
  "get_tier api taint obj =
     bind_err (getNestedString api obj [''spec'', ''awsLaunchTemplate'', ''name'']) (\<lambda>name.
     bind_err (getNestedString api obj [''spec'', ''awsLaunchTemplate'', ''instanceType'']) (\<lambda>instanceType.
     bind_err (getNestedInt64 api obj [''spec'', ''scaling'', ''minSize'']) (\<lambda>minSize.
     bind_err (getNestedInt64 api obj [''spec'', ''scaling'', ''maxSize'']) (\<lambda>maxSize.
     bind_err (getNestedStringMap api obj [''spec'', ''labels'']) (\<lambda>labels.
     bind_err (getTaintsAsStringSlice api taint obj [''spec'', ''taints'']) (\<lambda>taints.
       Inr (zero_Tier\<lparr>tier_Name := name, tier_InstanceType := instanceType, tier_MinCapacity := minSize,
         tier_MaxCapacity := maxSize, tier_Labels := labels, tier_Taints := taints\<rparr>)))))))"

definition put_tier :: "Tier \<Rightarrow> Tier list \<Rightarrow> Tier list" where
  "put_tier tier tiers =
     (case index_func (\<lambda>t. tier_Name t = tier_Name tier) tiers of
        Some k \<Rightarrow> tiers[k := tier]
      | None \<Rightarrow> tiers @ [tier])"

definition AWSManagedMachinePoolHandler_Handle ::
  "unstructured_api \<Rightarrow> (jval \<Rightarrow> goerr + string) \<Rightarrow> object_handler" where
  "AWSManagedMachinePoolHandler_Handle api taint objects =
     fold_err (\<lambda>spec obj. bind_err (get_tier api taint obj) (\<lambda>tier.
         Inr (spec\<lparr>cs_Tiers := put_tier tier (cs_Tiers spec)\<rparr>)))
       zero_ClusterSpec objects"

section \<open>Properties\<close>

lemma get_nested_law:
  assumes "nested_law nested as"
  shows "get_nested nested api obj p = Inr v \<longleftrightarrow> at_path as obj p = Some v"
  using nested_law_Some [OF assms, of obj p] nested_law_None [OF assms, of obj p]
  by (cases "at_path as obj p") (auto simp: get_nested_def split: option.splits if_splits)

context unstructured_lib
begin

lemma getters [simp]:
  "getNestedString api obj p = Inr s \<longleftrightarrow> at_path as_string obj p = Some s"
  "getNestedInt64 api obj p = Inr n \<longleftrightarrow> at_path as_int obj p = Some n"
  "getNestedStringSlice api obj p = Inr ss \<longleftrightarrow> at_path as_string_slice obj p = Some ss"
  "getNestedStringMap api obj p = Inr m \<longleftrightarrow> at_path as_string_map obj p = Some m"
  "getNestedSlice api obj p = Inr vs \<longleftrightarrow> at_path as_slice obj p = Some vs"
  by (simp_all add: getNestedString_def getNestedInt64_def getNestedStringSlice_def getNestedStringMap_def
      getNestedSlice_def get_nested_law string_law int_law string_slice_law string_map_law slice_law)

lemma get_tier_fields:
  assumes "get_tier api taint obj = Inr t"
  shows "at_path as_string obj [''spec'', ''awsLaunchTemplate'', ''name''] = Some (tier_Name t) \<and>
    at_path as_string obj [''spec'', ''awsLaunchTemplate'', ''instanceType''] = Some (tier_InstanceType t) \<and>
    at_path as_int obj [''spec'', ''scaling'', ''minSize''] = Some (tier_MinCapacity t) \<and>
    at_path as_int obj [''spec'', ''scaling'', ''maxSize''] = Some (tier_MaxCapacity t) \<and>
    at_path as_string_map obj [''spec'', ''labels''] = Some (tier_Labels t)"
  using assms by (auto simp: get_tier_def)

lemma get_zone_fields:
  "get_zone api obj = Inr z \<longleftrightarrow>
     at_path as_string obj [''spec'', ''availabilityZone''] = Some (az_Name z) \<and>
     at_path as_string obj [''spec'', ''availabilityZoneID''] = Some (az_ID z)"
  by (cases z) (auto simp: get_zone_def)

end

text \<open>The tiers as a finite map from their names.\<close>

definition tier_map :: "Tier list \<Rightarrow> string \<Rightarrow> Tier option" where
  "tier_map ts = map_of (map (\<lambda>t. (tier_Name t, t)) ts)"

lemma tier_map_simps [simp]:
  "tier_map [] = Map.empty" "tier_map (t # ts) = (tier_map ts)(tier_Name t \<mapsto> t)"
  by (simp_all add: tier_map_def)

lemma tier_map_append: "tier_map (xs @ ys) = tier_map ys ++ tier_map xs"
  by (simp add: tier_map_def)

lemma tier_map_None: "tier_map ts n = None \<longleftrightarrow> n \<notin> tier_Name ` set ts"
  by (auto simp: tier_map_def map_of_eq_None_iff image_image)

lemma put_tier_map:
  assumes "distinct (map tier_Name ts)"
  shows "tier_map (put_tier t ts) = (tier_map ts)(tier_Name t \<mapsto> t) \<and> distinct (map tier_Name (put_tier t ts)) \<and>
    map tier_Name (put_tier t ts) =
      (if tier_Name t \<in> tier_Name ` set ts then map tier_Name ts else map tier_Name ts @ [tier_Name t])"
  using assms
proof (induction ts)
  case Nil
  then show ?case by (simp add: put_tier_def)
next
  case (Cons a ts)
  show ?case
  proof (cases "tier_Name a = tier_Name t")
    case True
    then show ?thesis using Cons.prems by (auto simp: put_tier_def fun_eq_iff)
  next
    case False
    then have "put_tier t (a # ts) = a # put_tier t ts"
      by (simp add: put_tier_def split: option.split)
    then show ?thesis using Cons False by (auto simp: fun_upd_twist split: if_splits)
  qed
qed

text \<open>What is left of a list of tiers when the later of two with one name replaces the earlier.\<close>

lemma fold_put_tier:
  assumes "distinct (map tier_Name acc)"
  shows "distinct (map tier_Name (fold put_tier ts acc)) \<and>
    tier_map (fold put_tier ts acc) = tier_map acc ++ tier_map (rev ts)"
  using assms
proof (induction ts arbitrary: acc)
  case (Cons t ts)
  note put = put_tier_map [OF Cons.prems, of t]
  have d: "distinct (map tier_Name (put_tier t acc))" using put by blast
  have m: "tier_map (put_tier t acc) = tier_map acc ++ [tier_Name t \<mapsto> t]" using put by simp
  from Cons.IH [OF d] show ?case unfolding m by (simp add: tier_map_append fun_upd_def)
qed simp

lemma pool_loop:
  "AWSManagedMachinePoolHandler_Handle api taint objects = Inr spec \<longleftrightarrow>
     (\<exists>ts. list_all2 (\<lambda>obj t. get_tier api taint obj = Inr t) objects ts \<and>
        spec = zero_ClusterSpec\<lparr>cs_Tiers := fold put_tier ts []\<rparr>)"
proof -
  have "fold (\<lambda>t spec. spec\<lparr>cs_Tiers := put_tier t (cs_Tiers spec)\<rparr>) ts sp = sp\<lparr>cs_Tiers := fold put_tier ts (cs_Tiers sp)\<rparr>"
    for ts and sp :: ClusterSpec
    by (induction ts arbitrary: sp) simp_all
  then show ?thesis
    unfolding AWSManagedMachinePoolHandler_Handle_def
    by (subst fold_err_Inr [where get = "get_tier api taint" and use = "\<lambda>t spec. spec\<lparr>cs_Tiers := put_tier t (cs_Tiers spec)\<rparr>"])
      (simp_all add: bind_err_def zero_ClusterSpec_def)
qed


definition example_pool :: "string \<Rightarrow> int \<Rightarrow> jobj" where
  "example_pool name n =
     [(''spec'', JMap [(''awsLaunchTemplate'', JMap [(''name'', JStr name), (''instanceType'', JStr ''m5.large'')]),
        (''scaling'', JMap [(''minSize'', JInt 1), (''maxSize'', JInt n)]), (''labels'', JMap []), (''taints'', JList [])])]"


end
