(* ===== verification/Cluster_Merge.thy ===== *)
theory Cluster_Merge
  imports Registry_Types
begin

text \<open>
  pkg/api/registry/v1/merge.go: merging one specification of a cluster into another.  The library
  mergo is a record of two functions, one for each way the program calls it; the rule for tiers,
  which the program gives to the library, is modelled here.
\<close>

text \<open>
  \<^verbatim>\<open>merge_spec\<close> is \<^verbatim>\<open>mergo.Merge\<close> on specifications with override and with the rule for tiers as its
  first argument, \<^verbatim>\<open>merge_tier\<close> the call on two tiers that appends slices.  Both give an error and
  the destination as it is afterwards.
\<close>

record merge_api =
  merge_spec :: "(bool \<Rightarrow> bool \<Rightarrow> Tier list \<Rightarrow> Tier list \<Rightarrow> goerr option \<times> Tier list) \<Rightarrow>
    ClusterSpec \<Rightarrow> ClusterSpec \<Rightarrow> goerr option \<times> ClusterSpec"
  merge_tier :: "Tier \<Rightarrow> Tier \<Rightarrow> goerr option \<times> Tier"

fun merge_tiers_loop :: "merge_api \<Rightarrow> Tier list \<Rightarrow> Tier list \<Rightarrow> goerr option \<times> Tier list" where
  "merge_tiers_loop api dsts [] = (None, dsts)"
| "merge_tiers_loop api dsts (s # srcs) =
     (case index_func (\<lambda>d. tier_Name d = tier_Name s) dsts of
        None \<Rightarrow> merge_tiers_loop api dsts srcs
      | Some di \<Rightarrow>
          (case merge_tier api (dsts ! di) s of
             (Some err, t) \<Rightarrow> (Some err, dsts[di := t])
           | (None, t) \<Rightarrow> merge_tiers_loop api (dsts[di := t]) srcs))"

text \<open>The first two arguments say whether the destination and the source can be set.\<close>

definition mergeTiers ::
  "merge_api \<Rightarrow> bool \<Rightarrow> bool \<Rightarrow> Tier list \<Rightarrow> Tier list \<Rightarrow> goerr option \<times> Tier list" where
  "mergeTiers api dstCanSet srcCanSet dst src =
     (if \<not> dstCanSet \<or> \<not> srcCanSet then (None, dst) else merge_tiers_loop api dst src)"

definition Merge :: "merge_api \<Rightarrow> ClusterSpec \<Rightarrow> ClusterSpec \<Rightarrow> goerr option \<times> ClusterSpec" where
  "Merge api dst src = merge_spec api (mergeTiers api) dst src"

section \<open>Properties\<close>

text \<open>
  What the library promises about two tiers of the same name: the result has that name, since
  the destination is not overwritten.
\<close>

definition keeps_name :: "merge_api \<Rightarrow> bool" where
  "keeps_name api \<longleftrightarrow> (\<forall>d s. tier_Name d = tier_Name s \<longrightarrow> tier_Name (snd (merge_tier api d s)) = tier_Name d)"

text \<open>The tiers of the source merged into one tier, in their order.\<close>

definition merge_all :: "merge_api \<Rightarrow> Tier list \<Rightarrow> Tier \<Rightarrow> Tier" where
  "merge_all api srcs d = fold (\<lambda>s t. snd (merge_tier api t s)) (filter (\<lambda>s. tier_Name s = tier_Name d) srcs) d"

lemma update_name:
  assumes "keeps_name api" and "index_func (\<lambda>d. tier_Name d = tier_Name s) dsts = Some di"
  shows "map tier_Name (dsts[di := snd (merge_tier api (dsts ! di) s)]) = map tier_Name dsts"
proof -
  have di: "di < length dsts" "tier_Name (dsts ! di) = tier_Name s"
    using index_func_SomeD [OF assms(2)] by auto
  then have "tier_Name (snd (merge_tier api (dsts ! di) s)) = map tier_Name dsts ! di"
    using assms(1) by (simp add: keeps_name_def)
  then show ?thesis by (simp only: map_update list_update_id)
qed

lemma loop_names:
  assumes "keeps_name api"
  shows "map tier_Name (snd (merge_tiers_loop api dsts srcs)) = map tier_Name dsts"
proof (induction srcs arbitrary: dsts)
  case (Cons s srcs)
  show ?case
  proof (cases "index_func (\<lambda>d. tier_Name d = tier_Name s) dsts")
    case (Some di)
    obtain e t where m: "merge_tier api (dsts ! di) s = (e, t)" by fastforce
    have "map tier_Name (dsts[di := t]) = map tier_Name dsts" using update_name [OF assms Some] m by simp
    then show ?thesis using Some m Cons.IH [of "dsts[di := t]"] by (cases e) simp_all
  qed (simp add: Cons.IH)
qed simp

lemma map_merge_step:
  assumes "keeps_name api" and "distinct (map tier_Name dsts)"
    and "index_func (\<lambda>d. tier_Name d = tier_Name s) dsts = Some di"
  shows "map (merge_all api srcs) (dsts[di := snd (merge_tier api (dsts ! di) s)]) =
    map (merge_all api (s # srcs)) dsts"
proof (rule nth_equalityI)
  have di: "di < length dsts" "tier_Name (dsts ! di) = tier_Name s"
    using index_func_SomeD [OF assms(3)] by auto
  have other: "tier_Name (dsts ! j) \<noteq> tier_Name s" if "j < length dsts" "j \<noteq> di" for j
    using assms(2) di that nth_eq_iff_index_eq [OF assms(2), of j di] by simp
  have name: "tier_Name (snd (merge_tier api (dsts ! di) s)) = tier_Name s"
    using assms(1) di(2) by (simp add: keeps_name_def)
  fix j assume "j < length (map (merge_all api srcs) (dsts[di := snd (merge_tier api (dsts ! di) s)]))"
  then have j: "j < length dsts" by simp
  show "map (merge_all api srcs) (dsts[di := snd (merge_tier api (dsts ! di) s)]) ! j =
      map (merge_all api (s # srcs)) dsts ! j"
  proof (cases "j = di")
    case True
    then show ?thesis using j di(2) name by (simp add: merge_all_def)
  next
    case False
    then show ?thesis using j other [OF j False] by (simp add: merge_all_def)
  qed
qed simp

lemma merge_all_Nil [simp]: "merge_all api [] d = d"
  by (simp add: merge_all_def)

lemma loop_reference:
  assumes "keeps_name api" and "distinct (map tier_Name dsts)"
    and "merge_tiers_loop api dsts srcs = (None, ts)"
  shows "ts = map (merge_all api srcs) dsts"
  using assms(2,3)
proof (induction srcs arbitrary: dsts)
  case Nil
  then show ?case by (simp add: map_idI)
next
  case (Cons s srcs)
  show ?case
  proof (cases "index_func (\<lambda>d. tier_Name d = tier_Name s) dsts")
    case None
    then have "\<forall>d \<in> set dsts. tier_Name d \<noteq> tier_Name s" by (simp add: index_func_None_iff)
    then have same: "map (merge_all api (s # srcs)) dsts = map (merge_all api srcs) dsts"
      by (auto simp: merge_all_def)
    have "merge_tiers_loop api dsts srcs = (None, ts)" using Cons.prems(2) None by simp
    from Cons.IH [OF Cons.prems(1) this] show ?thesis unfolding same .
  next
    case (Some di)
    obtain e t where m: "merge_tier api (dsts ! di) s = (e, t)" by fastforce
    with Some Cons.prems(2) have e: "e = None" and rest: "merge_tiers_loop api (dsts[di := t]) srcs = (None, ts)"
      by (cases e, simp_all)+
    have "distinct (map tier_Name (dsts[di := t]))"
      using Cons.prems(1) update_name [OF assms(1) Some] m by simp
    from Cons.IH [OF this rest] show ?thesis
      using map_merge_step [OF assms(1) Cons.prems(1) Some, of srcs] m by simp
  qed
qed

text \<open>
  C22. Merging tiers keeps the tiers of the destination, with their names and order, whether or not
  it succeeds: no tier is added or lost.  On success every tier of the destination is merged with
  exactly the tiers of the source that have its name, one after the other; tiers of the source
  without a counterpart are dropped.
\<close>

theorem mergeTiers_correct:
  assumes "keeps_name api" and "mergeTiers api True True dst src = (e, ts)"
  shows "map tier_Name ts = map tier_Name dst \<and>
    (distinct (map tier_Name dst) \<and> e = None \<longrightarrow> ts = map (merge_all api src) dst)"
proof
  have loop: "merge_tiers_loop api dst src = (e, ts)" using assms(2) by (simp add: mergeTiers_def)
  show "map tier_Name ts = map tier_Name dst" using loop_names [OF assms(1), of dst src] loop by simp
  show "distinct (map tier_Name dst) \<and> e = None \<longrightarrow> ts = map (merge_all api src) dst"
    using loop_reference [OF assms(1)] loop by blast
qed

text \<open>A library that fills empty fields and appends the taints.\<close>

definition fill :: "string \<Rightarrow> string \<Rightarrow> string" where
  "fill d s = (if d = [] then s else d)"

definition example_merge :: merge_api where
  "example_merge = \<lparr>merge_spec = (\<lambda>tiers d s. let (e, ts) = tiers True True (cs_Tiers d) (cs_Tiers s)
       in (e, d\<lparr>cs_Tiers := ts, cs_Region := fill (cs_Region s) (cs_Region d)\<rparr>)),
     merge_tier = (\<lambda>d s. (None, d\<lparr>tier_Name := fill (tier_Name d) (tier_Name s),
       tier_InstanceType := fill (tier_InstanceType d) (tier_InstanceType s),
       tier_ContainerRuntime := fill (tier_ContainerRuntime d) (tier_ContainerRuntime s),
       tier_Taints := tier_Taints d @ tier_Taints s\<rparr>))\<rparr>"

definition named_tier :: "string \<Rightarrow> string list \<Rightarrow> Tier" where
  "named_tier n taints = zero_Tier\<lparr>tier_Name := n, tier_Taints := taints\<rparr>"

theorem mergeTiers_correct_witness:
  "mergeTiers example_merge True True [named_tier ''a'' [''x''], named_tier ''b'' []]
      [named_tier ''c'' [''y''], named_tier ''a'' [''z'']] =
     (None, [named_tier ''a'' [''x'', ''z''], named_tier ''b'' []])"
proof -
  have law: "keeps_name example_merge" by (auto simp: keeps_name_def example_merge_def fill_def)
  let ?d = "[named_tier ''a'' [''x''], named_tier ''b'' []]" and ?s = "[named_tier ''c'' [''y''], named_tier ''a'' [''z'']]"
  obtain e ts where m: "mergeTiers example_merge True True ?d ?s = (e, ts)" by fastforce
  have "e = None" using m by (auto simp: mergeTiers_def named_tier_def example_merge_def fill_def zero_Tier_def)
  with mergeTiers_correct [OF law m] m show ?thesis
    by (simp add: named_tier_def merge_all_def example_merge_def fill_def zero_Tier_def)
qed

end
