(* ===== verification/Sync_Parser.thy ===== *)
theory Sync_Parser
  imports Sync_Handlers Cluster_Merge
begin

text \<open>
  pkg/sync/parser/parser.go: the parser that collects the data of the watched resources in a
  buffer.  Its state is the table of handlers and the buffer; the Kubernetes client, the
  encoders and the merge library are arguments.
\<close>

record 'k sync_client =
  kc_Get :: "GroupVersionKind \<Rightarrow> string \<Rightarrow> string \<Rightarrow> 'k \<Rightarrow> (goerr + jobj) \<times> 'k"
  kc_List :: "GroupVersionKind \<Rightarrow> string \<Rightarrow> (str_map \<Rightarrow> bool) option \<Rightarrow> 'k \<Rightarrow> (goerr option \<times> jobj list) \<times> 'k"
  kc_LabelSelectorAsSelector :: "LabelSelector \<Rightarrow> goerr + (str_map \<Rightarrow> bool)"
  kc_ParseGroupVersion :: parse_gv
  kc_GVK_String :: "GroupVersionKind \<Rightarrow> string"

record ResourceParser =
  rp_handlers :: "GroupVersionKind \<rightharpoonup> object_handler"
  rp_buffer :: ClusterSpec

definition New :: ResourceParser where
  "New = \<lparr>rp_handlers = Map.empty, rp_buffer = zero_ClusterSpec\<rparr>"

definition RegisterHandlerForGVK :: "GroupVersionKind \<Rightarrow> object_handler \<Rightarrow> ResourceParser \<Rightarrow> ResourceParser" where
  "RegisterHandlerForGVK gvk h p = p\<lparr>rp_handlers := (rp_handlers p)(gvk \<mapsto> h)\<rparr>"

definition GetBuffer :: "ResourceParser \<Rightarrow> ClusterSpec" where
  "GetBuffer p = rp_buffer p"

definition SetBuffer :: "ClusterSpec \<Rightarrow> ResourceParser \<Rightarrow> ResourceParser" where
  "SetBuffer buffer p = p\<lparr>rp_buffer := buffer\<rparr>"

text \<open>
  The objects of a resource.  The error of a failed listing is logged but not returned; the
  items that the call has delivered are used.
\<close>

definition getObjectsForResource ::
  "'k sync_client \<Rightarrow> WatchedResource \<Rightarrow> 'k \<Rightarrow> (goerr + jobj list) \<times> 'k" where
  "getObjectsForResource c res k =
     (case WatchedResource_GVK (kc_ParseGroupVersion c) res of
        Inl err \<Rightarrow> (Inl err, k)
      | Inr gvk \<Rightarrow>
          if wr_Name res \<noteq> []
          then case kc_Get c gvk (wr_Namespace res) (wr_Name res) k of
                 (Inl err, k) \<Rightarrow> (Inl err, k)
               | (Inr obj, k) \<Rightarrow> (Inr [obj], k)
          else case (case wr_LabelSelector res of
                       None \<Rightarrow> Inr None
                     | Some ls \<Rightarrow> map_sum id Some (kc_LabelSelectorAsSelector c ls)) of
                 Inl err \<Rightarrow> (Inl err, k)
               | Inr selector \<Rightarrow>
                   (let ((err, items), k) = kc_List c gvk (wr_Namespace res) selector k in (Inr items, k)))"

definition Parse ::
  "'k sync_client \<Rightarrow> merge_api \<Rightarrow> WatchedResource \<Rightarrow> ResourceParser \<times> 'k \<Rightarrow> goerr option \<times> ResourceParser \<times> 'k" where
  "Parse c m res s =
     (case s of (p, k) \<Rightarrow>
        (case WatchedResource_GVK (kc_ParseGroupVersion c) res of
           Inl err \<Rightarrow> (Some err, p, k)
         | Inr gvk \<Rightarrow>
             (case rp_handlers p gvk of
                None \<Rightarrow> (Some (Error (''no handler registered for GVK: '' @ kc_GVK_String c gvk)), p, k)
              | Some h \<Rightarrow>
                  (case getObjectsForResource c res k of
                     (Inl err, k) \<Rightarrow> (Some err, p, k)
                   | (Inr objects, k) \<Rightarrow>
                       (case h objects of
                          Inl err \<Rightarrow> (Some err, p, k)
                        | Inr patch \<Rightarrow>
                            (let (err, buffer) = Merge m (rp_buffer p) patch in (err, p\<lparr>rp_buffer := buffer\<rparr>, k)))))))"

text \<open>The encoders: \<^verbatim>\<open>json.Marshal\<close> of a specification and \<^verbatim>\<open>jsonpatch.CreateMergePatch\<close>.\<close>

record diff_libs =
  dl_Marshal :: "ClusterSpec \<Rightarrow> goerr + string"
  dl_CreateMergePatch :: "string \<Rightarrow> string \<Rightarrow> goerr + string"

definition Diff :: "diff_libs \<Rightarrow> ResourceParser \<Rightarrow> goerr + string" where
  "Diff l p =
     bind_err (dl_Marshal l zero_ClusterSpec) (\<lambda>original.
     bind_err (dl_Marshal l (rp_buffer p)) (\<lambda>modified.
       dl_CreateMergePatch l original modified))"

section \<open>The handlers of the sync manager (cmd/sync/manager/manager.go)\<close>

definition gvk_of :: "string \<Rightarrow> string \<Rightarrow> string \<Rightarrow> GroupVersionKind" where
  "gvk_of g v k = \<lparr>gvk_Group = g, gvk_Version = v, gvk_Kind = k\<rparr>"

definition sync_handlers :: "unstructured_api \<Rightarrow> (jval \<Rightarrow> goerr + string) \<Rightarrow> ResourceParser \<Rightarrow> ResourceParser" where
  "sync_handlers api taint rp =
     fold (\<lambda>(gvk, h). RegisterHandlerForGVK gvk h)
       [(gvk_of ''cluster.x-k8s.io'' ''v1beta1'' ''Cluster'', ClusterHandler_Handle api),
        (gvk_of ''ec2.services.k8s.aws'' ''v1alpha1'' ''VPC'', VPCHandler_Handle api),
        (gvk_of ''ec2.services.k8s.aws'' ''v1alpha1'' ''Subnet'', SubnetHandler_Handle api),
        (gvk_of ''controlplane.cluster.x-k8s.io'' ''v1beta2'' ''AWSManagedControlPlane'',
           AWSManagedControlPlaneHandler_Handle api),
        (gvk_of ''infrastructure.cluster.x-k8s.io'' ''v1beta2'' ''AWSManagedMachinePool'',
           AWSManagedMachinePoolHandler_Handle api taint),
        (gvk_of ''bootstrap.cluster.x-k8s.io'' ''v1beta2'' ''EKSConfig'', EKSConfigHandler_Handle api)] rp"

section \<open>Properties\<close>

text \<open>Every handler makes an empty specification of no objects.\<close>

lemma handlers_empty:
  assumes "rp_handlers (sync_handlers api taint New) gvk = Some h"
  shows "h [] = Inr zero_ClusterSpec"
  using assms
  by (auto simp: sync_handlers_def RegisterHandlerForGVK_def New_def ClusterHandler_Handle_def VPCHandler_Handle_def
      SubnetHandler_Handle_def AWSManagedControlPlaneHandler_Handle_def AWSManagedMachinePoolHandler_Handle_def
      EKSConfigHandler_Handle_def split: if_splits)

text \<open>
  A listing of watched objects that fails is not noticed: with the handlers of the sync
  manager, a resource without a name whose listing fails with no items is parsed as if there were
  no objects, without an error, so an empty specification is merged into the buffer.
\<close>

theorem list_failure_unnoticed:
  assumes "WatchedResource_GVK (kc_ParseGroupVersion c) res = Inr gvk"
    and "rp_handlers p = rp_handlers (sync_handlers api taint New)" and "gvk \<in> dom (rp_handlers p)"
    and "wr_Name res = []" and "wr_LabelSelector res = None"
    and "kc_List c gvk (wr_Namespace res) None k = ((Some err, []), k')"
  shows "Parse c m res (p, k) = (fst (Merge m (rp_buffer p) zero_ClusterSpec),
    p\<lparr>rp_buffer := snd (Merge m (rp_buffer p) zero_ClusterSpec)\<rparr>, k')"
proof -
  obtain h where h: "rp_handlers p gvk = Some h" using assms(3) by blast
  then have "h [] = Inr zero_ClusterSpec" using handlers_empty assms(2) by simp
  moreover have "getObjectsForResource c res k = (Inr [], k')"
    using assms by (simp add: getObjectsForResource_def)
  ultimately show ?thesis using assms(1) h by (simp add: Parse_def split: prod.split)
qed

definition subnets :: WatchedResource where
  "subnets = \<lparr>wr_Kind = ''Subnet'', wr_APIVersion = ''ec2'', wr_Namespace = ''n'', wr_Name = [], wr_LabelSelector = None\<rparr>"

definition broken_client :: "nat sync_client" where
  "broken_client = \<lparr>kc_Get = (\<lambda>g ns n k. (Inl (Error ''unreachable''), Suc k)),
     kc_List = (\<lambda>g ns sel k. ((Some (Error ''unreachable''), []), Suc k)),
     kc_LabelSelectorAsSelector = (\<lambda>ls. Inl (Error ''unsupported'')),
     kc_ParseGroupVersion = (\<lambda>s. Inr (''ec2.services.k8s.aws'', ''v1alpha1'')), kc_GVK_String = gvk_Kind\<rparr>"

theorem list_failure_unnoticed_witness:
  "Parse broken_client example_merge subnets (sync_handlers std_api (\<lambda>_. Inr []) New, 0) =
     (None, sync_handlers std_api (\<lambda>_. Inr []) New, 1)"
proof -
  let ?p = "sync_handlers std_api (\<lambda>_. Inr []) New"
  let ?g = "gvk_of ''ec2.services.k8s.aws'' ''v1alpha1'' ''Subnet''"
  have g: "WatchedResource_GVK (kc_ParseGroupVersion broken_client) subnets = Inr ?g"
    by (simp add: WatchedResource_GVK_def broken_client_def subnets_def gvk_of_def)
  have d: "?g \<in> dom (rp_handlers ?p)"
    by (simp add: sync_handlers_def RegisterHandlerForGVK_def gvk_of_def New_def)
  have l: "kc_List broken_client ?g (wr_Namespace subnets) None 0 = ((Some (Error ''unreachable''), []), 1)"
    by (simp add: broken_client_def)
  have b: "rp_buffer ?p = zero_ClusterSpec" by (simp add: sync_handlers_def RegisterHandlerForGVK_def New_def)
  have merge: "Merge example_merge zero_ClusterSpec zero_ClusterSpec = (None, zero_ClusterSpec)"
    by (simp add: Merge_def example_merge_def mergeTiers_def zero_ClusterSpec_def fill_def)
  have "wr_Name subnets = []" "wr_LabelSelector subnets = None"
    by (simp_all add: subnets_def)
  with list_failure_unnoticed [OF g refl d _ _ l, of example_merge] b merge show ?thesis by simp
qed

end
