(* ===== verification/Sync_Manager.thy ===== *)
theory Sync_Manager
  imports Sync_Parser Sha256 Sqs Web
begin

text \<open>
  pkg/sync/manager: the controller of \<^verbatim>\<open>ClusterSync\<close> objects.  A reconciliation reads the watched
  resources through the parser and sends what it found to the queue, unless it was sent before.
  The Kubernetes client, the clock, the generator of ids and the encoders are arguments.
\<close>

section \<open>Metrics (pkg/monitoring/manager/metrics.go)\<close>

datatype sync_metric =
    RequeueCnt string
  | ReconciliationCnt string
  | ReconciliationDur string
  | EnqueueCnt string
  | EnqueueDur string
  | SyncErrorCnt string

section \<open>State\<close>

record ('k, 'w) sync_st =
  ss_k8s :: 'k
  ss_queue :: 'w
  ss_parser :: ResourceParser
  ss_metrics :: "sync_metric list"

definition record_sync :: "sync_metric \<Rightarrow> ('k, 'w) sync_st \<Rightarrow> ('k, 'w) sync_st" where
  "record_sync m s = s\<lparr>ss_metrics := m # ss_metrics s\<rparr>"

text \<open>
  What the controller is given: the client (reading and updating \<^verbatim>\<open>ClusterSync\<close> objects, listing them
  by namespace, and the parser's part), \<^verbatim>\<open>yaml.Unmarshal\<close>, \<^verbatim>\<open>json.Marshal\<close> of a string pointer, the clock
  and the id of the message.
\<close>

record ('k, 'w) SyncController =
  sc_Get :: "string \<times> string \<Rightarrow> 'k \<Rightarrow> (goerr + ClusterSync) \<times> 'k"
  sc_StatusUpdate :: "ClusterSync \<Rightarrow> 'k \<Rightarrow> goerr option \<times> 'k"
  sc_List :: "string \<Rightarrow> 'k \<Rightarrow> (goerr + ClusterSync list) \<times> 'k"
  sc_client :: "'k sync_client"
  sc_merge :: merge_api
  sc_diff :: diff_libs
  sc_SelectorSize :: "LabelSelector option \<Rightarrow> int"
  sc_IgnoreNotFound :: "goerr \<Rightarrow> goerr option"
  sc_Unmarshal :: "string \<Rightarrow> goerr option \<times> ClusterSpec"
  sc_Marshal :: "string option \<Rightarrow> goerr + string"
  sc_now :: timestamp
  sc_uuid :: "goerr + string"
  sc_Queue :: "'w Config"

text \<open>\<^verbatim>\<open>ctrl.Result\<close>: after how many seconds the request comes back, 0 for not at all.\<close>

type_synonym result = "int \<times> goerr option"

section \<open>Results and hashes (result.go, util.go)\<close>

definition requeueIfError ::
  "string \<Rightarrow> goerr option \<Rightarrow> ('k, 'w) sync_st \<Rightarrow> result run \<times> ('k, 'w) sync_st" where
  "requeueIfError name err s =
     (Ret (0, err), if err \<noteq> None then record_sync (RequeueCnt name) s else s)"

definition noRequeue :: "('k, 'w) sync_st \<Rightarrow> result run \<times> ('k, 'w) sync_st" where
  "noRequeue s = (Ret (0, None), s)"

definition requeueAfter ::
  "string \<Rightarrow> int \<Rightarrow> goerr \<Rightarrow> ('k, 'w) sync_st \<Rightarrow> result run \<times> ('k, 'w) sync_st" where
  "requeueAfter name interval err s = (Ret (interval, Some err), record_sync (RequeueCnt name) s)"

definition hash :: "('k, 'w) SyncController \<Rightarrow> string option \<Rightarrow> string" where
  "hash c obj = hash_bytes (case sc_Marshal c obj of Inl _ \<Rightarrow> [] | Inr b \<Rightarrow> b)"

section \<open>Sending (controller.go)\<close>

definition SyncStatusSuccess :: string where
  "SyncStatusSuccess = ''success''"

definition SyncStatusFail :: string where
  "SyncStatusFail = ''fail''"

abbreviation set_status :: "(ClusterSyncStatus \<Rightarrow> ClusterSyncStatus) \<Rightarrow> ClusterSync \<Rightarrow> ClusterSync" where
  "set_status f i \<equiv> i\<lparr>sync_Status := f (sync_Status i)\<rparr>"

definition hasDifferentHash :: "('k, 'w) SyncController \<Rightarrow> ClusterSync \<Rightarrow> bool" where
  "hasDifferentHash c instance =
     (case (sst_SyncedDataHash (sync_Status instance), sst_SyncedData (sync_Status instance)) of
        (Some oldHash, Some d) \<Rightarrow> oldHash \<noteq> hash c (Some d)
      | _ \<Rightarrow> True)"

definition isLastSyncSuccessful :: "ClusterSync \<Rightarrow> bool" where
  "isLastSyncSuccessful instance \<longleftrightarrow> sst_LastSyncStatus (sync_Status instance) = Some SyncStatusSuccess"

definition shouldEnqueueData :: "('k, 'w) SyncController \<Rightarrow> ClusterSync \<Rightarrow> bool" where
  "shouldEnqueueData c instance \<longleftrightarrow> isLastSyncSuccessful instance \<and> hasDifferentHash c instance"

definition partial_update_entry :: "string \<Rightarrow> string \<Rightarrow> SendMessageBatchRequestEntry" where
  "partial_update_entry uid obj = \<lparr>entry_Id = Some uid, entry_DelaySeconds = 10, entry_MessageBody = Some obj,
     entry_MessageAttributes = [(''Type'', ''String'', PartialClusterUpdateEvent)]\<rparr>"

definition enqueueData ::
  "('k, 'w) SyncController \<Rightarrow> ClusterSync \<Rightarrow> ('k, 'w) sync_st \<Rightarrow> goerr option run \<times> ('k, 'w) sync_st" where
  "enqueueData c instance s =
     (case sc_Marshal c (sst_SyncedData (sync_Status instance)) of
        Inl err \<Rightarrow> (Ret (Some err), s)
      | Inr obj \<Rightarrow>
          (case sc_uuid c of
             Inl err \<Rightarrow> (Ret (Some err), s)
           | Inr uid \<Rightarrow>
               (case Enqueue (sc_Queue c) [partial_update_entry uid obj] (ss_queue s) of
                  (Panic p, w) \<Rightarrow> (Panic p, s\<lparr>ss_queue := w\<rparr>)
                | (Ret err, w) \<Rightarrow>
                    (let name = meta_Name (sync_Meta instance)
                     in (Ret err, record_sync (EnqueueCnt name) (record_sync (EnqueueDur name) (s\<lparr>ss_queue := w\<rparr>)))))))"

definition updateStatus ::
  "('k, 'w) SyncController \<Rightarrow> ClusterSync \<Rightarrow> ('k, 'w) sync_st \<Rightarrow> goerr option \<times> ('k, 'w) sync_st" where
  "updateStatus c instance s =
     (let (err, k) = sc_StatusUpdate c instance (ss_k8s s) in (err, s\<lparr>ss_k8s := k\<rparr>))"

definition getInitialData :: "('k, 'w) SyncController \<Rightarrow> ClusterSync \<Rightarrow> goerr option \<times> ClusterSpec" where
  "getInitialData c instance = sc_Unmarshal c (css_InitialData (sync_Spec instance))"

section \<open>Reconciliation (controller.go)\<close>

text \<open>The loop over the watched resources collects the errors.\<close>

fun parse_all ::
  "'k sync_client \<Rightarrow> merge_api \<Rightarrow> WatchedResource list \<Rightarrow> ResourceParser \<times> 'k \<Rightarrow> goerr list \<times> ResourceParser \<times> 'k" where
  "parse_all c m [] s = ([], s)"
| "parse_all c m (res # rs) s =
     (let (e, s) = Parse c m res s; (errs, s) = parse_all c m rs s
      in ((case e of None \<Rightarrow> errs | Some err \<Rightarrow> err # errs), s))"

definition collect ::
  "('k, 'w) SyncController \<Rightarrow> ClusterSync \<Rightarrow> ('k, 'w) sync_st \<Rightarrow> goerr list \<times> ('k, 'w) sync_st" where
  "collect c instance s =
     (let (err, initialData) = getInitialData c instance;
          (errs, p, k) = parse_all (sc_client c) (sc_merge c) (css_WatchedResources (sync_Spec instance))
            (SetBuffer initialData (ss_parser s), ss_k8s s)
      in ((case err of None \<Rightarrow> errs | Some e \<Rightarrow> e # errs), s\<lparr>ss_parser := p, ss_k8s := k\<rparr>))"

definition clear_status :: "ClusterSync \<Rightarrow> ClusterSync" where
  "clear_status instance = set_status (\<lambda>st. st\<lparr>sst_LastSyncStatus := Some SyncStatusSuccess,
     sst_LastSyncError := None\<rparr>) instance"

definition sync_failed ::
  "('k, 'w) SyncController \<Rightarrow> string \<Rightarrow> ClusterSync \<Rightarrow> goerr \<Rightarrow> ('k, 'w) sync_st \<Rightarrow> result run \<times> ('k, 'w) sync_st" where
  "sync_failed c name instance err s =
     (let instance = set_status (\<lambda>st. st\<lparr>sst_LastSyncStatus := Some SyncStatusFail,
            sst_LastSyncError := Some (err_text err), sst_LastSyncTime := Some (sc_now c)\<rparr>) instance
      in case updateStatus c instance (record_sync (SyncErrorCnt name) s) of
           (Some err, s) \<Rightarrow> requeueAfter name 10 err s
         | (None, s) \<Rightarrow> noRequeue s)"

definition send_data ::
  "('k, 'w) SyncController \<Rightarrow> string \<Rightarrow> ClusterSync \<Rightarrow> ('k, 'w) sync_st \<Rightarrow> result run \<times> ('k, 'w) sync_st" where
  "send_data c name instance s =
     (let instance = set_status (\<lambda>st. st\<lparr>sst_SyncedDataHash := Some (hash c (sst_SyncedData st)),
            sst_LastSyncTime := Some (sc_now c)\<rparr>) instance
      in case enqueueData c instance s of
           (Panic p, s) \<Rightarrow> (Panic p, s)
         | (Ret (Some err), s) \<Rightarrow>
             (case updateStatus c instance (record_sync (SyncErrorCnt name) s) of
                (Some err, s) \<Rightarrow> requeueAfter name 10 err s
              | (None, s) \<Rightarrow> noRequeue s)
         | (Ret None, s) \<Rightarrow>
             (case updateStatus c instance s of
                (Some err, s) \<Rightarrow> requeueAfter name 10 err (record_sync (SyncErrorCnt name) s)
              | (None, s) \<Rightarrow> noRequeue s))"

definition reconcile ::
  "('k, 'w) SyncController \<Rightarrow> string \<times> string \<Rightarrow> ('k, 'w) sync_st \<Rightarrow> result run \<times> ('k, 'w) sync_st" where
  "reconcile c req s =
     (case sc_Get c req (ss_k8s s) of
        (Inl err, k) \<Rightarrow>
          requeueIfError (snd req) (sc_IgnoreNotFound c err)
            (record_sync (SyncErrorCnt (snd req)) (s\<lparr>ss_k8s := k\<rparr>))
      | (Inr instance, k) \<Rightarrow>
          if meta_DeletionTimestamp (sync_Meta instance) \<noteq> None then noRequeue (s\<lparr>ss_k8s := k\<rparr>)
          else
            (let instance = clear_status instance;
                 (errList, s) = collect c instance (s\<lparr>ss_k8s := k\<rparr>)
             in case errList of
                  err # _ \<Rightarrow> sync_failed c (snd req) instance err s
                | [] \<Rightarrow>
                    (case Diff (sc_diff c) (ss_parser s) of
                       Inl err \<Rightarrow> noRequeue (record_sync (SyncErrorCnt (snd req)) s)
                     | Inr syncedData \<Rightarrow>
                         (let instance = set_status (\<lambda>st. st\<lparr>sst_SyncedData := Some syncedData\<rparr>) instance
                          in if shouldEnqueueData c instance then send_data c (snd req) instance s
                             else noRequeue s))))"

text \<open>The deferred function records the duration and the number of reconciliations.\<close>

definition Reconcile ::
  "('k, 'w) SyncController \<Rightarrow> string \<times> string \<Rightarrow> ('k, 'w) sync_st \<Rightarrow> result run \<times> ('k, 'w) sync_st" where
  "Reconcile c req s =
     (let (r, s) = reconcile c req s
      in (r, record_sync (ReconciliationCnt (snd req)) (record_sync (ReconciliationDur (snd req)) s)))"

section \<open>Events and requests (controller.go)\<close>

text \<open>The predicates of \<^verbatim>\<open>eventFilters\<close>; a deletion event says whether the final state is unknown.\<close>

definition create_filter :: "('k, 'w) SyncController \<Rightarrow> ClusterSync \<Rightarrow> bool" where
  "create_filter c obj = hasDifferentHash c obj"

definition update_filter :: "('k, 'w) SyncController \<Rightarrow> ClusterSync \<Rightarrow> ClusterSync \<Rightarrow> bool" where
  "update_filter c oldObject newObject =
     (if hasDifferentHash c newObject then True
      else if css_WatchedResources (sync_Spec oldObject) \<noteq> css_WatchedResources (sync_Spec newObject) then True
      else if css_InitialData (sync_Spec oldObject) \<noteq> css_InitialData (sync_Spec newObject) then True
      else False)"

definition delete_filter :: "bool \<Rightarrow> bool" where
  "delete_filter deleteStateUnknown = (\<not> deleteStateUnknown)"

definition generic_filter :: "ClusterSync \<Rightarrow> bool" where
  "generic_filter obj = False"

text \<open>
  The loop over the resources of one \<^verbatim>\<open>ClusterSync\<close>: an error, or whether one of them is the object.
\<close>

record object_info =
  obj_Name :: string
  obj_Namespace :: string
  obj_GVK :: GroupVersionKind
  obj_Labels :: str_map

fun watches :: "('k, 'w) SyncController \<Rightarrow> object_info \<Rightarrow> string \<Rightarrow> WatchedResource list \<Rightarrow> goerr + bool" where
  "watches c obj ns [] = Inr False"
| "watches c obj ns (res # rs) =
     (case kc_ParseGroupVersion (sc_client c) (wr_APIVersion res) of
        Inl err \<Rightarrow> Inl err
      | Inr gv \<Rightarrow>
          if gv \<noteq> (gvk_Group (obj_GVK obj), gvk_Version (obj_GVK obj)) \<or> wr_Kind res \<noteq> gvk_Kind (obj_GVK obj) \<or>
             ns \<noteq> obj_Namespace obj
          then watches c obj ns rs
          else if wr_Name res \<noteq> [] \<and> wr_Name res \<noteq> obj_Name obj then watches c obj ns rs
          else if sc_SelectorSize c (wr_LabelSelector res) > 0
          then case kc_LabelSelectorAsSelector (sc_client c) (the (wr_LabelSelector res)) of
                 Inl err \<Rightarrow> Inl err
               | Inr selector \<Rightarrow> if \<not> selector (obj_Labels obj) then watches c obj ns rs else Inr True
          else Inr True)"

fun sync_requests ::
  "('k, 'w) SyncController \<Rightarrow> object_info \<Rightarrow> ClusterSync list \<Rightarrow> (string \<times> string) list \<Rightarrow> (string \<times> string) list" where
  "sync_requests c obj [] requests = requests"
| "sync_requests c obj (cs # rest) requests =
     (case watches c obj (meta_Namespace (sync_Meta cs)) (css_WatchedResources (sync_Spec cs)) of
        Inl err \<Rightarrow> requests
      | Inr b \<Rightarrow>
          sync_requests c obj rest
            (if b then requests @ [(meta_Namespace (sync_Meta cs), meta_Name (sync_Meta cs))] else requests))"

definition enqueueRequestsFromMapFunc ::
  "('k, 'w) SyncController \<Rightarrow> GroupVersionKind \<Rightarrow> object_info \<Rightarrow> 'k \<Rightarrow> (string \<times> string) list \<times> 'k" where
  "enqueueRequestsFromMapFunc c gvk obj k =
     (if obj_GVK obj \<noteq> gvk then ([], k)
      else case sc_List c (obj_Namespace obj) k of
             (Inl err, k) \<Rightarrow> ([], k)
           | (Inr items, k) \<Rightarrow> (sync_requests c obj items [], k))"

section \<open>Properties of a reconciliation\<close>

lemma record_sync_simps [simp]:
  "ss_k8s (record_sync m s) = ss_k8s s" "ss_queue (record_sync m s) = ss_queue s"
  "ss_parser (record_sync m s) = ss_parser s"
  by (simp_all add: record_sync_def)

lemma results_queue [simp]:
  "ss_queue (snd (requeueIfError n e s)) = ss_queue s" "ss_queue (snd (noRequeue s)) = ss_queue s"
  "ss_queue (snd (requeueAfter n i err s)) = ss_queue s" "ss_queue (snd (updateStatus c inst s)) = ss_queue s"
  by (simp_all add: requeueIfError_def noRequeue_def requeueAfter_def updateStatus_def split: prod.split)

lemma collect_keeps [simp]: "collect c inst s = (errs, s1) \<Longrightarrow> ss_queue s1 = ss_queue s"
  by (auto simp: collect_def split: prod.splits)

lemma sync_failed_queue [simp]: "ss_queue (snd (sync_failed c n inst err s)) = ss_queue s"
proof -
  obtain e s1 where "updateStatus c (set_status (\<lambda>st. st\<lparr>sst_LastSyncStatus := Some SyncStatusFail,
      sst_LastSyncError := Some (err_text err), sst_LastSyncTime := Some (sc_now c)\<rparr>) inst)
      (record_sync (SyncErrorCnt n) s) = (e, s1)" (is "updateStatus c ?i ?s = _") by fastforce
  moreover from this have "ss_queue s1 = ss_queue s" using results_queue(4) [of c ?i ?s] by simp
  ultimately show ?thesis by (cases e) (simp_all add: sync_failed_def)
qed

lemma send_data_queue:
  assumes "ss_queue (snd (send_data c n inst s)) \<noteq> ss_queue s"
  shows "\<exists>uid obj. sc_Marshal c (sst_SyncedData (sync_Status inst)) = Inr obj \<and> sc_uuid c = Inr uid \<and>
    ss_queue (snd (send_data c n inst s)) = snd (Enqueue (sc_Queue c) [partial_update_entry uid obj] (ss_queue s))"
proof -
  let ?i = "set_status (\<lambda>st. st\<lparr>sst_SyncedDataHash := Some (hash c (sst_SyncedData st)),
      sst_LastSyncTime := Some (sc_now c)\<rparr>) inst"
  obtain r s1 where q: "enqueueData c ?i s = (r, s1)" by fastforce
  have same: "ss_queue (snd (send_data c n inst s)) = ss_queue s1"
  proof (cases r)
    case (Ret e)
    obtain e2 s2 where u: "updateStatus c ?i (case e of None \<Rightarrow> s1 | Some _ \<Rightarrow> record_sync (SyncErrorCnt n) s1) = (e2, s2)"
      by fastforce
    then have "ss_queue s2 = ss_queue s1"
      using results_queue(4) [of c ?i "case e of None \<Rightarrow> s1 | Some _ \<Rightarrow> record_sync (SyncErrorCnt n) s1"]
      by (cases e) simp_all
    then show ?thesis using q Ret u by (cases e; cases e2) (simp_all add: send_data_def)
  qed (simp add: send_data_def q)
  with assms have "ss_queue s1 \<noteq> ss_queue s" by simp
  with q show ?thesis unfolding same
    by (auto simp: enqueueData_def Let_def split: sum.splits prod.splits run.splits)
qed

text \<open>
  C25. The queue is touched only for a synchronisation without errors whose data differ from what
  was sent last, by its hash: then one message of the type for partial updates, with the encoded
  difference to an empty specification as its body, is given to the queue.
\<close>

theorem reconcile_sends:
  assumes "Reconcile c req s = (r, s')" and "ss_queue s' \<noteq> ss_queue s"
  shows "\<exists>inst k s1 d uid obj. sc_Get c req (ss_k8s s) = (Inr inst, k) \<and> meta_DeletionTimestamp (sync_Meta inst) = None \<and>
    collect c (clear_status inst) (s\<lparr>ss_k8s := k\<rparr>) = ([], s1) \<and> Diff (sc_diff c) (ss_parser s1) = Inr d \<and>
    sst_SyncedDataHash (sync_Status inst) \<noteq> Some (hash c (Some d)) \<and>
    sc_Marshal c (Some d) = Inr obj \<and> sc_uuid c = Inr uid \<and>
    ss_queue s' = snd (Enqueue (sc_Queue c) [partial_update_entry uid obj] (ss_queue s))"
proof -
  have q: "ss_queue s' = ss_queue (snd (reconcile c req s))"
    using assms(1) by (auto simp: Reconcile_def split: prod.splits)
  then have touched: "ss_queue (snd (reconcile c req s)) \<noteq> ss_queue s" using assms(2) by simp
  obtain g k where g: "sc_Get c req (ss_k8s s) = (g, k)" by fastforce
  then obtain inst where get: "sc_Get c req (ss_k8s s) = (Inr inst, k)"
    using touched by (cases g) (auto simp: reconcile_def)
  have alive: "meta_DeletionTimestamp (sync_Meta inst) = None"
    using touched get by (cases "meta_DeletionTimestamp (sync_Meta inst)") (auto simp: reconcile_def)
  obtain errs s1 where col: "collect c (clear_status inst) (s\<lparr>ss_k8s := k\<rparr>) = (errs, s1)" by fastforce
  note keep = collect_keeps [OF col]
  have errs: "errs = []"
    using touched get alive col keep by (cases errs) (auto simp: reconcile_def)
  obtain d where d: "Diff (sc_diff c) (ss_parser s1) = Inr d"
    using touched get alive col keep errs by (cases "Diff (sc_diff c) (ss_parser s1)") (auto simp: reconcile_def)
  let ?i = "set_status (\<lambda>st. st\<lparr>sst_SyncedData := Some d\<rparr>) (clear_status inst)"
  have rec: "reconcile c req s = (if shouldEnqueueData c ?i then send_data c (snd req) ?i s1 else noRequeue s1)"
    using get alive col errs d by (simp add: reconcile_def Let_def)
  have should: "shouldEnqueueData c ?i" using touched keep unfolding rec by (auto split: if_splits)
  then have "sst_SyncedDataHash (sync_Status inst) \<noteq> Some (hash c (Some d))"
    by (auto simp: shouldEnqueueData_def hasDifferentHash_def clear_status_def)
  moreover have "ss_queue (snd (send_data c (snd req) ?i s1)) \<noteq> ss_queue s1"
    using touched keep should unfolding rec by simp
  from send_data_queue [OF this] obtain uid obj where "sc_Marshal c (Some d) = Inr obj" "sc_uuid c = Inr uid"
    "ss_queue s' = snd (Enqueue (sc_Queue c) [partial_update_entry uid obj] (ss_queue s))"
    using q rec should keep by (auto simp: clear_status_def)
  ultimately show ?thesis using get alive col errs d by blast
qed

text \<open>
  A controller for one object: initial data are a region, the difference to an empty
  specification is the region, and the queue keeps the batches it was sent.
\<close>

definition list_queue :: "bool \<Rightarrow> SendMessageBatchRequestEntry list list Config" where
  "list_queue working = \<lparr>AWSRegion = ''r'', QueueName = ''q'', Endpoint = ''e'', QueueURL = ''u'', MaxRetries = 0,
     BatchSize = 10, WaitSeconds = 5, VisibilityTimeout = 120, RunOnce = False, RunInterval = 20, MaxHandlers = 10,
     BusyTimeout = 30,
     svc = Some \<lparr>GetQueueUrl = (\<lambda>n w. (Inr ''u'', w)),
       SendMessageBatch = (\<lambda>u b w. if working then (Inr \<lparr>res_Failed = [], res_Successful = map entry_Id b\<rparr>, w @ [b])
                                    else (Inl (Error ''unreachable''), w)),
       DeleteMessage = (\<lambda>u h w. (None, w)), ChangeMessageVisibility = (\<lambda>u h n w. (None, w))\<rparr>,
     handlerCount = 0, registered = False\<rparr>"

definition region_controller ::
  "bool \<Rightarrow> (ClusterSync option, SendMessageBatchRequestEntry list list) SyncController" where
  "region_controller working =
     \<lparr>sc_Get = (\<lambda>req k. (case k of None \<Rightarrow> Inl (Error ''not found'') | Some i \<Rightarrow> Inr i, k)),
      sc_StatusUpdate = (\<lambda>i k. (None, Some i)), sc_List = (\<lambda>ns k. (Inr (case k of None \<Rightarrow> [] | Some i \<Rightarrow> [i]), k)),
      sc_client = \<lparr>kc_Get = (\<lambda>g ns n k. (Inl (Error ''not found''), k)), kc_List = (\<lambda>g ns sel k. ((None, []), k)),
        kc_LabelSelectorAsSelector = (\<lambda>ls. Inl (Error ''unsupported'')), kc_ParseGroupVersion = (\<lambda>s. Inr ([], s)),
        kc_GVK_String = gvk_Kind\<rparr>,
      sc_merge = example_merge,
      sc_diff = \<lparr>dl_Marshal = (\<lambda>spec. Inr (cs_Region spec)), dl_CreateMergePatch = (\<lambda>a b. Inr b)\<rparr>,
      sc_SelectorSize = (\<lambda>_. 0), sc_IgnoreNotFound = (\<lambda>_. None),
      sc_Unmarshal = (\<lambda>s. (None, zero_ClusterSpec\<lparr>cs_Region := s\<rparr>)),
      sc_Marshal = (\<lambda>d. Inr (case d of None \<Rightarrow> ''null'' | Some s \<Rightarrow> s)), sc_now = (0, 0), sc_uuid = Inr ''id'',
      sc_Queue = list_queue working\<rparr>"

definition region_sync :: "string \<Rightarrow> ClusterSync" where
  "region_sync region = \<lparr>sync_Meta = zero_ObjectMeta\<lparr>meta_Name := ''s''\<rparr>,
     sync_Spec = \<lparr>css_WatchedResources = [], css_InitialData = region\<rparr>,
     sync_Status = \<lparr>sst_LastSyncTime = None, sst_LastSyncStatus = None, sst_LastSyncError = None,
       sst_SyncedData = None, sst_SyncedDataHash = None\<rparr>\<rparr>"

definition region_state ::
  "ClusterSync option \<Rightarrow> (ClusterSync option, SendMessageBatchRequestEntry list list) sync_st" where
  "region_state k = \<lparr>ss_k8s = k, ss_queue = [], ss_parser = New, ss_metrics = []\<rparr>"

lemmas region_defs = region_controller_def region_sync_def region_state_def list_queue_def

theorem reconcile_sends_witness:
  "\<exists>r s' d uid. Reconcile (region_controller True) (''n'', ''s'') (region_state (Some (region_sync ''east''))) = (r, s') \<and>
     ss_queue s' = [[partial_update_entry uid ''east'']] \<and> sc_Marshal (region_controller True) (Some d) = Inr ''east''"
proof -
  let ?c = "region_controller True" and ?s = "region_state (Some (region_sync ''east''))"
  obtain r s' where run: "Reconcile ?c (''n'', ''s'') ?s = (r, s')" by fastforce
  have "ss_queue (snd (Reconcile ?c (''n'', ''s'') ?s)) = [[partial_update_entry ''id'' ''east'']]"
    by (simp add: region_defs Reconcile_def reconcile_def zero_ObjectMeta_def clear_status_def collect_def
        getInitialData_def SetBuffer_def Diff_def bind_err_def shouldEnqueueData_def isLastSyncSuccessful_def
        hasDifferentHash_def send_data_def enqueueData_def Enqueue_def updateStatus_def noRequeue_def partial_update_entry_def Let_def)
  then have sent: "ss_queue s' = [[partial_update_entry ''id'' ''east'']]" by (simp add: run)
  then have "ss_queue s' \<noteq> ss_queue ?s" by (simp add: region_state_def)
  from reconcile_sends [OF run this] obtain d obj uid where "sc_Marshal ?c (Some d) = Inr obj"
    "ss_queue s' = snd (Enqueue (sc_Queue ?c) [partial_update_entry uid obj] (ss_queue ?s))" by blast
  with run sent show ?thesis
    by (intro exI [of _ r] exI [of _ s'] exI [of _ d] exI [of _ uid])
      (simp add: region_defs Enqueue_def partial_update_entry_def)
qed

text \<open>
  C40. When the queue refuses the message, the controller still records the hash of the data and a
  success in the status of the object; with that status the data count as sent, so no later
  reconciliation of the same data sends them.
\<close>

theorem refused_data_marked_sent:
  assumes "sc_Get c req (ss_k8s s) = (Inr inst, k)" and "meta_DeletionTimestamp (sync_Meta inst) = None"
    and "collect c (clear_status inst) (s\<lparr>ss_k8s := k\<rparr>) = ([], s1)" and "Diff (sc_diff c) (ss_parser s1) = Inr d"
    and "sst_SyncedDataHash (sync_Status inst) \<noteq> Some (hash c (Some d))"
    and "sc_Marshal c (Some d) = Inr obj" and "sc_uuid c = Inr uid"
    and "Enqueue (sc_Queue c) [partial_update_entry uid obj] (ss_queue s1) = (Ret (Some err), w)"
  shows "\<exists>inst'. ss_k8s (snd (Reconcile c req s)) = snd (sc_StatusUpdate c inst' (ss_k8s s1)) \<and>
    sync_Spec inst' = sync_Spec inst \<and> sst_LastSyncStatus (sync_Status inst') = Some SyncStatusSuccess \<and>
    sst_SyncedData (sync_Status inst') = Some d \<and> \<not> shouldEnqueueData c inst'"
proof -
  let ?i = "set_status (\<lambda>st. st\<lparr>sst_SyncedData := Some d\<rparr>) (clear_status inst)"
  let ?j = "set_status (\<lambda>st. st\<lparr>sst_SyncedDataHash := Some (hash c (sst_SyncedData st)),
      sst_LastSyncTime := Some (sc_now c)\<rparr>) ?i"
  have should: "shouldEnqueueData c ?i"
    using assms(5) by (auto simp: shouldEnqueueData_def isLastSyncSuccessful_def hasDifferentHash_def clear_status_def
        split: option.split)
  obtain s2 where q: "enqueueData c ?j s1 = (Ret (Some err), s2)" and s2: "ss_k8s s2 = ss_k8s s1"
    using assms(6-8) by (simp add: enqueueData_def clear_status_def Let_def)
  obtain e k2 where u: "sc_StatusUpdate c ?j (ss_k8s s1) = (e, k2)" by fastforce
  have "reconcile c req s = send_data c (snd req) ?i s1"
    using assms(1-4) should by (simp add: reconcile_def Let_def)
  also have "\<dots> = (case updateStatus c ?j (record_sync (SyncErrorCnt (snd req)) s2) of
      (Some err, s) \<Rightarrow> requeueAfter (snd req) 10 err s | (None, s) \<Rightarrow> noRequeue s)"
    using q by (simp add: send_data_def)
  finally have "ss_k8s (snd (reconcile c req s)) = k2"
    using u s2 by (cases e) (simp_all add: updateStatus_def requeueAfter_def noRequeue_def)
  then have "ss_k8s (snd (Reconcile c req s)) = snd (sc_StatusUpdate c ?j (ss_k8s s1))"
    using u by (auto simp: Reconcile_def split: prod.split)
  moreover have "\<not> shouldEnqueueData c ?j"
    by (simp add: shouldEnqueueData_def hasDifferentHash_def clear_status_def)
  ultimately show ?thesis
    by (intro exI [of _ ?j]) (simp add: clear_status_def)
qed

theorem refused_data_marked_sent_witness:
  "\<exists>inst'. ss_k8s (snd (Reconcile (region_controller False) (''n'', ''s'') (region_state (Some (region_sync ''east''))))) = Some inst' \<and>
     sst_LastSyncStatus (sync_Status inst') = Some SyncStatusSuccess \<and> \<not> shouldEnqueueData (region_controller False) inst'"
proof -
  let ?c = "region_controller False" and ?s = "region_state (Some (region_sync ''east''))" and ?i = "region_sync ''east''"
  let ?s1 = "?s\<lparr>ss_parser := SetBuffer (zero_ClusterSpec\<lparr>cs_Region := ''east''\<rparr>) New\<rparr>"
  have a: "sc_Get ?c (''n'', ''s'') (ss_k8s ?s) = (Inr ?i, Some ?i)" by (simp add: region_defs)
  have b: "meta_DeletionTimestamp (sync_Meta ?i) = None" by (simp add: region_defs zero_ObjectMeta_def)
  have cl: "collect ?c (clear_status ?i) (?s\<lparr>ss_k8s := Some ?i\<rparr>) = ([], ?s1)"
    by (simp add: region_defs collect_def clear_status_def getInitialData_def)
  have df: "Diff (sc_diff ?c) (ss_parser ?s1) = Inr ''east''"
    by (simp add: region_defs Diff_def bind_err_def SetBuffer_def)
  have h: "sst_SyncedDataHash (sync_Status ?i) \<noteq> Some (hash ?c (Some ''east''))" by (simp add: region_defs)
  have m: "sc_Marshal ?c (Some ''east'') = Inr ''east''" "sc_uuid ?c = Inr ''id''" by (simp_all add: region_defs)
  have e: "Enqueue (sc_Queue ?c) [partial_update_entry ''id'' ''east''] (ss_queue ?s1) = (Ret (Some (Error ''unreachable'')), [])"
    by (simp add: region_defs Enqueue_def)
  have up: "snd (sc_StatusUpdate ?c x y) = Some x" for x y by (simp add: region_defs)
  from refused_data_marked_sent [OF a b cl df h m e] show ?thesis unfolding up by blast
qed

section \<open>The shared parser\<close>

text \<open>
  The controller runs up to ten reconciliations at a time, and all of them use the one parser.
  What a reconciliation does with it: set the buffer, parse resources, take the difference.
\<close>

datatype parser_op = OpSet ClusterSpec | OpParse WatchedResource | OpDiff

fun parser_step ::
  "('k, 'w) SyncController \<Rightarrow> parser_op \<Rightarrow> ResourceParser \<times> 'k \<Rightarrow> (goerr + string) list \<times> ResourceParser \<times> 'k" where
  "parser_step c (OpSet b) (p, k) = ([], SetBuffer b p, k)"
| "parser_step c (OpParse res) (p, k) = (let (e, s) = Parse (sc_client c) (sc_merge c) res (p, k) in ([], s))"
| "parser_step c OpDiff (p, k) = ([Diff (sc_diff c) p], p, k)"

text \<open>A schedule says for each step whose it is; each reconciliation sees its own differences.\<close>

fun parser_run ::
  "('k, 'w) SyncController \<Rightarrow> (nat \<times> parser_op) list \<Rightarrow> ResourceParser \<times> 'k \<Rightarrow> (nat \<times> (goerr + string)) list" where
  "parser_run c [] s = []"
| "parser_run c ((who, op) # ops) s = (let (out, s) = parser_step c op s in map (Pair who) out @ parser_run c ops s)"

definition seen_by :: "nat \<Rightarrow> (nat \<times> (goerr + string)) list \<Rightarrow> (goerr + string) list" where
  "seen_by who outs = map snd (filter (\<lambda>out. fst out = who) outs)"


section \<open>Which reconciliations an object asks for\<close>

text \<open>A watched resource means the object: same kind, name if there is one, and labels if selected.\<close>

definition resource_matches :: "('k, 'w) SyncController \<Rightarrow> object_info \<Rightarrow> WatchedResource \<Rightarrow> bool" where
  "resource_matches c obj res \<longleftrightarrow>
     kc_ParseGroupVersion (sc_client c) (wr_APIVersion res) = Inr (gvk_Group (obj_GVK obj), gvk_Version (obj_GVK obj)) \<and>
     wr_Kind res = gvk_Kind (obj_GVK obj) \<and> (wr_Name res = [] \<or> wr_Name res = obj_Name obj) \<and>
     (sc_SelectorSize c (wr_LabelSelector res) > 0 \<longrightarrow>
        (\<exists>sel. kc_LabelSelectorAsSelector (sc_client c) (the (wr_LabelSelector res)) = Inr sel \<and> sel (obj_Labels obj)))"

lemma watches_iff:
  "watches c obj ns rs = Inr b \<Longrightarrow> b \<longleftrightarrow> ns = obj_Namespace obj \<and> (\<exists>res \<in> set rs. resource_matches c obj res)"
  by (induction rs) (auto simp: resource_matches_def split: sum.splits if_splits)

definition sync_watches :: "('k, 'w) SyncController \<Rightarrow> object_info \<Rightarrow> ClusterSync \<Rightarrow> bool" where
  "sync_watches c obj cs \<longleftrightarrow> meta_Namespace (sync_Meta cs) = obj_Namespace obj \<and>
     (\<exists>res \<in> set (css_WatchedResources (sync_Spec cs)). resource_matches c obj res)"

lemma sync_requests_exact:
  assumes "\<And>cs err. cs \<in> set items \<Longrightarrow>
      watches c obj (meta_Namespace (sync_Meta cs)) (css_WatchedResources (sync_Spec cs)) \<noteq> Inl err"
  shows "sync_requests c obj items acc = acc @
    map (\<lambda>cs. (meta_Namespace (sync_Meta cs), meta_Name (sync_Meta cs))) (filter (sync_watches c obj) items)"
  using assms
proof (induction items arbitrary: acc)
  case (Cons cs items)
  obtain b where b: "watches c obj (meta_Namespace (sync_Meta cs)) (css_WatchedResources (sync_Spec cs)) = Inr b"
    using Cons.prems [of cs] by (cases "watches c obj (meta_Namespace (sync_Meta cs)) (css_WatchedResources (sync_Spec cs))") auto
  have "b = sync_watches c obj cs" using watches_iff [OF b] by (simp add: sync_watches_def)
  then show ?case using Cons b by simp
qed simp


definition example_object :: object_info where
  "example_object = \<lparr>obj_Name = ''net'', obj_Namespace = [],
     obj_GVK = \<lparr>gvk_Group = [], gvk_Version = ''v1'', gvk_Kind = ''VPC''\<rparr>, obj_Labels = Map.empty\<rparr>"

definition watching_sync :: "string \<Rightarrow> ClusterSync" where
  "watching_sync kind = (region_sync ''east'')\<lparr>sync_Spec := \<lparr>css_WatchedResources =
     [\<lparr>wr_Kind = kind, wr_APIVersion = ''v1'', wr_Namespace = [], wr_Name = ''net'', wr_LabelSelector = None\<rparr>],
     css_InitialData = []\<rparr>\<rparr>"


end
