(* ===== verification/Controller_Start.thy ===== *)
theory Controller_Start
  imports Api_Server Alert_Webhook Service_Metadata Sync_Manager
begin

text \<open>
  The start of the client and of the sync manager: what \<^verbatim>\<open>main\<close> of cmd/client/client.go and of
  cmd/sync/manager/manager.go set up after the configuration (Controller_Config), and what the
  controllers register with the framework (\<^verbatim>\<open>SetupWithManager\<close>).
\<close>

section \<open>Base64\<close>

text \<open>\<^verbatim>\<open>base64.StdEncoding.EncodeToString\<close>\<close>

definition b64_char :: "nat \<Rightarrow> char" where
  "b64_char n =
     (if n < 26 then char_of (n + 65) else if n < 52 then char_of (n + 71) else if n < 62 then char_of (n - 4)
      else if n = 62 then CHR ''+'' else CHR ''/'')"

fun base64_EncodeToString :: "string \<Rightarrow> string" where
  "base64_EncodeToString [] = []"
| "base64_EncodeToString [a] =
     [b64_char (byte a div 4), b64_char (byte a mod 4 * 16), CHR ''='', CHR ''='']"
| "base64_EncodeToString [a, b] =
     [b64_char (byte a div 4), b64_char (byte a mod 4 * 16 + byte b div 16), b64_char (byte b mod 16 * 4), CHR ''='']"
| "base64_EncodeToString (a # b # c # r) =
     b64_char (byte a div 4) # b64_char (byte a mod 4 * 16 + byte b div 16) #
     b64_char (byte b mod 16 * 4 + byte c div 64) # b64_char (byte c mod 64) # base64_EncodeToString r"

lemma b64_value_char: "n < 64 \<Longrightarrow> b64_value (b64_char n) = Some n \<and> byte (b64_char n) \<noteq> 10 \<and> byte (b64_char n) \<noteq> 13"
  by (cases "n < 26"; cases "n < 52"; cases "n < 62"; cases "n = 62")
    (auto simp: b64_char_def b64_value_def is_upper_def is_lower_def is_digit_def byte_def)

lemma byte_bounds: "byte c < 256" "byte c div 4 < 64" "byte c mod 4 * 16 < 64" "byte c mod 16 * 4 < 64"
  "byte c mod 4 * 16 + byte d div 16 < 64" "byte c mod 16 * 4 + byte d div 64 < 64" "byte c mod 64 < 64"
proof -
  have b: "byte c < 256" "byte d < 256" by (simp_all add: byte_def)
  then show "byte c < 256" "byte c div 4 < 64" "byte c mod 4 * 16 < 64" "byte c mod 16 * 4 < 64" "byte c mod 64 < 64"
    by auto
  have "byte c mod 4 \<le> 3" "byte d div 16 < 16" "byte c mod 16 \<le> 15" "byte d div 64 < 4" using b by auto
  then show "byte c mod 4 * 16 + byte d div 16 < 64" "byte c mod 16 * 4 + byte d div 64 < 64" by linarith+
qed

lemma byte_parts [simp]:
  "char_of (byte c) = c" "byte c div 16 div 16 = 0" "byte c div 16 mod 16 = byte c div 16"
  "byte c div 64 div 4 = 0" "byte c div 64 mod 4 = byte c div 64"
proof -
  have "byte c div 16 < 16" "byte c div 64 < 4" using byte_bounds(1) [of c] by auto
  then show "byte c div 16 div 16 = 0" "byte c div 16 mod 16 = byte c div 16"
    "byte c div 64 div 4 = 0" "byte c div 64 mod 4 = byte c div 64" by simp_all
qed (simp add: byte_def)

lemma b64_pad: "b64_value CHR ''='' = None"
  by code_simp

lemma b64_decode_encode: "b64_decode (base64_EncodeToString s) = Some s"
  by (induction s rule: base64_EncodeToString.induct)
    (simp_all add: b64_value_char byte_bounds b64_pad)

lemma b64_no_breaks: "filter (\<lambda>c. byte c \<noteq> 10 \<and> byte c \<noteq> 13) (base64_EncodeToString s) = base64_EncodeToString s"
  by (induction s rule: base64_EncodeToString.induct)
    (simp_all add: b64_value_char byte_bounds, simp_all add: byte_def)

lemma base64_roundtrip: "base64_DecodeString (base64_EncodeToString s) = Inr s"
  by (simp add: base64_DecodeString_def b64_no_breaks b64_decode_encode)

section \<open>What the controllers register\<close>

text \<open>
  The kinds that a controller watches beside its own, each with the events that its predicate lets
  through; a function that \<^verbatim>\<open>predicate.Funcs\<close> leaves out lets everything through.
\<close>

datatype event_kind = CreateEvent | UpdateEvent | DeleteEvent | GenericEvent

record watch =
  watch_GVK :: GroupVersionKind
  watch_Passes :: "event_kind \<Rightarrow> bool"

record controller_setup =
  setup_For :: string
  setup_Watches :: "watch list"
  setup_MaxConcurrentReconciles :: "nat option"

definition cluster_SetupWithManager :: controller_setup where
  "cluster_SetupWithManager = \<lparr>setup_For = ''Cluster'', setup_Watches = [], setup_MaxConcurrentReconciles = None\<rparr>"

definition smw_SetupWithManager :: "GroupVersionKind list \<Rightarrow> controller_setup" where
  "smw_SetupWithManager gvks =
     \<lparr>setup_For = ''ServiceMetadataWatcher'',
      setup_Watches = map (\<lambda>gvk. \<lparr>watch_GVK = gvk, watch_Passes = (\<lambda>e. case e of
         CreateEvent \<Rightarrow> True | UpdateEvent \<Rightarrow> True | DeleteEvent \<Rightarrow> False | GenericEvent \<Rightarrow> True)\<rparr>) gvks,
      setup_MaxConcurrentReconciles = Some 10\<rparr>"

definition sync_SetupWithManager :: "GroupVersionKind list \<Rightarrow> controller_setup" where
  "sync_SetupWithManager gvks =
     \<lparr>setup_For = ''ClusterSync'',
      setup_Watches = map (\<lambda>gvk. \<lparr>watch_GVK = gvk, watch_Passes = (\<lambda>e. case e of
         CreateEvent \<Rightarrow> True | UpdateEvent \<Rightarrow> True | DeleteEvent \<Rightarrow> True | GenericEvent \<Rightarrow> False)\<rparr>) gvks,
      setup_MaxConcurrentReconciles = Some 10\<rparr>"

section \<open>The programs\<close>

text \<open>
  The framework: the manager, its configuration with the certificate authority, the controllers and
  checks that it may refuse, and the discovery of the kinds in the cluster.
\<close>

record ('s, 'h, 'cfg, 'w, 'r) controller_libs =
  ct_config :: "('s, 'h, 'cfg) config_libs"
  ct_NewManager :: "('s, 'h) Options \<Rightarrow> goerr option"
  ct_register :: "'r registerer"
  ct_LoadTLSFiles :: "goerr + string"
  ct_connect :: "'w Config \<Rightarrow> 'w aws_outcome"
  ct_Complete :: "controller_setup \<Rightarrow> goerr option"
  ct_discovery :: "goerr + (goerr + (string \<times> string list) list)"
  ct_ParseGroupVersion :: parse_gv
  ct_AddCheck :: "string \<Rightarrow> goerr option"

definition check :: "string \<Rightarrow> goerr option \<Rightarrow> 'b start \<Rightarrow> 'b start" where
  "check msg err f = (case err of Some e \<Rightarrow> Exit msg e | None \<Rightarrow> f)"

text \<open>The server of the alert webhook, as \<^verbatim>\<open>Start\<close> sets it up.\<close>

record webhook_settings =
  whs_Namespace :: string
  whs_BindAddress :: string
  whs_AlertMap :: "AlertRule list"
  whs_Path :: string
  whs_ReadHeaderTimeout :: int

definition webhook_Start :: "ClientConfig \<Rightarrow> webhook_settings" where
  "webhook_Start clientConfig =
     \<lparr>whs_Namespace = cc_Namespace clientConfig, whs_BindAddress = aw_BindAddress (cc_AlertmanagerWebhook clientConfig),
      whs_AlertMap = aw_AlertMap (cc_AlertmanagerWebhook clientConfig), whs_Path = ''/webhook'', whs_ReadHeaderTimeout = 30\<rparr>"

text \<open>The client only sends; all settings of polling are left at zero.\<close>

definition client_queue :: "AppConfig \<Rightarrow> 'w Config" where
  "client_queue appConfig =
     \<lparr>AWSRegion = SqsAwsRegion appConfig, QueueName = SqsQueueName appConfig, Endpoint = SqsEndpoint appConfig, QueueURL = [],
      MaxRetries = 0, BatchSize = 0, WaitSeconds = 0, VisibilityTimeout = 0, RunOnce = False, RunInterval = 0, MaxHandlers = 0,
      BusyTimeout = 0, svc = None, handlerCount = 0, registered = False\<rparr>"

record ('s, 'h, 'w) client_program =
  cp_options :: "('s, 'h) Options"
  cp_config :: ClientConfig
  cp_metrics :: ClientMetrics
  cp_queue :: "'w Config"
  cp_CAData :: string
  cp_WatchedGVKs :: "GroupVersionKind list"
  cp_ServiceIdAnnotation :: string
  cp_webhook :: webhook_settings

definition client_main ::
  "('s, 'h, ClientConfig, 'w, 'r) controller_libs \<Rightarrow> 's \<Rightarrow> client_flags \<Rightarrow> env \<Rightarrow> 'r \<Rightarrow> 'w \<Rightarrow> ('s, 'h, 'w) client_program start" where
  "client_main l scheme fl e reg w =
     or_abort (client_start (ct_config l) scheme fl) (\<lambda>r.
     fatal ''unable to load the config file'' r (\<lambda>(options, clientConfig).
     check ''unable to start cluster-registry-client'' (ct_NewManager l options) (
     or_abort (fst (client_Init (ct_register l) client_NewMetrics reg)) (\<lambda>m.
     fatal ''failed to load TLS files'' (ct_LoadTLSFiles l) (\<lambda>caData.
     fatal ''failed to load client configuration'' (LoadClientConfig e) (\<lambda>appConfig.
     or_abort (fst (NewSQS (ct_connect l) (client_queue appConfig) w)) (\<lambda>nq.
     fatal ''cannot create SQS client'' nq (\<lambda>q.
     check ''unable to create controller'' (ct_Complete l cluster_SetupWithManager) (
     let gvks = client_loadWatchedGVKs (getAvailableGVKs (ct_ParseGroupVersion l) (ct_discovery l)) clientConfig in
     check ''unable to create controller'' (ct_Complete l (smw_SetupWithManager gvks)) (
     check ''unable to set up health check'' (ct_AddCheck l ''healthz'') (
     check ''unable to set up ready check'' (ct_AddCheck l ''readyz'') (
     Started \<lparr>cp_options = options, cp_config = clientConfig, cp_metrics = m, cp_queue = q,
       cp_CAData = base64_EncodeToString caData, cp_WatchedGVKs = gvks,
       cp_ServiceIdAnnotation = smc_ServiceIdAnnotation (cc_ServiceMetadata clientConfig),
       cp_webhook = webhook_Start clientConfig\<rparr>))))))))))))"

record ('s, 'h, 'w) sync_program =
  sp_options :: "('s, 'h) Options"
  sp_config :: SyncConfig
  sp_metrics :: ManagerMetrics
  sp_queue :: "'w Config"
  sp_parser :: ResourceParser
  sp_WatchedGVKs :: "GroupVersionKind list"

definition sync_main ::
  "('s, 'h, SyncConfig, 'w, 'r) controller_libs \<Rightarrow> unstructured_api \<Rightarrow> (jval \<Rightarrow> goerr + string) \<Rightarrow> 's \<Rightarrow> flags \<Rightarrow> env \<Rightarrow> 'r \<Rightarrow>
     'w \<Rightarrow> ('s, 'h, 'w) sync_program start" where
  "sync_main l api taint scheme fl e reg w =
     or_abort (sync_start (ct_config l) scheme fl) (\<lambda>r.
     fatal ''unable to load the config file'' r (\<lambda>(options, syncConfig).
     check ''unable to start cluster-registry-sync-manager'' (ct_NewManager l options) (
     or_abort (fst (manager_Init (ct_register l) manager_NewMetrics reg)) (\<lambda>m.
     fatal ''failed to load client configuration'' (LoadClientConfig e) (\<lambda>appConfig.
     or_abort (fst (NewSQS (ct_connect l) (queue_config appConfig 10 5 20) w)) (\<lambda>nq.
     fatal ''cannot create SQS client'' nq (\<lambda>q.
     let rp = sync_handlers api taint New;
         gvks = sync_loadWatchedGVKs (getAvailableGVKs (ct_ParseGroupVersion l) (ct_discovery l)) syncConfig in
     check ''unable to create controller'' (ct_Complete l (sync_SetupWithManager gvks)) (
     check ''unable to set up health check'' (ct_AddCheck l ''healthz'') (
     check ''unable to set up ready check'' (ct_AddCheck l ''readyz'') (
     Started \<lparr>sp_options = options, sp_config = syncConfig, sp_metrics = m, sp_queue = q, sp_parser = rp,
       sp_WatchedGVKs = gvks\<rparr>))))))))))"

lemma check_Started: "check msg err f = Started x \<longleftrightarrow> err = None \<and> f = Started x"
  by (simp add: check_def split: option.splits)

lemmas started_iffs = fatal_Started or_abort_Started check_Started

section \<open>Properties\<close>

lemma client_main_Started:
  assumes "client_main l scheme fl e reg w = Started p"
  obtains appConfig caData where "client_start (ct_config l) scheme fl = Ret (Inr (cp_options p, cp_config p))"
    and "ct_LoadTLSFiles l = Inr caData" and "cp_CAData p = base64_EncodeToString caData"
    and "LoadClientConfig e = Inr appConfig" and "fst (NewSQS (ct_connect l) (client_queue appConfig) w) = Ret (Inr (cp_queue p))"
    and "cp_WatchedGVKs p = client_loadWatchedGVKs (getAvailableGVKs (ct_ParseGroupVersion l) (ct_discovery l)) (cp_config p)"
    and "cp_ServiceIdAnnotation p = smc_ServiceIdAnnotation (cc_ServiceMetadata (cp_config p))"
    and "cp_webhook p = webhook_Start (cp_config p)"
    and "ct_Complete l (smw_SetupWithManager (cp_WatchedGVKs p)) = None"
proof -
  from assms obtain r where r: "client_start (ct_config l) scheme fl = Ret (Inr r)"
    unfolding client_main_def started_iffs by blast
  obtain options clientConfig where oc: "r = (options, clientConfig)" by (cases r)
  let ?gvks = "client_loadWatchedGVKs (getAvailableGVKs (ct_ParseGroupVersion l) (ct_discovery l)) clientConfig"
  from assms r oc obtain m caData appConfig q where s: "ct_LoadTLSFiles l = Inr caData" "LoadClientConfig e = Inr appConfig"
      "fst (NewSQS (ct_connect l) (client_queue appConfig) w) = Ret (Inr q)" "ct_Complete l (smw_SetupWithManager ?gvks) = None"
    and p: "p = \<lparr>cp_options = options, cp_config = clientConfig, cp_metrics = m, cp_queue = q,
       cp_CAData = base64_EncodeToString caData, cp_WatchedGVKs = ?gvks,
       cp_ServiceIdAnnotation = smc_ServiceIdAnnotation (cc_ServiceMetadata clientConfig),
       cp_webhook = webhook_Start clientConfig\<rparr>"
    by (auto simp: client_main_def started_iffs Let_def)
  show ?thesis by (rule that [of caData appConfig]) (use r oc s p in simp_all)
qed

lemma watched_gvks_iff:
  "gvk \<in> set (watched_gvks available ws) \<longleftrightarrow>
     (\<exists>as. available = Inr as \<and> gvk \<in> set as \<and> \<lparr>wg_Group = gvk_Group gvk, wg_Version = gvk_Version gvk, wg_Kind = gvk_Kind gvk\<rparr> \<in> set ws)"
proof -
  have "gvk \<in> set (map (\<lambda>w. \<lparr>gvk_Group = wg_Group w, gvk_Version = wg_Version w, gvk_Kind = wg_Kind w\<rparr>) ws) \<longleftrightarrow>
      \<lparr>wg_Group = gvk_Group gvk, wg_Version = gvk_Version gvk, wg_Kind = gvk_Kind gvk\<rparr> \<in> set ws" (is "?l = ?r")
  proof
    assume ?l
    then obtain w where "w \<in> set ws" "gvk = \<lparr>gvk_Group = wg_Group w, gvk_Version = wg_Version w, gvk_Kind = wg_Kind w\<rparr>" by auto
    moreover obtain g v k where "w = \<lparr>wg_Group = g, wg_Version = v, wg_Kind = k\<rparr>" by (cases w)
    ultimately show ?r by simp
  next
    assume ?r
    then show ?l by (force simp: image_iff)
  qed
  then show ?thesis by (auto simp: watched_gvks_def split: sum.splits)
qed

text \<open>
  The client, once started, has a queue that it can send to and watches exactly the kinds that
  its configuration lists and the cluster knows, none if the kinds of the cluster cannot be read.
  Started without a configuration file it watches no service objects at all, looks for an empty
  annotation and binds the webhook to no address.
\<close>

theorem client_watches:
  assumes "client_main l scheme fl e reg w = Started p"
  shows "validateConfig (cp_queue p) = None \<and> svc (cp_queue p) \<noteq> None \<and>
    (\<forall>gvk. gvk \<in> set (cp_WatchedGVKs p) \<longleftrightarrow>
      (\<exists>as. getAvailableGVKs (ct_ParseGroupVersion l) (ct_discovery l) = Inr as \<and> gvk \<in> set as \<and>
        \<lparr>wg_Group = gvk_Group gvk, wg_Version = gvk_Version gvk, wg_Kind = gvk_Kind gvk\<rparr>
          \<in> set (smc_WatchedGVKs (cc_ServiceMetadata (cp_config p))))) \<and>
    (fl_config fl = [] \<longrightarrow> cp_WatchedGVKs p = [] \<and> cp_ServiceIdAnnotation p = [] \<and>
      whs_BindAddress (cp_webhook p) = [] \<and> whs_AlertMap (cp_webhook p) = [])"
proof -
  obtain appConfig where q: "fst (NewSQS (ct_connect l) (client_queue appConfig) w) = Ret (Inr (cp_queue p))"
    and g: "cp_WatchedGVKs p = client_loadWatchedGVKs (getAvailableGVKs (ct_ParseGroupVersion l) (ct_discovery l)) (cp_config p)"
    and st: "client_start (ct_config l) scheme fl = Ret (Inr (cp_options p, cp_config p))"
    and a: "cp_ServiceIdAnnotation p = smc_ServiceIdAnnotation (cc_ServiceMetadata (cp_config p))" "cp_webhook p = webhook_Start (cp_config p)"
    using client_main_Started [OF assms] by metis
  have "cp_WatchedGVKs p = [] \<and> cp_ServiceIdAnnotation p = [] \<and> whs_BindAddress (cp_webhook p) = [] \<and> whs_AlertMap (cp_webhook p) = []"
    if "fl_config fl = []"
  proof -
    have "cp_config p = zero_ClientConfig" using that st by (simp add: client_start_def)
    then show ?thesis
      by (simp add: g a client_loadWatchedGVKs_def watched_gvks_def webhook_Start_def zero_ClientConfig_def
          ControllerManager.defs ClientConfig.defs split: sum.splits)
  qed
  then show ?thesis using NewSQS_Inr(1,2) [OF q] by (simp add: g client_loadWatchedGVKs_def watched_gvks_iff)
qed

text \<open>
  C29. The certificate authority that the client reads from its environment is the one that the API
  server uses: the client encodes it and sets it in the clusters it reports, and the Kubernetes client
  that the API server makes for such a cluster has the original bytes.
\<close>

theorem ca_data_roundtrip:
  assumes "client_main l scheme fl e reg w = Started p" and "cr_CAData r = cp_CAData p"
  shows "\<exists>caData. ct_LoadTLSFiles l = Inr caData \<and>
    base64_DecodeString (api_CertificateAuthorityData (cs_APIServer (cl_Spec (with_ca r instance)))) = Inr caData \<and>
    (\<forall>libs a k kubecfg k'. GetClient libs a (with_ca r instance) k = (Inr kubecfg, k') \<longrightarrow> rc_CAData kubecfg = caData)"
proof -
  obtain caData where ca: "ct_LoadTLSFiles l = Inr caData" "cp_CAData p = base64_EncodeToString caData"
    using client_main_Started [OF assms(1)] by metis
  have d: "base64_DecodeString (api_CertificateAuthorityData (cs_APIServer (cl_Spec (with_ca r instance)))) = Inr caData"
    by (simp add: with_ca_def assms(2) ca(2) base64_roundtrip)
  then have "\<forall>libs a k kubecfg k'. GetClient libs a (with_ca r instance) k = (Inr kubecfg, k') \<longrightarrow> rc_CAData kubecfg = caData"
    by (auto simp: GetClient_def Let_def split: sum.splits prod.splits option.splits)
  with ca(1) d show ?thesis by blast
qed

text \<open>A cluster that knows two kinds, and a configuration file that asks for one of them and one other.\<close>

definition example_gvk :: "string \<Rightarrow> GroupVersionKind" where
  "example_gvk kind = \<lparr>gvk_Group = ''apps'', gvk_Version = ''v1'', gvk_Kind = kind\<rparr>"

definition example_start_libs :: "(unit, WebhookOptions, ClientConfig, unit, string list) controller_libs" where
  "example_start_libs =
     \<lparr>ct_config = \<lparr>lib_NewServer = id, lib_Clean = id, lib_ReadFile = (\<lambda>_. Inr []),
        lib_DecodeInto = (\<lambda>_ content cfg. (None, cfg\<lparr>cc_ServiceMetadata := \<lparr>smc_WatchedGVKs =
          [\<lparr>wg_Group = ''apps'', wg_Version = ''v1'', wg_Kind = ''Deployment''\<rparr>, \<lparr>wg_Group = ''apps'', wg_Version = ''v1'', wg_Kind = ''Missing''\<rparr>],
          smc_ServiceIdAnnotation = ''id''\<rparr>\<rparr>)),
        lib_Default = (\<lambda>_ cfg. cfg), lib_Encoder = (\<lambda>_ _. Some (\<lambda>_. Inr ''yaml''))\<rparr>,
      ct_NewManager = (\<lambda>_. None), ct_register = list_register, ct_LoadTLSFiles = Inr ''ca'', ct_connect = (\<lambda>_. Connected example_service),
      ct_Complete = (\<lambda>_. None), ct_discovery = Inr (Inr [(''apps/v1'', [''Deployment'', ''StatefulSet''])]),
      ct_ParseGroupVersion = (\<lambda>_. Inr (''apps'', ''v1'')), ct_AddCheck = (\<lambda>_. None)\<rparr>"

lemma example_client_Init: "\<exists>m. fst (client_Init list_register client_NewMetrics []) = Ret m"
  using client_metrics_ready [OF list_registry.prometheus_axioms, of "[]"] by (metis empty_iff empty_set fst_conv)

lemma example_NewSQS: "\<exists>q. fst (NewSQS (\<lambda>_. Connected example_service) (client_queue (zero_AppConfig\<lparr>SqsEndpoint := ''10'', SqsAwsRegion := ''10'', SqsQueueName := ''10''\<rparr>)) ()) = Ret (Inr q)"
  by (simp add: NewSQS_def validateConfig_def client_queue_def zero_AppConfig_def example_service_def)

lemma example_client_start:
  "\<exists>options cfg. client_start (ct_config example_start_libs) () (example_flags file) = Ret (Inr (options, cfg)) \<and>
     (file \<noteq> [] \<longrightarrow> smc_WatchedGVKs (cc_ServiceMetadata cfg) =
       [\<lparr>wg_Group = ''apps'', wg_Version = ''v1'', wg_Kind = ''Deployment''\<rparr>, \<lparr>wg_Group = ''apps'', wg_Version = ''v1'', wg_Kind = ''Missing''\<rparr>])"
  by (simp add: client_start_def apply_client_def NewClientConfig_def new_config_def fromFile_def Controller_Config.Encode_def
      example_start_libs_def example_flags_def clientConfigDefaults_def zero_ClientConfig_def zero_ControllerManager_def
      ControllerManager.defs ClientConfig.defs addTo_def addWebhookTo_def addAddressesTo_def addLeaderElectionTo_def addControllerTo_def Let_def)

lemma example_client_main:
  "\<exists>p. client_main example_start_libs () (example_flags file) (example_env []) [] () = Started p \<and>
     (file \<noteq> [] \<longrightarrow> smc_WatchedGVKs (cc_ServiceMetadata (cp_config p)) =
       [\<lparr>wg_Group = ''apps'', wg_Version = ''v1'', wg_Kind = ''Deployment''\<rparr>, \<lparr>wg_Group = ''apps'', wg_Version = ''v1'', wg_Kind = ''Missing''\<rparr>])"
proof -
  obtain options clientConfig where c: "client_start (ct_config example_start_libs) () (example_flags file) = Ret (Inr (options, clientConfig))"
    "file \<noteq> [] \<longrightarrow> smc_WatchedGVKs (cc_ServiceMetadata clientConfig) =
       [\<lparr>wg_Group = ''apps'', wg_Version = ''v1'', wg_Kind = ''Deployment''\<rparr>, \<lparr>wg_Group = ''apps'', wg_Version = ''v1'', wg_Kind = ''Missing''\<rparr>]"
    using example_client_start by blast
  obtain m where m: "fst (client_Init list_register client_NewMetrics []) = Ret m" using example_client_Init by blast
  obtain q where q: "fst (NewSQS (\<lambda>_. Connected example_service)
      (client_queue (zero_AppConfig\<lparr>SqsEndpoint := ''10'', SqsAwsRegion := ''10'', SqsQueueName := ''10''\<rparr>)) ()) = Ret (Inr q)"
    using example_NewSQS by blast
  have app: "LoadClientConfig (example_env []) = Inr (zero_AppConfig\<lparr>SqsEndpoint := ''10'', SqsAwsRegion := ''10'', SqsQueueName := ''10''\<rparr>)"
    by (simp add: LoadClientConfig_def bind_err_def require_def getEnv_def example_env_def Let_def)
  have l: "ct_NewManager example_start_libs o' = None" "ct_register example_start_libs = list_register" "ct_LoadTLSFiles example_start_libs = Inr ''ca''"
    "ct_connect example_start_libs = (\<lambda>_. Connected example_service)" "ct_Complete example_start_libs s = None" "ct_AddCheck example_start_libs n = None"
    for o' s n by (simp_all add: example_start_libs_def)
  show ?thesis using c(2) by (simp add: client_main_def c(1) m q app l or_abort_def fatal_def check_def Let_def)
qed

theorem client_watches_witness:
  "(\<exists>p. client_main example_start_libs () (example_flags ''f'') (example_env []) [] () = Started p \<and>
      example_gvk ''Deployment'' \<in> set (cp_WatchedGVKs p) \<and> example_gvk ''Missing'' \<notin> set (cp_WatchedGVKs p)) \<and>
   (\<exists>p. client_main example_start_libs () (example_flags []) (example_env []) [] () = Started p \<and> cp_WatchedGVKs p = [])"
proof
  obtain p where p: "client_main example_start_libs () (example_flags ''f'') (example_env []) [] () = Started p"
    "smc_WatchedGVKs (cc_ServiceMetadata (cp_config p)) =
      [\<lparr>wg_Group = ''apps'', wg_Version = ''v1'', wg_Kind = ''Deployment''\<rparr>, \<lparr>wg_Group = ''apps'', wg_Version = ''v1'', wg_Kind = ''Missing''\<rparr>]"
    using example_client_main [of "''f''"] by auto
  have "getAvailableGVKs (ct_ParseGroupVersion example_start_libs) (ct_discovery example_start_libs) =
      Inr [example_gvk ''Deployment'', example_gvk ''StatefulSet'']"
    by (simp add: getAvailableGVKs_def example_start_libs_def example_gvk_def)
  with client_watches [OF p(1)] p show "\<exists>p. client_main example_start_libs () (example_flags ''f'') (example_env []) [] () = Started p \<and>
      example_gvk ''Deployment'' \<in> set (cp_WatchedGVKs p) \<and> example_gvk ''Missing'' \<notin> set (cp_WatchedGVKs p)"
    by (intro exI [of _ p]) (simp add: example_gvk_def)
next
  obtain p where p: "client_main example_start_libs () (example_flags []) (example_env []) [] () = Started p"
    using example_client_main [of "[]"] by auto
  moreover have "fl_config (example_flags []) = []" by (simp add: example_flags_def)
  ultimately show "\<exists>p. client_main example_start_libs () (example_flags []) (example_env []) [] () = Started p \<and> cp_WatchedGVKs p = []"
    using client_watches [OF p] by blast
qed

theorem ca_data_roundtrip_witness:
  "\<exists>p. client_main example_start_libs () (example_flags []) (example_env []) [] () = Started p \<and>
     (\<forall>r :: (unit, unit) ClusterReconciler. cr_CAData r = cp_CAData p \<longrightarrow>
       base64_DecodeString (api_CertificateAuthorityData (cs_APIServer (cl_Spec (with_ca r zero_Cluster)))) = Inr ''ca'')"
proof -
  obtain p where p: "client_main example_start_libs () (example_flags []) (example_env []) [] () = Started p"
    using example_client_main [of "[]"] by auto
  have "ct_LoadTLSFiles example_start_libs = Inr ''ca''" by (simp add: example_start_libs_def)
  with ca_data_roundtrip [OF p] p show ?thesis by (intro exI [of _ p]) force
qed

end
