(* ===== verification/Scheme_Registration.thy ===== *)
theory Scheme_Registration
  imports Controller_Start Api_Handlers
begin

text \<open>
  The registration of the kinds of the program with the scheme of the Kubernetes libraries: the three
  files groupversion_info.go, the \<^verbatim>\<open>init\<close> functions beside the types, and those of the two programs
  that build a scheme.  Builders and schemes are values of the library, whose operations are arguments.
\<close>

section \<open>Group versions (groupversion_info.go)\<close>

record GroupVersion =
  gv_Group :: string
  gv_Version :: string

definition registryv1_GroupVersion :: GroupVersion where
  "registryv1_GroupVersion = \<lparr>gv_Group = ''registry.ethos.adobe.com'', gv_Version = ''v1''\<rparr>"

definition registryv1alpha1_GroupVersion :: GroupVersion where
  "registryv1alpha1_GroupVersion = \<lparr>gv_Group = ''registry.ethos.adobe.com'', gv_Version = ''v1alpha1''\<rparr>"

definition configv1_GroupVersion :: GroupVersion where
  "configv1_GroupVersion = \<lparr>gv_Group = ''config.registry.ethos.adobe.com'', gv_Version = ''v1''\<rparr>"

text \<open>
  A builder for a group version, the registration of objects, here by the names of their types, and the
  application of a builder to a scheme, which may fail; \<open>sl_Recognizes\<close> is whether a scheme knows a kind.
\<close>

record ('b, 's) scheme_libs =
  sl_Builder :: "GroupVersion \<Rightarrow> 'b"
  sl_Register :: "string list \<Rightarrow> 'b \<Rightarrow> 'b"
  sl_AddToScheme :: "'b \<Rightarrow> 's \<Rightarrow> goerr + 's"
  sl_NewScheme :: 's
  sl_clientgo_AddToScheme :: "'s \<Rightarrow> goerr + 's"
  sl_Recognizes :: "'s \<Rightarrow> GroupVersionKind \<Rightarrow> bool"

definition gvk_in :: "GroupVersion \<Rightarrow> string \<Rightarrow> GroupVersionKind" where
  "gvk_in gv kind = \<lparr>gvk_Group = gv_Group gv, gvk_Version = gv_Version gv, gvk_Kind = kind\<rparr>"

section \<open>Registration (the init functions of the types)\<close>

definition Cluster_init :: "('b, 's) scheme_libs \<Rightarrow> 'b \<Rightarrow> 'b" where
  "Cluster_init l = sl_Register l [''Cluster'', ''ClusterList'']"

definition ClusterSync_init :: "('b, 's) scheme_libs \<Rightarrow> 'b \<Rightarrow> 'b" where
  "ClusterSync_init l = sl_Register l [''ClusterSync'', ''ClusterSyncList'']"

definition ServiceMetadataWatcher_init :: "('b, 's) scheme_libs \<Rightarrow> 'b \<Rightarrow> 'b" where
  "ServiceMetadataWatcher_init l = sl_Register l [''ServiceMetadataWatcher'', ''ServiceMetadataWatcherList'']"

definition ClientConfig_init :: "('b, 's) scheme_libs \<Rightarrow> 'b \<Rightarrow> 'b" where
  "ClientConfig_init l = sl_Register l [''ClientConfig'']"

definition SyncConfig_init :: "('b, 's) scheme_libs \<Rightarrow> 'b \<Rightarrow> 'b" where
  "SyncConfig_init l = sl_Register l [''SyncConfig'']"

text \<open>
  The builder of a package after its initialization: the variables first, then the \<^verbatim>\<open>init\<close> functions of
  its files in the order of their names.
\<close>

definition registryv1_SchemeBuilder :: "('b, 's) scheme_libs \<Rightarrow> 'b" where
  "registryv1_SchemeBuilder l = Cluster_init l (sl_Builder l registryv1_GroupVersion)"

definition registryv1alpha1_SchemeBuilder :: "('b, 's) scheme_libs \<Rightarrow> 'b" where
  "registryv1alpha1_SchemeBuilder l =
     ServiceMetadataWatcher_init l (ClusterSync_init l (sl_Builder l registryv1alpha1_GroupVersion))"

definition configv1_SchemeBuilder :: "('b, 's) scheme_libs \<Rightarrow> 'b" where
  "configv1_SchemeBuilder l = SyncConfig_init l (ClientConfig_init l (sl_Builder l configv1_GroupVersion))"

section \<open>The schemes of the programs (client.go, manager.go)\<close>

text \<open>\<^verbatim>\<open>utilruntime.Must\<close> panics on an error.\<close>

definition Must :: "(goerr + 's) \<Rightarrow> 's run" where
  "Must r = (case r of Inl err \<Rightarrow> Panic (err_text err) | Inr s \<Rightarrow> Ret s)"

definition client_init :: "('b, 's) scheme_libs \<Rightarrow> 's run" where
  "client_init l =
     run_bind (Must (sl_clientgo_AddToScheme l (sl_NewScheme l))) (\<lambda>scheme.
     run_bind (Must (sl_AddToScheme l (registryv1_SchemeBuilder l) scheme)) (\<lambda>scheme.
     run_bind (Must (sl_AddToScheme l (registryv1alpha1_SchemeBuilder l) scheme)) (\<lambda>scheme.
     Must (sl_AddToScheme l (configv1_SchemeBuilder l) scheme))))"

definition sync_init :: "('b, 's) scheme_libs \<Rightarrow> 's run" where
  "sync_init l =
     run_bind (Must (sl_clientgo_AddToScheme l (sl_NewScheme l))) (\<lambda>scheme.
     run_bind (Must (sl_AddToScheme l (registryv1_SchemeBuilder l) scheme)) (\<lambda>scheme.
     run_bind (Must (sl_AddToScheme l (registryv1alpha1_SchemeBuilder l) scheme)) (\<lambda>scheme.
     Must (sl_AddToScheme l (configv1_SchemeBuilder l) scheme))))"

section \<open>Properties\<close>

text \<open>The kinds of the three packages.\<close>

definition program_kinds :: "GroupVersionKind list" where
  "program_kinds =
     map (gvk_in registryv1_GroupVersion) [''Cluster'', ''ClusterList''] @
     map (gvk_in registryv1alpha1_GroupVersion)
       [''ClusterSync'', ''ClusterSyncList'', ''ServiceMetadataWatcher'', ''ServiceMetadataWatcherList''] @
     map (gvk_in configv1_GroupVersion) [''ClientConfig'', ''SyncConfig'']"

text \<open>
  What the library documents: a builder keeps its group version and collects the objects registered with
  it; its application to a scheme succeeds and makes the scheme know these kinds in addition (and the kinds
  that every group version has, such as the options of requests, of which nothing is said here).
\<close>

locale scheme_library =
  fixes l :: "('b, 's) scheme_libs" and gv_of :: "'b \<Rightarrow> GroupVersion" and kinds_of :: "'b \<Rightarrow> string set"
  assumes builder: "gv_of (sl_Builder l gv) = gv" "kinds_of (sl_Builder l gv) = {}"
    and register: "gv_of (sl_Register l ks b) = gv_of b" "kinds_of (sl_Register l ks b) = kinds_of b \<union> set ks"
    and add: "\<exists>s'. sl_AddToScheme l b s = Inr s' \<and>
      (\<forall>gvk. sl_Recognizes l s gvk \<or> gvk \<in> gvk_in (gv_of b) ` kinds_of b \<longrightarrow> sl_Recognizes l s' gvk)"
    and clientgo: "\<exists>s'. sl_clientgo_AddToScheme l s = Inr s' \<and> (\<forall>gvk. sl_Recognizes l s gvk \<longrightarrow> sl_Recognizes l s' gvk)"
begin

lemma packages:
  "gv_of (registryv1_SchemeBuilder l) = registryv1_GroupVersion"
  "kinds_of (registryv1_SchemeBuilder l) = {''Cluster'', ''ClusterList''}"
  "gv_of (registryv1alpha1_SchemeBuilder l) = registryv1alpha1_GroupVersion"
  "kinds_of (registryv1alpha1_SchemeBuilder l) =
     {''ClusterSync'', ''ClusterSyncList'', ''ServiceMetadataWatcher'', ''ServiceMetadataWatcherList''}"
  "gv_of (configv1_SchemeBuilder l) = configv1_GroupVersion"
  "kinds_of (configv1_SchemeBuilder l) = {''ClientConfig'', ''SyncConfig''}"
  by (auto simp: registryv1_SchemeBuilder_def registryv1alpha1_SchemeBuilder_def configv1_SchemeBuilder_def Cluster_init_def
      ClusterSync_init_def ServiceMetadataWatcher_init_def ClientConfig_init_def SyncConfig_init_def builder register)

lemma client_init_knows:
  obtains scheme where "client_init l = Ret scheme"
    "\<And>gvk. gvk \<in> set program_kinds \<Longrightarrow> sl_Recognizes l scheme gvk"
proof -
  obtain s0 where s0: "sl_clientgo_AddToScheme l (sl_NewScheme l) = Inr s0" using clientgo by blast
  obtain s1 where s1: "sl_AddToScheme l (registryv1_SchemeBuilder l) s0 = Inr s1"
    "\<And>k. k \<in> {''Cluster'', ''ClusterList''} \<Longrightarrow> sl_Recognizes l s1 (gvk_in registryv1_GroupVersion k)"
    using add [of "registryv1_SchemeBuilder l" s0] unfolding packages by blast
  obtain s2 where s2: "sl_AddToScheme l (registryv1alpha1_SchemeBuilder l) s1 = Inr s2"
    "\<And>gvk. sl_Recognizes l s1 gvk \<Longrightarrow> sl_Recognizes l s2 gvk"
    "\<And>k. k \<in> {''ClusterSync'', ''ClusterSyncList'', ''ServiceMetadataWatcher'', ''ServiceMetadataWatcherList''} \<Longrightarrow>
       sl_Recognizes l s2 (gvk_in registryv1alpha1_GroupVersion k)"
    using add [of "registryv1alpha1_SchemeBuilder l" s1] unfolding packages by blast
  obtain s3 where s3: "sl_AddToScheme l (configv1_SchemeBuilder l) s2 = Inr s3"
    "\<And>gvk. sl_Recognizes l s2 gvk \<Longrightarrow> sl_Recognizes l s3 gvk"
    "\<And>k. k \<in> {''ClientConfig'', ''SyncConfig''} \<Longrightarrow> sl_Recognizes l s3 (gvk_in configv1_GroupVersion k)"
    using add [of "configv1_SchemeBuilder l" s2] unfolding packages by blast
  have "client_init l = Ret s3" by (simp add: client_init_def Must_def s0 s1(1) s2(1) s3(1))
  moreover have "gvk \<in> set program_kinds \<Longrightarrow> sl_Recognizes l s3 gvk" for gvk
    using s1(2) s2(2,3) s3(2,3) unfolding program_kinds_def by auto
  ultimately show ?thesis by (rule that)
qed

lemma sync_init_same: "sync_init l = client_init l"
  by (simp only: sync_init_def client_init_def)

end

text \<open>A scheme as the set of its kinds satisfies these laws.\<close>

definition set_scheme :: "GroupVersionKind list \<Rightarrow> (GroupVersion \<times> string list, GroupVersionKind list) scheme_libs" where
  "set_scheme core = \<lparr>sl_Builder = (\<lambda>gv. (gv, [])), sl_Register = (\<lambda>ks (gv, old). (gv, old @ ks)),
     sl_AddToScheme = (\<lambda>(gv, ks) s. Inr (s @ map (gvk_in gv) ks)), sl_NewScheme = [],
     sl_clientgo_AddToScheme = (\<lambda>s. Inr (s @ core)), sl_Recognizes = (\<lambda>s gvk. gvk \<in> set s)\<rparr>"

interpretation kind_lists: scheme_library "set_scheme core" fst "set \<circ> snd"
  by unfold_locales (auto simp: set_scheme_def split: prod.splits)

text \<open>
  Both programs end their initialization without a panic and with a scheme that knows every kind of the
  program.
\<close>

theorem scheme_complete:
  assumes "scheme_library l gv_of kinds_of"
  shows "\<exists>scheme. client_init l = Ret scheme \<and> sync_init l = Ret scheme \<and>
    (\<forall>gvk \<in> set program_kinds. sl_Recognizes l scheme gvk)"
  using scheme_library.client_init_knows [OF assms] scheme_library.sync_init_same [OF assms] by metis

theorem scheme_complete_witness:
  "\<exists>scheme. client_init (set_scheme []) = Ret scheme \<and> sync_init (set_scheme []) = Ret scheme \<and>
     gvk_in registryv1_GroupVersion ''Cluster'' \<in> set scheme"
  using scheme_complete [OF kind_lists.scheme_library_axioms, of "[]"] by (auto simp: set_scheme_def program_kinds_def)

text \<open>The path under which the API server patches a cluster is the one of the group version in which clusters are registered.\<close>

theorem patch_path_registered:
  assumes "pl_GetClient libs cluster k = (Inr client, k')" and "pl_Marshal libs spec = None"
  shows "patchCluster libs cluster spec k =
    pl_DoRaw libs client
      \<lparr>pr_AbsPath = ''/apis/'' @ gv_Group registryv1_GroupVersion @ ''/'' @ gv_Version registryv1_GroupVersion,
       pr_Namespace = ''cluster-registry'', pr_Resource = ''clusters'', pr_Name = cluster_name cluster, pr_Body = spec\<rparr> k'"
  using assms by (simp add: patchCluster_def registryv1_GroupVersion_def)

end
