(* ===== verification/Local_Tools.thy ===== *)
theory Local_Tools
  imports Controller_Start
begin

text \<open>
  The programs under local, which fill a local registry: local/database/import.go puts the clusters
  of a file into the table, local/sqs/sqs.go sends them to the queue, and local/oidc/generate-config.go
  prints the keys of the local identity provider.  Reading and decoding of files are arguments.
\<close>

section \<open>Filling the table (local/database/import.go)\<close>

text \<open>The loop ends with the first cluster that cannot be stored.\<close>

fun import_clusters ::
  "(Cluster \<Rightarrow> 's \<Rightarrow> (goerr option \<times> Cluster) \<times> 's) \<Rightarrow> Cluster list \<Rightarrow> 's \<Rightarrow> (Cluster \<times> goerr) option \<times> 's" where
  "import_clusters put [] s = (None, s)"
| "import_clusters put (cluster # clusters) s =
     (case put cluster s of
        ((Some err, _), s) \<Rightarrow> (Some (cluster, err), s)
      | ((None, _), s) \<Rightarrow> import_clusters put clusters s)"

record ('r, 'd, 'item, 'key) import_libs =
  il_register :: "'r registerer"
  il_dynamodb :: "string \<Rightarrow> string \<Rightarrow> ('d, 'item, 'key) dynamo_api run"
  il_ReadFile :: "string \<Rightarrow> goerr + string"
  il_YAMLToJSON :: "string \<Rightarrow> goerr + string"
  il_Unmarshal :: "string \<Rightarrow> goerr + Cluster list"

text \<open>Everything before the loop: the table and the clusters of the file.\<close>

definition import_setup ::
  "('r, 'd, 'item, 'key) import_libs \<Rightarrow> env \<Rightarrow> string \<Rightarrow> 'r \<Rightarrow> (('d, 'item, 'key) db \<times> Cluster list) start" where
  "import_setup l e input_file reg =
     or_abort (fst (NewMetrics (il_register l) ''cluster_registry_api_local'' False reg)) (\<lambda>m.
     fatal ''Cannot load the api configuration'' (LoadApiConfig e) (\<lambda>appConfig.
     or_abort (il_dynamodb l (AwsRegion appConfig) (DbEndpoint appConfig)) (\<lambda>d.
     fatal (''Unable to read input file '' @ input_file) (il_ReadFile l input_file) (\<lambda>data.
     fatal ''Unable to unmarshal data'' (il_YAMLToJSON l data) (\<lambda>dataJson.
     fatal ''Unable to unmarshal data'' (il_Unmarshal l dataJson) (\<lambda>clusters.
     Started (NewDb (DbTableName appConfig) (DbIndexName appConfig) d, clusters)))))))"

definition import_main ::
  "('r, 'd, 'item, 'key) import_libs \<Rightarrow> env \<Rightarrow> string \<Rightarrow> 'r \<Rightarrow> 'd dbst \<Rightarrow> unit start \<times> 'd dbst" where
  "import_main l e input_file reg st =
     (case import_setup l e input_file reg of
        Exit msg err \<Rightarrow> (Exit msg err, st)
      | Abort p \<Rightarrow> (Abort p, st)
      | Started (d, clusters) \<Rightarrow>
          (case import_clusters (PutCluster d) clusters st of
             (Some (cluster, err), st) \<Rightarrow>
               (Exit (''Failed to add or update the cluster '' @ meta_Name (cl_Meta cluster)) err, st)
           | (None, st) \<Rightarrow> (Started (), st)))"

section \<open>Filling the queue (local/sqs/sqs.go)\<close>

definition seed_entry :: "string \<Rightarrow> Cluster \<Rightarrow> string \<Rightarrow> SendMessageBatchRequestEntry" where
  "seed_entry uid cluster data =
     \<lparr>entry_Id = Some uid, entry_DelaySeconds = 10, entry_MessageBody = Some data,
      entry_MessageAttributes = [(''Type'', ''String'', ClusterUpdateEvent), (''ClusterName'', ''String'', cluster_name cluster),
        (''SkipCacheInvalidation'', ''Bool'', ''false'')]\<rparr>"

text \<open>An error of the encoder is not looked at; an error of the queue is a panic.\<close>

fun seed_clusters ::
  "(Cluster \<Rightarrow> goerr + string) \<Rightarrow> string \<Rightarrow> 'w Config \<Rightarrow> Cluster list \<Rightarrow> 'w \<Rightarrow> unit run \<times> 'w" where
  "seed_clusters marshal uid q [] w = (Ret (), w)"
| "seed_clusters marshal uid q (cluster # clusters) w =
     (let data = (case marshal cluster of Inl _ \<Rightarrow> [] | Inr b \<Rightarrow> b)
      in case Enqueue q [seed_entry uid cluster data] w of
           (Panic p, w) \<Rightarrow> (Panic p, w)
         | (Ret (Some err), w) \<Rightarrow> (Panic (''Error sending message to sqs: '' @ err_text err), w)
         | (Ret None, w) \<Rightarrow> seed_clusters marshal uid q clusters w)"

record ('w, 'r) seed_libs =
  sl_register :: "'r registerer"
  sl_connect :: "'w Config \<Rightarrow> 'w aws_outcome"
  sl_ReadFile :: "string \<Rightarrow> goerr + string"
  sl_Unmarshal :: "string \<Rightarrow> goerr + Cluster list"
  sl_uuid :: "goerr + string"
  sl_Marshal :: "Cluster \<Rightarrow> goerr + string"

text \<open>\<^verbatim>\<open>log.Panicf\<close> for an error.\<close>

definition or_panic :: "string \<Rightarrow> goerr + 'a \<Rightarrow> ('a \<Rightarrow> 'b start) \<Rightarrow> 'b start" where
  "or_panic msg r f = (case r of Inl err \<Rightarrow> Abort (msg @ err_text err) | Inr x \<Rightarrow> f x)"

definition seed_setup :: "('w, 'r) seed_libs \<Rightarrow> env \<Rightarrow> string \<Rightarrow> 'r \<Rightarrow> 'w \<Rightarrow> ('w Config \<times> Cluster list \<times> string) start" where
  "seed_setup l e input_file reg w =
     or_abort (fst (client_Init (sl_register l) client_NewMetrics reg)) (\<lambda>m.
     fatal ''Cannot load the api configuration'' (LoadApiConfig e) (\<lambda>appConfig.
     or_abort (fst (NewSQS (sl_connect l) (queue_config appConfig 10 5 20) w)) (\<lambda>nq.
     or_panic ''Error while trying to create SQS client: '' nq (\<lambda>q.
     or_panic ''Error while trying to read file: '' (sl_ReadFile l input_file) (\<lambda>data.
     or_panic ''Error while trying to unmarshal data: '' (sl_Unmarshal l data) (\<lambda>clusters.
     or_panic [] (sl_uuid l) (\<lambda>uid.
     Started (q, clusters, uid))))))))"

text \<open>The call that looks up the queue is the only one before the loop that reaches the service.\<close>

definition seed_main :: "('w, 'r) seed_libs \<Rightarrow> env \<Rightarrow> string \<Rightarrow> 'r \<Rightarrow> 'w \<Rightarrow> unit start \<times> 'w" where
  "seed_main l e input_file reg w =
     (let w1 = (case (fst (client_Init (sl_register l) client_NewMetrics reg), LoadApiConfig e) of
                  (Ret _, Inr appConfig) \<Rightarrow> snd (NewSQS (sl_connect l) (queue_config appConfig 10 5 20) w)
                | _ \<Rightarrow> w)
      in case seed_setup l e input_file reg w of
           Exit msg err \<Rightarrow> (Exit msg err, w1)
         | Abort p \<Rightarrow> (Abort p, w1)
         | Started (q, clusters, uid) \<Rightarrow>
             (case seed_clusters (sl_Marshal l) uid q clusters w1 of
                (Panic p, w) \<Rightarrow> (Abort p, w)
              | (Ret _, w) \<Rightarrow> (Started (), w)))"

section \<open>The keys of the identity provider (local/oidc/generate-config.go)\<close>

record JWKS =
  jw_Use :: string
  jw_Kty :: string
  jw_Kid :: string
  jw_Alg :: string
  jw_N :: string
  jw_E :: string
  jw_X5c :: "string list"
  jw_X5tSHA1 :: string

text \<open>\<^verbatim>\<open>base64.RawURLEncoding\<close>: another alphabet for the last two digits, and no padding.\<close>

definition url_char :: "char \<Rightarrow> char" where
  "url_char c = (if c = CHR ''+'' then CHR ''-'' else if c = CHR ''/'' then CHR ''_'' else c)"

definition base64_RawURL :: "string \<Rightarrow> string" where
  "base64_RawURL s = map url_char (filter (\<lambda>c. c \<noteq> CHR ''='') (base64_EncodeToString s))"

text \<open>\<^verbatim>\<open>binary.BigEndian.PutUint64\<close> into a slice of eight bytes; a negative number wraps around.\<close>

definition PutUint64 :: "int \<Rightarrow> string" where
  "PutUint64 n = map (\<lambda>i. char_of (nat (n div 256 ^ (7 - i) mod 256))) [0..<8]"

definition hex_upper :: "nat \<Rightarrow> char" where
  "hex_upper n = (if n < 10 then char_of (48 + n) else char_of (55 + n))"

definition format_X :: "string \<Rightarrow> string" where
  "format_X bs = concat (map (\<lambda>b. [hex_upper (byte b div 16), hex_upper (byte b mod 16)]) bs)"

text \<open>
  A certificate: its bytes, and the modulus and the exponent if its key is an RSA key.  The parsers,
  the hash of the certificate and the thumbprint of the key are arguments.
\<close>

record certificate =
  cert_Raw :: string
  cert_Key :: "(string \<times> int) option"

record oidc_libs =
  ol_ReadFile :: "string \<Rightarrow> goerr + string"
  ol_pem_Decode :: "string \<Rightarrow> string option"
  ol_ParseCertificate :: "string \<Rightarrow> goerr + certificate"
  ol_sha1_Sum :: "string \<Rightarrow> string"
  ol_Thumbprint :: "string \<times> int \<Rightarrow> goerr + string"
  ol_Marshal :: "JWKS list \<Rightarrow> goerr + string"

text \<open>The keys that are printed.  The result of \<^verbatim>\<open>bytes.TrimLeft\<close> is dropped, so the exponent keeps its zeros.\<close>

definition certificate_key :: "oidc_libs \<Rightarrow> certificate \<Rightarrow> string \<times> int \<Rightarrow> string \<Rightarrow> JWKS" where
  "certificate_key l cert key thumbprint =
     (let x5c = [base64_EncodeToString (cert_Raw cert)];
          x5t = base64_RawURL (format_X (ol_sha1_Sum l (cert_Raw cert)));
          n = base64_RawURL (fst key);
          eb = PutUint64 (snd key);
          ee = base64_RawURL eb;
          kid = hex_string (map byte thumbprint)
      in \<lparr>jw_Use = ''sig'', jw_Kty = ''RSA'', jw_Kid = kid, jw_Alg = ''RS256'', jw_N = n, jw_E = ee, jw_X5c = x5c, jw_X5tSHA1 = x5t\<rparr>)"

definition generate_config :: "oidc_libs \<Rightarrow> string start" where
  "generate_config l =
     or_panic ''Failed to read file: '' (ol_ReadFile l ''../../test/testdata/dummycertificate.pem'') (\<lambda>data.
     case ol_pem_Decode l data of
       None \<Rightarrow> Abort ''nil pointer dereference''
     | Some bytes \<Rightarrow>
         or_panic ''Failed to parse certificate: '' (ol_ParseCertificate l bytes) (\<lambda>cert.
         case cert_Key cert of
           None \<Rightarrow> Abort ''interface conversion: not an RSA public key''
         | Some key \<Rightarrow>
             or_panic ''Failed to generate thumbprint: '' (ol_Thumbprint l key) (\<lambda>thumbprint.
             or_panic ''Failed to marshal struct: '' (ol_Marshal l [certificate_key l cert key thumbprint]) Started)))"

section \<open>Properties\<close>

text \<open>
  An import that succeeds has stored the last cluster of every name in the file and left all other
  clusters as they were.
\<close>

lemma find_snoc: "find P (xs @ [x]) = (case find P xs of None \<Rightarrow> if P x then Some x else None | Some y \<Rightarrow> Some y)"
  by (induction xs) auto

context cluster_store
begin

lemma import_stores:
  assumes "inv s" and "import_clusters put cs s = (None, s')"
  shows "inv s' \<and> (\<forall>n. case find (\<lambda>c. cluster_name c = n) (rev cs) of
      None \<Rightarrow> contents s' n = contents s n
    | Some c \<Rightarrow> \<exists>x. contents s' n = Some x \<and> forget_registered x = forget_registered c)"
  using assms
proof (induction cs arbitrary: s)
  case (Cons c cs)
  obtain x s1 where put: "put c s = ((None, x), s1)" and rest: "import_clusters put cs s1 = (None, s')"
    using Cons.prems(2) by (auto split: prod.splits option.splits)
  have s1: "inv s1" "contents s1 = (contents s)(cluster_name c \<mapsto> x)"
    using put_keeps [OF Cons.prems(1) put] put_stores [OF Cons.prems(1) put] by simp_all
  have x: "forget_registered x = forget_registered c"
    using put_cluster [OF Cons.prems(1) put] by auto
  note IH = Cons.IH [OF s1(1) rest]
  have "case find (\<lambda>c. cluster_name c = n) (rev (c # cs)) of
      None \<Rightarrow> contents s' n = contents s n
    | Some c \<Rightarrow> \<exists>x. contents s' n = Some x \<and> forget_registered x = forget_registered c" for n
    using spec [OF conjunct2 [OF IH], of n] s1(2) x
    by (cases "find (\<lambda>c. cluster_name c = n) (rev cs)") (auto simp: find_snoc)
  then show ?case using IH by blast
qed simp

end

text \<open>The usual exponent is printed with its leading zeros, not in the short form that was intended.\<close>

lemma exponent_not_trimmed:
  "jw_E (certificate_key l cert (n, 65537) thumbprint) = ''AAAAAAABAAE''"
  "base64_RawURL (dropWhile (\<lambda>c. byte c = 0) (PutUint64 65537)) = ''AQAB''"
proof -
  have "base64_RawURL (PutUint64 65537) = ''AAAAAAABAAE''" by code_simp
  then show "jw_E (certificate_key l cert (n, 65537) thumbprint) = ''AAAAAAABAAE''" by (simp add: certificate_key_def Let_def)
  show "base64_RawURL (dropWhile (\<lambda>c. byte c = 0) (PutUint64 65537)) = ''AQAB''" by code_simp
qed

text \<open>Over the table: every cluster of the file is in the registry after a successful import.\<close>

lemma import_main_stores:
  assumes "dynamodb d rows sat" and "table_ok (rows (world st))" and "import_setup l e file reg = Started (d, cs)"
    and "import_main l e file reg st = (Started (), st')" and "c \<in> set cs"
  shows "\<exists>x. clusters_in (rows (world st')) (cluster_name c) = Some x \<and> cluster_name x = cluster_name c"
proof -
  have i: "import_clusters (PutCluster d) cs st = (None, st')"
    using assms(3,4) by (auto simp: import_main_def split: prod.splits option.splits)
  have ok: "table_ok (rows (world st'))"
    and stored: "case find (\<lambda>c. cluster_name c = n) (rev cs) of
        None \<Rightarrow> clusters_in (rows (world st')) n = clusters_in (rows (world st)) n
      | Some c \<Rightarrow> \<exists>x. clusters_in (rows (world st')) n = Some x \<and> forget_registered x = forget_registered c" for n
    using cluster_store.import_stores [OF dynamodb.is_store [OF assms(1)] assms(2) i] by blast+
  obtain c' where c': "find (\<lambda>x. cluster_name x = cluster_name c) (rev cs) = Some c'"
    using assms(5) by (cases "find (\<lambda>x. cluster_name x = cluster_name c) (rev cs)") (auto simp: find_None_iff)
  then obtain x where x: "clusters_in (rows (world st')) (cluster_name c) = Some x"
    using stored [of "cluster_name c"] by auto
  then have "cluster_name x = cluster_name c" by (rule cluster_store.inv_names [OF dynamodb.is_store [OF assms(1)] ok])
  then show ?thesis using x by blast
qed

end
