(* ===== verification/Api_Docs.thy ===== *)
theory Api_Docs
  imports Api_Server
begin

text \<open>
  pkg/apiserver/docs/docs.go: the documentation of the API that the server publishes under
  /api/swagger, and how it compares with the program: with the routes that are registered, with the
  types that are encoded, and with the answers of the handlers.  Of the document everything is kept but
  the prose (descriptions and summaries).
\<close>

section \<open>The format\<close>

text \<open>A schema of OpenAPI; a text can be restricted to some values, a reference names a definition.\<close>

datatype (plugins only: code size) schema =
    StringSchema "string list"
  | IntegerSchema
  | BooleanSchema
  | AnySchema
  | ArraySchema schema
  | MapSchema schema
  | ObjectSchema "(string \<times> schema) list"
  | RefSchema string

datatype place = InQuery | InPath | InBody

record parameter =
  par_Name :: string
  par_In :: place
  par_Schema :: schema
  par_Required :: bool
  par_Multi :: bool

record operation =
  op_Path :: string
  op_Method :: string
  op_Security :: "string list"
  op_Consumes :: "string list"
  op_Produces :: "string list"
  op_Tags :: "string list"
  op_Id :: string
  op_Parameters :: "parameter list"
  op_Responses :: "(int \<times> schema) list"

text \<open>Names of the definitions: the package and the type.\<close>

definition registry_type :: "string \<Rightarrow> string" where
  "registry_type n = ''github_com_adobe_cluster-registry_pkg_api_registry_v1.'' @ n"

definition errors_type :: "string \<Rightarrow> string" where
  "errors_type n = ''github_com_adobe_cluster-registry_pkg_apiserver_errors.'' @ n"

definition v1_type :: "string \<Rightarrow> string" where
  "v1_type n = ''pkg_apiserver_web_handler_v1.'' @ n"

definition v2_type :: "string \<Rightarrow> string" where
  "v2_type n = ''pkg_apiserver_web_handler_v2.'' @ n"

section \<open>The operations\<close>

definition doc_v1_get_clusters :: operation where
  "doc_v1_get_clusters =
     \<lparr>op_Path = ''/v1/clusters'', op_Method = ''get'', op_Security = [''bearerAuth''], op_Consumes = [''application/json''], op_Produces = [''application/json''],
      op_Tags = [''cluster''], op_Id = ''v1-get-clusters'',
      op_Parameters =
        [\<lparr>par_Name = ''region'', par_In = InQuery, par_Schema = StringSchema [], par_Required = False, par_Multi = False\<rparr>,
         \<lparr>par_Name = ''environment'', par_In = InQuery, par_Schema = StringSchema [], par_Required = False, par_Multi = False\<rparr>,
         \<lparr>par_Name = ''status'', par_In = InQuery, par_Schema = StringSchema [], par_Required = False, par_Multi = False\<rparr>,
         \<lparr>par_Name = ''lastUpdated'', par_In = InQuery, par_Schema = StringSchema [], par_Required = False, par_Multi = False\<rparr>,
         \<lparr>par_Name = ''offset'', par_In = InQuery, par_Schema = IntegerSchema, par_Required = False, par_Multi = False\<rparr>,
         \<lparr>par_Name = ''limit'', par_In = InQuery, par_Schema = IntegerSchema, par_Required = False, par_Multi = False\<rparr>],
      op_Responses = [(200, RefSchema (v1_type ''clusterList'')), (500, RefSchema (errors_type ''Error''))]\<rparr>"

definition doc_v1_get_cluster :: operation where
  "doc_v1_get_cluster =
     \<lparr>op_Path = ''/v1/clusters/{name}'', op_Method = ''get'', op_Security = [''bearerAuth''], op_Consumes = [''application/json''], op_Produces = [''application/json''],
      op_Tags = [''cluster''], op_Id = ''v1-get-cluster'',
      op_Parameters =
        [\<lparr>par_Name = ''name'', par_In = InPath, par_Schema = StringSchema [], par_Required = True, par_Multi = False\<rparr>],
      op_Responses = [(200, RefSchema (registry_type ''ClusterSpec'')), (400, RefSchema (errors_type ''Error'')), (500, RefSchema (errors_type ''Error''))]\<rparr>"

definition doc_v2_get_clusters :: operation where
  "doc_v2_get_clusters =
     \<lparr>op_Path = ''/v2/clusters'', op_Method = ''get'', op_Security = [''bearerAuth''], op_Consumes = [''application/json''], op_Produces = [''application/json''],
      op_Tags = [''cluster''], op_Id = ''v2-get-clusters'',
      op_Parameters =
        [\<lparr>par_Name = ''conditions'', par_In = InQuery, par_Schema = ArraySchema (StringSchema []), par_Required = False, par_Multi = True\<rparr>,
         \<lparr>par_Name = ''offset'', par_In = InQuery, par_Schema = IntegerSchema, par_Required = False, par_Multi = False\<rparr>,
         \<lparr>par_Name = ''limit'', par_In = InQuery, par_Schema = IntegerSchema, par_Required = False, par_Multi = False\<rparr>],
      op_Responses = [(200, RefSchema (v2_type ''clusterList'')), (500, RefSchema (errors_type ''Error''))]\<rparr>"

definition doc_v2_get_cluster :: operation where
  "doc_v2_get_cluster =
     \<lparr>op_Path = ''/v2/clusters/{name}'', op_Method = ''get'', op_Security = [''bearerAuth''], op_Consumes = [''application/json''], op_Produces = [''application/json''],
      op_Tags = [''cluster''], op_Id = ''v2-get-cluster'',
      op_Parameters =
        [\<lparr>par_Name = ''name'', par_In = InPath, par_Schema = StringSchema [], par_Required = True, par_Multi = False\<rparr>],
      op_Responses = [(200, RefSchema (registry_type ''ClusterSpec'')), (400, RefSchema (errors_type ''Error'')), (500, RefSchema (errors_type ''Error''))]\<rparr>"

definition doc_v2_patch_cluster :: operation where
  "doc_v2_patch_cluster =
     \<lparr>op_Path = ''/v2/clusters/{name}'', op_Method = ''patch'', op_Security = [''bearerAuth''], op_Consumes = [''application/json''], op_Produces = [''application/json''],
      op_Tags = [''cluster''], op_Id = ''v2-patch-cluster'',
      op_Parameters =
        [\<lparr>par_Name = ''name'', par_In = InPath, par_Schema = StringSchema [], par_Required = True, par_Multi = False\<rparr>,
         \<lparr>par_Name = ''clusterSpec'', par_In = InBody, par_Schema = RefSchema (v2_type ''ClusterSpec''), par_Required = True, par_Multi = False\<rparr>],
      op_Responses = [(200, RefSchema (registry_type ''ClusterSpec'')), (400, RefSchema (errors_type ''Error'')), (500, RefSchema (errors_type ''Error''))]\<rparr>"

definition doc_v2_get_service_metadata :: operation where
  "doc_v2_get_service_metadata =
     \<lparr>op_Path = ''/v2/services/{serviceId}'', op_Method = ''get'', op_Security = [''bearerAuth''], op_Consumes = [''application/json''], op_Produces = [''application/json''],
      op_Tags = [''service''], op_Id = ''v2-get-service-metadata'',
      op_Parameters =
        [\<lparr>par_Name = ''serviceId'', par_In = InPath, par_Schema = StringSchema [], par_Required = True, par_Multi = False\<rparr>,
         \<lparr>par_Name = ''conditions'', par_In = InQuery, par_Schema = ArraySchema (StringSchema []), par_Required = False, par_Multi = True\<rparr>,
         \<lparr>par_Name = ''offset'', par_In = InQuery, par_Schema = IntegerSchema, par_Required = False, par_Multi = False\<rparr>,
         \<lparr>par_Name = ''limit'', par_In = InQuery, par_Schema = IntegerSchema, par_Required = False, par_Multi = False\<rparr>],
      op_Responses = [(200, RefSchema (v2_type ''clusterList'')), (500, RefSchema (errors_type ''Error''))]\<rparr>"

definition doc_v2_get_service_metadata_for_cluster :: operation where
  "doc_v2_get_service_metadata_for_cluster =
     \<lparr>op_Path = ''/v2/services/{serviceId}/cluster/{clusterName}'', op_Method = ''get'', op_Security = [''bearerAuth''], op_Consumes = [''application/json''], op_Produces = [''application/json''],
      op_Tags = [''service''], op_Id = ''v2-get-service-metadata-for-cluster'',
      op_Parameters =
        [\<lparr>par_Name = ''serviceId'', par_In = InPath, par_Schema = StringSchema [], par_Required = True, par_Multi = False\<rparr>,
         \<lparr>par_Name = ''clusterName'', par_In = InPath, par_Schema = StringSchema [], par_Required = True, par_Multi = False\<rparr>],
      op_Responses = [(200, RefSchema (registry_type ''ClusterSpec'')), (400, RefSchema (errors_type ''Error'')), (500, RefSchema (errors_type ''Error''))]\<rparr>"

definition doc_operations :: "operation list" where
  "doc_operations =
     [doc_v1_get_clusters,
      doc_v1_get_cluster,
      doc_v2_get_clusters,
      doc_v2_get_cluster,
      doc_v2_patch_cluster,
      doc_v2_get_service_metadata,
      doc_v2_get_service_metadata_for_cluster]"

section \<open>The types\<close>

definition doc_APIServer :: schema where
  "doc_APIServer = ObjectSchema
     [(''certificateAuthorityData'', StringSchema []), (''endpoint'', StringSchema [])]"

definition doc_AllowedOnboardingTeam :: schema where
  "doc_AllowedOnboardingTeam = ObjectSchema
     [(''gitTeams'', ArraySchema (StringSchema [])), (''ldapGroups'', ArraySchema (StringSchema [])),
      (''name'', StringSchema [])]"

definition doc_AvailabilityZone :: schema where
  "doc_AvailabilityZone = ObjectSchema
     [(''id'', StringSchema []), (''name'', StringSchema [])]"

definition doc_Capacity :: schema where
  "doc_Capacity = ObjectSchema
     [(''clusterCapacity'', IntegerSchema), (''clusterCurrentBqu'', IntegerSchema), (''clusterMaxBqu'', IntegerSchema),
      (''clusterProvisioning'', IntegerSchema), (''lastUpdated'', StringSchema []), (''maxBquPerRequest'', IntegerSchema)]"

definition doc_ClusterSpec :: schema where
  "doc_ClusterSpec = ObjectSchema
     [(''accountId'', StringSchema []),
      (''allowedOnboardingTeams'', ArraySchema (RefSchema (registry_type ''AllowedOnboardingTeam''))),
      (''apiServer'', RefSchema (registry_type ''APIServer'')), (''argoInstance'', StringSchema []),
      (''availabilityZones'', ArraySchema (RefSchema (registry_type ''AvailabilityZone''))),
      (''businessUnit'', StringSchema []), (''capabilities'', ArraySchema (StringSchema [])),
      (''capacity'', RefSchema (registry_type ''Capacity'')), (''chargebackBusinessUnit'', StringSchema []),
      (''chargedBack'', BooleanSchema), (''cloudProviderRegion'', StringSchema []), (''cloudType'', StringSchema []),
      (''environment'', StringSchema []), (''extra'', RefSchema (registry_type ''Extra'')),
      (''lastUpdated'', StringSchema []), (''maintenanceGroup'', StringSchema []), (''managingOrg'', StringSchema []),
      (''name'', StringSchema []), (''offering'', ArraySchema (StringSchema [])),
      (''peerVirtualNetworks'', ArraySchema (RefSchema (registry_type ''PeerVirtualNetwork''))),
      (''phase'', StringSchema []), (''region'', StringSchema []), (''registeredAt'', StringSchema []),
      (''services'', RefSchema (registry_type ''ServiceMetadata'')), (''shortName'', StringSchema []),
      (''status'', StringSchema []), (''tags'', MapSchema (StringSchema [])),
      (''tiers'', ArraySchema (RefSchema (registry_type ''Tier''))), (''type'', StringSchema []),
      (''virtualNetworks'', ArraySchema (RefSchema (registry_type ''VirtualNetwork'')))]"

definition doc_Extra :: schema where
  "doc_Extra = ObjectSchema
     [(''domainName'', StringSchema []), (''ecrIamArns'', MapSchema (ArraySchema (StringSchema []))),
      (''egressPorts'', StringSchema []), (''extendedRegion'', StringSchema []),
      (''lbEndpoints'', MapSchema (StringSchema [])), (''loggingEndpoints'', ArraySchema (MapSchema (StringSchema []))),
      (''namespaceProfileInfraType'', StringSchema []), (''nfsInfo'', ArraySchema (MapSchema (StringSchema []))),
      (''oidcIssuer'', StringSchema [])]"

definition doc_PeerVirtualNetwork :: schema where
  "doc_PeerVirtualNetwork = ObjectSchema
     [(''cidrs'', ArraySchema (StringSchema [])), (''id'', StringSchema []), (''ownerID'', StringSchema [])]"

definition doc_ServiceMetadata :: schema where
  "doc_ServiceMetadata = MapSchema (RefSchema (registry_type ''ServiceMetadataItem''))"

definition doc_ServiceMetadataItem :: schema where
  "doc_ServiceMetadataItem = MapSchema (RefSchema (registry_type ''ServiceMetadataMap''))"

definition doc_ServiceMetadataMap :: schema where
  "doc_ServiceMetadataMap = MapSchema (StringSchema [])"

definition doc_Tier :: schema where
  "doc_Tier = ObjectSchema
     [(''containerRuntime'', StringSchema []), (''enableKataSupport'', BooleanSchema), (''instanceType'', StringSchema []),
      (''kernelParameters'', MapSchema (StringSchema [])), (''labels'', MapSchema (StringSchema [])),
      (''maxCapacity'', IntegerSchema), (''minCapacity'', IntegerSchema), (''name'', StringSchema []),
      (''taints'', ArraySchema (StringSchema []))]"

definition doc_VirtualNetwork :: schema where
  "doc_VirtualNetwork = ObjectSchema
     [(''cidrs'', ArraySchema (StringSchema [])), (''id'', StringSchema [])]"

definition doc_Error :: schema where
  "doc_Error = ObjectSchema
     [(''errors'', MapSchema AnySchema)]"

definition doc_v1_clusterList :: schema where
  "doc_v1_clusterList = ObjectSchema
     [(''items'', ArraySchema (RefSchema (registry_type ''ClusterSpec''))), (''itemsCount'', IntegerSchema),
      (''limit'', IntegerSchema), (''more'', BooleanSchema), (''offset'', IntegerSchema)]"

definition doc_v2_ClusterSpec :: schema where
  "doc_v2_ClusterSpec = ObjectSchema
     [(''phase'', StringSchema [''Building'', ''Testing'', ''Running'', ''Upgrading'']),
      (''status'', StringSchema [''Inactive'', ''Active'', ''Deprecated'', ''Deleted'']),
      (''tags'', MapSchema (StringSchema []))]"

definition doc_v2_clusterList :: schema where
  "doc_v2_clusterList = ObjectSchema
     [(''items'', ArraySchema (RefSchema (registry_type ''ClusterSpec''))), (''itemsCount'', IntegerSchema),
      (''limit'', IntegerSchema), (''more'', BooleanSchema), (''offset'', IntegerSchema)]"

definition doc_definitions :: "(string \<times> schema) list" where
  "doc_definitions =
     [(registry_type ''APIServer'', doc_APIServer),
      (registry_type ''AllowedOnboardingTeam'', doc_AllowedOnboardingTeam),
      (registry_type ''AvailabilityZone'', doc_AvailabilityZone),
      (registry_type ''Capacity'', doc_Capacity),
      (registry_type ''ClusterSpec'', doc_ClusterSpec),
      (registry_type ''Extra'', doc_Extra),
      (registry_type ''PeerVirtualNetwork'', doc_PeerVirtualNetwork),
      (registry_type ''ServiceMetadata'', doc_ServiceMetadata),
      (registry_type ''ServiceMetadataItem'', doc_ServiceMetadataItem),
      (registry_type ''ServiceMetadataMap'', doc_ServiceMetadataMap),
      (registry_type ''Tier'', doc_Tier),
      (registry_type ''VirtualNetwork'', doc_VirtualNetwork),
      (errors_type ''Error'', doc_Error),
      (v1_type ''clusterList'', doc_v1_clusterList),
      (v2_type ''ClusterSpec'', doc_v2_ClusterSpec),
      (v2_type ''clusterList'', doc_v2_clusterList)]"

text \<open>\<^verbatim>\<open>SwaggerInfo\<close>; \<^verbatim>\<open>main\<close> sets its host from the configuration.\<close>

record swagger_info =
  sw_Version :: string
  sw_Host :: string
  sw_BasePath :: string
  sw_Schemes :: "string list"
  sw_Title :: string

definition SwaggerInfo :: swagger_info where
  "SwaggerInfo = \<lparr>sw_Version = ''1.0'', sw_Host = ''127.0.0.1:8080'', sw_BasePath = ''/api'', sw_Schemes = [''http'', ''https''],
     sw_Title = ''Cluster Registry API''\<rparr>"

definition served_info :: "AppConfig \<Rightarrow> swagger_info" where
  "served_info appConfig = SwaggerInfo\<lparr>sw_Host := ApiHost appConfig\<rparr>"

section \<open>The types of the program\<close>

text \<open>
  The types of fields as \<^verbatim>\<open>encoding/json\<close> sees them, with the names of the tags; \<open>GoOneOf\<close> is a text that
  the validation restricts to some values.
\<close>

datatype (plugins only: code size) go_type =
    GoString
  | GoOneOf "string list"
  | GoInt
  | GoBool
  | GoInterface
  | GoPointer go_type
  | GoSlice go_type
  | GoMap go_type
  | GoNamed string

datatype go_declaration = GoStruct "(string \<times> go_type) list" | GoDefined go_type

definition json_APIServer :: go_declaration where
  "json_APIServer = GoStruct
     [(''endpoint'', GoString), (''certificateAuthorityData'', GoString)]"

definition json_AllowedOnboardingTeam :: go_declaration where
  "json_AllowedOnboardingTeam = GoStruct
     [(''name'', GoString), (''gitTeams'', GoSlice GoString), (''ldapGroups'', GoSlice GoString)]"

definition json_AvailabilityZone :: go_declaration where
  "json_AvailabilityZone = GoStruct
     [(''name'', GoString), (''id'', GoString)]"

definition json_Capacity :: go_declaration where
  "json_Capacity = GoStruct
     [(''lastUpdated'', GoString), (''clusterCapacity'', GoInt), (''clusterProvisioning'', GoInt),
      (''maxBquPerRequest'', GoInt), (''clusterMaxBqu'', GoInt), (''clusterCurrentBqu'', GoInt)]"

definition json_ClusterSpec :: go_declaration where
  "json_ClusterSpec = GoStruct
     [(''name'', GoString), (''shortName'', GoString), (''apiServer'', GoNamed (registry_type ''APIServer'')),
      (''region'', GoString), (''cloudType'', GoString), (''cloudProviderRegion'', GoString),
      (''environment'', GoString), (''businessUnit'', GoString), (''chargebackBusinessUnit'', GoString),
      (''chargedBack'', GoPointer GoBool), (''managingOrg'', GoString), (''offering'', GoSlice GoString),
      (''accountId'', GoString), (''tiers'', GoSlice (GoNamed (registry_type ''Tier''))),
      (''virtualNetworks'', GoSlice (GoNamed (registry_type ''VirtualNetwork''))), (''registeredAt'', GoString),
      (''status'', GoString), (''phase'', GoString), (''maintenanceGroup'', GoString), (''argoInstance'', GoString),
      (''type'', GoString), (''extra'', GoNamed (registry_type ''Extra'')),
      (''allowedOnboardingTeams'', GoSlice (GoNamed (registry_type ''AllowedOnboardingTeam''))),
      (''capabilities'', GoSlice GoString),
      (''peerVirtualNetworks'', GoSlice (GoNamed (registry_type ''PeerVirtualNetwork''))), (''lastUpdated'', GoString),
      (''tags'', GoMap GoString), (''capacity'', GoNamed (registry_type ''Capacity'')),
      (''services'', GoNamed (registry_type ''ServiceMetadata'')),
      (''availabilityZones'', GoSlice (GoNamed (registry_type ''AvailabilityZone'')))]"

definition json_Extra :: go_declaration where
  "json_Extra = GoStruct
     [(''domainName'', GoString), (''lbEndpoints'', GoMap GoString), (''loggingEndpoints'', GoSlice (GoMap GoString)),
      (''ecrIamArns'', GoMap (GoSlice GoString)), (''egressPorts'', GoString), (''nfsInfo'', GoSlice (GoMap GoString)),
      (''extendedRegion'', GoString), (''oidcIssuer'', GoString), (''namespaceProfileInfraType'', GoString)]"

definition json_PeerVirtualNetwork :: go_declaration where
  "json_PeerVirtualNetwork = GoStruct
     [(''id'', GoString), (''cidrs'', GoSlice GoString), (''ownerID'', GoString)]"

definition json_ServiceMetadata :: go_declaration where
  "json_ServiceMetadata = GoDefined (GoMap (GoNamed (registry_type ''ServiceMetadataItem'')))"

definition json_ServiceMetadataItem :: go_declaration where
  "json_ServiceMetadataItem = GoDefined (GoMap (GoNamed (registry_type ''ServiceMetadataMap'')))"

definition json_ServiceMetadataMap :: go_declaration where
  "json_ServiceMetadataMap = GoDefined (GoMap GoString)"

definition json_Tier :: go_declaration where
  "json_Tier = GoStruct
     [(''name'', GoString), (''instanceType'', GoString), (''containerRuntime'', GoString), (''minCapacity'', GoInt),
      (''maxCapacity'', GoInt), (''labels'', GoMap GoString), (''taints'', GoSlice GoString),
      (''enableKataSupport'', GoBool), (''kernelParameters'', GoMap GoString)]"

definition json_VirtualNetwork :: go_declaration where
  "json_VirtualNetwork = GoStruct
     [(''id'', GoString), (''cidrs'', GoSlice GoString)]"

definition json_Error :: go_declaration where
  "json_Error = GoStruct
     [(''errors'', GoMap GoInterface)]"

definition json_v1_clusterList :: go_declaration where
  "json_v1_clusterList = GoStruct
     [(''items'', GoSlice (GoPointer (GoNamed (registry_type ''ClusterSpec'')))), (''itemsCount'', GoInt),
      (''offset'', GoInt), (''limit'', GoInt), (''more'', GoBool)]"

definition json_v2_ClusterSpec :: go_declaration where
  "json_v2_ClusterSpec = GoStruct
     [(''status'', GoPointer (GoOneOf [''Inactive'', ''Active'', ''Deprecated'', ''Deleted''])),
      (''phase'', GoPointer (GoOneOf [''Building'', ''Testing'', ''Running'', ''Upgrading''])),
      (''tags'', GoPointer (GoMap GoString))]"

definition json_v2_clusterList :: go_declaration where
  "json_v2_clusterList = GoStruct
     [(''items'', GoSlice (GoPointer (GoNamed (registry_type ''ClusterSpec'')))), (''itemsCount'', GoInt),
      (''offset'', GoInt), (''limit'', GoInt), (''more'', GoBool)]"

text \<open>\<^verbatim>\<open>Offering\<close> is a text.  The order is that of the document.\<close>

definition go_declarations :: "(string \<times> go_declaration) list" where
  "go_declarations =
     [(registry_type ''APIServer'', json_APIServer),
      (registry_type ''AllowedOnboardingTeam'', json_AllowedOnboardingTeam),
      (registry_type ''AvailabilityZone'', json_AvailabilityZone),
      (registry_type ''Capacity'', json_Capacity),
      (registry_type ''ClusterSpec'', json_ClusterSpec),
      (registry_type ''Extra'', json_Extra),
      (registry_type ''PeerVirtualNetwork'', json_PeerVirtualNetwork),
      (registry_type ''ServiceMetadata'', json_ServiceMetadata),
      (registry_type ''ServiceMetadataItem'', json_ServiceMetadataItem),
      (registry_type ''ServiceMetadataMap'', json_ServiceMetadataMap),
      (registry_type ''Tier'', json_Tier),
      (registry_type ''VirtualNetwork'', json_VirtualNetwork),
      (errors_type ''Error'', json_Error),
      (v1_type ''clusterList'', json_v1_clusterList),
      (v2_type ''ClusterSpec'', json_v2_ClusterSpec),
      (v2_type ''clusterList'', json_v2_clusterList)]"

text \<open>The schema of what \<^verbatim>\<open>encoding/json\<close> makes of a type; the properties are in the order of their names.\<close>

fun type_schema :: "go_type \<Rightarrow> schema" where
  "type_schema GoString = StringSchema []"
| "type_schema (GoOneOf vs) = StringSchema vs"
| "type_schema GoInt = IntegerSchema"
| "type_schema GoBool = BooleanSchema"
| "type_schema GoInterface = AnySchema"
| "type_schema (GoPointer t) = type_schema t"
| "type_schema (GoSlice t) = ArraySchema (type_schema t)"
| "type_schema (GoMap t) = MapSchema (type_schema t)"
| "type_schema (GoNamed n) = RefSchema n"

fun declaration_schema :: "go_declaration \<Rightarrow> schema" where
  "declaration_schema (GoStruct fs) = ObjectSchema (map (\<lambda>(n, t). (n, type_schema t)) (sort_key fst fs))"
| "declaration_schema (GoDefined t) = type_schema t"

text \<open>The references in a schema.\<close>

fun schema_refs :: "schema \<Rightarrow> string list" where
  "schema_refs (ArraySchema s) = schema_refs s"
| "schema_refs (MapSchema s) = schema_refs s"
| "schema_refs (ObjectSchema ps) = concat (map (\<lambda>p. schema_refs (snd p)) ps)"
| "schema_refs (RefSchema n) = [n]"
| "schema_refs _ = []"

definition operation_refs :: "operation \<Rightarrow> string list" where
  "operation_refs op = concat (map (\<lambda>p. schema_refs (par_Schema p)) (op_Parameters op)) @ concat (map (\<lambda>r. schema_refs (snd r)) (op_Responses op))"

text \<open>Every documented type is the one that the program encodes, and every reference has a definition.\<close>

lemma documented_types:
  "doc_definitions = map (\<lambda>(n, d). (n, declaration_schema d)) go_declarations"
  by code_simp

lemma documented_references:
  "list_all (\<lambda>n. n \<in> fst ` set doc_definitions)
     (concat (map operation_refs doc_operations) @ concat (map (\<lambda>d. schema_refs (snd d)) doc_definitions))"
  by code_simp

section \<open>The documentation and the routes\<close>

definition operation_of :: "endpoint \<Rightarrow> operation option" where
  "operation_of e =
     (case e of
        V1_GetCluster \<Rightarrow> Some doc_v1_get_cluster
      | V1_ListClusters \<Rightarrow> Some doc_v1_get_clusters
      | V2_GetCluster \<Rightarrow> Some doc_v2_get_cluster
      | V2_PatchCluster \<Rightarrow> Some doc_v2_patch_cluster
      | V2_ListClusters \<Rightarrow> Some doc_v2_get_clusters
      | V2_GetServiceMetadata \<Rightarrow> Some doc_v2_get_service_metadata
      | V2_GetServiceMetadataForCluster \<Rightarrow> Some doc_v2_get_service_metadata_for_cluster
      | _ \<Rightarrow> None)"

text \<open>The documentation writes \<^verbatim>\<open>{name}\<close> where the router has \<^verbatim>\<open>:name\<close>, and methods in lower case.\<close>

fun route_path :: "string \<Rightarrow> string" where
  "route_path [] = []"
| "route_path (c # cs) =
     (if c = CHR ''{'' then CHR '':'' # route_path cs else if c = CHR ''}'' then route_path cs else c # route_path cs)"

definition str_upper :: "string \<Rightarrow> string" where
  "str_upper s = map (\<lambda>c. if is_lower c then char_of (byte c - 32) else c) s"

definition path_variables :: "string \<Rightarrow> string list" where
  "path_variables p = map tl (filter (\<lambda>s. s \<noteq> [] \<and> hd s = CHR '':'') (str_split CHR ''/'' p))"

definition path_parameters :: "operation \<Rightarrow> string list" where
  "path_parameters op = map par_Name (filter (\<lambda>p. par_In p = InPath \<and> par_Required p) (op_Parameters op))"

text \<open>A route is documented by an operation.\<close>

definition documented_by :: "'tok route \<Rightarrow> operation \<Rightarrow> bool" where
  "documented_by r op \<longleftrightarrow>
     rt_Method r = str_upper (op_Method op) \<and> rt_Path r = sw_BasePath SwaggerInfo @ route_path (op_Path op) \<and>
     path_variables (rt_Path r) = path_parameters op \<and>
     (op_Security op = [''bearerAuth''] \<longleftrightarrow> (\<exists>a. TokenCheck a \<in> set (rt_Middleware r)))"

lemmas doc_operation_defs = doc_v1_get_clusters_def doc_v1_get_cluster_def doc_v2_get_clusters_def doc_v2_get_cluster_def
  doc_v2_patch_cluster_def doc_v2_get_service_metadata_def doc_v2_get_service_metadata_for_cluster_def

lemma str_upper_methods: "str_upper ''get'' = ''GET''" "str_upper ''patch'' = ''PATCH''"
  by code_simp+

lemmas documented_defs = documented_by_def operation_of_def str_upper_methods path_variables_def path_parameters_def SwaggerInfo_def
  doc_operation_defs

lemma v1_documented:
  assumes "v1_Register (Inr a) conf (root_group ''/api/v1'') = Inr rs" and "r \<in> set rs"
  shows "\<exists>op. operation_of (rt_Endpoint r) = Some op \<and> documented_by r op"
  using assms by (auto simp: v1_Register_def add_route_def Group_def root_group_def Let_def documented_defs)

lemma v2_documented:
  assumes "v2_Register (Inr a) conf (root_group ''/api/v2'') = Inr rs" and "r \<in> set rs"
  shows "\<exists>op. operation_of (rt_Endpoint r) = Some op \<and> documented_by r op"
  using assms by (auto simp: v2_Register_def add_route_def Group_def root_group_def Let_def documented_defs)

lemma Register_complete:
  assumes "v1_Register (Inr a) conf g = Inr rs1" and "v2_Register (Inr a) conf g' = Inr rs2" and "op \<in> set doc_operations"
  shows "\<exists>r \<in> set rs1 \<union> set rs2. operation_of (rt_Endpoint r) = Some op"
  using assms by (auto simp: v1_Register_def v2_Register_def add_route_def Let_def doc_operations_def operation_of_def)

lemma open_routes_undocumented: "r \<in> set open_routes \<Longrightarrow> operation_of (rt_Endpoint r) = None"
  by (auto simp: open_routes_def add_route_def operation_of_def)

section \<open>The documentation and the answers\<close>

text \<open>The type of the body of an answer.\<close>

definition body_type :: "endpoint \<Rightarrow> body \<Rightarrow> schema option" where
  "body_type e b =
     (case b of
        ErrorBody _ \<Rightarrow> Some (RefSchema (errors_type ''Error''))
      | ClusterBody _ \<Rightarrow> Some (RefSchema (registry_type ''ClusterSpec''))
      | ClusterListBody _ \<Rightarrow> Some (RefSchema (if e = V1_ListClusters then v1_type ''clusterList'' else v2_type ''clusterList''))
      | ServiceBody _ \<Rightarrow> Some (RefSchema (v2_type ''ServiceMetadata''))
      | ServiceListBody _ \<Rightarrow> Some (RefSchema (v2_type ''serviceMetadataList''))
      | _ \<Rightarrow> None)"

text \<open>The answers that the documentation does not mention.\<close>

definition undocumented :: "endpoint \<Rightarrow> (int \<times> schema) list" where
  "undocumented e =
     (let err = RefSchema (errors_type ''Error'') in
      case e of
        V1_GetCluster \<Rightarrow> [(404, err)]
      | V2_GetCluster \<Rightarrow> [(404, err)]
      | V2_PatchCluster \<Rightarrow> [(404, err)]
      | V2_ListClusters \<Rightarrow> [(400, err)]
      | V2_GetServiceMetadata \<Rightarrow> [(200, RefSchema (v2_type ''serviceMetadataList'')), (400, err)]
      | V2_GetServiceMetadataForCluster \<Rightarrow> [(200, RefSchema (v2_type ''ServiceMetadata'')), (404, err)]
      | _ \<Rightarrow> [])"

definition conforms :: "endpoint \<Rightarrow> response \<Rightarrow> bool" where
  "conforms e r \<longleftrightarrow> (\<exists>op s. operation_of e = Some op \<and> body_type e (resp_Body r) = Some s \<and>
     (resp_Status r, s) \<in> set (op_Responses op) \<union> set (undocumented e))"

lemma body_type_error [simp]:
  "body_type e (NewError err) = Some (RefSchema (errors_type ''Error''))" "body_type e NotFound = Some (RefSchema (errors_type ''Error''))"
  by (simp_all add: body_type_def NewError_def NotFound_def split: goerr.splits)

lemma body_type_answers [simp]:
  "body_type e (newClusterResponse c) = Some (RefSchema (registry_type ''ClusterSpec''))"
  "body_type e (newClusterListResponse cs n offset limit hasMore) =
     Some (RefSchema (if e = V1_ListClusters then v1_type ''clusterList'' else v2_type ''clusterList''))"
  "body_type e (newServiceMetadataResponse c) = Some (RefSchema (v2_type ''ServiceMetadata''))"
  "body_type e (newServiceMetadataListResponse cs n offset limit hasMore) = Some (RefSchema (v2_type ''serviceMetadataList''))"
  by (simp_all add: body_type_def newClusterResponse_def newClusterListResponse_def newServiceMetadataResponse_def
      newServiceMetadataListResponse_def)

lemma JSON_simps [simp]: "resp_Status (JSON n b) = n" "resp_Body (JSON n b) = b"
  by (simp_all add: JSON_def)

lemma on_db_answer:
  assumes "on_db h c s = Some (Ret r, s')"
  obtains st st' where "h c st = Some (Ret r, st')"
  using assms by (auto simp: on_db_def via_def map_option_eq_Some)

lemma list_answer_Ret:
  assumes "list_answer f c l = Some (Ret r, st)"
  obtains clusters cnt hasMore where "r = JSON 200 (f clusters cnt (offset_param c) (limit_param c) hasMore)"
  using assms by (auto simp: list_answer_def map_option_eq_Some run_map_Ret_iff)

lemma cluster_answer_cases:
  obtains err where "cluster_answer r f = JSON 500 (NewError err)"
  | "cluster_answer r f = JSON 404 NotFound"
  | cluster where "cluster_answer r f = JSON 200 (f cluster)"
proof (cases r)
  case (Pair c err)
  then show ?thesis using that by (cases c; cases err) (simp_all add: cluster_answer_def)
qed

lemmas conforms_defs = conforms_def operation_of_def doc_operation_defs undocumented_def

lemma cluster_answer_conforms:
  assumes "e \<in> {V1_GetCluster, V2_GetCluster, V2_GetServiceMetadataForCluster}" and "\<And>cluster. conforms e (JSON 200 (f cluster))"
  shows "conforms e (cluster_answer x f)"
proof (rule cluster_answer_cases [of x f])
  fix err assume "cluster_answer x f = JSON 500 (NewError err)"
  then show ?thesis using assms(1) by (auto simp: conforms_defs)
next
  assume "cluster_answer x f = JSON 404 NotFound"
  then show ?thesis using assms(1) by (auto simp: conforms_defs)
next
  fix cluster assume "cluster_answer x f = JSON 200 (f cluster)"
  then show ?thesis using assms(2) by simp
qed

lemma v1_GetCluster_conforms: "v1_GetCluster db c st = Some (Ret r, st') \<Longrightarrow> conforms V1_GetCluster r"
  by (auto simp: v1_GetCluster_def answer_def split: prod.splits intro!: cluster_answer_conforms)
    (simp add: conforms_defs)

lemma v2_GetCluster_conforms: "v2_GetCluster db c st = Some (Ret r, st') \<Longrightarrow> conforms V2_GetCluster r"
  by (auto simp: v2_GetCluster_def answer_def split: prod.splits intro!: cluster_answer_conforms)
    (simp add: conforms_defs)

lemma GetServiceMetadataForCluster_conforms:
  "GetServiceMetadataForCluster db c st = Some (Ret r, st') \<Longrightarrow> conforms V2_GetServiceMetadataForCluster r"
  by (auto simp: GetServiceMetadataForCluster_def answer_def split: prod.splits intro!: cluster_answer_conforms)
    (simp add: conforms_defs)

lemma v1_ListClusters_conforms: "v1_ListClusters db c st = Some (Ret r, st') \<Longrightarrow> conforms V1_ListClusters r"
  unfolding v1_ListClusters_def by (erule list_answer_Ret) (simp add: conforms_defs)

lemma v2_ListClusters_conforms:
  assumes "v2_ListClusters db c st = Some (Ret r, st')"
  shows "conforms V2_ListClusters r"
proof -
  have "conforms V2_ListClusters (JSON 200 (newClusterListResponse clusters cnt offset limit hasMore))" for clusters cnt offset limit hasMore
    by (simp add: conforms_defs)
  moreover have "conforms V2_ListClusters (JSON 400 (NewError err))" for err by (simp add: conforms_defs)
  ultimately show ?thesis
    using assms by (auto simp: v2_ListClusters_def answer_def split: if_splits sum.splits elim!: list_answer_Ret)
qed

lemma GetServiceMetadata_conforms:
  assumes "GetServiceMetadata db c st = Some (Ret r, st')"
  shows "conforms V2_GetServiceMetadata r"
proof -
  have "conforms V2_GetServiceMetadata (JSON 200 (newServiceMetadataListResponse clusters cnt offset limit hasMore))" for clusters cnt offset limit hasMore
    by (simp add: conforms_defs)
  moreover have "conforms V2_GetServiceMetadata (JSON 400 (NewError err))" for err by (simp add: conforms_defs)
  ultimately show ?thesis
    using assms by (auto simp: GetServiceMetadata_def answer_def Let_def split: if_splits sum.splits elim!: list_answer_Ret)
qed

lemma PatchCluster_conforms:
  assumes "PatchCluster db libs c st = Some (Ret r, st')"
  shows "conforms V2_PatchCluster r"
proof -
  have "conforms V2_PatchCluster (JSON 500 (NewError err))" "conforms V2_PatchCluster (JSON 400 (NewError err))"
    "conforms V2_PatchCluster (JSON 404 NotFound)" "conforms V2_PatchCluster (JSON 200 (newClusterResponse cluster))" for err cluster
    by (simp_all add: conforms_defs)
  then show ?thesis
    using assms by (auto simp: PatchCluster_def answer_def split: prod.splits option.splits sum.splits)
qed

section \<open>Properties\<close>

text \<open>
  C31. The published documentation describes the routes that the started server serves: the routes
  with an API path are exactly those of the documented operations, each with the documented method,
  path, path parameters and authentication, and no documented operation is missing.
\<close>

theorem documented_routes:
  assumes "api_main l e reg w = Started srv"
  shows "(\<forall>r \<in> set (srv_routes srv). api_path (rt_Path r) \<longleftrightarrow> operation_of (rt_Endpoint r) \<noteq> None) \<and>
    (\<forall>r \<in> set (srv_routes srv). \<forall>op. operation_of (rt_Endpoint r) = Some op \<longrightarrow> documented_by r op) \<and>
    (\<forall>op \<in> set doc_operations. \<exists>r \<in> set (srv_routes srv). operation_of (rt_Endpoint r) = Some op)"
proof -
  let ?c = "srv_config srv"
  obtain v1 v2 where v1: "v1_Register (new_authenticator l ?c) ?c (root_group ''/api/v1'') = Inr v1"
    and v2: "v2_Register (new_authenticator l ?c) ?c (root_group ''/api/v2'') = Inr v2" and rs: "srv_routes srv = open_routes @ v1 @ v2"
    using api_main_Started [OF assms] by metis
  obtain a where a: "new_authenticator l ?c = Inr a" using v1 by (cases "new_authenticator l ?c") (auto simp: v1_Register_def)
  have paths: "api_path (rt_Path r)" if "r \<in> set v1 \<union> set v2" for r
    using that v1 v2 unfolding a
    by (auto simp: v1_Register_def v2_Register_def add_route_def Group_def root_group_def Let_def api_path_def)
  have closed: "\<not> api_path (rt_Path r)" if "r \<in> set open_routes" for r
    using that by (auto simp: open_routes_def add_route_def root_group_def api_path_def)
  have ops: "\<exists>op. operation_of (rt_Endpoint r) = Some op \<and> documented_by r op" if "r \<in> set v1 \<union> set v2" for r
    using that v1_documented v2_documented v1 v2 unfolding a by blast
  have complete: "\<exists>r \<in> set v1 \<union> set v2. operation_of (rt_Endpoint r) = Some op" if "op \<in> set doc_operations" for op
    using Register_complete that v1 v2 unfolding a by blast
  show ?thesis
    using paths closed ops complete open_routes_undocumented unfolding rs set_append by fastforce
qed

theorem documented_routes_witness:
  "\<exists>srv. api_main server_libs (example_env []) [] () = Started srv \<and>
     (\<forall>op \<in> set doc_operations. \<exists>r \<in> set (srv_routes srv). operation_of (rt_Endpoint r) = Some op)"
proof -
  obtain srv where s: "api_main server_libs (example_env []) [] () = Started srv" using example_main by blast
  from documented_routes [OF s] s show ?thesis by blast
qed

text \<open>
  C32. Every answer of a documented handler has the status and the type of body that the
  documentation gives, apart from what \<open>undocumented\<close> lists: 404 where one cluster is asked for, 400
  where conditions are given, and the metadata of services, which are documented as clusters.
\<close>

theorem answers_conform:
  assumes "operation_of e = Some op" and "endpoint_handler sv e c s = Some (Ret r, s')"
  shows "conforms e r"
proof -
  note h = assms(2) [unfolded endpoint_handler_def]
  show ?thesis
    using assms(1) h v1_GetCluster_conforms v2_GetCluster_conforms GetServiceMetadataForCluster_conforms v1_ListClusters_conforms
      v2_ListClusters_conforms GetServiceMetadata_conforms PatchCluster_conforms
    by (cases e) (auto simp: operation_of_def via_def elim!: on_db_answer)
qed

text \<open>A condition without an operand: the documentation has no such answer.\<close>

lemma bad_condition: "\<exists>err. NewFilterConditionFromQuery ''x'' = Inl err"
proof -
  have "case NewFilterConditionFromQuery ''x'' of Inl _ \<Rightarrow> True | Inr _ \<Rightarrow> False" by code_simp
  then show ?thesis by (auto split: sum.splits)
qed

theorem answers_conform_witness:
  "\<exists>err s. endpoint_handler example_services V2_ListClusters (conditions_ctx [''x'']) s = Some (Ret (JSON 400 (NewError err)), s) \<and>
     conforms V2_ListClusters (JSON 400 (NewError err)) \<and> 400 \<notin> fst ` set (op_Responses doc_v2_get_clusters)"
proof -
  let ?s = "\<lparr>as_metrics = [], as_st = mem_state [], as_k = 0, as_cache = (), as_w = ()\<rparr>"
  obtain err where "NewFilterConditionFromQuery ''x'' = Inl err" using bad_condition by blast
  then have h: "endpoint_handler example_services V2_ListClusters (conditions_ctx [''x'']) ?s = Some (Ret (JSON 400 (NewError err)), ?s)"
    by (simp add: endpoint_handler_def on_db_def via_def v2_ListClusters_def conditions_ctx_query answer_def)
  have "operation_of V2_ListClusters = Some doc_v2_get_clusters" by (simp add: operation_of_def)
  from answers_conform [OF this h] h show ?thesis by (fastforce simp: doc_v2_get_clusters_def)
qed

end
