(* ===== verification/Go_Heap.thy ===== *)
theory Go_Heap
  imports Go_Runtime
begin

text \<open>
  A store of Go objects, for the code whose purpose is the sharing of memory: the deep copies.  A
  reference (a pointer, a slice, a map) is an address or nil; the cell at an address holds the value
  that a pointer points to, the elements of a slice, or the entries of a map.  Two slices that share
  a part of an array are not distinguished from two that share all of it.
\<close>

type_synonym addr = nat

text \<open>Addresses from \<open>limit\<close> on have not been given out.\<close>

record 'c heap =
  cells :: "addr \<Rightarrow> 'c option"
  limit :: addr

definition alloc :: "'c \<Rightarrow> 'c heap \<Rightarrow> addr \<times> 'c heap" where
  "alloc c h = (limit h, h\<lparr>cells := (cells h)(limit h \<mapsto> c), limit := Suc (limit h)\<rparr>)"

definition store :: "addr \<Rightarrow> 'c \<Rightarrow> 'c heap \<Rightarrow> 'c heap" where
  "store a c h = h\<lparr>cells := (cells h)(a \<mapsto> c)\<rparr>"

definition load :: "('c \<Rightarrow> 'b) \<Rightarrow> 'c heap \<Rightarrow> addr \<Rightarrow> 'b" where
  "load content h a = content (the (cells h a))"

text \<open>What nothing but allocations can do to a heap.\<close>

definition extends :: "'c heap \<Rightarrow> 'c heap \<Rightarrow> bool" where
  "extends h h' \<longleftrightarrow> limit h \<le> limit h' \<and> (\<forall>a < limit h. cells h' a = cells h a)"

lemma extends_refl [simp]: "extends h h"
  by (simp add: extends_def)

lemma extends_trans [trans]: "extends h1 h2 \<Longrightarrow> extends h2 h3 \<Longrightarrow> extends h1 h3"
  by (simp add: extends_def)

lemma extends_alloc: "alloc c h = (a, h') \<Longrightarrow> extends h h'"
  by (auto simp: alloc_def extends_def)

text \<open>Addresses that have been given out, and those given out between two heaps.\<close>

definition old :: "'c heap \<Rightarrow> addr set \<Rightarrow> bool" where
  "old h A \<longleftrightarrow> (\<forall>a \<in> A. a < limit h)"

definition fresh_in :: "'c heap \<Rightarrow> 'c heap \<Rightarrow> addr set \<Rightarrow> bool" where
  "fresh_in h h' A \<longleftrightarrow> (\<forall>a \<in> A. limit h \<le> a \<and> a < limit h')"

lemma old_simps [simp]:
  "old h {}" "old h (insert a A) \<longleftrightarrow> a < limit h \<and> old h A" "old h (A \<union> B) \<longleftrightarrow> old h A \<and> old h B"
  "old h (\<Union>x \<in> X. F x) \<longleftrightarrow> (\<forall>x \<in> X. old h (F x))"
  by (auto simp: old_def)

lemma fresh_in_simps [simp]:
  "fresh_in h h' {}" "fresh_in h h' (insert a A) \<longleftrightarrow> limit h \<le> a \<and> a < limit h' \<and> fresh_in h h' A"
  "fresh_in h h' (A \<union> B) \<longleftrightarrow> fresh_in h h' A \<and> fresh_in h h' B"
  "fresh_in h h' (\<Union>x \<in> X. F x) \<longleftrightarrow> (\<forall>x \<in> X. fresh_in h h' (F x))"
  by (auto simp: fresh_in_def)

lemma old_extends: "old h A \<Longrightarrow> extends h h' \<Longrightarrow> old h' A"
  by (auto simp: old_def extends_def)

lemma fresh_in_old: "fresh_in h h' A \<Longrightarrow> old h' A"
  by (auto simp: old_def fresh_in_def)

lemma fresh_in_widen:
  "fresh_in h1 h2 A \<Longrightarrow> extends h h1 \<Longrightarrow> extends h2 h' \<Longrightarrow> fresh_in h h' A"
  by (fastforce simp: fresh_in_def extends_def)

section \<open>Copying\<close>

type_synonym ('a, 'c) copier = "'a \<Rightarrow> 'c heap \<Rightarrow> 'a \<times> 'c heap"

text \<open>A value without references is copied by its assignment.\<close>

definition copy_plain :: "('a, 'c) copier" where
  "copy_plain x h = (x, h)"

fun copy_elements :: "('a, 'c) copier \<Rightarrow> ('a list, 'c) copier" where
  "copy_elements f [] h = ([], h)"
| "copy_elements f (x # xs) h =
     (let (y, h) = f x h; (ys, h) = copy_elements f xs h in (y # ys, h))"

text \<open>An entry of a map: the keys are strings.\<close>

definition copy_entry :: "('a, 'c) copier \<Rightarrow> (string \<times> 'a, 'c) copier" where
  "copy_entry f kv h = (let (y, h) = f (snd kv) h in ((fst kv, y), h))"

text \<open>
  A reference: nil stays nil, otherwise the content of the cell is copied into a new cell.  The
  program takes the new cell first and fills it; where it lies is not observable.
\<close>

fun copy_ref :: "('c \<Rightarrow> 'b) \<Rightarrow> ('b \<Rightarrow> 'c) \<Rightarrow> ('b, 'c) copier \<Rightarrow> (addr option, 'c) copier" where
  "copy_ref content build f None h = (None, h)"
| "copy_ref content build f (Some a) h =
     (let (y, h) = f (load content h a) h; (b, h) = alloc (build y) h in (Some b, h))"

definition copy_pair :: "('a, 'c) copier \<Rightarrow> ('b, 'c) copier \<Rightarrow> ('a \<times> 'b, 'c) copier" where
  "copy_pair f g xy h = (let (x, h) = f (fst xy) h; (y, h) = g (snd xy) h in ((x, y), h))"

text \<open>What the references of a value reach, and the value without its addresses.\<close>

fun owned_ref :: "('c \<Rightarrow> 'b) \<Rightarrow> ('c heap \<Rightarrow> 'b \<Rightarrow> addr set) \<Rightarrow> 'c heap \<Rightarrow> addr option \<Rightarrow> addr set" where
  "owned_ref content owned h None = {}"
| "owned_ref content owned h (Some a) = insert a (owned h (load content h a))"

fun value_ref :: "('c \<Rightarrow> 'b) \<Rightarrow> ('c heap \<Rightarrow> 'b \<Rightarrow> 'v) \<Rightarrow> 'c heap \<Rightarrow> addr option \<Rightarrow> 'v option" where
  "value_ref content val h None = None"
| "value_ref content val h (Some a) = Some (val h (load content h a))"

definition owned_elements :: "('c heap \<Rightarrow> 'a \<Rightarrow> addr set) \<Rightarrow> 'c heap \<Rightarrow> 'a list \<Rightarrow> addr set" where
  "owned_elements owned h xs = (\<Union>x \<in> set xs. owned h x)"

definition value_elements :: "('c heap \<Rightarrow> 'a \<Rightarrow> 'v) \<Rightarrow> 'c heap \<Rightarrow> 'a list \<Rightarrow> 'v list" where
  "value_elements val h xs = map (val h) xs"

definition owned_entry :: "('c heap \<Rightarrow> 'a \<Rightarrow> addr set) \<Rightarrow> 'c heap \<Rightarrow> string \<times> 'a \<Rightarrow> addr set" where
  "owned_entry owned h kv = owned h (snd kv)"

definition value_entry :: "('c heap \<Rightarrow> 'a \<Rightarrow> 'v) \<Rightarrow> 'c heap \<Rightarrow> string \<times> 'a \<Rightarrow> string \<times> 'v" where
  "value_entry val h kv = (fst kv, val h (snd kv))"

definition owned_pair ::
  "('c heap \<Rightarrow> 'a \<Rightarrow> addr set) \<Rightarrow> ('c heap \<Rightarrow> 'b \<Rightarrow> addr set) \<Rightarrow> 'c heap \<Rightarrow> 'a \<times> 'b \<Rightarrow> addr set" where
  "owned_pair owned1 owned2 h xy = owned1 h (fst xy) \<union> owned2 h (snd xy)"

definition value_pair ::
  "('c heap \<Rightarrow> 'a \<Rightarrow> 'v) \<Rightarrow> ('c heap \<Rightarrow> 'b \<Rightarrow> 'w) \<Rightarrow> 'c heap \<Rightarrow> 'a \<times> 'b \<Rightarrow> 'v \<times> 'w" where
  "value_pair val1 val2 h xy = (val1 h (fst xy), val2 h (snd xy))"

definition owned_plain :: "'c heap \<Rightarrow> 'a \<Rightarrow> addr set" where
  "owned_plain h x = {}"

definition value_plain :: "'c heap \<Rightarrow> 'a \<Rightarrow> 'a" where
  "value_plain h x = x"

lemmas reach_defs = owned_elements_def owned_entry_def owned_pair_def owned_plain_def
lemmas worth_defs = value_elements_def value_entry_def value_pair_def value_plain_def

section \<open>The contract of a deep copy\<close>

text \<open>
  The cells that a value reaches determine it; a copy reaches only new cells, touches none of the
  old ones, and has the same value.
\<close>

locale copyable =
  fixes copy :: "('a, 'c) copier" and owned :: "'c heap \<Rightarrow> 'a \<Rightarrow> addr set" and val :: "'c heap \<Rightarrow> 'a \<Rightarrow> 'v"
  assumes frame: "(\<And>a. a \<in> owned h x \<Longrightarrow> cells h' a = cells h a) \<Longrightarrow> owned h' x = owned h x \<and> val h' x = val h x"
    and fresh: "old h (owned h x) \<Longrightarrow> copy x h = (y, h') \<Longrightarrow>
      extends h h' \<and> fresh_in h h' (owned h' y) \<and> val h' y = val h x"
begin

lemma extended:
  assumes "old h (owned h x)" and "extends h h'"
  shows "owned h' x = owned h x" and "val h' x = val h x" and "old h' (owned h' x)"
proof -
  have "cells h' a = cells h a" if "a \<in> owned h x" for a
    using that assms by (auto simp: extends_def old_def)
  then have same: "owned h' x = owned h x \<and> val h' x = val h x" using frame by blast
  then show "owned h' x = owned h x" and "val h' x = val h x" by simp_all
  show "old h' (owned h' x)" using same old_extends [OF assms] by simp
qed

text \<open>A copy that is made later, and what happens after it, change nothing.\<close>

lemma later:
  assumes "old h0 (owned h0 x)" and "extends h0 h" and "copy x h = (y, h')" and "extends h' h''"
  shows "extends h h' \<and> fresh_in h h' (owned h'' y) \<and> val h'' y = val h0 x"
proof -
  have "extends h h' \<and> fresh_in h h' (owned h' y) \<and> val h' y = val h x"
    using fresh [of h x y h'] extended [OF assms(1,2)] assms(3) by blast
  moreover from this have "old h' (owned h' y)" using fresh_in_old by blast
  ultimately show ?thesis using extended [OF assms(1,2)] extended [OF _ assms(4), of y] by simp
qed

text \<open>Whatever is written into the copy, the original does not change.\<close>

lemma independent:
  assumes "old h (owned h x)" and "copy x h = (y, h')"
    and "\<And>a. a \<notin> owned h' y \<Longrightarrow> a < limit h' \<Longrightarrow> cells h'' a = cells h' a"
  shows "val h'' x = val h x \<and> owned h'' x = owned h x"
proof -
  have ok: "extends h h'" "fresh_in h h' (owned h' y)" using fresh [OF assms(1,2)] by auto
  have "cells h'' a = cells h a" if "a \<in> owned h x" for a
  proof -
    have "a < limit h" using that assms(1) by (simp add: old_def)
    moreover from this have "a \<notin> owned h' y" using ok(2) by (auto simp: fresh_in_def)
    ultimately show ?thesis using assms(3) ok(1) by (simp add: extends_def)
  qed
  then show ?thesis using frame [of h x h''] by simp
qed

end

text \<open>Deep copies of the parts give a deep copy of the whole.\<close>

named_theorems copying \<open>rules that build deep copies from those of the parts\<close>

lemma copyable_plain [copying]: "copyable copy_plain owned_plain value_plain"
  by unfold_locales (auto simp: copy_plain_def owned_plain_def value_plain_def)

lemma copyable_entry [copying]:
  assumes "copyable f owned val"
  shows "copyable (copy_entry f) (owned_entry owned) (value_entry val)"
  unfolding owned_entry_def value_entry_def
proof unfold_locales
  fix h h' :: "'b heap" and kv kv' :: "string \<times> 'a"
  assume "old h (owned h (snd kv))" and "copy_entry f kv h = (kv', h')"
  then show "extends h h' \<and> fresh_in h h' (owned h' (snd kv')) \<and>
      (fst kv', val h' (snd kv')) = (fst kv, val h (snd kv))"
    using copyable.fresh [OF assms, of h "snd kv" "snd kv'" h'] by (auto simp: copy_entry_def split: prod.splits)
qed (use copyable.frame [OF assms] in blast)

lemma copyable_pair [copying]:
  assumes f: "copyable f owned1 val1" and g: "copyable g owned2 val2"
  shows "copyable (copy_pair f g) (owned_pair owned1 owned2) (value_pair val1 val2)"
  unfolding owned_pair_def value_pair_def
proof unfold_locales
  fix h h' :: "'b heap" and xy :: "'a \<times> 'd"
  assume "\<And>a. a \<in> owned1 h (fst xy) \<union> owned2 h (snd xy) \<Longrightarrow> cells h' a = cells h a"
  then show "owned1 h' (fst xy) \<union> owned2 h' (snd xy) = owned1 h (fst xy) \<union> owned2 h (snd xy) \<and>
      (val1 h' (fst xy), val2 h' (snd xy)) = (val1 h (fst xy), val2 h (snd xy))"
    using copyable.frame [OF f, of h "fst xy" h'] copyable.frame [OF g, of h "snd xy" h'] by simp
next
  fix h h' :: "'b heap" and xy xy' :: "'a \<times> 'd"
  assume owned: "old h (owned1 h (fst xy) \<union> owned2 h (snd xy))" and copy: "copy_pair f g xy h = (xy', h')"
  obtain x h1 where x: "f (fst xy) h = (x, h1)" by fastforce
  obtain y where y: "g (snd xy) h1 = (y, h')" and xy': "xy' = (x, y)"
    using copy x by (auto simp: copy_pair_def split: prod.splits)
  have fx: "extends h h1" using copyable.fresh [OF f _ x] owned by simp
  have gy: "extends h1 h' \<and> fresh_in h1 h' (owned2 h' y) \<and> val2 h' y = val2 h (snd xy)"
    using copyable.later [OF g _ fx y, of h'] owned by simp
  moreover have "fresh_in h h1 (owned1 h' x) \<and> val1 h' x = val1 h (fst xy)"
    using copyable.later [OF f _ _ x, of h h'] owned gy by simp
  moreover have "fresh_in h h' (owned1 h' x)" "fresh_in h h' (owned2 h' y)"
    using calculation fresh_in_widen [of h1 h' "owned2 h' y" h h'] fresh_in_widen [of h h1 "owned1 h' x" h h'] fx
    by simp_all
  ultimately show "extends h h' \<and> fresh_in h h' (owned1 h' (fst xy') \<union> owned2 h' (snd xy')) \<and>
      (val1 h' (fst xy'), val2 h' (snd xy')) = (val1 h (fst xy), val2 h (snd xy))"
    using extends_trans [OF fx, of h'] unfolding xy' by simp
qed

text \<open>Two copies, made one after the other, share nothing, even if their originals do.\<close>

lemma copies_disjoint:
  assumes f: "copyable f owned1 val1" and g: "copyable g owned2 val2"
    and "old h0 (owned1 h0 x)" "old h0 (owned2 h0 y)" and "extends h0 h" "f x h = (x', h1)" "extends h1 h2" "g y h2 = (y', h3)" "extends h3 h4"
  shows "owned1 h4 x' \<inter> owned2 h4 y' = {}"
proof -
  have x: "extends h h1" using copyable.later [OF f assms(3,5,6) extends_refl] by simp
  then have 2: "extends h0 h2" using extends_trans assms(5,7) by blast
  have y: "extends h2 h3 \<and> fresh_in h2 h3 (owned2 h4 y')" using copyable.later [OF g assms(4) 2 assms(8,9)] by simp
  then have "extends h1 h4" using extends_trans assms(7,9) by blast
  then have "fresh_in h h1 (owned1 h4 x')" using copyable.later [OF f assms(3,5,6)] by simp
  moreover have "limit h1 \<le> limit h2" using assms(7) by (simp add: extends_def)
  ultimately show ?thesis using y by (fastforce simp: fresh_in_def)
qed

text \<open>A list is copied like a pair of its head and its tail.\<close>

lemma copyable_elements [copying]:
  assumes f: "copyable f owned val"
  shows "copyable (copy_elements f) (owned_elements owned) (value_elements val)"
  unfolding owned_elements_def value_elements_def
proof unfold_locales
  fix h h' :: "'b heap" and xs :: "'a list"
  assume "\<And>a. a \<in> (\<Union>x \<in> set xs. owned h x) \<Longrightarrow> cells h' a = cells h a"
  then have "owned h' x = owned h x \<and> val h' x = val h x" if "x \<in> set xs" for x
    using that by (intro copyable.frame [OF f]) blast
  then show "(\<Union>x \<in> set xs. owned h' x) = (\<Union>x \<in> set xs. owned h x) \<and> map (val h') xs = map (val h) xs" by simp
next
  fix h h' :: "'b heap" and xs ys :: "'a list"
  assume "old h (\<Union>x \<in> set xs. owned h x)" and "copy_elements f xs h = (ys, h')"
  then show "extends h h' \<and> fresh_in h h' (\<Union>y \<in> set ys. owned h' y) \<and> map (val h') ys = map (val h) xs"
  proof (induction xs arbitrary: h ys)
    case (Cons x xs)
    obtain y h1 where y: "f x h = (y, h1)" by fastforce
    obtain zs where zs: "copy_elements f xs h1 = (zs, h')" and ys: "ys = y # zs"
      using Cons.prems(2) y by (auto split: prod.splits)
    have fx: "extends h h1" using copyable.fresh [OF f _ y] Cons.prems(1) by simp
    have same: "\<forall>x \<in> set xs. owned h1 x = owned h x \<and> val h1 x = val h x"
      using copyable.extended [OF f _ fx] Cons.prems(1) by simp
    have "old h1 (\<Union>x \<in> set xs. owned h1 x)" using Cons.prems(1) same old_extends [OF _ fx] by simp
    from Cons.IH [OF this zs] have IH: "extends h1 h'" "fresh_in h1 h' (\<Union>y \<in> set zs. owned h' y)"
      "map (val h') zs = map (val h) xs" using same by auto
    moreover have "fresh_in h h1 (owned h' y) \<and> val h' y = val h x"
      using copyable.later [OF f _ _ y IH(1), of h] Cons.prems(1) by simp
    ultimately show ?case
      using extends_trans [OF fx IH(1)] ys fresh_in_widen [OF _ fx extends_refl] fresh_in_widen [OF _ extends_refl IH(1)]
      by simp
  qed simp
qed

lemma copyable_ref [copying]:
  assumes f: "copyable f owned val" and content: "\<And>y. content (build y) = y"
  shows "copyable (copy_ref content build f) (owned_ref content owned) (value_ref content val)"
proof unfold_locales
  fix h h' :: "'b heap" and x :: "addr option"
  assume same: "\<And>a. a \<in> owned_ref content owned h x \<Longrightarrow> cells h' a = cells h a"
  show "owned_ref content owned h' x = owned_ref content owned h x \<and> value_ref content val h' x = value_ref content val h x"
  proof (cases x)
    case (Some a)
    then have "load content h' a = load content h a" using same by (simp add: load_def)
    then show ?thesis using copyable.frame [OF f, of h "load content h a" h'] same Some by simp
  qed simp
next
  fix h h' :: "'b heap" and x y :: "addr option"
  assume owned: "old h (owned_ref content owned h x)" and copy: "copy_ref content build f x h = (y, h')"
  show "extends h h' \<and> fresh_in h h' (owned_ref content owned h' y) \<and>
      value_ref content val h' y = value_ref content val h x"
  proof (cases x)
    case None
    then show ?thesis using copy by simp
  next
    case (Some a)
    obtain v h1 where v: "f (load content h a) h = (v, h1)" by fastforce
    have y: "y = Some (limit h1)" and h': "alloc (build v) h1 = (limit h1, h')"
      using copy v Some by (auto simp: alloc_def)
    have c: "load content h' (limit h1) = v" and lim: "limit h' = Suc (limit h1)"
      using h' content by (auto simp: alloc_def load_def)
    have "extends h h1 \<and> fresh_in h h1 (owned h' v) \<and> val h' v = val h (load content h a)"
      using copyable.later [OF f _ _ v extends_alloc [OF h'], of h] owned Some by simp
    then show ?thesis
      using extends_trans [OF _ extends_alloc [OF h']] fresh_in_widen [OF _ extends_refl extends_alloc [OF h']] c lim y Some
      by (auto simp: extends_def)
  qed
qed

text \<open>A struct: \<open>refs\<close> are its references, \<open>put\<close> replaces them after the assignment of all fields.\<close>

lemma copyable_struct:
  assumes f: "copyable f owned val" and put: "\<And>s r. refs (put s r) = r" "\<And>s. put s (refs s) = s"
    and vals: "\<And>h h' s r. val h' r = val h (refs s) \<Longrightarrow> vals h' (put s r) = vals h s"
    and copy: "\<And>s h. copy s h = (let (r, h) = f (refs s) h in (put s r, h))"
    and owns: "\<And>h s. owns h s = owned h (refs s)"
  shows "copyable copy owns vals"
proof unfold_locales
  fix h h' :: "'b heap" and s
  assume "\<And>a. a \<in> owns h s \<Longrightarrow> cells h' a = cells h a"
  then have "owned h' (refs s) = owned h (refs s) \<and> val h' (refs s) = val h (refs s)"
    using copyable.frame [OF f, of h "refs s" h'] unfolding owns by blast
  then show "owns h' s = owns h s \<and> vals h' s = vals h s" using vals [of h' "refs s" h s] unfolding owns put by simp
next
  fix h h' :: "'b heap" and s s'
  assume "old h (owns h s)" and "copy s h = (s', h')"
  moreover obtain r h1 where r: "f (refs s) h = (r, h1)" by fastforce
  ultimately have "s' = put s r" "h1 = h'" "old h (owned h (refs s))" by (simp_all add: copy owns)
  then show "extends h h' \<and> fresh_in h h' (owns h' s') \<and> vals h' s' = vals h s"
    using copyable.fresh [OF f _ r] vals put(1) by (simp add: owns)
qed

text \<open>A coarser view of the value.\<close>

lemma copyable_view:
  assumes f: "copyable f owned val"
  shows "copyable f owned (\<lambda>h x. view (val h x))"
proof unfold_locales
  fix h h' :: "'b heap" and x
  assume "\<And>a. a \<in> owned h x \<Longrightarrow> cells h' a = cells h a"
  from copyable.frame [OF f this] show "owned h' x = owned h x \<and> view (val h' x) = view (val h x)" by simp
next
  fix h h' :: "'b heap" and x y
  assume "old h (owned h x)" and "f x h = (y, h')"
  from copyable.fresh [OF f this] show "extends h h' \<and> fresh_in h h' (owned h' y) \<and> view (val h' y) = view (val h x)" by simp
qed

section \<open>Slices, maps and pointers\<close>

text \<open>\<^verbatim>\<open>make\<close> and \<^verbatim>\<open>copy\<close>, or a loop over the elements or entries.\<close>

definition copy_slice :: "('c \<Rightarrow> 'a list) \<Rightarrow> ('a list \<Rightarrow> 'c) \<Rightarrow> ('a, 'c) copier \<Rightarrow> (addr option, 'c) copier" where
  "copy_slice content build into = copy_ref content build (copy_elements into)"

text \<open>A pointer: nil, or a new object into which \<open>into\<close> copies the old one.\<close>

definition copy_pointer :: "('c \<Rightarrow> 'a list) \<Rightarrow> ('a list \<Rightarrow> 'c) \<Rightarrow> ('a, 'c) copier \<Rightarrow> (addr option, 'c) copier" where
  "copy_pointer content build into = copy_ref (\<lambda>c. hd (content c)) (\<lambda>y. build [y]) into"

text \<open>What they reach, and their values; nil reads like an empty slice or map.\<close>

definition owned_slice :: "('c \<Rightarrow> 'a list) \<Rightarrow> ('c heap \<Rightarrow> 'a \<Rightarrow> addr set) \<Rightarrow> 'c heap \<Rightarrow> addr option \<Rightarrow> addr set" where
  "owned_slice content owned = owned_ref content (owned_elements owned)"

definition slice_at :: "('c \<Rightarrow> 'a list) \<Rightarrow> ('c heap \<Rightarrow> 'a \<Rightarrow> 'v) \<Rightarrow> 'c heap \<Rightarrow> addr option \<Rightarrow> 'v list" where
  "slice_at content val h x = (case x of None \<Rightarrow> [] | Some a \<Rightarrow> map (val h) (load content h a))"

definition map_at :: "('c \<Rightarrow> (string \<times> 'a) list) \<Rightarrow> ('c heap \<Rightarrow> 'a \<Rightarrow> 'v) \<Rightarrow> 'c heap \<Rightarrow> addr option \<Rightarrow> string \<rightharpoonup> 'v" where
  "map_at content val h x = map_of (slice_at content (value_entry val) h x)"

definition owned_pointer :: "('c \<Rightarrow> 'a list) \<Rightarrow> ('c heap \<Rightarrow> 'a \<Rightarrow> addr set) \<Rightarrow> 'c heap \<Rightarrow> addr option \<Rightarrow> addr set" where
  "owned_pointer content owned = owned_ref (\<lambda>c. hd (content c)) owned"

definition pointer_at :: "('c \<Rightarrow> 'a list) \<Rightarrow> ('c heap \<Rightarrow> 'a \<Rightarrow> 'v) \<Rightarrow> 'c heap \<Rightarrow> addr option \<Rightarrow> 'v option" where
  "pointer_at content val h x = (case x of None \<Rightarrow> None | Some a \<Rightarrow> Some (val h (hd (load content h a))))"

lemma copyable_slice [copying]:
  assumes "copyable into owned val" and "\<And>xs. content (build xs) = xs"
  shows "copyable (copy_slice content build into) (owned_slice content owned) (slice_at content val)"
proof -
  let ?list = "\<lambda>v. case v of None \<Rightarrow> [] | Some xs \<Rightarrow> xs"
  have "slice_at content val = (\<lambda>h x. ?list (value_ref content (value_elements val) h x))"
    by (auto simp: slice_at_def fun_eq_iff value_elements_def split: option.splits)
  then show ?thesis
    unfolding copy_slice_def owned_slice_def
    using copyable_view [OF copyable_ref [OF copyable_elements [OF assms(1)], of content build], of ?list] assms(2)
    by simp
qed

lemma copyable_map [copying]:
  assumes "copyable into owned val" and "\<And>xs. content (build xs) = xs"
  shows "copyable (copy_slice content build (copy_entry into)) (owned_slice content (owned_entry owned)) (map_at content val)"
proof -
  have "map_at content val = (\<lambda>h x. map_of (slice_at content (value_entry val) h x))"
    by (simp add: map_at_def fun_eq_iff)
  then show ?thesis
    using copyable_view [OF copyable_slice [OF copyable_entry [OF assms(1)], of content build], of map_of] assms(2) by simp
qed

lemma copyable_pointer [copying]:
  assumes "copyable into owned val" and "\<And>xs. content (build xs) = xs"
  shows "copyable (copy_pointer content build into) (owned_pointer content owned) (pointer_at content val)"
proof -
  have "pointer_at content val = value_ref (\<lambda>c. hd (content c)) val"
    by (auto simp: pointer_at_def load_def fun_eq_iff split: option.splits)
  then show ?thesis
    unfolding copy_pointer_def owned_pointer_def using assms by (auto intro!: copyable_ref)
qed

text \<open>Nil stays nil, and nothing else becomes nil.\<close>

lemma copy_slice_nil: "copy_slice content build into x h = (y, h') \<Longrightarrow> y = None \<longleftrightarrow> x = None"
  by (cases x) (auto simp: copy_slice_def split: prod.splits)

end
