(* ===== verification/Object_Memory.thy ===== *)
theory Object_Memory
  imports Go_Heap Registry_Types
begin

text \<open>
  The custom resources as they lie in memory: the structs of Registry_Types with the slices, maps
  and pointers as references into the heap of Go_Heap.  Structs without references are those of
  Registry_Types.
\<close>

section \<open>Metadata of the Kubernetes library\<close>

record TypeMeta =
  type_Kind :: string
  type_APIVersion :: string

record mem_ObjectMeta =
  mmeta_Name :: string
  mmeta_Namespace :: string
  mmeta_Labels :: "addr option"
  mmeta_Annotations :: "addr option"
  mmeta_ResourceVersion :: string
  mmeta_ManagedFields :: "addr option"
  mmeta_DeletionTimestamp :: "addr option"

record mem_ListMeta =
  mlist_ResourceVersion :: string
  mlist_Continue :: string
  mlist_RemainingItemCount :: "addr option"

record mem_Requirement =
  mreq_Key :: string
  mreq_Operator :: string
  mreq_Values :: "addr option"

record mem_LabelSelector =
  msel_MatchLabels :: "addr option"
  msel_MatchExpressions :: "addr option"

section \<open>The Cluster resource\<close>

record mem_AllowedOnboardingTeam =
  mteam_Name :: string
  mteam_GitTeams :: "addr option"
  mteam_LdapGroups :: "addr option"

record mem_Extra =
  mextra_DomainName :: string
  mextra_LbEndpoints :: "addr option"
  mextra_LoggingEndpoints :: "addr option"
  mextra_EcrIamArns :: "addr option"
  mextra_EgressPorts :: string
  mextra_NFSInfo :: "addr option"
  mextra_ExtendedRegion :: string
  mextra_OidcIssuer :: string
  mextra_NamespaceProfileInfraType :: string

record mem_Tier =
  mtier_Name :: string
  mtier_InstanceType :: string
  mtier_ContainerRuntime :: string
  mtier_MinCapacity :: int
  mtier_MaxCapacity :: int
  mtier_Labels :: "addr option"
  mtier_Taints :: "addr option"
  mtier_EnableKataSupport :: bool
  mtier_KernelParameters :: "addr option"

record mem_VirtualNetwork =
  mvnet_ID :: string
  mvnet_Cidrs :: "addr option"

record mem_PeerVirtualNetwork =
  mpeer_ID :: string
  mpeer_Cidrs :: "addr option"
  mpeer_OwnerID :: string

record mem_ClusterSpec =
  ms_Name :: string
  ms_ShortName :: string
  ms_APIServer :: APIServer
  ms_Region :: string
  ms_CloudType :: string
  ms_CloudProviderRegion :: string
  ms_Environment :: string
  ms_BusinessUnit :: string
  ms_ChargebackBusinessUnit :: string
  ms_ChargedBack :: "addr option"
  ms_ManagingOrg :: string
  ms_Offering :: "addr option"
  ms_AccountID :: string
  ms_Tiers :: "addr option"
  ms_VirtualNetworks :: "addr option"
  ms_RegisteredAt :: string
  ms_Status :: string
  ms_Phase :: string
  ms_MaintenanceGroup :: string
  ms_ArgoInstance :: string
  ms_Type :: string
  ms_Extra :: mem_Extra
  ms_AllowedOnboardingTeams :: "addr option"
  ms_Capabilities :: "addr option"
  ms_PeerVirtualNetworks :: "addr option"
  ms_LastUpdated :: string
  ms_Tags :: "addr option"
  ms_Capacity :: Capacity
  ms_ServiceMetadata :: "addr option"
  ms_AvailabilityZones :: "addr option"

text \<open>\<^verbatim>\<open>ClusterStatus\<close> has no fields.\<close>

type_synonym ClusterStatus = unit

record mem_Cluster =
  mc_TypeMeta :: TypeMeta
  mc_ObjectMeta :: mem_ObjectMeta
  mc_Spec :: mem_ClusterSpec
  mc_Status :: ClusterStatus

record mem_ClusterList =
  ml_TypeMeta :: TypeMeta
  ml_ListMeta :: mem_ListMeta
  ml_Items :: "addr option"

section \<open>ClusterSync and ServiceMetadataWatcher\<close>

record mem_WatchedResource =
  mwr_Kind :: string
  mwr_APIVersion :: string
  mwr_Namespace :: string
  mwr_Name :: string
  mwr_LabelSelector :: "addr option"

record mem_ClusterSyncSpec =
  mcss_WatchedResources :: "addr option"
  mcss_InitialData :: string

record mem_ClusterSyncStatus =
  msst_LastSyncTime :: "addr option"
  msst_LastSyncStatus :: "addr option"
  msst_LastSyncError :: "addr option"
  msst_SyncedData :: "addr option"
  msst_SyncedDataHash :: "addr option"

record mem_ClusterSync =
  msync_TypeMeta :: TypeMeta
  msync_ObjectMeta :: mem_ObjectMeta
  msync_Spec :: mem_ClusterSyncSpec
  msync_Status :: mem_ClusterSyncStatus

record mem_ClusterSyncList =
  msyncs_TypeMeta :: TypeMeta
  msyncs_ListMeta :: mem_ListMeta
  msyncs_Items :: "addr option"

record mem_WatchedServiceObject =
  mwso_ObjectReference :: ObjectReference
  mwso_WatchedFields :: "addr option"

record mem_WatchedServiceObjectStatus =
  mwos_LastUpdated :: timestamp
  mwos_ObjectReference :: ObjectReference
  mwos_Errors :: "addr option"

record mem_ServiceMetadataWatcherSpec =
  msmws_WatchedServiceObjects :: "addr option"

record mem_ServiceMetadataWatcherStatus =
  msmwt_WatchedServiceObjects :: "addr option"

record mem_ServiceMetadataWatcher =
  msmw_TypeMeta :: TypeMeta
  msmw_ObjectMeta :: mem_ObjectMeta
  msmw_Spec :: mem_ServiceMetadataWatcherSpec
  msmw_Status :: mem_ServiceMetadataWatcherStatus

record mem_ServiceMetadataWatcherList =
  msmwl_TypeMeta :: TypeMeta
  msmwl_ListMeta :: mem_ListMeta
  msmwl_Items :: "addr option"

section \<open>Cells\<close>

text \<open>
  The elements of a slice or the entries of a map, in the order in which a loop visits them; a
  single object is a cell with one element.  \<open>Refs\<close> is a slice and \<open>RefMap\<close> a map of references.
\<close>

datatype (plugins only: code) cell =
    Strings (strings: "string list")
  | Bools (bools: "bool list")
  | Ints (ints: "int list")
  | Times (times: "timestamp list")
  | StringMap (string_map: "(string \<times> string) list")
  | Refs (refs: "addr option list")
  | RefMap (ref_map: "(string \<times> addr option) list")
  | Requirements (requirements: "mem_Requirement list")
  | LabelSelectors (selectors: "mem_LabelSelector list")
  | APIServers (apiservers: "APIServer list")
  | Capacities (capacities: "Capacity list")
  | AvailabilityZones (zones: "AvailabilityZone list")
  | Teams (teams: "mem_AllowedOnboardingTeam list")
  | Extras (extras: "mem_Extra list")
  | Tiers (tiers: "mem_Tier list")
  | VirtualNetworks (vnets: "mem_VirtualNetwork list")
  | PeerVirtualNetworks (peers: "mem_PeerVirtualNetwork list")
  | ClusterSpecs (specs: "mem_ClusterSpec list")
  | ClusterStatuses (statuses: "ClusterStatus list")
  | Clusters (clusters: "mem_Cluster list")
  | ClusterLists (cluster_lists: "mem_ClusterList list")
  | WatchedResources (watched: "mem_WatchedResource list")
  | ClusterSyncSpecs (sync_specs: "mem_ClusterSyncSpec list")
  | ClusterSyncStatuses (sync_statuses: "mem_ClusterSyncStatus list")
  | ClusterSyncs (syncs: "mem_ClusterSync list")
  | ClusterSyncLists (sync_lists: "mem_ClusterSyncList list")
  | ObjectReferences (obj_refs: "ObjectReference list")
  | WatchedFields (wfields: "WatchedField list")
  | WatchedServiceObjects (wobjects: "mem_WatchedServiceObject list")
  | WatchedServiceObjectStatuses (wstatuses: "mem_WatchedServiceObjectStatus list")
  | WatcherSpecs (watcher_specs: "mem_ServiceMetadataWatcherSpec list")
  | WatcherStatuses (watcher_statuses: "mem_ServiceMetadataWatcherStatus list")
  | Watchers (watchers: "mem_ServiceMetadataWatcher list")
  | WatcherLists (watcher_lists: "mem_ServiceMetadataWatcherList list")

end
