(* ===== verification/Deep_Copy.thy ===== *)
theory Deep_Copy
  imports Object_Memory
begin

text \<open>
  The generated deep copies of the custom resources (zz_generated.deepcopy.go of
  pkg/api/registry/v1 and pkg/api/registry/v1alpha1).  \<^verbatim>\<open>DeepCopyInto\<close> of a type first assigns all
  fields and then replaces the references by copies; \<^verbatim>\<open>DeepCopy\<close> does it into a new object.  The
  copies of the metadata are those of the Kubernetes library, a record of functions with the contract
  of a deep copy.
\<close>

section \<open>Texts and maps of texts\<close>

lemma plain_in_cell: "copyable (copy_plain :: ('a, cell) copier) owned_plain value_plain"
  by (rule copyable_plain)

definition copy_strings :: "(addr option, cell) copier" where
  "copy_strings = copy_slice strings Strings copy_plain"

definition copy_map :: "(addr option, cell) copier" where
  "copy_map = copy_slice string_map StringMap (copy_entry copy_plain)"

text \<open>\<^verbatim>\<open>[]map[string]string\<close>, \<^verbatim>\<open>map[string][]string\<close>, \<^verbatim>\<open>ServiceMetadataItem\<close> and \<^verbatim>\<open>ServiceMetadata\<close>.\<close>

definition copy_maps :: "(addr option, cell) copier" where
  "copy_maps = copy_slice refs Refs copy_map"

definition copy_strings_map :: "(addr option, cell) copier" where
  "copy_strings_map = copy_slice ref_map RefMap (copy_entry copy_strings)"

definition copy_item :: "(addr option, cell) copier" where
  "copy_item = copy_slice ref_map RefMap (copy_entry copy_map)"

definition copy_metadata :: "(addr option, cell) copier" where
  "copy_metadata = copy_slice ref_map RefMap (copy_entry copy_item)"

abbreviation owned_strings :: "cell heap \<Rightarrow> addr option \<Rightarrow> addr set" where
  "owned_strings \<equiv> owned_slice strings owned_plain"

abbreviation strings_at :: "cell heap \<Rightarrow> addr option \<Rightarrow> string list" where
  "strings_at \<equiv> slice_at strings value_plain"

abbreviation owned_map :: "cell heap \<Rightarrow> addr option \<Rightarrow> addr set" where
  "owned_map \<equiv> owned_slice string_map (owned_entry owned_plain)"

abbreviation str_map_at :: "cell heap \<Rightarrow> addr option \<Rightarrow> str_map" where
  "str_map_at \<equiv> map_at string_map value_plain"

abbreviation owned_maps :: "cell heap \<Rightarrow> addr option \<Rightarrow> addr set" where
  "owned_maps \<equiv> owned_slice refs owned_map"

abbreviation owned_strings_map :: "cell heap \<Rightarrow> addr option \<Rightarrow> addr set" where
  "owned_strings_map \<equiv> owned_slice ref_map (owned_entry owned_strings)"

abbreviation owned_item :: "cell heap \<Rightarrow> addr option \<Rightarrow> addr set" where
  "owned_item \<equiv> owned_slice ref_map (owned_entry owned_map)"

abbreviation owned_metadata :: "cell heap \<Rightarrow> addr option \<Rightarrow> addr set" where
  "owned_metadata \<equiv> owned_slice ref_map (owned_entry owned_item)"

lemma copyable_strings [copying]: "copyable copy_strings owned_strings strings_at"
  unfolding copy_strings_def by (intro copying) simp

lemma copyable_str_map [copying]: "copyable copy_map owned_map str_map_at"
  unfolding copy_map_def by (intro copyable_map copyable_plain) simp

lemma copyable_maps [copying]: "copyable copy_maps owned_maps (slice_at refs str_map_at)"
  unfolding copy_maps_def by (intro copyable_slice copyable_str_map) simp

lemma copyable_strings_map [copying]: "copyable copy_strings_map owned_strings_map (map_at ref_map strings_at)"
  unfolding copy_strings_map_def by (intro copyable_map copyable_strings) simp

lemma copyable_item [copying]: "copyable copy_item owned_item (map_at ref_map str_map_at)"
  unfolding copy_item_def by (intro copyable_map copyable_str_map) simp

lemma copyable_metadata [copying]: "copyable copy_metadata owned_metadata (map_at ref_map (map_at ref_map str_map_at))"
  unfolding copy_metadata_def by (intro copyable_map copyable_item) simp

section \<open>The parts of a cluster\<close>

definition APIServer_DeepCopyInto :: "(APIServer, cell) copier" where
  "APIServer_DeepCopyInto = copy_plain"

definition AvailabilityZone_DeepCopyInto :: "(AvailabilityZone, cell) copier" where
  "AvailabilityZone_DeepCopyInto = copy_plain"

definition Capacity_DeepCopyInto :: "(Capacity, cell) copier" where
  "Capacity_DeepCopyInto = copy_plain"

definition ClusterStatus_DeepCopyInto :: "(ClusterStatus, cell) copier" where
  "ClusterStatus_DeepCopyInto = copy_plain"

definition AllowedOnboardingTeam_DeepCopyInto :: "(mem_AllowedOnboardingTeam, cell) copier" where
  "AllowedOnboardingTeam_DeepCopyInto src h =
     (let out = src;
          (gitTeams, h) = copy_strings (mteam_GitTeams src) h; out = out\<lparr>mteam_GitTeams := gitTeams\<rparr>;
          (ldapGroups, h) = copy_strings (mteam_LdapGroups src) h; out = out\<lparr>mteam_LdapGroups := ldapGroups\<rparr>
      in (out, h))"

definition Extra_DeepCopyInto :: "(mem_Extra, cell) copier" where
  "Extra_DeepCopyInto src h =
     (let out = src;
          (lbEndpoints, h) = copy_map (mextra_LbEndpoints src) h; out = out\<lparr>mextra_LbEndpoints := lbEndpoints\<rparr>;
          (loggingEndpoints, h) = copy_maps (mextra_LoggingEndpoints src) h; out = out\<lparr>mextra_LoggingEndpoints := loggingEndpoints\<rparr>;
          (ecrIamArns, h) = copy_strings_map (mextra_EcrIamArns src) h; out = out\<lparr>mextra_EcrIamArns := ecrIamArns\<rparr>;
          (nfsInfo, h) = copy_maps (mextra_NFSInfo src) h; out = out\<lparr>mextra_NFSInfo := nfsInfo\<rparr>
      in (out, h))"

definition Tier_DeepCopyInto :: "(mem_Tier, cell) copier" where
  "Tier_DeepCopyInto src h =
     (let out = src;
          (labels, h) = copy_map (mtier_Labels src) h; out = out\<lparr>mtier_Labels := labels\<rparr>;
          (taints, h) = copy_strings (mtier_Taints src) h; out = out\<lparr>mtier_Taints := taints\<rparr>;
          (kernelParameters, h) = copy_map (mtier_KernelParameters src) h; out = out\<lparr>mtier_KernelParameters := kernelParameters\<rparr>
      in (out, h))"

definition VirtualNetwork_DeepCopyInto :: "(mem_VirtualNetwork, cell) copier" where
  "VirtualNetwork_DeepCopyInto src h =
     (let out = src; (cidrs, h) = copy_strings (mvnet_Cidrs src) h; out = out\<lparr>mvnet_Cidrs := cidrs\<rparr> in (out, h))"

definition PeerVirtualNetwork_DeepCopyInto :: "(mem_PeerVirtualNetwork, cell) copier" where
  "PeerVirtualNetwork_DeepCopyInto src h =
     (let out = src; (cidrs, h) = copy_strings (mpeer_Cidrs src) h; out = out\<lparr>mpeer_Cidrs := cidrs\<rparr> in (out, h))"

text \<open>
  The map types have values as receivers, for which \<^verbatim>\<open>DeepCopyInto\<close> makes a new map even of nil;
  \<^verbatim>\<open>DeepCopy\<close> keeps nil.
\<close>

definition entries_of :: "(cell \<Rightarrow> 'a list) \<Rightarrow> cell heap \<Rightarrow> addr option \<Rightarrow> 'a list" where
  "entries_of content h x = (case x of None \<Rightarrow> [] | Some a \<Rightarrow> load content h a)"

definition copy_into_map :: "(cell \<Rightarrow> 'a list) \<Rightarrow> ('a list \<Rightarrow> cell) \<Rightarrow> ('a, cell) copier \<Rightarrow> (addr option, cell) copier" where
  "copy_into_map content build into x h =
     (let (ys, h) = copy_elements into (entries_of content h x) h; (b, h) = alloc (build ys) h in (Some b, h))"

definition ServiceMetadataMap_DeepCopyInto :: "(addr option, cell) copier" where
  "ServiceMetadataMap_DeepCopyInto = copy_into_map string_map StringMap (copy_entry copy_plain)"

definition ServiceMetadataItem_DeepCopyInto :: "(addr option, cell) copier" where
  "ServiceMetadataItem_DeepCopyInto = copy_into_map ref_map RefMap (copy_entry copy_map)"

definition ServiceMetadata_DeepCopyInto :: "(addr option, cell) copier" where
  "ServiceMetadata_DeepCopyInto = copy_into_map ref_map RefMap (copy_entry copy_item)"

definition deep_copy_map :: "(addr option, cell) copier \<Rightarrow> (addr option, cell) copier" where
  "deep_copy_map into x h = (if x = None then (None, h) else into x h)"

definition ServiceMetadataMap_DeepCopy :: "(addr option, cell) copier" where
  "ServiceMetadataMap_DeepCopy = deep_copy_map ServiceMetadataMap_DeepCopyInto"

definition ServiceMetadataItem_DeepCopy :: "(addr option, cell) copier" where
  "ServiceMetadataItem_DeepCopy = deep_copy_map ServiceMetadataItem_DeepCopyInto"

definition ServiceMetadata_DeepCopy :: "(addr option, cell) copier" where
  "ServiceMetadata_DeepCopy = deep_copy_map ServiceMetadata_DeepCopyInto"

text \<open>The copy that the field of a specification gets is the one of the map type.\<close>

lemma deep_copy_map_slice: "deep_copy_map (copy_into_map content build into) = copy_slice content build into"
proof (intro ext)
  fix x h
  show "deep_copy_map (copy_into_map content build into) x h = copy_slice content build into x h"
    by (cases x) (simp_all add: deep_copy_map_def copy_into_map_def copy_slice_def entries_of_def)
qed

lemma map_types_DeepCopy:
  "ServiceMetadataMap_DeepCopy = copy_map" "ServiceMetadataItem_DeepCopy = copy_item" "ServiceMetadata_DeepCopy = copy_metadata"
  by (simp_all add: ServiceMetadataMap_DeepCopy_def ServiceMetadataItem_DeepCopy_def ServiceMetadata_DeepCopy_def
      ServiceMetadataMap_DeepCopyInto_def ServiceMetadataItem_DeepCopyInto_def ServiceMetadata_DeepCopyInto_def
      deep_copy_map_slice copy_map_def copy_item_def copy_metadata_def)

text \<open>What the parts reach, and their values in the sense of Registry_Types.\<close>

definition owned_Team :: "cell heap \<Rightarrow> mem_AllowedOnboardingTeam \<Rightarrow> addr set" where
  "owned_Team h t = owned_strings h (mteam_GitTeams t) \<union> owned_strings h (mteam_LdapGroups t)"

definition Team_at :: "cell heap \<Rightarrow> mem_AllowedOnboardingTeam \<Rightarrow> AllowedOnboardingTeam" where
  "Team_at h t = \<lparr>team_Name = mteam_Name t, team_GitTeams = strings_at h (mteam_GitTeams t),
     team_LdapGroups = strings_at h (mteam_LdapGroups t)\<rparr>"

definition owned_Extra :: "cell heap \<Rightarrow> mem_Extra \<Rightarrow> addr set" where
  "owned_Extra h e = owned_map h (mextra_LbEndpoints e) \<union> (owned_maps h (mextra_LoggingEndpoints e) \<union>
     (owned_strings_map h (mextra_EcrIamArns e) \<union> owned_maps h (mextra_NFSInfo e)))"

definition Extra_at :: "cell heap \<Rightarrow> mem_Extra \<Rightarrow> Extra" where
  "Extra_at h e = \<lparr>extra_DomainName = mextra_DomainName e, extra_LbEndpoints = str_map_at h (mextra_LbEndpoints e),
     extra_LoggingEndpoints = slice_at refs str_map_at h (mextra_LoggingEndpoints e),
     extra_EcrIamArns = map_at ref_map strings_at h (mextra_EcrIamArns e), extra_EgressPorts = mextra_EgressPorts e,
     extra_NFSInfo = slice_at refs str_map_at h (mextra_NFSInfo e), extra_ExtendedRegion = mextra_ExtendedRegion e,
     extra_OidcIssuer = mextra_OidcIssuer e, extra_NamespaceProfileInfraType = mextra_NamespaceProfileInfraType e\<rparr>"

definition owned_Tier :: "cell heap \<Rightarrow> mem_Tier \<Rightarrow> addr set" where
  "owned_Tier h t = owned_map h (mtier_Labels t) \<union> (owned_strings h (mtier_Taints t) \<union> owned_map h (mtier_KernelParameters t))"

definition Tier_at :: "cell heap \<Rightarrow> mem_Tier \<Rightarrow> Tier" where
  "Tier_at h t = \<lparr>tier_Name = mtier_Name t, tier_InstanceType = mtier_InstanceType t, tier_ContainerRuntime = mtier_ContainerRuntime t,
     tier_MinCapacity = mtier_MinCapacity t, tier_MaxCapacity = mtier_MaxCapacity t, tier_Labels = str_map_at h (mtier_Labels t),
     tier_Taints = strings_at h (mtier_Taints t), tier_EnableKataSupport = mtier_EnableKataSupport t,
     tier_KernelParameters = str_map_at h (mtier_KernelParameters t)\<rparr>"

definition owned_VirtualNetwork :: "cell heap \<Rightarrow> mem_VirtualNetwork \<Rightarrow> addr set" where
  "owned_VirtualNetwork h v = owned_strings h (mvnet_Cidrs v)"

definition VirtualNetwork_at :: "cell heap \<Rightarrow> mem_VirtualNetwork \<Rightarrow> VirtualNetwork" where
  "VirtualNetwork_at h v = \<lparr>vnet_ID = mvnet_ID v, vnet_Cidrs = strings_at h (mvnet_Cidrs v)\<rparr>"

definition owned_PeerVirtualNetwork :: "cell heap \<Rightarrow> mem_PeerVirtualNetwork \<Rightarrow> addr set" where
  "owned_PeerVirtualNetwork h v = owned_strings h (mpeer_Cidrs v)"

definition PeerVirtualNetwork_at :: "cell heap \<Rightarrow> mem_PeerVirtualNetwork \<Rightarrow> PeerVirtualNetwork" where
  "PeerVirtualNetwork_at h v = \<lparr>peer_ID = mpeer_ID v, peer_Cidrs = strings_at h (mpeer_Cidrs v), peer_OwnerID = mpeer_OwnerID v\<rparr>"

lemma copyable_Team [copying]: "copyable AllowedOnboardingTeam_DeepCopyInto owned_Team Team_at"
  by (rule copyable_struct [OF copyable_pair [OF copyable_strings copyable_strings],
        where refs = "\<lambda>t. (mteam_GitTeams t, mteam_LdapGroups t)" and put = "\<lambda>t (g, l). t\<lparr>mteam_GitTeams := g, mteam_LdapGroups := l\<rparr>"])
    (auto simp: AllowedOnboardingTeam_DeepCopyInto_def owned_Team_def Team_at_def copy_pair_def owned_pair_def value_pair_def split: prod.splits)

lemma copyable_Extra [copying]: "copyable Extra_DeepCopyInto owned_Extra Extra_at"
  by (rule copyable_struct [OF copyable_pair [OF copyable_str_map copyable_pair [OF copyable_maps copyable_pair [OF copyable_strings_map copyable_maps]]],
        where refs = "\<lambda>e. (mextra_LbEndpoints e, mextra_LoggingEndpoints e, mextra_EcrIamArns e, mextra_NFSInfo e)"
          and put = "\<lambda>e (lb, le, ea, nf). e\<lparr>mextra_LbEndpoints := lb, mextra_LoggingEndpoints := le, mextra_EcrIamArns := ea, mextra_NFSInfo := nf\<rparr>"])
    (auto simp: Extra_DeepCopyInto_def owned_Extra_def Extra_at_def copy_pair_def owned_pair_def value_pair_def split: prod.splits)

lemma copyable_Tier [copying]: "copyable Tier_DeepCopyInto owned_Tier Tier_at"
  by (rule copyable_struct [OF copyable_pair [OF copyable_str_map copyable_pair [OF copyable_strings copyable_str_map]],
        where refs = "\<lambda>t. (mtier_Labels t, mtier_Taints t, mtier_KernelParameters t)"
          and put = "\<lambda>t (l, ta, k). t\<lparr>mtier_Labels := l, mtier_Taints := ta, mtier_KernelParameters := k\<rparr>"])
    (auto simp: Tier_DeepCopyInto_def owned_Tier_def Tier_at_def copy_pair_def owned_pair_def value_pair_def split: prod.splits)

lemma copyable_VirtualNetwork [copying]: "copyable VirtualNetwork_DeepCopyInto owned_VirtualNetwork VirtualNetwork_at"
  by (rule copyable_struct [OF copyable_strings, where refs = mvnet_Cidrs and put = "\<lambda>v c. v\<lparr>mvnet_Cidrs := c\<rparr>"])
    (auto simp: VirtualNetwork_DeepCopyInto_def owned_VirtualNetwork_def VirtualNetwork_at_def split: prod.splits)

lemma copyable_PeerVirtualNetwork [copying]: "copyable PeerVirtualNetwork_DeepCopyInto owned_PeerVirtualNetwork PeerVirtualNetwork_at"
  by (rule copyable_struct [OF copyable_strings, where refs = mpeer_Cidrs and put = "\<lambda>v c. v\<lparr>mpeer_Cidrs := c\<rparr>"])
    (auto simp: PeerVirtualNetwork_DeepCopyInto_def owned_PeerVirtualNetwork_def PeerVirtualNetwork_at_def split: prod.splits)

section \<open>The specification of a cluster\<close>

definition ClusterSpec_DeepCopyInto :: "(mem_ClusterSpec, cell) copier" where
  "ClusterSpec_DeepCopyInto src h =
     (let out = src; out = out\<lparr>ms_APIServer := ms_APIServer src\<rparr>;
          (chargedBack, h) = copy_pointer bools Bools copy_plain (ms_ChargedBack src) h; out = out\<lparr>ms_ChargedBack := chargedBack\<rparr>;
          (offering, h) = copy_strings (ms_Offering src) h; out = out\<lparr>ms_Offering := offering\<rparr>;
          (tiers, h) = copy_slice tiers Tiers Tier_DeepCopyInto (ms_Tiers src) h; out = out\<lparr>ms_Tiers := tiers\<rparr>;
          (virtualNetworks, h) = copy_slice vnets VirtualNetworks VirtualNetwork_DeepCopyInto (ms_VirtualNetworks src) h; out = out\<lparr>ms_VirtualNetworks := virtualNetworks\<rparr>;
          (extra, h) = Extra_DeepCopyInto (ms_Extra src) h; out = out\<lparr>ms_Extra := extra\<rparr>;
          (allowedOnboardingTeams, h) = copy_slice teams Teams AllowedOnboardingTeam_DeepCopyInto (ms_AllowedOnboardingTeams src) h; out = out\<lparr>ms_AllowedOnboardingTeams := allowedOnboardingTeams\<rparr>;
          (capabilities, h) = copy_strings (ms_Capabilities src) h; out = out\<lparr>ms_Capabilities := capabilities\<rparr>;
          (peerVirtualNetworks, h) = copy_slice peers PeerVirtualNetworks PeerVirtualNetwork_DeepCopyInto (ms_PeerVirtualNetworks src) h; out = out\<lparr>ms_PeerVirtualNetworks := peerVirtualNetworks\<rparr>;
          (tags, h) = copy_map (ms_Tags src) h; out = out\<lparr>ms_Tags := tags\<rparr>;
          out = out\<lparr>ms_Capacity := ms_Capacity src\<rparr>;
          (serviceMetadata, h) = copy_metadata (ms_ServiceMetadata src) h; out = out\<lparr>ms_ServiceMetadata := serviceMetadata\<rparr>;
          (availabilityZones, h) = copy_slice zones AvailabilityZones copy_plain (ms_AvailabilityZones src) h; out = out\<lparr>ms_AvailabilityZones := availabilityZones\<rparr>
      in (out, h))"

definition owned_ClusterSpec :: "cell heap \<Rightarrow> mem_ClusterSpec \<Rightarrow> addr set" where
  "owned_ClusterSpec h s = owned_pointer bools owned_plain h (ms_ChargedBack s) \<union>
     (owned_strings h (ms_Offering s) \<union>
     (owned_slice tiers owned_Tier h (ms_Tiers s) \<union>
     (owned_slice vnets owned_VirtualNetwork h (ms_VirtualNetworks s) \<union>
     (owned_Extra h (ms_Extra s) \<union>
     (owned_slice teams owned_Team h (ms_AllowedOnboardingTeams s) \<union>
     (owned_strings h (ms_Capabilities s) \<union>
     (owned_slice peers owned_PeerVirtualNetwork h (ms_PeerVirtualNetworks s) \<union>
     (owned_map h (ms_Tags s) \<union>
     (owned_metadata h (ms_ServiceMetadata s) \<union>
     (owned_slice zones owned_plain h (ms_AvailabilityZones s)))))))))))"

definition ClusterSpec_at :: "cell heap \<Rightarrow> mem_ClusterSpec \<Rightarrow> ClusterSpec" where
  "ClusterSpec_at h s = \<lparr>
     cs_Name = ms_Name s, cs_ShortName = ms_ShortName s, cs_APIServer = ms_APIServer s, cs_Region = ms_Region s,
     cs_CloudType = ms_CloudType s, cs_CloudProviderRegion = ms_CloudProviderRegion s,
     cs_Environment = ms_Environment s, cs_BusinessUnit = ms_BusinessUnit s,
     cs_ChargebackBusinessUnit = ms_ChargebackBusinessUnit s,
     cs_ChargedBack = pointer_at bools value_plain h (ms_ChargedBack s), cs_ManagingOrg = ms_ManagingOrg s,
     cs_Offering = strings_at h (ms_Offering s), cs_AccountID = ms_AccountID s,
     cs_Tiers = slice_at tiers Tier_at h (ms_Tiers s),
     cs_VirtualNetworks = slice_at vnets VirtualNetwork_at h (ms_VirtualNetworks s),
     cs_RegisteredAt = ms_RegisteredAt s, cs_Status = ms_Status s, cs_Phase = ms_Phase s,
     cs_MaintenanceGroup = ms_MaintenanceGroup s, cs_ArgoInstance = ms_ArgoInstance s, cs_Type = ms_Type s,
     cs_Extra = Extra_at h (ms_Extra s),
     cs_AllowedOnboardingTeams = slice_at teams Team_at h (ms_AllowedOnboardingTeams s),
     cs_Capabilities = strings_at h (ms_Capabilities s),
     cs_PeerVirtualNetworks = slice_at peers PeerVirtualNetwork_at h (ms_PeerVirtualNetworks s),
     cs_LastUpdated = ms_LastUpdated s, cs_Tags = str_map_at h (ms_Tags s), cs_Capacity = ms_Capacity s,
     cs_ServiceMetadata = map_at ref_map (map_at ref_map str_map_at) h (ms_ServiceMetadata s),
     cs_AvailabilityZones = slice_at zones value_plain h (ms_AvailabilityZones s)\<rparr>"

lemma copyable_ClusterSpec [copying]: "copyable ClusterSpec_DeepCopyInto owned_ClusterSpec ClusterSpec_at"
  by (rule copyable_struct [OF copyable_pair [OF copyable_pointer [OF plain_in_cell cell.sel(2)] copyable_pair [OF copyable_strings copyable_pair
        [OF copyable_slice [OF copyable_Tier cell.sel(15)] copyable_pair [OF copyable_slice [OF copyable_VirtualNetwork
        cell.sel(16)] copyable_pair [OF copyable_Extra copyable_pair [OF copyable_slice [OF copyable_Team cell.sel(13)]
        copyable_pair [OF copyable_strings copyable_pair [OF copyable_slice [OF copyable_PeerVirtualNetwork cell.sel(17)]
        copyable_pair [OF copyable_str_map copyable_pair [OF copyable_metadata copyable_slice [OF plain_in_cell
        cell.sel(12)]]]]]]]]]]],
        where refs = "\<lambda>s. (ms_ChargedBack s, ms_Offering s, ms_Tiers s, ms_VirtualNetworks s, ms_Extra s, ms_AllowedOnboardingTeams s,
          ms_Capabilities s, ms_PeerVirtualNetworks s, ms_Tags s, ms_ServiceMetadata s, ms_AvailabilityZones s)"
          and put = "\<lambda>s (a, b, c, d, e, f, g, h, i, j, k). s\<lparr>ms_ChargedBack := a, ms_Offering := b, ms_Tiers := c, ms_VirtualNetworks := d, ms_Extra := e,
            ms_AllowedOnboardingTeams := f, ms_Capabilities := g, ms_PeerVirtualNetworks := h, ms_Tags := i, ms_ServiceMetadata :=
            j, ms_AvailabilityZones := k\<rparr>"])
    (auto simp: ClusterSpec_DeepCopyInto_def owned_ClusterSpec_def ClusterSpec_at_def copy_pair_def owned_pair_def value_pair_def
      split: prod.splits)

section \<open>The metadata\<close>

text \<open>The deep copies of the library, and what they are about.\<close>

record k8s_copy =
  ObjectMeta_DeepCopyInto :: "(mem_ObjectMeta, cell) copier"
  ListMeta_DeepCopyInto :: "(mem_ListMeta, cell) copier"
  LabelSelector_DeepCopyInto :: "(mem_LabelSelector, cell) copier"
  Time_DeepCopyInto :: "(timestamp, cell) copier"

definition owned_ObjectMeta :: "cell heap \<Rightarrow> mem_ObjectMeta \<Rightarrow> addr set" where
  "owned_ObjectMeta h m = owned_map h (mmeta_Labels m) \<union> (owned_map h (mmeta_Annotations m) \<union>
     (owned_strings h (mmeta_ManagedFields m) \<union> owned_pointer times owned_plain h (mmeta_DeletionTimestamp m)))"

definition ObjectMeta_at :: "cell heap \<Rightarrow> mem_ObjectMeta \<Rightarrow> ObjectMeta" where
  "ObjectMeta_at h m = \<lparr>meta_Name = mmeta_Name m, meta_Namespace = mmeta_Namespace m, meta_Labels = str_map_at h (mmeta_Labels m),
     meta_Annotations = str_map_at h (mmeta_Annotations m), meta_ResourceVersion = mmeta_ResourceVersion m,
     meta_ManagedFields = strings_at h (mmeta_ManagedFields m),
     meta_DeletionTimestamp = pointer_at times value_plain h (mmeta_DeletionTimestamp m)\<rparr>"

definition owned_ListMeta :: "cell heap \<Rightarrow> mem_ListMeta \<Rightarrow> addr set" where
  "owned_ListMeta h m = owned_pointer ints owned_plain h (mlist_RemainingItemCount m)"

definition ListMeta_at :: "cell heap \<Rightarrow> mem_ListMeta \<Rightarrow> string \<times> string \<times> int option" where
  "ListMeta_at h m = (mlist_ResourceVersion m, mlist_Continue m, pointer_at ints value_plain h (mlist_RemainingItemCount m))"

definition owned_Requirement :: "cell heap \<Rightarrow> mem_Requirement \<Rightarrow> addr set" where
  "owned_Requirement h r = owned_strings h (mreq_Values r)"

definition Requirement_at :: "cell heap \<Rightarrow> mem_Requirement \<Rightarrow> string \<times> string \<times> string list" where
  "Requirement_at h r = (mreq_Key r, mreq_Operator r, strings_at h (mreq_Values r))"

definition owned_LabelSelector :: "cell heap \<Rightarrow> mem_LabelSelector \<Rightarrow> addr set" where
  "owned_LabelSelector h l = owned_map h (msel_MatchLabels l) \<union> owned_slice requirements owned_Requirement h (msel_MatchExpressions l)"

definition LabelSelector_at :: "cell heap \<Rightarrow> mem_LabelSelector \<Rightarrow> str_map \<times> (string \<times> string \<times> string list) list" where
  "LabelSelector_at h l = (str_map_at h (msel_MatchLabels l), slice_at requirements Requirement_at h (msel_MatchExpressions l))"

text \<open>What the library promises: each of its copies is a deep copy, and annotations get a map of their own.\<close>

locale k8s_deepcopy =
  fixes k :: k8s_copy
  assumes ObjectMeta: "copyable (ObjectMeta_DeepCopyInto k) owned_ObjectMeta ObjectMeta_at"
    and ListMeta: "copyable (ListMeta_DeepCopyInto k) owned_ListMeta ListMeta_at"
    and LabelSelector: "copyable (LabelSelector_DeepCopyInto k) owned_LabelSelector LabelSelector_at"
    and Time: "copyable (Time_DeepCopyInto k) owned_plain value_plain"
    and own_annotations: "old h (owned_ObjectMeta h m) \<Longrightarrow> ObjectMeta_DeepCopyInto k m h = (m', h') \<Longrightarrow>
      mmeta_Annotations m' = Some a \<Longrightarrow> a \<notin> owned_ObjectMeta h' (m'\<lparr>mmeta_Annotations := None\<rparr>)"

section \<open>Clusters and lists of clusters\<close>

definition Cluster_DeepCopyInto :: "k8s_copy \<Rightarrow> (mem_Cluster, cell) copier" where
  "Cluster_DeepCopyInto k src h =
     (let out = src; out = out\<lparr>mc_TypeMeta := mc_TypeMeta src\<rparr>;
          (objectMeta, h) = ObjectMeta_DeepCopyInto k (mc_ObjectMeta src) h; out = out\<lparr>mc_ObjectMeta := objectMeta\<rparr>;
          (spec, h) = ClusterSpec_DeepCopyInto (mc_Spec src) h; out = out\<lparr>mc_Spec := spec\<rparr>;
          out = out\<lparr>mc_Status := mc_Status src\<rparr>
      in (out, h))"

definition ClusterList_DeepCopyInto :: "k8s_copy \<Rightarrow> (mem_ClusterList, cell) copier" where
  "ClusterList_DeepCopyInto k src h =
     (let out = src; out = out\<lparr>ml_TypeMeta := ml_TypeMeta src\<rparr>;
          (listMeta, h) = ListMeta_DeepCopyInto k (ml_ListMeta src) h; out = out\<lparr>ml_ListMeta := listMeta\<rparr>;
          (items, h) = copy_slice clusters Clusters (Cluster_DeepCopyInto k) (ml_Items src) h; out = out\<lparr>ml_Items := items\<rparr>
      in (out, h))"

definition owned_Cluster :: "cell heap \<Rightarrow> mem_Cluster \<Rightarrow> addr set" where
  "owned_Cluster h c = owned_ObjectMeta h (mc_ObjectMeta c) \<union> owned_ClusterSpec h (mc_Spec c)"

definition Cluster_at :: "cell heap \<Rightarrow> mem_Cluster \<Rightarrow> Cluster" where
  "Cluster_at h c = \<lparr>cl_Meta = ObjectMeta_at h (mc_ObjectMeta c), cl_Spec = ClusterSpec_at h (mc_Spec c)\<rparr>"

text \<open>With the kind and the API version, which Registry_Types leaves out.\<close>

definition typed_Cluster_at :: "cell heap \<Rightarrow> mem_Cluster \<Rightarrow> TypeMeta \<times> Cluster" where
  "typed_Cluster_at h c = (mc_TypeMeta c, Cluster_at h c)"

definition owned_ClusterList :: "cell heap \<Rightarrow> mem_ClusterList \<Rightarrow> addr set" where
  "owned_ClusterList h l = owned_ListMeta h (ml_ListMeta l) \<union> owned_slice clusters owned_Cluster h (ml_Items l)"

definition ClusterList_at :: "cell heap \<Rightarrow> mem_ClusterList \<Rightarrow> TypeMeta \<times> (string \<times> string \<times> int option) \<times> (TypeMeta \<times> Cluster) list" where
  "ClusterList_at h l = (ml_TypeMeta l, ListMeta_at h (ml_ListMeta l), slice_at clusters typed_Cluster_at h (ml_Items l))"

context k8s_deepcopy
begin

lemma Cluster: "copyable (Cluster_DeepCopyInto k) owned_Cluster typed_Cluster_at"
  by (rule copyable_struct [OF copyable_pair [OF ObjectMeta copyable_ClusterSpec],
        where refs = "\<lambda>c. (mc_ObjectMeta c, mc_Spec c)" and put = "\<lambda>c (m, s). c\<lparr>mc_ObjectMeta := m, mc_Spec := s\<rparr>"])
    (auto simp: Cluster_DeepCopyInto_def owned_Cluster_def typed_Cluster_at_def Cluster_at_def copy_pair_def owned_pair_def
      value_pair_def split: prod.splits)

lemma ClusterList: "copyable (ClusterList_DeepCopyInto k) owned_ClusterList ClusterList_at"
  by (rule copyable_struct [OF copyable_pair [OF ListMeta copyable_slice [OF Cluster cell.sel(20)]],
        where refs = "\<lambda>l. (ml_ListMeta l, ml_Items l)" and put = "\<lambda>l (m, i). l\<lparr>ml_ListMeta := m, ml_Items := i\<rparr>"])
    (auto simp: ClusterList_DeepCopyInto_def owned_ClusterList_def ClusterList_at_def copy_pair_def owned_pair_def
      value_pair_def split: prod.splits)

end

text \<open>\<^verbatim>\<open>DeepCopy\<close>: nil for nil, otherwise a new object.  \<^verbatim>\<open>DeepCopyObject\<close> only changes the static type.\<close>

definition APIServer_DeepCopy :: "(addr option, cell) copier" where
  "APIServer_DeepCopy = copy_pointer apiservers APIServers APIServer_DeepCopyInto"

definition AllowedOnboardingTeam_DeepCopy :: "(addr option, cell) copier" where
  "AllowedOnboardingTeam_DeepCopy = copy_pointer teams Teams AllowedOnboardingTeam_DeepCopyInto"

definition AvailabilityZone_DeepCopy :: "(addr option, cell) copier" where
  "AvailabilityZone_DeepCopy = copy_pointer zones AvailabilityZones AvailabilityZone_DeepCopyInto"

definition Capacity_DeepCopy :: "(addr option, cell) copier" where
  "Capacity_DeepCopy = copy_pointer capacities Capacities Capacity_DeepCopyInto"

definition Cluster_DeepCopy :: "k8s_copy \<Rightarrow> (addr option, cell) copier" where
  "Cluster_DeepCopy k = copy_pointer clusters Clusters (Cluster_DeepCopyInto k)"

definition Cluster_DeepCopyObject :: "k8s_copy \<Rightarrow> (addr option, cell) copier" where
  "Cluster_DeepCopyObject k src h = (let (c, h) = Cluster_DeepCopy k src h in (if c \<noteq> None then c else None, h))"

definition ClusterList_DeepCopy :: "k8s_copy \<Rightarrow> (addr option, cell) copier" where
  "ClusterList_DeepCopy k = copy_pointer cluster_lists ClusterLists (ClusterList_DeepCopyInto k)"

definition ClusterList_DeepCopyObject :: "k8s_copy \<Rightarrow> (addr option, cell) copier" where
  "ClusterList_DeepCopyObject k src h = (let (c, h) = ClusterList_DeepCopy k src h in (if c \<noteq> None then c else None, h))"

definition ClusterSpec_DeepCopy :: "(addr option, cell) copier" where
  "ClusterSpec_DeepCopy = copy_pointer specs ClusterSpecs ClusterSpec_DeepCopyInto"

definition ClusterStatus_DeepCopy :: "(addr option, cell) copier" where
  "ClusterStatus_DeepCopy = copy_pointer statuses ClusterStatuses ClusterStatus_DeepCopyInto"

definition Extra_DeepCopy :: "(addr option, cell) copier" where
  "Extra_DeepCopy = copy_pointer extras Extras Extra_DeepCopyInto"

definition PeerVirtualNetwork_DeepCopy :: "(addr option, cell) copier" where
  "PeerVirtualNetwork_DeepCopy = copy_pointer peers PeerVirtualNetworks PeerVirtualNetwork_DeepCopyInto"

definition Tier_DeepCopy :: "(addr option, cell) copier" where
  "Tier_DeepCopy = copy_pointer tiers Tiers Tier_DeepCopyInto"

definition VirtualNetwork_DeepCopy :: "(addr option, cell) copier" where
  "VirtualNetwork_DeepCopy = copy_pointer vnets VirtualNetworks VirtualNetwork_DeepCopyInto"

text \<open>The object that a pointer points to.\<close>

abbreviation owned_cluster_ptr :: "cell heap \<Rightarrow> addr option \<Rightarrow> addr set" where
  "owned_cluster_ptr \<equiv> owned_pointer clusters owned_Cluster"

abbreviation cluster_ptr_at :: "cell heap \<Rightarrow> addr option \<Rightarrow> (TypeMeta \<times> Cluster) option" where
  "cluster_ptr_at \<equiv> pointer_at clusters typed_Cluster_at"

lemma Cluster_DeepCopyObject_eq: "Cluster_DeepCopyObject k = Cluster_DeepCopy k"
  by (auto simp: Cluster_DeepCopyObject_def fun_eq_iff split: prod.splits)

context k8s_deepcopy
begin

lemma Cluster_pointer: "copyable (Cluster_DeepCopyObject k) owned_cluster_ptr cluster_ptr_at"
  unfolding Cluster_DeepCopyObject_eq Cluster_DeepCopy_def by (intro copyable_pointer Cluster) simp

lemma ClusterList_pointer:
  "copyable (ClusterList_DeepCopy k) (owned_pointer cluster_lists owned_ClusterList) (pointer_at cluster_lists ClusterList_at)"
  unfolding ClusterList_DeepCopy_def by (intro copyable_pointer ClusterList) simp

end

section \<open>An instance of the library\<close>

text \<open>Copies of the metadata written like the generated ones; they meet the contract.\<close>

definition plain_ObjectMeta :: "(mem_ObjectMeta, cell) copier" where
  "plain_ObjectMeta src h =
     (let (l, h) = copy_map (mmeta_Labels src) h; (a, h) = copy_map (mmeta_Annotations src) h;
          (f, h) = copy_strings (mmeta_ManagedFields src) h; (d, h) = copy_pointer times Times copy_plain (mmeta_DeletionTimestamp src) h
      in (src\<lparr>mmeta_Labels := l, mmeta_Annotations := a, mmeta_ManagedFields := f, mmeta_DeletionTimestamp := d\<rparr>, h))"

definition plain_ListMeta :: "(mem_ListMeta, cell) copier" where
  "plain_ListMeta src h =
     (let (r, h) = copy_pointer ints Ints copy_plain (mlist_RemainingItemCount src) h in (src\<lparr>mlist_RemainingItemCount := r\<rparr>, h))"

definition plain_Requirement :: "(mem_Requirement, cell) copier" where
  "plain_Requirement src h = (let (v, h) = copy_strings (mreq_Values src) h in (src\<lparr>mreq_Values := v\<rparr>, h))"

definition plain_LabelSelector :: "(mem_LabelSelector, cell) copier" where
  "plain_LabelSelector src h =
     (let (l, h) = copy_map (msel_MatchLabels src) h;
          (e, h) = copy_slice requirements Requirements plain_Requirement (msel_MatchExpressions src) h
      in (src\<lparr>msel_MatchLabels := l, msel_MatchExpressions := e\<rparr>, h))"

definition plain_k8s :: k8s_copy where
  "plain_k8s = \<lparr>ObjectMeta_DeepCopyInto = plain_ObjectMeta, ListMeta_DeepCopyInto = plain_ListMeta,
     LabelSelector_DeepCopyInto = plain_LabelSelector, Time_DeepCopyInto = copy_plain\<rparr>"

lemma copyable_times: "copyable (copy_pointer times Times copy_plain) (owned_pointer times owned_plain) (pointer_at times value_plain)"
  by (intro copyable_pointer copyable_plain) simp

lemma plain_ObjectMeta: "copyable plain_ObjectMeta owned_ObjectMeta ObjectMeta_at"
  by (rule copyable_struct [OF copyable_pair [OF copyable_str_map copyable_pair [OF copyable_str_map copyable_pair [OF copyable_strings copyable_times]]],
        where refs = "\<lambda>m. (mmeta_Labels m, mmeta_Annotations m, mmeta_ManagedFields m, mmeta_DeletionTimestamp m)"
          and put = "\<lambda>m (l, a, f, d). m\<lparr>mmeta_Labels := l, mmeta_Annotations := a, mmeta_ManagedFields := f, mmeta_DeletionTimestamp := d\<rparr>"])
    (auto simp: plain_ObjectMeta_def owned_ObjectMeta_def ObjectMeta_at_def copy_pair_def owned_pair_def value_pair_def split: prod.splits)

lemma plain_ListMeta: "copyable plain_ListMeta owned_ListMeta ListMeta_at"
  by (rule copyable_struct [OF copyable_pointer [OF plain_in_cell cell.sel(3)],
        where refs = mlist_RemainingItemCount and put = "\<lambda>m r. m\<lparr>mlist_RemainingItemCount := r\<rparr>"])
    (auto simp: plain_ListMeta_def owned_ListMeta_def ListMeta_at_def split: prod.splits)

lemma plain_Requirement: "copyable plain_Requirement owned_Requirement Requirement_at"
  by (rule copyable_struct [OF copyable_strings, where refs = mreq_Values and put = "\<lambda>m r. m\<lparr>mreq_Values := r\<rparr>"])
    (auto simp: plain_Requirement_def owned_Requirement_def Requirement_at_def split: prod.splits)

lemma plain_LabelSelector: "copyable plain_LabelSelector owned_LabelSelector LabelSelector_at"
  by (rule copyable_struct [OF copyable_pair [OF copyable_str_map copyable_slice [OF plain_Requirement cell.sel(8)]],
        where refs = "\<lambda>m. (msel_MatchLabels m, msel_MatchExpressions m)"
          and put = "\<lambda>m (l, e). m\<lparr>msel_MatchLabels := l, msel_MatchExpressions := e\<rparr>"])
    (auto simp: plain_LabelSelector_def owned_LabelSelector_def LabelSelector_at_def copy_pair_def owned_pair_def
      value_pair_def split: prod.splits)

lemma plain_own_annotations:
  assumes "old h (owned_ObjectMeta h m)" and "plain_ObjectMeta m h = (m', h')" and "mmeta_Annotations m' = Some a"
  shows "a \<notin> owned_ObjectMeta h' (m'\<lparr>mmeta_Annotations := None\<rparr>)"
proof -
  obtain l h1 an h2 f h3 d where c: "copy_map (mmeta_Labels m) h = (l, h1)" "copy_map (mmeta_Annotations m) h1 = (an, h2)"
      "copy_strings (mmeta_ManagedFields m) h2 = (f, h3)" "copy_pointer times Times copy_plain (mmeta_DeletionTimestamp m) h3 = (d, h')"
    and m': "m' = m\<lparr>mmeta_Labels := l, mmeta_Annotations := an, mmeta_ManagedFields := f, mmeta_DeletionTimestamp := d\<rparr>"
    using assms(2) by (auto simp: plain_ObjectMeta_def split: prod.splits)
  have o: "old h (owned_map h (mmeta_Labels m))" "old h (owned_map h (mmeta_Annotations m))"
      "old h (owned_strings h (mmeta_ManagedFields m))" "old h (owned_pointer times owned_plain h (mmeta_DeletionTimestamp m))"
    using assms(1) by (simp_all add: owned_ObjectMeta_def)
  have e1: "extends h h1" using copyable.fresh [OF copyable_str_map o(1) c(1)] by simp
  have e2: "extends h1 h2" using copyable.later [OF copyable_str_map o(2) e1 c(2) extends_refl] by simp
  have e3: "extends h2 h3" using copyable.later [OF copyable_strings o(3) extends_trans [OF e1 e2] c(3) extends_refl] by simp
  have e4: "extends h3 h'"
    using copyable.later [OF copyable_times o(4) extends_trans [OF e1 extends_trans [OF e2 e3]] c(4) extends_refl] by simp
  have "a \<in> owned_map h' an" using assms(3) m' by (simp add: owned_slice_def)
  moreover have "owned_map h' l \<inter> owned_map h' an = {}"
    by (rule copies_disjoint [OF copyable_str_map copyable_str_map o(1,2) extends_refl c(1) extends_refl c(2) extends_trans [OF e3 e4]])
  moreover have "owned_map h' an \<inter> owned_strings h' f = {}"
    by (rule copies_disjoint [OF copyable_str_map copyable_strings o(2,3) e1 c(2) extends_refl c(3) e4])
  moreover have "owned_map h' an \<inter> owned_pointer times owned_plain h' d = {}"
    by (rule copies_disjoint [OF copyable_str_map copyable_times o(2,4) e1 c(2) e3 c(4) extends_refl])
  moreover have "owned_map h' None = {}" by (simp add: owned_slice_def)
  ultimately show ?thesis by (auto simp: owned_ObjectMeta_def m')
qed

interpretation plain_library: k8s_deepcopy plain_k8s
  by (rule k8s_deepcopy.intro)
    (simp_all add: plain_k8s_def plain_ObjectMeta plain_ListMeta plain_LabelSelector copyable_plain plain_own_annotations)

interpretation spec_copy: copyable ClusterSpec_DeepCopyInto owned_ClusterSpec ClusterSpec_at
  by (rule copyable_ClusterSpec)

section \<open>Properties\<close>

text \<open>
  C13. \<^verbatim>\<open>DeepCopyObject\<close> of a cluster gives an equal cluster that shares no memory with the
  original: nothing reachable from the original has changed, every map, slice and pointer of the
  copy is new, and whatever is written into memory of the copy afterwards, the original reads as
  before.  Nil is copied to nil.
\<close>

theorem deep_copy_independent:
  assumes "k8s_deepcopy k" and "old h (owned_cluster_ptr h x)" and "Cluster_DeepCopyObject k x h = (y, h')"
  shows "cluster_ptr_at h' y = cluster_ptr_at h x \<and> (y = None \<longleftrightarrow> x = None) \<and>
    cluster_ptr_at h' x = cluster_ptr_at h x \<and> owned_cluster_ptr h' y \<inter> owned_cluster_ptr h' x = {} \<and>
    (\<forall>h''. (\<forall>a < limit h'. a \<notin> owned_cluster_ptr h' y \<longrightarrow> cells h'' a = cells h' a) \<longrightarrow>
      cluster_ptr_at h'' x = cluster_ptr_at h x)"
proof -
  have c: "copyable (Cluster_DeepCopyObject k) owned_cluster_ptr cluster_ptr_at"
    by (rule k8s_deepcopy.Cluster_pointer [OF assms(1)])
  have ok: "extends h h'" "fresh_in h h' (owned_cluster_ptr h' y)" "cluster_ptr_at h' y = cluster_ptr_at h x"
    using copyable.fresh [OF c assms(2,3)] by auto
  have same: "owned_cluster_ptr h' x = owned_cluster_ptr h x" "cluster_ptr_at h' x = cluster_ptr_at h x"
    using copyable.extended [OF c assms(2) ok(1)] by auto
  have "owned_cluster_ptr h' y \<inter> owned_cluster_ptr h' x = {}"
    using ok(2) assms(2) same(1) by (fastforce simp: fresh_in_def old_def)
  moreover have "y = None \<longleftrightarrow> x = None"
    using ok(3) by (auto simp: pointer_at_def split: option.splits)
  moreover have "cluster_ptr_at h'' x = cluster_ptr_at h x"
    if "\<forall>a < limit h'. a \<notin> owned_cluster_ptr h' y \<longrightarrow> cells h'' a = cells h' a" for h''
    using copyable.independent [OF c assms(2,3), of h''] that by blast
  ultimately show ?thesis using ok(3) same(2) by blast
qed

text \<open>A cluster with a map of annotations, which is also its map of labels.\<close>

definition example_memory :: "cell heap" where
  "example_memory = \<lparr>cells = [0 \<mapsto> StringMap [(''a'', ''1'')],
     1 \<mapsto> Clusters [\<lparr>mc_TypeMeta = \<lparr>type_Kind = ''Cluster'', type_APIVersion = ''v1''\<rparr>,
       mc_ObjectMeta = \<lparr>mmeta_Name = ''c'', mmeta_Namespace = ''ns'', mmeta_Labels = Some 0, mmeta_Annotations = Some 0,
         mmeta_ResourceVersion = ''7'', mmeta_ManagedFields = None, mmeta_DeletionTimestamp = None\<rparr>,
       mc_Spec = \<lparr>ms_Name = ''c'', ms_ShortName = [], ms_APIServer = zero_APIServer, ms_Region = [], ms_CloudType = [],
         ms_CloudProviderRegion = [], ms_Environment = [], ms_BusinessUnit = [], ms_ChargebackBusinessUnit = [],
         ms_ChargedBack = None, ms_ManagingOrg = [], ms_Offering = None, ms_AccountID = [], ms_Tiers = None,
         ms_VirtualNetworks = None, ms_RegisteredAt = [], ms_Status = [], ms_Phase = [], ms_MaintenanceGroup = [],
         ms_ArgoInstance = [], ms_Type = [],
         ms_Extra = \<lparr>mextra_DomainName = [], mextra_LbEndpoints = None, mextra_LoggingEndpoints = None, mextra_EcrIamArns = None,
           mextra_EgressPorts = [], mextra_NFSInfo = None, mextra_ExtendedRegion = [], mextra_OidcIssuer = [],
           mextra_NamespaceProfileInfraType = []\<rparr>,
         ms_AllowedOnboardingTeams = None, ms_Capabilities = None, ms_PeerVirtualNetworks = None, ms_LastUpdated = [],
         ms_Tags = Some 0, ms_Capacity = zero_Capacity, ms_ServiceMetadata = None, ms_AvailabilityZones = None\<rparr>,
       mc_Status = ()\<rparr>]], limit = 2\<rparr>"

lemma example_owned: "owned_cluster_ptr example_memory (Some 1) = {0, 1}"
  by (simp add: example_memory_def owned_pointer_def load_def owned_Cluster_def owned_ObjectMeta_def owned_ClusterSpec_def
      owned_Extra_def owned_slice_def reach_defs insert_commute)

theorem deep_copy_independent_witness:
  "\<exists>y h'. Cluster_DeepCopyObject plain_k8s (Some 1) example_memory = (y, h') \<and> y \<noteq> None \<and>
     cluster_ptr_at h' y = cluster_ptr_at example_memory (Some 1) \<and>
     owned_cluster_ptr h' y \<inter> owned_cluster_ptr h' (Some 1) = {}"
proof -
  obtain y h' where y: "Cluster_DeepCopyObject plain_k8s (Some 1) example_memory = (y, h')" by fastforce
  have "old example_memory (owned_cluster_ptr example_memory (Some 1))"
    by (simp only: example_owned) (simp add: example_memory_def)
  from deep_copy_independent [OF plain_library.k8s_deepcopy_axioms this y] y show ?thesis by blast
qed

end
