(* ===== verification/Shared_Objects.thy ===== *)
theory Shared_Objects
  imports Deep_Copy Cluster_Controller
begin

text \<open>
  The hash of a cluster over memory.  The filters of the cluster controller compute it for objects
  that belong to the cache of the client library, so \<^verbatim>\<open>hashCluster\<close> deletes annotations and resets
  fields of a clone.  Cluster_Controller takes clusters as values; here the same function works on
  references, and is shown to compute the same and to leave the object as it is.
\<close>

text \<open>\<^verbatim>\<open>delete(m, key)\<close>; nothing happens for a nil map.\<close>

definition map_delete :: "addr option \<Rightarrow> string \<Rightarrow> cell heap \<Rightarrow> cell heap" where
  "map_delete m key h =
     (case m of
        None \<Rightarrow> h
      | Some a \<Rightarrow> store a (StringMap (filter (\<lambda>kv. fst kv \<noteq> key) (load string_map h a))) h)"

text \<open>Assignment to the metadata of the object at an address.\<close>

definition update_meta :: "addr \<Rightarrow> (mem_ObjectMeta \<Rightarrow> mem_ObjectMeta) \<Rightarrow> cell heap \<Rightarrow> cell heap" where
  "update_meta a f h =
     (let c = hd (load clusters h a) in store a (Clusters [c\<lparr>mc_ObjectMeta := f (mc_ObjectMeta c)\<rparr>]) h)"

text \<open>What \<^verbatim>\<open>hashCluster\<close> removes from its clone.\<close>

definition clean_clone :: "addr \<Rightarrow> cell heap \<Rightarrow> cell heap" where
  "clean_clone clone h =
     (let annotations = mmeta_Annotations (mc_ObjectMeta (hd (load clusters h clone)));
          h = map_delete annotations HashAnnotation h;
          h = map_delete annotations SkipCacheInvalidationAnnotation h;
          h = update_meta clone (mmeta_Annotations_update (\<lambda>_. annotations)) h;
          h = update_meta clone (mmeta_ResourceVersion_update (\<lambda>_. [])) h
      in update_meta clone (mmeta_ManagedFields_update (\<lambda>_. None)) h)"

definition mem_hashCluster ::
  "k8s_copy \<Rightarrow> ('k, 'w) ClusterReconciler \<Rightarrow> addr option \<Rightarrow> cell heap \<Rightarrow> string run \<times> cell heap" where
  "mem_hashCluster k r instance h =
     (case Cluster_DeepCopyObject k instance h of
        (None, h) \<Rightarrow> (Panic ''interface conversion: interface is nil'', h)
      | (Some clone, h) \<Rightarrow>
          (let h = clean_clone clone h
           in (Ret (hash_bytes (case cr_Marshal r (Cluster_at h (hd (load clusters h clone))) of Inl _ \<Rightarrow> [] | Inr b \<Rightarrow> b)), h)))"

section \<open>Writing into a clone\<close>

lemma map_of_delete: "map_of (filter (\<lambda>kv. fst kv \<noteq> key) kvs) = (map_of kvs)(key := None)"
  by (induction kvs) auto

lemma value_entry_plain [simp]: "map (value_entry value_plain h) kvs = kvs"
  by (induction kvs) (simp_all add: value_entry_def value_plain_def)

lemma map_delete_at: "str_map_at (map_delete m key h) m = (str_map_at h m)(key := None)"
  by (cases m) (simp_all add: map_at_def slice_at_def map_delete_def store_def load_def map_of_delete)

lemma map_delete_other: "m \<noteq> Some a \<Longrightarrow> cells (map_delete m key h) a = cells h a"
  by (cases m) (auto simp: map_delete_def store_def)

lemma update_meta_same: "hd (load clusters (update_meta a f h) a) =
    (hd (load clusters h a))\<lparr>mc_ObjectMeta := f (mc_ObjectMeta (hd (load clusters h a)))\<rparr>"
  by (simp add: update_meta_def store_def load_def Let_def)

lemma update_meta_other: "b \<noteq> a \<Longrightarrow> cells (update_meta a f h) b = cells h b"
  by (simp add: update_meta_def store_def Let_def)

lemma load_cong: "cells h' a = cells h a \<Longrightarrow> load content h' a = load content h a"
  by (simp add: load_def)

lemma str_map_at_cong: "(\<And>a. m = Some a \<Longrightarrow> cells h' a = cells h a) \<Longrightarrow> str_map_at h' m = str_map_at h m"
  by (cases m) (simp_all add: map_at_def slice_at_def load_def)

text \<open>Two cells change: the map of annotations and the clone itself.\<close>

lemma clean_clone_other:
  assumes "a \<noteq> clone" and "mmeta_Annotations (mc_ObjectMeta (hd (load clusters h clone))) \<noteq> Some a"
  shows "cells (clean_clone clone h) a = cells h a"
  using assms by (simp add: clean_clone_def Let_def update_meta_other map_delete_other)

lemma clean_clone_object:
  assumes "hd (load clusters h clone) = c" and "mmeta_Annotations (mc_ObjectMeta c) \<noteq> Some clone"
  shows "hd (load clusters (clean_clone clone h) clone) =
    c\<lparr>mc_ObjectMeta := (mc_ObjectMeta c)\<lparr>mmeta_ResourceVersion := [], mmeta_ManagedFields := None\<rparr>\<rparr>"
proof -
  have "load clusters (map_delete (mmeta_Annotations (mc_ObjectMeta c)) key h') clone = load clusters h' clone" for key h'
    using assms(2) by (intro load_cong map_delete_other)
  then show ?thesis using assms(1) by (simp add: clean_clone_def Let_def update_meta_same)
qed

lemma clean_clone_annotations:
  assumes "mmeta_Annotations (mc_ObjectMeta (hd (load clusters h clone))) = m" and "m \<noteq> Some clone"
  shows "str_map_at (clean_clone clone h) m = (str_map_at h m)(HashAnnotation := None, SkipCacheInvalidationAnnotation := None)"
proof -
  have "str_map_at (clean_clone clone h) m =
      str_map_at (map_delete m SkipCacheInvalidationAnnotation (map_delete m HashAnnotation h)) m"
    using assms by (intro str_map_at_cong) (simp add: clean_clone_def Let_def update_meta_other)
  then show ?thesis by (simp add: map_delete_at)
qed

section \<open>The clone\<close>

lemma status_unit [simp]: "(c :: mem_Cluster)\<lparr>mc_Status := x\<rparr> = c"
  by (cases c) simp

text \<open>What the contracts of the deep copies say of a clone in memory.\<close>

lemma clone_facts:
  assumes "k8s_deepcopy k" and "old h (owned_cluster_ptr h (Some a))" and "Cluster_DeepCopyObject k (Some a) h = (y, h2)"
  obtains b c hm where "y = Some b" and "hd (load clusters h2 b) = c" and "Cluster_at h2 c = Cluster_at h (hd (load clusters h a))"
    and "fresh_in h hm (owned_ObjectMeta h2 (mc_ObjectMeta c))" and "fresh_in hm h2 (owned_ClusterSpec h2 (mc_Spec c))"
    and "limit hm \<le> b" and "b \<notin> owned_ClusterSpec h2 (mc_Spec c)"
    and "\<And>d. mmeta_Annotations (mc_ObjectMeta c) = Some d \<Longrightarrow> d \<notin> owned_ObjectMeta h2 ((mc_ObjectMeta c)\<lparr>mmeta_Annotations := None\<rparr>)"
proof -
  let ?c = "hd (load clusters h a)"
  have o: "old h (owned_ObjectMeta h (mc_ObjectMeta ?c))" "old h (owned_ClusterSpec h (mc_Spec ?c))"
    using assms(2) by (simp_all add: owned_pointer_def owned_Cluster_def load_def)
  obtain m' hm where m': "ObjectMeta_DeepCopyInto k (mc_ObjectMeta ?c) h = (m', hm)" by fastforce
  obtain s' h1 where s': "ClusterSpec_DeepCopyInto (mc_Spec ?c) hm = (s', h1)" by fastforce
  let ?d = "?c\<lparr>mc_ObjectMeta := m', mc_Spec := s'\<rparr>"
  have h2: "alloc (Clusters [?d]) h1 = (limit h1, h2)" and y: "y = Some (limit h1)"
    using assms(3) m' s'
    by (auto simp: Cluster_DeepCopyObject_eq Cluster_DeepCopy_def copy_pointer_def Cluster_DeepCopyInto_def load_def alloc_def Let_def)
  have e: "extends h hm" using copyable.fresh [OF k8s_deepcopy.ObjectMeta [OF assms(1)] o(1) m'] by simp
  have e1: "extends hm h1" using spec_copy.later [OF o(2) e s' extends_refl] by simp
  have e2: "extends h1 h2" by (rule extends_alloc [OF h2])
  have meta: "fresh_in h hm (owned_ObjectMeta h2 m') \<and> ObjectMeta_at h2 m' = ObjectMeta_at h (mc_ObjectMeta ?c)"
    using copyable.later [OF k8s_deepcopy.ObjectMeta [OF assms(1)] o(1) extends_refl m' extends_trans [OF e1 e2]] by simp
  have spec: "fresh_in hm h1 (owned_ClusterSpec h2 s') \<and> ClusterSpec_at h2 s' = ClusterSpec_at h (mc_Spec ?c)"
    using spec_copy.later [OF o(2) e s' e2] by simp
  show thesis
  proof (rule that [OF y])
    show "hd (load clusters h2 (limit h1)) = ?d" using h2 by (auto simp: alloc_def load_def)
    show "Cluster_at h2 ?d = Cluster_at h ?c" using meta spec by (simp add: Cluster_at_def)
    show "fresh_in h hm (owned_ObjectMeta h2 (mc_ObjectMeta ?d))" using meta by simp
    show "fresh_in hm h2 (owned_ClusterSpec h2 (mc_Spec ?d))" using spec fresh_in_widen [OF _ extends_refl e2] by simp
    show "limit hm \<le> limit h1" using e1 by (simp add: extends_def)
    show "limit h1 \<notin> owned_ClusterSpec h2 (mc_Spec ?d)" using spec by (auto simp: fresh_in_def)
    fix d assume "mmeta_Annotations (mc_ObjectMeta ?d) = Some d"
    then have "d \<notin> owned_ObjectMeta hm (m'\<lparr>mmeta_Annotations := None\<rparr>)"
      using k8s_deepcopy.own_annotations [OF assms(1) o(1) m'] by simp
    moreover have "old hm (owned_ObjectMeta hm (m'\<lparr>mmeta_Annotations := None\<rparr>))"
      using copyable.fresh [OF k8s_deepcopy.ObjectMeta [OF assms(1)] o(1) m'] fresh_in_old
      by (fastforce simp: owned_ObjectMeta_def owned_slice_def)
    ultimately show "d \<notin> owned_ObjectMeta h2 ((mc_ObjectMeta ?d)\<lparr>mmeta_Annotations := None\<rparr>)"
      using copyable.extended(1) [OF k8s_deepcopy.ObjectMeta [OF assms(1)] _ extends_trans [OF e1 e2]] by simp
  qed
qed

text \<open>What is left of a clone whose annotations are not shared with the rest of it.\<close>

definition cleaned :: "Cluster \<Rightarrow> Cluster" where
  "cleaned i = (let i = set_annotations ((annotations_of i)(HashAnnotation := None, SkipCacheInvalidationAnnotation := None)) i
     in i\<lparr>cl_Meta := (cl_Meta i)\<lparr>meta_ResourceVersion := [], meta_ManagedFields := []\<rparr>\<rparr>)"

lemma clean_clone_value:
  assumes k: "k8s_deepcopy k" and c: "hd (load clusters h b) = c" and m: "mc_ObjectMeta c = m"
    and b: "b \<notin> owned_ClusterSpec h (mc_Spec c)" "b \<notin> owned_ObjectMeta h m"
    and own: "\<And>d. mmeta_Annotations m = Some d \<Longrightarrow>
      d \<notin> owned_ObjectMeta h (m\<lparr>mmeta_Annotations := None\<rparr>) \<and> d \<notin> owned_ClusterSpec h (mc_Spec c)"
  shows "Cluster_at (clean_clone b h) (hd (load clusters (clean_clone b h) b)) = cleaned (Cluster_at h c)"
proof -
  let ?h = "clean_clone b h"
  have nb: "mmeta_Annotations m \<noteq> Some b" using b(2) by (auto simp: owned_ObjectMeta_def owned_slice_def)
  have other: "cells ?h d = cells h d" if "d \<noteq> b" "mmeta_Annotations m \<noteq> Some d" for d
    using clean_clone_other that c m by simp
  have "cells ?h d = cells h d" if "d \<in> owned_ClusterSpec h (mc_Spec c)" for d
    using that b(1) own by (intro other) auto
  then have s: "ClusterSpec_at ?h (mc_Spec c) = ClusterSpec_at h (mc_Spec c)" using spec_copy.frame by blast
  have "d \<in> owned_ObjectMeta h m" if "d \<in> owned_ObjectMeta h (m\<lparr>mmeta_Annotations := None\<rparr>)" for d
    using that by (auto simp: owned_ObjectMeta_def owned_slice_def)
  then have "cells ?h d = cells h d" if "d \<in> owned_ObjectMeta h (m\<lparr>mmeta_Annotations := None\<rparr>)" for d
    using that b(2) own by (intro other) blast+
  then have n: "ObjectMeta_at ?h (m\<lparr>mmeta_Annotations := None\<rparr>) = ObjectMeta_at h (m\<lparr>mmeta_Annotations := None\<rparr>)"
    using copyable.frame [OF k8s_deepcopy.ObjectMeta [OF k]] by blast
  show ?thesis
    using clean_clone_object [OF c] clean_clone_annotations [of h b, OF _ nb] c m nb s n
    by (simp add: cleaned_def Cluster_at_def ObjectMeta_at_def Let_def slice_at_def)
qed

section \<open>Properties\<close>

text \<open>
  C14. Over memory, \<^verbatim>\<open>hashCluster\<close> computes the hash of the cluster as a value, even if maps of the
  object are shared with each other, and the object, which belongs to the cache of the client
  library, reads afterwards as before: what is deleted and reset is only the clone.
\<close>

theorem hashCluster_refines:
  assumes "k8s_deepcopy k" and "old h (owned_cluster_ptr h (Some a))"
  shows "\<exists>h'. mem_hashCluster k r (Some a) h = (Ret (hashCluster r (Cluster_at h (hd (load clusters h a)))), h') \<and>
    cluster_ptr_at h' (Some a) = cluster_ptr_at h (Some a)"
proof -
  obtain y h2 where copy: "Cluster_DeepCopyObject k (Some a) h = (y, h2)" by fastforce
  obtain b c hm where y: "y = Some b" and c: "hd (load clusters h2 b) = c"
    and at: "Cluster_at h2 c = Cluster_at h (hd (load clusters h a))"
    and meta: "fresh_in h hm (owned_ObjectMeta h2 (mc_ObjectMeta c))" and spec: "fresh_in hm h2 (owned_ClusterSpec h2 (mc_Spec c))"
    and b: "limit hm \<le> b" "b \<notin> owned_ClusterSpec h2 (mc_Spec c)"
    and own: "\<And>d. mmeta_Annotations (mc_ObjectMeta c) = Some d \<Longrightarrow>
      d \<notin> owned_ObjectMeta h2 ((mc_ObjectMeta c)\<lparr>mmeta_Annotations := None\<rparr>)"
    using clone_facts [OF assms copy] by blast
  let ?m = "mc_ObjectMeta c" and ?h = "clean_clone b h2"
  have ann: "d \<in> owned_ObjectMeta h2 ?m \<and> d < limit hm" if "mmeta_Annotations ?m = Some d" for d
    using that meta by (simp add: owned_ObjectMeta_def owned_slice_def)
  have "Cluster_at ?h (hd (load clusters ?h b)) = cleaned (Cluster_at h2 c)"
  proof (rule clean_clone_value [OF assms(1) c refl b(2)])
    show "b \<notin> owned_ObjectMeta h2 ?m" using meta b(1) by (auto simp: fresh_in_def)
    fix d assume "mmeta_Annotations ?m = Some d"
    then show "d \<notin> owned_ObjectMeta h2 (?m\<lparr>mmeta_Annotations := None\<rparr>) \<and> d \<notin> owned_ClusterSpec h2 (mc_Spec c)"
      using own ann spec by (fastforce simp: fresh_in_def)
  qed
  then have "mem_hashCluster k r (Some a) h = (Ret (hashCluster r (Cluster_at h (hd (load clusters h a)))), ?h)"
    using copy y at by (simp add: mem_hashCluster_def hashCluster_def cleaned_def Let_def)
  moreover have "cells ?h d = cells h2 d" if "d \<notin> owned_cluster_ptr h2 y" for d
    using that y c ann by (intro clean_clone_other) (auto simp: owned_pointer_def load_def owned_Cluster_def)
  then have "cluster_ptr_at ?h (Some a) = cluster_ptr_at h (Some a)"
    using copyable.independent [OF k8s_deepcopy.Cluster_pointer [OF assms(1)] assms(2) copy, of ?h] by blast
  ultimately show ?thesis by blast
qed

theorem hashCluster_refines_witness:
  "\<forall>r :: (unit, unit) ClusterReconciler. \<exists>h'. mem_hashCluster plain_k8s r (Some 1) example_memory =
     (Ret (hashCluster r (Cluster_at example_memory (hd (load clusters example_memory 1)))), h') \<and>
     cluster_ptr_at h' (Some 1) = cluster_ptr_at example_memory (Some 1)"
proof -
  have "old example_memory (owned_cluster_ptr example_memory (Some 1))"
    by (simp only: example_owned) (simp add: example_memory_def)
  from hashCluster_refines [OF plain_library.k8s_deepcopy_axioms this] show ?thesis by blast
qed

end
