(* ===== verification/Deep_Copy_Alpha.thy ===== *)
theory Deep_Copy_Alpha
  imports Deep_Copy
begin

text \<open>
  The generated deep copies of \<^verbatim>\<open>ClusterSync\<close>, \<^verbatim>\<open>ServiceMetadataWatcher\<close> and their parts
  (pkg/api/registry/v1alpha1/zz_generated.deepcopy.go).
\<close>

section \<open>ClusterSync\<close>

definition WatchedResource_DeepCopyInto :: "k8s_copy \<Rightarrow> (mem_WatchedResource, cell) copier" where
  "WatchedResource_DeepCopyInto k src h =
     (let out = src;
          (labelSelector, h) = copy_pointer selectors LabelSelectors (LabelSelector_DeepCopyInto k) (mwr_LabelSelector src) h;
          out = out\<lparr>mwr_LabelSelector := labelSelector\<rparr>
      in (out, h))"

definition ClusterSyncSpec_DeepCopyInto :: "k8s_copy \<Rightarrow> (mem_ClusterSyncSpec, cell) copier" where
  "ClusterSyncSpec_DeepCopyInto k src h =
     (let out = src;
          (watchedResources, h) = copy_slice watched WatchedResources (WatchedResource_DeepCopyInto k) (mcss_WatchedResources src) h;
          out = out\<lparr>mcss_WatchedResources := watchedResources\<rparr>
      in (out, h))"

text \<open>A pointer to a string is a cell with one string.\<close>

definition copy_string :: "(addr option, cell) copier" where
  "copy_string = copy_pointer strings Strings copy_plain"

definition ClusterSyncStatus_DeepCopyInto :: "k8s_copy \<Rightarrow> (mem_ClusterSyncStatus, cell) copier" where
  "ClusterSyncStatus_DeepCopyInto k src h =
     (let out = src;
          (lastSyncTime, h) = copy_pointer times Times (Time_DeepCopyInto k) (msst_LastSyncTime src) h; out = out\<lparr>msst_LastSyncTime := lastSyncTime\<rparr>;
          (lastSyncStatus, h) = copy_string (msst_LastSyncStatus src) h; out = out\<lparr>msst_LastSyncStatus := lastSyncStatus\<rparr>;
          (lastSyncError, h) = copy_string (msst_LastSyncError src) h; out = out\<lparr>msst_LastSyncError := lastSyncError\<rparr>;
          (syncedData, h) = copy_string (msst_SyncedData src) h; out = out\<lparr>msst_SyncedData := syncedData\<rparr>;
          (syncedDataHash, h) = copy_string (msst_SyncedDataHash src) h; out = out\<lparr>msst_SyncedDataHash := syncedDataHash\<rparr>
      in (out, h))"

definition ClusterSync_DeepCopyInto :: "k8s_copy \<Rightarrow> (mem_ClusterSync, cell) copier" where
  "ClusterSync_DeepCopyInto k src h =
     (let out = src; out = out\<lparr>msync_TypeMeta := msync_TypeMeta src\<rparr>;
          (objectMeta, h) = ObjectMeta_DeepCopyInto k (msync_ObjectMeta src) h; out = out\<lparr>msync_ObjectMeta := objectMeta\<rparr>;
          (spec, h) = ClusterSyncSpec_DeepCopyInto k (msync_Spec src) h; out = out\<lparr>msync_Spec := spec\<rparr>;
          (status, h) = ClusterSyncStatus_DeepCopyInto k (msync_Status src) h; out = out\<lparr>msync_Status := status\<rparr>
      in (out, h))"

definition ClusterSyncList_DeepCopyInto :: "k8s_copy \<Rightarrow> (mem_ClusterSyncList, cell) copier" where
  "ClusterSyncList_DeepCopyInto k src h =
     (let out = src; out = out\<lparr>msyncs_TypeMeta := msyncs_TypeMeta src\<rparr>;
          (listMeta, h) = ListMeta_DeepCopyInto k (msyncs_ListMeta src) h; out = out\<lparr>msyncs_ListMeta := listMeta\<rparr>;
          (items, h) = copy_slice syncs ClusterSyncs (ClusterSync_DeepCopyInto k) (msyncs_Items src) h; out = out\<lparr>msyncs_Items := items\<rparr>
      in (out, h))"

section \<open>ServiceMetadataWatcher\<close>

definition ObjectReference_DeepCopyInto :: "(ObjectReference, cell) copier" where
  "ObjectReference_DeepCopyInto = copy_plain"

definition WatchedField_DeepCopyInto :: "(WatchedField, cell) copier" where
  "WatchedField_DeepCopyInto = copy_plain"

definition WatchedServiceObject_DeepCopyInto :: "(mem_WatchedServiceObject, cell) copier" where
  "WatchedServiceObject_DeepCopyInto src h =
     (let out = src; out = out\<lparr>mwso_ObjectReference := mwso_ObjectReference src\<rparr>;
          (watchedFields, h) = copy_slice wfields WatchedFields copy_plain (mwso_WatchedFields src) h;
          out = out\<lparr>mwso_WatchedFields := watchedFields\<rparr>
      in (out, h))"

definition WatchedServiceObjectStatus_DeepCopyInto :: "k8s_copy \<Rightarrow> (mem_WatchedServiceObjectStatus, cell) copier" where
  "WatchedServiceObjectStatus_DeepCopyInto k src h =
     (let out = src;
          (lastUpdated, h) = Time_DeepCopyInto k (mwos_LastUpdated src) h; out = out\<lparr>mwos_LastUpdated := lastUpdated\<rparr>;
          out = out\<lparr>mwos_ObjectReference := mwos_ObjectReference src\<rparr>;
          (errors, h) = copy_strings (mwos_Errors src) h; out = out\<lparr>mwos_Errors := errors\<rparr>
      in (out, h))"

definition ServiceMetadataWatcherSpec_DeepCopyInto :: "(mem_ServiceMetadataWatcherSpec, cell) copier" where
  "ServiceMetadataWatcherSpec_DeepCopyInto src h =
     (let out = src;
          (objects, h) = copy_slice wobjects WatchedServiceObjects WatchedServiceObject_DeepCopyInto (msmws_WatchedServiceObjects src) h;
          out = out\<lparr>msmws_WatchedServiceObjects := objects\<rparr>
      in (out, h))"

definition ServiceMetadataWatcherStatus_DeepCopyInto :: "k8s_copy \<Rightarrow> (mem_ServiceMetadataWatcherStatus, cell) copier" where
  "ServiceMetadataWatcherStatus_DeepCopyInto k src h =
     (let out = src;
          (objects, h) = copy_slice wstatuses WatchedServiceObjectStatuses (WatchedServiceObjectStatus_DeepCopyInto k)
            (msmwt_WatchedServiceObjects src) h;
          out = out\<lparr>msmwt_WatchedServiceObjects := objects\<rparr>
      in (out, h))"

definition ServiceMetadataWatcher_DeepCopyInto :: "k8s_copy \<Rightarrow> (mem_ServiceMetadataWatcher, cell) copier" where
  "ServiceMetadataWatcher_DeepCopyInto k src h =
     (let out = src; out = out\<lparr>msmw_TypeMeta := msmw_TypeMeta src\<rparr>;
          (objectMeta, h) = ObjectMeta_DeepCopyInto k (msmw_ObjectMeta src) h; out = out\<lparr>msmw_ObjectMeta := objectMeta\<rparr>;
          (spec, h) = ServiceMetadataWatcherSpec_DeepCopyInto (msmw_Spec src) h; out = out\<lparr>msmw_Spec := spec\<rparr>;
          (status, h) = ServiceMetadataWatcherStatus_DeepCopyInto k (msmw_Status src) h; out = out\<lparr>msmw_Status := status\<rparr>
      in (out, h))"

definition ServiceMetadataWatcherList_DeepCopyInto :: "k8s_copy \<Rightarrow> (mem_ServiceMetadataWatcherList, cell) copier" where
  "ServiceMetadataWatcherList_DeepCopyInto k src h =
     (let out = src; out = out\<lparr>msmwl_TypeMeta := msmwl_TypeMeta src\<rparr>;
          (listMeta, h) = ListMeta_DeepCopyInto k (msmwl_ListMeta src) h; out = out\<lparr>msmwl_ListMeta := listMeta\<rparr>;
          (items, h) = copy_slice watchers Watchers (ServiceMetadataWatcher_DeepCopyInto k) (msmwl_Items src) h; out = out\<lparr>msmwl_Items := items\<rparr>
      in (out, h))"

section \<open>New objects\<close>

definition ClusterSync_DeepCopy :: "k8s_copy \<Rightarrow> (addr option, cell) copier" where
  "ClusterSync_DeepCopy k = copy_pointer syncs ClusterSyncs (ClusterSync_DeepCopyInto k)"

definition ClusterSyncList_DeepCopy :: "k8s_copy \<Rightarrow> (addr option, cell) copier" where
  "ClusterSyncList_DeepCopy k = copy_pointer sync_lists ClusterSyncLists (ClusterSyncList_DeepCopyInto k)"

definition ClusterSyncSpec_DeepCopy :: "k8s_copy \<Rightarrow> (addr option, cell) copier" where
  "ClusterSyncSpec_DeepCopy k = copy_pointer sync_specs ClusterSyncSpecs (ClusterSyncSpec_DeepCopyInto k)"

definition ClusterSyncStatus_DeepCopy :: "k8s_copy \<Rightarrow> (addr option, cell) copier" where
  "ClusterSyncStatus_DeepCopy k = copy_pointer sync_statuses ClusterSyncStatuses (ClusterSyncStatus_DeepCopyInto k)"

definition ObjectReference_DeepCopy :: "(addr option, cell) copier" where
  "ObjectReference_DeepCopy = copy_pointer obj_refs ObjectReferences ObjectReference_DeepCopyInto"

definition ServiceMetadataWatcher_DeepCopy :: "k8s_copy \<Rightarrow> (addr option, cell) copier" where
  "ServiceMetadataWatcher_DeepCopy k = copy_pointer watchers Watchers (ServiceMetadataWatcher_DeepCopyInto k)"

definition ServiceMetadataWatcherList_DeepCopy :: "k8s_copy \<Rightarrow> (addr option, cell) copier" where
  "ServiceMetadataWatcherList_DeepCopy k = copy_pointer watcher_lists WatcherLists (ServiceMetadataWatcherList_DeepCopyInto k)"

definition ServiceMetadataWatcherSpec_DeepCopy :: "(addr option, cell) copier" where
  "ServiceMetadataWatcherSpec_DeepCopy = copy_pointer watcher_specs WatcherSpecs ServiceMetadataWatcherSpec_DeepCopyInto"

definition ServiceMetadataWatcherStatus_DeepCopy :: "k8s_copy \<Rightarrow> (addr option, cell) copier" where
  "ServiceMetadataWatcherStatus_DeepCopy k = copy_pointer watcher_statuses WatcherStatuses (ServiceMetadataWatcherStatus_DeepCopyInto k)"

definition WatchedField_DeepCopy :: "(addr option, cell) copier" where
  "WatchedField_DeepCopy = copy_pointer wfields WatchedFields WatchedField_DeepCopyInto"

definition WatchedResource_DeepCopy :: "k8s_copy \<Rightarrow> (addr option, cell) copier" where
  "WatchedResource_DeepCopy k = copy_pointer watched WatchedResources (WatchedResource_DeepCopyInto k)"

definition WatchedServiceObject_DeepCopy :: "(addr option, cell) copier" where
  "WatchedServiceObject_DeepCopy = copy_pointer wobjects WatchedServiceObjects WatchedServiceObject_DeepCopyInto"

definition WatchedServiceObjectStatus_DeepCopy :: "k8s_copy \<Rightarrow> (addr option, cell) copier" where
  "WatchedServiceObjectStatus_DeepCopy k = copy_pointer wstatuses WatchedServiceObjectStatuses (WatchedServiceObjectStatus_DeepCopyInto k)"

definition ClusterSync_DeepCopyObject :: "k8s_copy \<Rightarrow> (addr option, cell) copier" where
  "ClusterSync_DeepCopyObject k src h = (let (c, h) = ClusterSync_DeepCopy k src h in (if c \<noteq> None then c else None, h))"

definition ClusterSyncList_DeepCopyObject :: "k8s_copy \<Rightarrow> (addr option, cell) copier" where
  "ClusterSyncList_DeepCopyObject k src h = (let (c, h) = ClusterSyncList_DeepCopy k src h in (if c \<noteq> None then c else None, h))"

definition ServiceMetadataWatcher_DeepCopyObject :: "k8s_copy \<Rightarrow> (addr option, cell) copier" where
  "ServiceMetadataWatcher_DeepCopyObject k src h = (let (c, h) = ServiceMetadataWatcher_DeepCopy k src h in (if c \<noteq> None then c else None, h))"

definition ServiceMetadataWatcherList_DeepCopyObject :: "k8s_copy \<Rightarrow> (addr option, cell) copier" where
  "ServiceMetadataWatcherList_DeepCopyObject k src h = (let (c, h) = ServiceMetadataWatcherList_DeepCopy k src h in (if c \<noteq> None then c else None, h))"

section \<open>What the objects reach, and their values\<close>

definition owned_WatchedResource :: "cell heap \<Rightarrow> mem_WatchedResource \<Rightarrow> addr set" where
  "owned_WatchedResource h r = owned_pointer selectors owned_LabelSelector h (mwr_LabelSelector r)"

definition WatchedResource_at :: "cell heap \<Rightarrow> mem_WatchedResource \<Rightarrow> string list \<times> (str_map \<times> (string \<times> string \<times> string list) list) option" where
  "WatchedResource_at h r = ([mwr_Kind r, mwr_APIVersion r, mwr_Namespace r, mwr_Name r],
     pointer_at selectors LabelSelector_at h (mwr_LabelSelector r))"

definition owned_SyncSpec :: "cell heap \<Rightarrow> mem_ClusterSyncSpec \<Rightarrow> addr set" where
  "owned_SyncSpec h s = owned_slice watched owned_WatchedResource h (mcss_WatchedResources s)"

definition SyncSpec_at :: "cell heap \<Rightarrow> mem_ClusterSyncSpec \<Rightarrow>
    (string list \<times> (str_map \<times> (string \<times> string \<times> string list) list) option) list \<times> string" where
  "SyncSpec_at h s = (slice_at watched WatchedResource_at h (mcss_WatchedResources s), mcss_InitialData s)"

abbreviation owned_string :: "cell heap \<Rightarrow> addr option \<Rightarrow> addr set" where
  "owned_string \<equiv> owned_pointer strings owned_plain"

abbreviation string_at :: "cell heap \<Rightarrow> addr option \<Rightarrow> string option" where
  "string_at \<equiv> pointer_at strings value_plain"

definition owned_SyncStatus :: "cell heap \<Rightarrow> mem_ClusterSyncStatus \<Rightarrow> addr set" where
  "owned_SyncStatus h s = owned_pointer times owned_plain h (msst_LastSyncTime s) \<union> (owned_string h (msst_LastSyncStatus s) \<union>
     (owned_string h (msst_LastSyncError s) \<union> (owned_string h (msst_SyncedData s) \<union> owned_string h (msst_SyncedDataHash s))))"

definition SyncStatus_at :: "cell heap \<Rightarrow> mem_ClusterSyncStatus \<Rightarrow> ClusterSyncStatus" where
  "SyncStatus_at h s = \<lparr>sst_LastSyncTime = pointer_at times value_plain h (msst_LastSyncTime s),
     sst_LastSyncStatus = string_at h (msst_LastSyncStatus s), sst_LastSyncError = string_at h (msst_LastSyncError s),
     sst_SyncedData = string_at h (msst_SyncedData s), sst_SyncedDataHash = string_at h (msst_SyncedDataHash s)\<rparr>"

definition owned_Sync :: "cell heap \<Rightarrow> mem_ClusterSync \<Rightarrow> addr set" where
  "owned_Sync h s = owned_ObjectMeta h (msync_ObjectMeta s) \<union> (owned_SyncSpec h (msync_Spec s) \<union> owned_SyncStatus h (msync_Status s))"

definition Sync_at :: "cell heap \<Rightarrow> mem_ClusterSync \<Rightarrow> TypeMeta \<times> ObjectMeta \<times>
    ((string list \<times> (str_map \<times> (string \<times> string \<times> string list) list) option) list \<times> string) \<times> ClusterSyncStatus" where
  "Sync_at h s = (msync_TypeMeta s, ObjectMeta_at h (msync_ObjectMeta s), SyncSpec_at h (msync_Spec s), SyncStatus_at h (msync_Status s))"

definition owned_WatchedObject :: "cell heap \<Rightarrow> mem_WatchedServiceObject \<Rightarrow> addr set" where
  "owned_WatchedObject h w = owned_slice wfields owned_plain h (mwso_WatchedFields w)"

definition WatchedObject_at :: "cell heap \<Rightarrow> mem_WatchedServiceObject \<Rightarrow> WatchedServiceObject" where
  "WatchedObject_at h w = \<lparr>wso_ObjectReference = mwso_ObjectReference w, wso_WatchedFields = slice_at wfields value_plain h (mwso_WatchedFields w)\<rparr>"

definition owned_WatchedStatus :: "cell heap \<Rightarrow> mem_WatchedServiceObjectStatus \<Rightarrow> addr set" where
  "owned_WatchedStatus h w = owned_strings h (mwos_Errors w)"

definition WatchedStatus_at :: "cell heap \<Rightarrow> mem_WatchedServiceObjectStatus \<Rightarrow> WatchedServiceObjectStatus" where
  "WatchedStatus_at h w = \<lparr>wos_LastUpdated = mwos_LastUpdated w, wos_ObjectReference = mwos_ObjectReference w,
     wos_Errors = strings_at h (mwos_Errors w)\<rparr>"

definition owned_Watcher :: "cell heap \<Rightarrow> mem_ServiceMetadataWatcher \<Rightarrow> addr set" where
  "owned_Watcher h w = owned_ObjectMeta h (msmw_ObjectMeta w) \<union>
     (owned_slice wobjects owned_WatchedObject h (msmws_WatchedServiceObjects (msmw_Spec w)) \<union>
      owned_slice wstatuses owned_WatchedStatus h (msmwt_WatchedServiceObjects (msmw_Status w)))"

definition Watcher_at :: "cell heap \<Rightarrow> mem_ServiceMetadataWatcher \<Rightarrow> TypeMeta \<times> ServiceMetadataWatcher" where
  "Watcher_at h w = (msmw_TypeMeta w, \<lparr>smw_Meta = ObjectMeta_at h (msmw_ObjectMeta w),
     smw_Spec = \<lparr>smws_WatchedServiceObjects = slice_at wobjects WatchedObject_at h (msmws_WatchedServiceObjects (msmw_Spec w))\<rparr>,
     smw_Status = \<lparr>smwt_WatchedServiceObjects = slice_at wstatuses WatchedStatus_at h (msmwt_WatchedServiceObjects (msmw_Status w))\<rparr>\<rparr>)"

definition owned_Syncs :: "cell heap \<Rightarrow> mem_ClusterSyncList \<Rightarrow> addr set" where
  "owned_Syncs h l = owned_ListMeta h (msyncs_ListMeta l) \<union> owned_slice syncs owned_Sync h (msyncs_Items l)"

definition Syncs_at :: "cell heap \<Rightarrow> mem_ClusterSyncList \<Rightarrow> TypeMeta \<times> (string \<times> string \<times> int option) \<times> (TypeMeta \<times> ObjectMeta \<times>
    ((string list \<times> (str_map \<times> (string \<times> string \<times> string list) list) option) list \<times> string) \<times> ClusterSyncStatus) list" where
  "Syncs_at h l = (msyncs_TypeMeta l, ListMeta_at h (msyncs_ListMeta l), slice_at syncs Sync_at h (msyncs_Items l))"

definition owned_Watchers :: "cell heap \<Rightarrow> mem_ServiceMetadataWatcherList \<Rightarrow> addr set" where
  "owned_Watchers h l = owned_ListMeta h (msmwl_ListMeta l) \<union> owned_slice watchers owned_Watcher h (msmwl_Items l)"

definition Watchers_at :: "cell heap \<Rightarrow> mem_ServiceMetadataWatcherList \<Rightarrow>
    TypeMeta \<times> (string \<times> string \<times> int option) \<times> (TypeMeta \<times> ServiceMetadataWatcher) list" where
  "Watchers_at h l = (msmwl_TypeMeta l, ListMeta_at h (msmwl_ListMeta l), slice_at watchers Watcher_at h (msmwl_Items l))"

section \<open>They are deep copies\<close>

lemma copyable_string [copying]: "copyable copy_string owned_string string_at"
  unfolding copy_string_def by (intro copyable_pointer copyable_plain) simp

lemma copyable_WatchedObject [copying]: "copyable WatchedServiceObject_DeepCopyInto owned_WatchedObject WatchedObject_at"
  by (rule copyable_struct [OF copyable_slice [OF plain_in_cell cell.sel(28)], where refs = mwso_WatchedFields
        and put = "\<lambda>w f. w\<lparr>mwso_WatchedFields := f\<rparr>"])
    (auto simp: WatchedServiceObject_DeepCopyInto_def owned_WatchedObject_def WatchedObject_at_def split: prod.splits)

lemmas alpha_copy_defs = copy_pair_def owned_pair_def value_pair_def value_plain_def owned_plain_def

context k8s_deepcopy
begin

lemma WatchedResource: "copyable (WatchedResource_DeepCopyInto k) owned_WatchedResource WatchedResource_at"
  by (rule copyable_struct [OF copyable_pointer [OF LabelSelector cell.sel(9)], where refs = mwr_LabelSelector
        and put = "\<lambda>r l. r\<lparr>mwr_LabelSelector := l\<rparr>"])
    (auto simp: WatchedResource_DeepCopyInto_def owned_WatchedResource_def WatchedResource_at_def split: prod.splits)

lemma SyncSpec: "copyable (ClusterSyncSpec_DeepCopyInto k) owned_SyncSpec SyncSpec_at"
  by (rule copyable_struct [OF copyable_slice [OF WatchedResource cell.sel(22)], where refs = mcss_WatchedResources
        and put = "\<lambda>s r. s\<lparr>mcss_WatchedResources := r\<rparr>"])
    (auto simp: ClusterSyncSpec_DeepCopyInto_def owned_SyncSpec_def SyncSpec_at_def split: prod.splits)

lemma SyncStatus: "copyable (ClusterSyncStatus_DeepCopyInto k) owned_SyncStatus SyncStatus_at"
  by (rule copyable_struct [OF copyable_pair [OF copyable_pointer [OF Time cell.sel(4)] copyable_pair [OF copyable_string
        copyable_pair [OF copyable_string copyable_pair [OF copyable_string copyable_string]]]],
        where refs = "\<lambda>s. (msst_LastSyncTime s, msst_LastSyncStatus s, msst_LastSyncError s, msst_SyncedData s, msst_SyncedDataHash s)"
          and put = "\<lambda>s (t, st, e, d, ha). s\<lparr>msst_LastSyncTime := t, msst_LastSyncStatus := st, msst_LastSyncError := e,
            msst_SyncedData := d, msst_SyncedDataHash := ha\<rparr>"])
    (auto simp: ClusterSyncStatus_DeepCopyInto_def owned_SyncStatus_def SyncStatus_at_def copy_pair_def owned_pair_def value_pair_def split: prod.splits)

lemma Sync: "copyable (ClusterSync_DeepCopyInto k) owned_Sync Sync_at"
  by (rule copyable_struct [OF copyable_pair [OF ObjectMeta copyable_pair [OF SyncSpec SyncStatus]],
        where refs = "\<lambda>s. (msync_ObjectMeta s, msync_Spec s, msync_Status s)"
          and put = "\<lambda>s (m, sp, st). s\<lparr>msync_ObjectMeta := m, msync_Spec := sp, msync_Status := st\<rparr>"])
    (auto simp: ClusterSync_DeepCopyInto_def owned_Sync_def Sync_at_def copy_pair_def owned_pair_def value_pair_def split: prod.splits)

lemma Syncs: "copyable (ClusterSyncList_DeepCopyInto k) owned_Syncs Syncs_at"
  by (rule copyable_struct [OF copyable_pair [OF ListMeta copyable_slice [OF Sync cell.sel(25)]],
        where refs = "\<lambda>l. (msyncs_ListMeta l, msyncs_Items l)" and put = "\<lambda>l (m, i). l\<lparr>msyncs_ListMeta := m, msyncs_Items := i\<rparr>"])
    (auto simp: ClusterSyncList_DeepCopyInto_def owned_Syncs_def Syncs_at_def copy_pair_def owned_pair_def value_pair_def split: prod.splits)

lemma WatchedStatus: "copyable (WatchedServiceObjectStatus_DeepCopyInto k) owned_WatchedStatus WatchedStatus_at"
  by (rule copyable_struct [OF copyable_pair [OF Time copyable_strings],
        where refs = "\<lambda>w. (mwos_LastUpdated w, mwos_Errors w)" and put = "\<lambda>w (t, e). w\<lparr>mwos_LastUpdated := t, mwos_Errors := e\<rparr>"])
    (auto simp: WatchedServiceObjectStatus_DeepCopyInto_def owned_WatchedStatus_def WatchedStatus_at_def alpha_copy_defs split: prod.splits)

lemma Watcher: "copyable (ServiceMetadataWatcher_DeepCopyInto k) owned_Watcher Watcher_at"
  by (rule copyable_struct [OF copyable_pair [OF ObjectMeta copyable_pair [OF copyable_slice [OF copyable_WatchedObject cell.sel(29)]
          copyable_slice [OF WatchedStatus cell.sel(30)]]],
        where refs = "\<lambda>w. (msmw_ObjectMeta w, msmws_WatchedServiceObjects (msmw_Spec w), msmwt_WatchedServiceObjects (msmw_Status w))"
          and put = "\<lambda>w (m, sp, st). w\<lparr>msmw_ObjectMeta := m, msmw_Spec := (msmw_Spec w)\<lparr>msmws_WatchedServiceObjects := sp\<rparr>,
            msmw_Status := (msmw_Status w)\<lparr>msmwt_WatchedServiceObjects := st\<rparr>\<rparr>"])
    (auto simp: ServiceMetadataWatcher_DeepCopyInto_def ServiceMetadataWatcherSpec_DeepCopyInto_def
      ServiceMetadataWatcherStatus_DeepCopyInto_def owned_Watcher_def Watcher_at_def copy_pair_def owned_pair_def value_pair_def split: prod.splits)

lemma Watchers: "copyable (ServiceMetadataWatcherList_DeepCopyInto k) owned_Watchers Watchers_at"
  by (rule copyable_struct [OF copyable_pair [OF ListMeta copyable_slice [OF Watcher cell.sel(33)]],
        where refs = "\<lambda>l. (msmwl_ListMeta l, msmwl_Items l)" and put = "\<lambda>l (m, i). l\<lparr>msmwl_ListMeta := m, msmwl_Items := i\<rparr>"])
    (auto simp: ServiceMetadataWatcherList_DeepCopyInto_def owned_Watchers_def Watchers_at_def copy_pair_def owned_pair_def value_pair_def
      split: prod.splits)

text \<open>The pointers that the controllers hold.\<close>

lemma Sync_pointer: "copyable (ClusterSync_DeepCopy k) (owned_pointer syncs owned_Sync) (pointer_at syncs Sync_at)"
  unfolding ClusterSync_DeepCopy_def by (intro copyable_pointer Sync) simp

lemma Watcher_pointer: "copyable (ServiceMetadataWatcher_DeepCopy k) (owned_pointer watchers owned_Watcher) (pointer_at watchers Watcher_at)"
  unfolding ServiceMetadataWatcher_DeepCopy_def by (intro copyable_pointer Watcher) simp

end

interpretation sync_copy: copyable "ClusterSync_DeepCopy plain_k8s" "owned_pointer syncs owned_Sync" "pointer_at syncs Sync_at"
  by (rule plain_library.Sync_pointer)

interpretation watcher_copy: copyable "ServiceMetadataWatcher_DeepCopy plain_k8s" "owned_pointer watchers owned_Watcher" "pointer_at watchers Watcher_at"
  by (rule plain_library.Watcher_pointer)

end
