(* ===== verification/Config_Copy.thy ===== *)
theory Config_Copy
  imports Deep_Copy Controller_Config
begin

text \<open>
  The generated deep copies of the configuration files
  (pkg/api/config/v1/zz_generated.deepcopy.go), over a heap of their own.  The copy of the leader
  election settings is the one of the Kubernetes library.
\<close>

section \<open>The files in memory\<close>

record mem_AlertRule =
  mar_AlertName :: string
  mar_OnFiring :: "addr option"
  mar_OnResolved :: "addr option"

record mem_AlertmanagerWebhookConfig =
  maw_BindAddress :: string
  maw_AlertMap :: "addr option"

record mem_ServiceMetadataConfig =
  msmc_WatchedGVKs :: "addr option"
  msmc_ServiceIdAnnotation :: string

record mem_LeaderElectionConfiguration =
  mle_LeaderElect :: "addr option"
  mle_LeaseDuration :: int
  mle_RenewDeadline :: int
  mle_RetryPeriod :: int
  mle_ResourceLock :: string
  mle_ResourceName :: string
  mle_ResourceNamespace :: string

record mem_ControllerConfigurationSpec =
  mccs_GroupKindConcurrency :: "addr option"
  mccs_CacheSyncTimeout :: "addr option"
  mccs_RecoverPanic :: "addr option"

record mem_ControllerWebhook =
  mcw_Port :: "addr option"
  mcw_Host :: string
  mcw_CertDir :: string

record mem_ControllerManager =
  mcm_SyncPeriod :: "addr option"
  mcm_LeaderElection :: "addr option"
  mcm_CacheNamespace :: string
  mcm_GracefulShutdownTimeout :: "addr option"
  mcm_Controller :: "addr option"
  mcm_Metrics :: ControllerMetrics
  mcm_Health :: ControllerHealth
  mcm_Webhook :: mem_ControllerWebhook

record mem_ControllerManagerConfiguration =
  mcmc_TypeMeta :: TypeMeta
  mcmc_ControllerManager :: mem_ControllerManager

record mem_ClientConfig =
  mcc_TypeMeta :: TypeMeta
  mcc_ControllerManager :: mem_ControllerManager
  mcc_Namespace :: string
  mcc_AlertmanagerWebhook :: mem_AlertmanagerWebhookConfig
  mcc_ServiceMetadata :: mem_ServiceMetadataConfig

record mem_SyncConfig =
  msc_TypeMeta :: TypeMeta
  msc_ControllerManager :: mem_ControllerManager
  msc_Namespace :: string
  msc_WatchedGVKs :: "addr option"

type_synonym ClientConfigStatus = unit

type_synonym SyncConfigStatus = unit

datatype (plugins only: code) config_cell =
    TextMap (text_map: "(string \<times> string) list")
  | NumberMap (number_map: "(string \<times> int) list")
  | Numbers (numbers: "int list")
  | Switches (switches: "bool list")
  | WatchedGVKs (watched_kinds: "WatchedGVK list")
  | AlertRules (alert_rules: "mem_AlertRule list")
  | WebhookConfigs (webhook_configs: "mem_AlertmanagerWebhookConfig list")
  | MetadataConfigs (metadata_configs: "mem_ServiceMetadataConfig list")
  | LeaderElections (leader_elections: "mem_LeaderElectionConfiguration list")
  | ControllerSpecs (controller_specs: "mem_ControllerConfigurationSpec list")
  | ControllerMetricss (controller_metrics: "ControllerMetrics list")
  | ControllerHealths (controller_healths: "ControllerHealth list")
  | ControllerWebhooks (controller_webhooks: "mem_ControllerWebhook list")
  | ControllerManagers (controller_managers: "mem_ControllerManager list")
  | ManagerConfigurations (manager_configurations: "mem_ControllerManagerConfiguration list")
  | ClientConfigs (client_configs: "mem_ClientConfig list")
  | ClientConfigStatuses (client_statuses: "ClientConfigStatus list")
  | SyncConfigs (sync_configs: "mem_SyncConfig list")
  | SyncConfigStatuses (sync_config_statuses: "SyncConfigStatus list")

section \<open>The copies\<close>

definition copy_text_map :: "(addr option, config_cell) copier" where
  "copy_text_map = copy_slice text_map TextMap (copy_entry copy_plain)"

definition copy_number :: "(addr option, config_cell) copier" where
  "copy_number = copy_pointer numbers Numbers copy_plain"

definition copy_switch :: "(addr option, config_cell) copier" where
  "copy_switch = copy_pointer switches Switches copy_plain"

definition copy_kinds :: "(addr option, config_cell) copier" where
  "copy_kinds = copy_slice watched_kinds WatchedGVKs copy_plain"

definition AlertRule_DeepCopyInto :: "(mem_AlertRule, config_cell) copier" where
  "AlertRule_DeepCopyInto src h =
     (let out = src;
          (onFiring, h) = copy_text_map (mar_OnFiring src) h; out = out\<lparr>mar_OnFiring := onFiring\<rparr>;
          (onResolved, h) = copy_text_map (mar_OnResolved src) h; out = out\<lparr>mar_OnResolved := onResolved\<rparr>
      in (out, h))"

definition AlertmanagerWebhookConfig_DeepCopyInto :: "(mem_AlertmanagerWebhookConfig, config_cell) copier" where
  "AlertmanagerWebhookConfig_DeepCopyInto src h =
     (let out = src;
          (alertMap, h) = copy_slice alert_rules AlertRules AlertRule_DeepCopyInto (maw_AlertMap src) h;
          out = out\<lparr>maw_AlertMap := alertMap\<rparr>
      in (out, h))"

definition ControllerConfigurationSpec_DeepCopyInto :: "(mem_ControllerConfigurationSpec, config_cell) copier" where
  "ControllerConfigurationSpec_DeepCopyInto src h =
     (let out = src;
          (concurrency, h) = copy_slice number_map NumberMap (copy_entry copy_plain) (mccs_GroupKindConcurrency src) h;
          out = out\<lparr>mccs_GroupKindConcurrency := concurrency\<rparr>;
          (cacheSyncTimeout, h) = copy_number (mccs_CacheSyncTimeout src) h; out = out\<lparr>mccs_CacheSyncTimeout := cacheSyncTimeout\<rparr>;
          (recoverPanic, h) = copy_switch (mccs_RecoverPanic src) h; out = out\<lparr>mccs_RecoverPanic := recoverPanic\<rparr>
      in (out, h))"

definition ControllerHealth_DeepCopyInto :: "(ControllerHealth, config_cell) copier" where
  "ControllerHealth_DeepCopyInto = copy_plain"

definition ControllerMetrics_DeepCopyInto :: "(ControllerMetrics, config_cell) copier" where
  "ControllerMetrics_DeepCopyInto = copy_plain"

definition ControllerWebhook_DeepCopyInto :: "(mem_ControllerWebhook, config_cell) copier" where
  "ControllerWebhook_DeepCopyInto src h =
     (let out = src; (port, h) = copy_number (mcw_Port src) h; out = out\<lparr>mcw_Port := port\<rparr> in (out, h))"

text \<open>\<open>le\<close> is the copy of the library.\<close>

type_synonym election_copy = "(mem_LeaderElectionConfiguration, config_cell) copier"

definition ControllerManager_DeepCopyInto :: "election_copy \<Rightarrow> (mem_ControllerManager, config_cell) copier" where
  "ControllerManager_DeepCopyInto le src h =
     (let out = src;
          (syncPeriod, h) = copy_number (mcm_SyncPeriod src) h; out = out\<lparr>mcm_SyncPeriod := syncPeriod\<rparr>;
          (leaderElection, h) = copy_pointer leader_elections LeaderElections le (mcm_LeaderElection src) h;
          out = out\<lparr>mcm_LeaderElection := leaderElection\<rparr>;
          (timeout, h) = copy_number (mcm_GracefulShutdownTimeout src) h; out = out\<lparr>mcm_GracefulShutdownTimeout := timeout\<rparr>;
          (controller, h) = copy_pointer controller_specs ControllerSpecs ControllerConfigurationSpec_DeepCopyInto (mcm_Controller src) h;
          out = out\<lparr>mcm_Controller := controller\<rparr>;
          out = out\<lparr>mcm_Metrics := mcm_Metrics src\<rparr>;
          out = out\<lparr>mcm_Health := mcm_Health src\<rparr>;
          (webhook, h) = ControllerWebhook_DeepCopyInto (mcm_Webhook src) h; out = out\<lparr>mcm_Webhook := webhook\<rparr>
      in (out, h))"

definition ControllerManagerConfiguration_DeepCopyInto :: "election_copy \<Rightarrow> (mem_ControllerManagerConfiguration, config_cell) copier" where
  "ControllerManagerConfiguration_DeepCopyInto le src h =
     (let out = src; out = out\<lparr>mcmc_TypeMeta := mcmc_TypeMeta src\<rparr>;
          (manager, h) = ControllerManager_DeepCopyInto le (mcmc_ControllerManager src) h; out = out\<lparr>mcmc_ControllerManager := manager\<rparr>
      in (out, h))"

definition ServiceMetadataConfig_DeepCopyInto :: "(mem_ServiceMetadataConfig, config_cell) copier" where
  "ServiceMetadataConfig_DeepCopyInto src h =
     (let out = src; (gvks, h) = copy_kinds (msmc_WatchedGVKs src) h; out = out\<lparr>msmc_WatchedGVKs := gvks\<rparr> in (out, h))"

definition ClientConfig_DeepCopyInto :: "election_copy \<Rightarrow> (mem_ClientConfig, config_cell) copier" where
  "ClientConfig_DeepCopyInto le src h =
     (let out = src; out = out\<lparr>mcc_TypeMeta := mcc_TypeMeta src\<rparr>;
          (manager, h) = ControllerManager_DeepCopyInto le (mcc_ControllerManager src) h; out = out\<lparr>mcc_ControllerManager := manager\<rparr>;
          (webhook, h) = AlertmanagerWebhookConfig_DeepCopyInto (mcc_AlertmanagerWebhook src) h;
          out = out\<lparr>mcc_AlertmanagerWebhook := webhook\<rparr>;
          (metadata, h) = ServiceMetadataConfig_DeepCopyInto (mcc_ServiceMetadata src) h; out = out\<lparr>mcc_ServiceMetadata := metadata\<rparr>
      in (out, h))"

definition SyncConfig_DeepCopyInto :: "election_copy \<Rightarrow> (mem_SyncConfig, config_cell) copier" where
  "SyncConfig_DeepCopyInto le src h =
     (let out = src; out = out\<lparr>msc_TypeMeta := msc_TypeMeta src\<rparr>;
          (manager, h) = ControllerManager_DeepCopyInto le (msc_ControllerManager src) h; out = out\<lparr>msc_ControllerManager := manager\<rparr>;
          (gvks, h) = copy_kinds (msc_WatchedGVKs src) h; out = out\<lparr>msc_WatchedGVKs := gvks\<rparr>
      in (out, h))"

definition ClientConfigStatus_DeepCopyInto :: "(ClientConfigStatus, config_cell) copier" where
  "ClientConfigStatus_DeepCopyInto = copy_plain"

definition SyncConfigStatus_DeepCopyInto :: "(SyncConfigStatus, config_cell) copier" where
  "SyncConfigStatus_DeepCopyInto = copy_plain"

definition WatchedGVK_DeepCopyInto :: "(WatchedGVK, config_cell) copier" where
  "WatchedGVK_DeepCopyInto = copy_plain"

section \<open>New objects\<close>

definition AlertRule_DeepCopy :: "(addr option, config_cell) copier" where
  "AlertRule_DeepCopy = copy_pointer alert_rules AlertRules AlertRule_DeepCopyInto"

definition AlertmanagerWebhookConfig_DeepCopy :: "(addr option, config_cell) copier" where
  "AlertmanagerWebhookConfig_DeepCopy = copy_pointer webhook_configs WebhookConfigs AlertmanagerWebhookConfig_DeepCopyInto"

definition ClientConfig_DeepCopy :: "election_copy \<Rightarrow> (addr option, config_cell) copier" where
  "ClientConfig_DeepCopy le = copy_pointer client_configs ClientConfigs (ClientConfig_DeepCopyInto le)"

definition ClientConfigStatus_DeepCopy :: "(addr option, config_cell) copier" where
  "ClientConfigStatus_DeepCopy = copy_pointer client_statuses ClientConfigStatuses ClientConfigStatus_DeepCopyInto"

definition ControllerConfigurationSpec_DeepCopy :: "(addr option, config_cell) copier" where
  "ControllerConfigurationSpec_DeepCopy = copy_pointer controller_specs ControllerSpecs ControllerConfigurationSpec_DeepCopyInto"

definition ControllerHealth_DeepCopy :: "(addr option, config_cell) copier" where
  "ControllerHealth_DeepCopy = copy_pointer controller_healths ControllerHealths ControllerHealth_DeepCopyInto"

definition ControllerManager_DeepCopy :: "election_copy \<Rightarrow> (addr option, config_cell) copier" where
  "ControllerManager_DeepCopy le = copy_pointer controller_managers ControllerManagers (ControllerManager_DeepCopyInto le)"

definition ControllerManagerConfiguration_DeepCopy :: "election_copy \<Rightarrow> (addr option, config_cell) copier" where
  "ControllerManagerConfiguration_DeepCopy le = copy_pointer manager_configurations ManagerConfigurations (ControllerManagerConfiguration_DeepCopyInto le)"

definition ControllerMetrics_DeepCopy :: "(addr option, config_cell) copier" where
  "ControllerMetrics_DeepCopy = copy_pointer controller_metrics ControllerMetricss ControllerMetrics_DeepCopyInto"

definition ControllerWebhook_DeepCopy :: "(addr option, config_cell) copier" where
  "ControllerWebhook_DeepCopy = copy_pointer controller_webhooks ControllerWebhooks ControllerWebhook_DeepCopyInto"

definition ServiceMetadataConfig_DeepCopy :: "(addr option, config_cell) copier" where
  "ServiceMetadataConfig_DeepCopy = copy_pointer metadata_configs MetadataConfigs ServiceMetadataConfig_DeepCopyInto"

definition SyncConfig_DeepCopy :: "election_copy \<Rightarrow> (addr option, config_cell) copier" where
  "SyncConfig_DeepCopy le = copy_pointer sync_configs SyncConfigs (SyncConfig_DeepCopyInto le)"

definition SyncConfigStatus_DeepCopy :: "(addr option, config_cell) copier" where
  "SyncConfigStatus_DeepCopy = copy_pointer sync_config_statuses SyncConfigStatuses SyncConfigStatus_DeepCopyInto"

definition WatchedGVK_DeepCopy :: "(addr option, config_cell) copier" where
  "WatchedGVK_DeepCopy = copy_pointer watched_kinds WatchedGVKs WatchedGVK_DeepCopyInto"

definition ClientConfig_DeepCopyObject :: "election_copy \<Rightarrow> (addr option, config_cell) copier" where
  "ClientConfig_DeepCopyObject le src h = (let (c, h) = ClientConfig_DeepCopy le src h in (if c \<noteq> None then c else None, h))"

definition SyncConfig_DeepCopyObject :: "election_copy \<Rightarrow> (addr option, config_cell) copier" where
  "SyncConfig_DeepCopyObject le src h = (let (c, h) = SyncConfig_DeepCopy le src h in (if c \<noteq> None then c else None, h))"

section \<open>What they reach, and their values\<close>

abbreviation owned_text_map :: "config_cell heap \<Rightarrow> addr option \<Rightarrow> addr set" where
  "owned_text_map \<equiv> owned_slice text_map (owned_entry owned_plain)"

abbreviation owned_number :: "config_cell heap \<Rightarrow> addr option \<Rightarrow> addr set" where
  "owned_number \<equiv> owned_pointer numbers owned_plain"

abbreviation owned_switch :: "config_cell heap \<Rightarrow> addr option \<Rightarrow> addr set" where
  "owned_switch \<equiv> owned_pointer switches owned_plain"

abbreviation owned_kinds :: "config_cell heap \<Rightarrow> addr option \<Rightarrow> addr set" where
  "owned_kinds \<equiv> owned_slice watched_kinds owned_plain"

definition owned_AlertRule :: "config_cell heap \<Rightarrow> mem_AlertRule \<Rightarrow> addr set" where
  "owned_AlertRule h r = owned_text_map h (mar_OnFiring r) \<union> owned_text_map h (mar_OnResolved r)"

definition AlertRule_at :: "config_cell heap \<Rightarrow> mem_AlertRule \<Rightarrow> AlertRule" where
  "AlertRule_at h r = \<lparr>ar_AlertName = mar_AlertName r, ar_OnFiring = map_at text_map value_plain h (mar_OnFiring r),
     ar_OnResolved = map_at text_map value_plain h (mar_OnResolved r)\<rparr>"

definition owned_WebhookConfig :: "config_cell heap \<Rightarrow> mem_AlertmanagerWebhookConfig \<Rightarrow> addr set" where
  "owned_WebhookConfig h w = owned_slice alert_rules owned_AlertRule h (maw_AlertMap w)"

definition WebhookConfig_at :: "config_cell heap \<Rightarrow> mem_AlertmanagerWebhookConfig \<Rightarrow> AlertmanagerWebhookConfig" where
  "WebhookConfig_at h w = \<lparr>aw_BindAddress = maw_BindAddress w, aw_AlertMap = slice_at alert_rules AlertRule_at h (maw_AlertMap w)\<rparr>"

definition owned_MetadataConfig :: "config_cell heap \<Rightarrow> mem_ServiceMetadataConfig \<Rightarrow> addr set" where
  "owned_MetadataConfig h m = owned_kinds h (msmc_WatchedGVKs m)"

definition MetadataConfig_at :: "config_cell heap \<Rightarrow> mem_ServiceMetadataConfig \<Rightarrow> ServiceMetadataConfig" where
  "MetadataConfig_at h m = \<lparr>smc_WatchedGVKs = slice_at watched_kinds value_plain h (msmc_WatchedGVKs m),
     smc_ServiceIdAnnotation = msmc_ServiceIdAnnotation m\<rparr>"

definition owned_LeaderElection :: "config_cell heap \<Rightarrow> mem_LeaderElectionConfiguration \<Rightarrow> addr set" where
  "owned_LeaderElection h l = owned_switch h (mle_LeaderElect l)"

definition LeaderElection_at :: "config_cell heap \<Rightarrow> mem_LeaderElectionConfiguration \<Rightarrow> LeaderElectionConfiguration" where
  "LeaderElection_at h l = \<lparr>le_LeaderElect = pointer_at switches value_plain h (mle_LeaderElect l), le_LeaseDuration = mle_LeaseDuration l,
     le_RenewDeadline = mle_RenewDeadline l, le_RetryPeriod = mle_RetryPeriod l, le_ResourceLock = mle_ResourceLock l,
     le_ResourceName = mle_ResourceName l, le_ResourceNamespace = mle_ResourceNamespace l\<rparr>"

definition owned_ControllerSpec :: "config_cell heap \<Rightarrow> mem_ControllerConfigurationSpec \<Rightarrow> addr set" where
  "owned_ControllerSpec h c = owned_slice number_map (owned_entry owned_plain) h (mccs_GroupKindConcurrency c) \<union>
     (owned_number h (mccs_CacheSyncTimeout c) \<union> owned_switch h (mccs_RecoverPanic c))"

definition ControllerSpec_at :: "config_cell heap \<Rightarrow> mem_ControllerConfigurationSpec \<Rightarrow> ControllerConfigurationSpec" where
  "ControllerSpec_at h c = \<lparr>ccs_GroupKindConcurrency = slice_at number_map (value_entry value_plain) h (mccs_GroupKindConcurrency c),
     ccs_CacheSyncTimeout = pointer_at numbers value_plain h (mccs_CacheSyncTimeout c),
     ccs_RecoverPanic = pointer_at switches value_plain h (mccs_RecoverPanic c)\<rparr>"

definition owned_ControllerManager :: "config_cell heap \<Rightarrow> mem_ControllerManager \<Rightarrow> addr set" where
  "owned_ControllerManager h m = owned_number h (mcm_SyncPeriod m) \<union>
     (owned_pointer leader_elections owned_LeaderElection h (mcm_LeaderElection m) \<union> (owned_number h (mcm_GracefulShutdownTimeout m) \<union>
      (owned_pointer controller_specs owned_ControllerSpec h (mcm_Controller m) \<union> owned_number h (mcw_Port (mcm_Webhook m)))))"

definition ControllerManager_at :: "config_cell heap \<Rightarrow> mem_ControllerManager \<Rightarrow> ControllerManager" where
  "ControllerManager_at h m = \<lparr>cm_SyncPeriod = pointer_at numbers value_plain h (mcm_SyncPeriod m),
     cm_LeaderElection = pointer_at leader_elections LeaderElection_at h (mcm_LeaderElection m),
     cm_CacheNamespace = mcm_CacheNamespace m,
     cm_GracefulShutdownTimeout = pointer_at numbers value_plain h (mcm_GracefulShutdownTimeout m),
     cm_Controller = pointer_at controller_specs ControllerSpec_at h (mcm_Controller m),
     cm_Metrics = mcm_Metrics m, cm_Health = mcm_Health m,
     cm_Webhook = \<lparr>cw_Port = pointer_at numbers value_plain h (mcw_Port (mcm_Webhook m)), cw_Host = mcw_Host (mcm_Webhook m),
       cw_CertDir = mcw_CertDir (mcm_Webhook m)\<rparr>\<rparr>"

definition owned_ClientConfig :: "config_cell heap \<Rightarrow> mem_ClientConfig \<Rightarrow> addr set" where
  "owned_ClientConfig h c = owned_ControllerManager h (mcc_ControllerManager c) \<union>
     (owned_WebhookConfig h (mcc_AlertmanagerWebhook c) \<union> owned_MetadataConfig h (mcc_ServiceMetadata c))"

definition ClientConfig_at :: "config_cell heap \<Rightarrow> mem_ClientConfig \<Rightarrow> TypeMeta \<times> ClientConfig" where
  "ClientConfig_at h c = (mcc_TypeMeta c, ControllerManager.extend (ControllerManager_at h (mcc_ControllerManager c))
     (ClientConfig.fields (mcc_Namespace c) (WebhookConfig_at h (mcc_AlertmanagerWebhook c)) (MetadataConfig_at h (mcc_ServiceMetadata c))))"

definition owned_SyncConfig :: "config_cell heap \<Rightarrow> mem_SyncConfig \<Rightarrow> addr set" where
  "owned_SyncConfig h c = owned_ControllerManager h (msc_ControllerManager c) \<union> owned_kinds h (msc_WatchedGVKs c)"

definition SyncConfig_at :: "config_cell heap \<Rightarrow> mem_SyncConfig \<Rightarrow> TypeMeta \<times> SyncConfig" where
  "SyncConfig_at h c = (msc_TypeMeta c, ControllerManager.extend (ControllerManager_at h (msc_ControllerManager c))
     (SyncConfig.fields (msc_Namespace c) (slice_at watched_kinds value_plain h (msc_WatchedGVKs c))))"

section \<open>They are deep copies\<close>

lemma plain_in_config: "copyable (copy_plain :: ('a, config_cell) copier) owned_plain value_plain"
  by (rule copyable_plain)

lemma copyable_text_map: "copyable copy_text_map owned_text_map (map_at text_map value_plain)"
  unfolding copy_text_map_def by (intro copyable_map copyable_plain) simp

lemma copyable_number: "copyable copy_number owned_number (pointer_at numbers value_plain)"
  unfolding copy_number_def by (intro copyable_pointer copyable_plain) simp

lemma copyable_switch: "copyable copy_switch owned_switch (pointer_at switches value_plain)"
  unfolding copy_switch_def by (intro copyable_pointer copyable_plain) simp

lemma copyable_kinds: "copyable copy_kinds owned_kinds (slice_at watched_kinds value_plain)"
  unfolding copy_kinds_def by (intro copyable_slice copyable_plain) simp

lemma copyable_AlertRule: "copyable AlertRule_DeepCopyInto owned_AlertRule AlertRule_at"
  by (rule copyable_struct [OF copyable_pair [OF copyable_text_map copyable_text_map],
        where refs = "\<lambda>r. (mar_OnFiring r, mar_OnResolved r)" and put = "\<lambda>r (f, s). r\<lparr>mar_OnFiring := f, mar_OnResolved := s\<rparr>"])
    (auto simp: AlertRule_DeepCopyInto_def owned_AlertRule_def AlertRule_at_def copy_pair_def owned_pair_def value_pair_def split: prod.splits)

lemma copyable_WebhookConfig: "copyable AlertmanagerWebhookConfig_DeepCopyInto owned_WebhookConfig WebhookConfig_at"
  by (rule copyable_struct [OF copyable_slice [OF copyable_AlertRule config_cell.sel(6)], where refs = maw_AlertMap
        and put = "\<lambda>w a. w\<lparr>maw_AlertMap := a\<rparr>"])
    (auto simp: AlertmanagerWebhookConfig_DeepCopyInto_def owned_WebhookConfig_def WebhookConfig_at_def split: prod.splits)

lemma copyable_MetadataConfig: "copyable ServiceMetadataConfig_DeepCopyInto owned_MetadataConfig MetadataConfig_at"
  by (rule copyable_struct [OF copyable_kinds, where refs = msmc_WatchedGVKs and put = "\<lambda>m g. m\<lparr>msmc_WatchedGVKs := g\<rparr>"])
    (auto simp: ServiceMetadataConfig_DeepCopyInto_def owned_MetadataConfig_def MetadataConfig_at_def split: prod.splits)

lemma copyable_ControllerSpec: "copyable ControllerConfigurationSpec_DeepCopyInto owned_ControllerSpec ControllerSpec_at"
  by (rule copyable_struct [OF copyable_pair [OF copyable_slice [OF copyable_entry [OF plain_in_config] config_cell.sel(2)]
          copyable_pair [OF copyable_number copyable_switch]],
        where refs = "\<lambda>c. (mccs_GroupKindConcurrency c, mccs_CacheSyncTimeout c, mccs_RecoverPanic c)"
          and put = "\<lambda>c (g, t, r). c\<lparr>mccs_GroupKindConcurrency := g, mccs_CacheSyncTimeout := t, mccs_RecoverPanic := r\<rparr>"])
    (auto simp: ControllerConfigurationSpec_DeepCopyInto_def owned_ControllerSpec_def ControllerSpec_at_def copy_pair_def owned_pair_def
      value_pair_def split: prod.splits)

text \<open>What the library promises of its copy.\<close>

locale election_deepcopy =
  fixes le :: election_copy
  assumes LeaderElection: "copyable le owned_LeaderElection LeaderElection_at"
begin

lemma Manager: "copyable (ControllerManager_DeepCopyInto le) owned_ControllerManager ControllerManager_at"
  by (rule copyable_struct [OF copyable_pair [OF copyable_number copyable_pair [OF copyable_pointer [OF LeaderElection config_cell.sel(9)]
          copyable_pair [OF copyable_number copyable_pair [OF copyable_pointer [OF copyable_ControllerSpec config_cell.sel(10)]
          copyable_number]]]],
        where refs = "\<lambda>m. (mcm_SyncPeriod m, mcm_LeaderElection m, mcm_GracefulShutdownTimeout m, mcm_Controller m, mcw_Port (mcm_Webhook m))"
          and put = "\<lambda>m (s, l, g, c, p). m\<lparr>mcm_SyncPeriod := s, mcm_LeaderElection := l, mcm_GracefulShutdownTimeout := g, mcm_Controller := c,
            mcm_Webhook := (mcm_Webhook m)\<lparr>mcw_Port := p\<rparr>\<rparr>"])
    (auto simp: ControllerManager_DeepCopyInto_def ControllerWebhook_DeepCopyInto_def owned_ControllerManager_def ControllerManager_at_def
      copy_pair_def owned_pair_def value_pair_def split: prod.splits)

lemma Client: "copyable (ClientConfig_DeepCopyInto le) owned_ClientConfig ClientConfig_at"
  by (rule copyable_struct [OF copyable_pair [OF Manager copyable_pair [OF copyable_WebhookConfig copyable_MetadataConfig]],
        where refs = "\<lambda>c. (mcc_ControllerManager c, mcc_AlertmanagerWebhook c, mcc_ServiceMetadata c)"
          and put = "\<lambda>c (m, w, s). c\<lparr>mcc_ControllerManager := m, mcc_AlertmanagerWebhook := w, mcc_ServiceMetadata := s\<rparr>"])
    (auto simp: ClientConfig_DeepCopyInto_def owned_ClientConfig_def ClientConfig_at_def copy_pair_def owned_pair_def value_pair_def
      split: prod.splits)

lemma SyncFile: "copyable (SyncConfig_DeepCopyInto le) owned_SyncConfig SyncConfig_at"
  by (rule copyable_struct [OF copyable_pair [OF Manager copyable_kinds],
        where refs = "\<lambda>c. (msc_ControllerManager c, msc_WatchedGVKs c)"
          and put = "\<lambda>c (m, g). c\<lparr>msc_ControllerManager := m, msc_WatchedGVKs := g\<rparr>"])
    (auto simp: SyncConfig_DeepCopyInto_def owned_SyncConfig_def SyncConfig_at_def copy_pair_def owned_pair_def value_pair_def
      split: prod.splits)

lemma Client_pointer:
  "copyable (ClientConfig_DeepCopyObject le) (owned_pointer client_configs owned_ClientConfig) (pointer_at client_configs ClientConfig_at)"
proof -
  have "ClientConfig_DeepCopyObject le = ClientConfig_DeepCopy le"
    by (auto simp: ClientConfig_DeepCopyObject_def fun_eq_iff split: prod.splits)
  then show ?thesis unfolding ClientConfig_DeepCopy_def by (auto intro: copyable_pointer Client)
qed

lemma Sync_pointer:
  "copyable (SyncConfig_DeepCopyObject le) (owned_pointer sync_configs owned_SyncConfig) (pointer_at sync_configs SyncConfig_at)"
proof -
  have "SyncConfig_DeepCopyObject le = SyncConfig_DeepCopy le"
    by (auto simp: SyncConfig_DeepCopyObject_def fun_eq_iff split: prod.splits)
  then show ?thesis unfolding SyncConfig_DeepCopy_def by (auto intro: copyable_pointer SyncFile)
qed

end

text \<open>A copy of the leader election settings that keeps the contract.\<close>

definition plain_election :: election_copy where
  "plain_election src h =
     (let (l, h) = copy_switch (mle_LeaderElect src) h in (src\<lparr>mle_LeaderElect := l\<rparr>, h))"

interpretation plain_elections: election_deepcopy plain_election
proof (rule election_deepcopy.intro)
  show "copyable plain_election owned_LeaderElection LeaderElection_at"
    by (rule copyable_struct [OF copyable_switch, where refs = mle_LeaderElect and put = "\<lambda>m l. m\<lparr>mle_LeaderElect := l\<rparr>"])
      (auto simp: plain_election_def owned_LeaderElection_def LeaderElection_at_def split: prod.splits)
qed

interpretation client_file: copyable "ClientConfig_DeepCopyObject plain_election" "owned_pointer client_configs owned_ClientConfig"
    "pointer_at client_configs ClientConfig_at"
  by (rule plain_elections.Client_pointer)

interpretation sync_file: copyable "SyncConfig_DeepCopyObject plain_election" "owned_pointer sync_configs owned_SyncConfig"
    "pointer_at sync_configs SyncConfig_at"
  by (rule plain_elections.Sync_pointer)

end
