(* ===== verification/Spec2Isabelle.thy ===== *)
theory Spec2Isabelle
  imports Update_Path Cache_Coherence Service_Tests Test_Tools Sync_Config Scheme_Registration Local_Tools Api_Docs Shared_Objects Deep_Copy_Alpha Config_Copy
begin

text \<open>
  \<^bold>\<open>The cluster registry.\<close>  The registry keeps a record of every Kubernetes cluster of an
  organisation.  It consists of three programs that share the packages under src/pkg.

  \<^item> The \<^emph>\<open>client\<close> (cmd/client) runs in every cluster.  Its controllers watch \<^verbatim>\<open>Cluster\<close> objects and send
    each change to a message queue, copy fields of other objects into the metadata of clusters, and
    a webhook of Alertmanager sets tags on clusters.
  \<^item> The \<^emph>\<open>sync manager\<close> (cmd/sync/manager) watches infrastructure objects, computes from them a partial
    specification of a cluster and sends it to the queue.
  \<^item> The \<^emph>\<open>API server\<close> (cmd/apiserver) receives the messages of the queue, stores clusters in a DynamoDB
    table and answers requests of two versions of an HTTP interface, with authentication, a cache
    and a rate limit.

  \<^bold>\<open>The theories\<close>, in the order in which they build on each other, with the files they model.

  \<^item> \<open>Go_Runtime\<close>, \<open>Go_Strings\<close>, \<open>Go_Time\<close>, \<open>Go_Regexp\<close>: the parts of the language and of its standard
    library that the program uses: panics as values of type \<open>run\<close>, errors, 64-bit integers with
    wrap-around, slices, number and string functions, times with their two formats, and regular
    expressions with the leftmost-first rule.  The shared lemmas are here, with the collections
    \<open>go_simps\<close> and \<open>go_intros\<close>.
  \<^item> \<open>Registry_Types\<close>: the custom resources (pkg/api/registry).
  \<^item> \<open>Dynamo_Filter\<close>: the query language of the second API version and its translation to conditions of
    the database (pkg/apiserver/models/filter.go, pkg/database/filter.go).
  \<^item> \<open>Database\<close>, \<open>Database_Spec\<close>, \<open>Database_Memory\<close>: pkg/database/database.go, every operation over an
    interface to DynamoDB; the contract of that service as the locale \<open>dynamodb\<close>, the abstract
    store as the locale \<open>cluster_store\<close>, which the operations refine; and a table in memory
    that keeps the contract, on which the locales are interpreted.
  \<^item> \<open>Sqs\<close>: pkg/sqs, the client of the queue.  \<^verbatim>\<open>Poll\<close> with its handler goroutines is a transition
    system whose steps are the single accesses to the shared count; the rest are functions.
  \<^item> \<open>Events\<close>: the handlers of update messages and what the API server does with a message
    (pkg/apiserver/event, pkg/sync/event, cmd/apiserver).
  \<^item> \<open>Web\<close>, \<open>Auth\<close>, \<open>Api_Handlers\<close>, \<open>Api_Spec\<close>: cache, health checks, authentication, the handlers of both
    versions of the interface with the middleware of their routes, and their properties over the
    database.
  \<^item> \<open>Unstructured\<close>, \<open>Sha256\<close>, \<open>Cluster_Merge\<close>, \<open>Sync_Handlers\<close>, \<open>Sync_Parser\<close>, \<open>Sync_Manager\<close>: the sync
    manager, from the access to untyped objects (the locale \<open>unstructured_lib\<close>) over the six
    object handlers and the merge of specifications (pkg/api/registry/v1/merge.go, pkg/sync/parser)
    to the reconciliation (pkg/sync/manager).
  \<^item> \<open>Cluster_Controller\<close>, \<open>Service_Metadata\<close>: the two controllers of the client (pkg/client/controllers).
  \<^item> \<open>Controller_Config\<close>, \<open>Alert_Webhook\<close>, \<open>App_Config\<close>: configuration files and the start of the two
    controller programs (pkg/api/config/v1, cmd), the webhook (pkg/client/webhook), with the
    contract of the Kubernetes API for clusters as the locale \<open>cluster_api\<close>, and the settings from the
    environment (pkg/config).
  \<^item> \<open>Monitoring\<close>: the metrics of the three programs and the middleware that counts requests
    (pkg/monitoring), with the contract of the registry of metrics as the locale \<open>prometheus\<close>.
  \<^item> \<open>Api_Server\<close>: the API server as a whole (cmd/apiserver, the two Register functions, NewRouter): its routes
    with their middleware, how a request runs through them, and \<^verbatim>\<open>main\<close> from the environment to the
    served routes and the polled queue.
  \<^item> \<open>Cache_Coherence\<close>: the running API server, whose requests and messages share the table and the cache: its
    runs as an inductive relation, the contract of a database that requests only read as the locale
    \<open>read_store\<close>, and with the cache as the locale \<open>cached_registry\<close>.
  \<^item> \<open>Api_Docs\<close>: the published documentation of the API (pkg/apiserver/docs), compared with the routes, the
    encoded types and the answers of the program.
  \<^item> \<open>Controller_Start\<close>: \<^verbatim>\<open>main\<close> of cmd/client and cmd/sync/manager, \<^verbatim>\<open>SetupWithManager\<close> of the three
    controllers, and the start of the webhook.
  \<^item> \<open>Go_Heap\<close>, \<open>Object_Memory\<close>, \<open>Deep_Copy\<close>, \<open>Deep_Copy_Alpha\<close>, \<open>Config_Copy\<close>: a store of references, the
    resources and the configuration files as they lie in it, and all generated deep copies
    (zz_generated.deepcopy.go of the three packages under pkg/api), with the contract of a deep copy
    as the locale \<open>copyable\<close>, from which the copies of structs, slices, maps and pointers are composed.
  \<^item> \<open>Shared_Objects\<close>: \<^verbatim>\<open>hashCluster\<close> over that store, refined to the function over values that the
    controller theory uses.
  \<^item> \<open>Local_Tools\<close>: the programs under local that fill a local table and queue and print the keys of the
    local identity provider.
  \<^item> \<open>Sync_Config\<close>: pkg/api/config/v1/syncconfig.go and the discovery of kinds in cmd/sync/manager as they are
    written, assignment by assignment, and shown to be the functions of \<open>Controller_Config\<close>.
  \<^item> \<open>Scheme_Registration\<close>: groupversion_info.go of the three packages, the \<^verbatim>\<open>init\<close> functions beside the types
    and those of the two controller programs, with the contract of the library as the locale
    \<open>scheme_library\<close>.
  \<^item> \<open>Service_Tests\<close>: the service under test/slt, which checks a running registry all the time.
  \<^item> \<open>Test_Tools\<close>: the summary of a benchmark (test/performance) over the operations of floating-point
    numbers, whose laws are the locale \<open>float_arithmetic\<close>, and the tokens of the tests (test/jwt).
  \<^item> \<open>Update_Path\<close>: the way of an update from the client through the queue into the table.

  \<^bold>\<open>How code becomes definitions.\<close>  A struct is a record with a prefix for its field names, a method is
  a function with the receiver as an argument, and state that a call changes is passed and
  returned.  A panic is the value \<open>Panic\<close>, an error the left part of a sum or an option.  Go maps are
  maps, or lists of pairs where the program asks for their size or order.  Values stand for the
  objects behind pointers; only the deep copies, whose purpose is the sharing of memory, are modelled
  over a heap of references, and show that the values are justified where the code works on a clone.  Libraries that are not part of the
  repository (AWS, Kubernetes, mergo, the encoders, redis, OIDC, the formatting of floating-point
  numbers, the parser of durations) are arguments, gathered in records of functions;
  what a theorem needs of them is a hypothesis, either the predicate of a locale or a law such
  as \<open>nested_law\<close>, and a concrete instance in the same theory shows that it can hold.  Logging is left
  out; metrics are kept as sequences of recordings where a controller records them.

  \<^bold>\<open>What is shown.\<close>

  \<^item> Storage: put, get and delete refine a map from names to clusters; both listings end and page through
    exactly the matching clusters; the query language is parsed and translated as intended, apart
    from the operator for less or equal; where a listing panics is characterised exactly.
  \<^item> Updates: the handler stores what it receives unless the stored cluster is newer, so that the
    stored time never goes back and the order of sequential deliveries does not matter; a message
    is deleted only after it was stored; end to end, what the client reconciled reaches the table.
    Run in parallel, two handlers can leave the older update.
  \<^item> The queue client handles every received message exactly once, can always finish, and terminates
    under every schedule when it is configured to run once; at most the
    configured number of handlers run if accesses to the count do not overlap, and an execution
    where they do and the bound is exceeded is given.
  \<^item> The HTTP interface: only members of the authorised group change clusters, only two tags; answers
    are those of the database; the cache repeats answers of the same request only, requests never change
    the registry, and over every run of requests and messages a listing from the cache is one of the
    registry as it is, up to four named causes and a race between a listing and a message, which is
    given; every request is counted once, and a failed one never as a success.  For the server as it is started, no request for
    a path of the API succeeds or changes anything without an accepted token, the routes are those of the
    published documentation, and so are the answers, up to a list of exceptions.
  \<^item> The sync manager: tiers are merged by name, pools become tiers, data are sent only after an
    error-free run and if they changed, and an object asks for exactly the reconciliations that
    watch it; the shared buffer and the early mark of sent data are shown to be harmful.
  \<^item> The client: paths of watched fields are read as they are written; hashes recognise unchanged
    clusters, but are never stored; alerts set tags on exactly the clusters of the namespace even if
    attempts fail; configuration files never change an option that is set; the started client watches the
    configured kinds that exist, and the certificate authority that it reports reaches the
    Kubernetes client of the API server unchanged.
  \<^item> Memory: a deep copy has the same value and shares nothing with its original, whatever the
    original shares within itself; the hash of a cluster never changes the cached object.
  \<^item> Start: both controller programs begin with a scheme that knows every kind of the program, and the API
    server patches clusters in the group version in which they are registered.
  \<^item> Tests: the end-to-end check reports success only if the change that it made in Kubernetes is in the
    registry, its duration is off by a fixed time for each try, and a failed refresh loses the token; the
    percentile and the median of a benchmark never index outside the measurements, and its report
    counts every row; a header of the test tokens carries the token with the claims of the tested registry.

  \<^bold>\<open>Bounds and termination.\<close>  Integers of the program are \<open>int\<close> with \<open>wrap64\<close> where an operation may leave
  the range; the words of the hash are 32-bit words.  Loops over pages have no bound in the
  program: \<open>page_loop\<close> is a partial function whose value \<open>None\<close> means that it does not return, and the
  completeness theorems show that it returns for a service that keeps its contract.  All other loops
  are structural or have a termination proof.  Retries are bounded by three attempts.

  \<^bold>\<open>Not modelled.\<close>  The prose of the API documentation, the frameworks that route requests and run controllers
  (their documented behaviour is a hypothesis where a theorem needs it), the listening servers and the
  logger of the test service, the validation by struct tags, and the parsing of the command line.
\<close>

end
